(* ===== verification/Go_Prelude.thy ===== *)
theory Go_Prelude
  imports Main "HOL-Library.Sublist" "HOL-Library.AList" "HOL-Library.State_Monad"
begin

text \<open>
  The part of the Go language and of its standard library that the driver uses, and the
  lemma collections shared by every component.

  \<^item> Strings are byte lists. The functions of package \<^verbatim>\<open>strings\<close> that the driver calls are
    defined here under their Go names; case mapping and white space are the ASCII ones.
  \<^item> A \<^verbatim>\<open>map[string]string\<close> is an association list (\<open>smap\<close>): the order of the list is the
    order in which a \<^verbatim>\<open>range\<close> loop happens to visit it, so a statement about all lists is a
    statement about all iteration orders.
  \<^item> \<^verbatim>\<open>int\<close> and \<^verbatim>\<open>int64\<close> are \<open>int\<close>, with the 64-bit range as a predicate and
    the wrap-around as a function where an operation can leave the range.
  \<^item> \<^verbatim>\<open>strconv.Atoi\<close>, \<^verbatim>\<open>strconv.Itoa\<close>, \<^verbatim>\<open>net.SplitHostPort\<close>, \<^verbatim>\<open>filepath.Clean\<close> and
    \<^verbatim>\<open>filepath.Join\<close> follow their library specifications.
\<close>

section \<open>Characters\<close>

definition lower_char :: "char \<Rightarrow> char" where
  "lower_char c = (if 65 \<le> (of_char c :: nat) \<and> (of_char c :: nat) \<le> 90
                   then char_of ((of_char c :: nat) + 32) else c)"

definition upper_char :: "char \<Rightarrow> char" where
  "upper_char c = (if 97 \<le> (of_char c :: nat) \<and> (of_char c :: nat) \<le> 122
                   then char_of ((of_char c :: nat) - 32) else c)"

definition is_space :: "char \<Rightarrow> bool" where
  "is_space c \<longleftrightarrow> (of_char c :: nat) = 32 \<or> (9 \<le> (of_char c :: nat) \<and> (of_char c :: nat) \<le> 13)"

definition is_lower :: "char \<Rightarrow> bool" where
  "is_lower c \<longleftrightarrow> 97 \<le> (of_char c :: nat) \<and> (of_char c :: nat) \<le> 122"

definition is_upper :: "char \<Rightarrow> bool" where
  "is_upper c \<longleftrightarrow> 65 \<le> (of_char c :: nat) \<and> (of_char c :: nat) \<le> 90"

definition is_digit :: "char \<Rightarrow> bool" where
  "is_digit c \<longleftrightarrow> 48 \<le> (of_char c :: nat) \<and> (of_char c :: nat) \<le> 57"

definition digit_val :: "char \<Rightarrow> nat" where
  "digit_val c = (of_char c :: nat) - 48"

definition digit_char :: "nat \<Rightarrow> char" where
  "digit_char n = char_of (48 + n mod 10)"

section \<open>Package strings\<close>

definition ToLower :: "string \<Rightarrow> string" where
  "ToLower s = map lower_char s"

definition ToUpper :: "string \<Rightarrow> string" where
  "ToUpper s = map upper_char s"

definition EqualFold :: "string \<Rightarrow> string \<Rightarrow> bool" where
  "EqualFold a b \<longleftrightarrow> ToLower a = ToLower b"

definition HasPrefix :: "string \<Rightarrow> string \<Rightarrow> bool" where
  "HasPrefix s p \<longleftrightarrow> take (length p) s = p"

definition HasSuffix :: "string \<Rightarrow> string \<Rightarrow> bool" where
  "HasSuffix s p \<longleftrightarrow> length p \<le> length s \<and> drop (length s - length p) s = p"

fun Contains :: "string \<Rightarrow> string \<Rightarrow> bool" where
  "Contains [] p \<longleftrightarrow> p = []"
| "Contains (c # cs) p \<longleftrightarrow> HasPrefix (c # cs) p \<or> Contains cs p"

definition TrimPrefix :: "string \<Rightarrow> string \<Rightarrow> string" where
  "TrimPrefix s p = (if HasPrefix s p then drop (length p) s else s)"

definition TrimSuffix :: "string \<Rightarrow> string \<Rightarrow> string" where
  "TrimSuffix s p = (if HasSuffix s p then take (length s - length p) s else s)"

text \<open>\<^verbatim>\<open>strings.CutPrefix\<close>: the rest and whether the prefix was found.\<close>

definition CutPrefix :: "string \<Rightarrow> string \<Rightarrow> string option" where
  "CutPrefix s p = (if HasPrefix s p then Some (drop (length p) s) else None)"

text \<open>\<^verbatim>\<open>strings.Trim\<close> with a cut set, and \<^verbatim>\<open>strings.TrimSpace\<close>.\<close>

definition trim_by :: "(char \<Rightarrow> bool) \<Rightarrow> string \<Rightarrow> string" where
  "trim_by p s = rev (dropWhile p (rev (dropWhile p s)))"

definition TrimSpace :: "string \<Rightarrow> string" where
  "TrimSpace s = trim_by is_space s"

text \<open>\<^verbatim>\<open>strings.Split\<close> with a one-byte separator.\<close>

fun split_char :: "char \<Rightarrow> string \<Rightarrow> string list" where
  "split_char sep [] = [[]]"
| "split_char sep (c # cs) =
     (if c = sep then [] # split_char sep cs
      else case split_char sep cs of [] \<Rightarrow> [[c]] | w # ws \<Rightarrow> (c # w) # ws)"

text \<open>\<^verbatim>\<open>strings.Join\<close> with a one-byte separator.\<close>

fun join_char :: "char \<Rightarrow> string list \<Rightarrow> string" where
  "join_char sep [] = []"
| "join_char sep [w] = w"
| "join_char sep (w # ws) = w @ sep # join_char sep ws"

text \<open>\<^verbatim>\<open>strings.SplitN(s, sep, 2)\<close> with a one-byte separator.\<close>

definition splitn2 :: "char \<Rightarrow> string \<Rightarrow> string list" where
  "splitn2 sep s =
     (case dropWhile (\<lambda>c. c \<noteq> sep) s of
        [] \<Rightarrow> [s]
      | _ # rest \<Rightarrow> [takeWhile (\<lambda>c. c \<noteq> sep) s, rest])"

text \<open>\<^verbatim>\<open>strings.Fields\<close>: maximal runs of non-space bytes.\<close>

fun fields_acc :: "string \<Rightarrow> string \<Rightarrow> string list" where
  "fields_acc acc [] = (if acc = [] then [] else [rev acc])"
| "fields_acc acc (c # cs) =
     (if is_space c then (if acc = [] then fields_acc [] cs else rev acc # fields_acc [] cs)
      else fields_acc (c # acc) cs)"

definition Fields :: "string \<Rightarrow> string list" where
  "Fields s = fields_acc [] s"

text \<open>\<^verbatim>\<open>strings.ReplaceAll\<close> of one byte by one byte.\<close>

definition ReplaceAll1 :: "char \<Rightarrow> char \<Rightarrow> string \<Rightarrow> string" where
  "ReplaceAll1 old new s = map (\<lambda>c. if c = old then new else c) s"

text \<open>\<^verbatim>\<open>strings.LastIndexByte\<close>: the last position of a byte, or -1.\<close>

fun LastIndexByte :: "string \<Rightarrow> char \<Rightarrow> int" where
  "LastIndexByte [] c = -1"
| "LastIndexByte (x # xs) c =
     (let i = LastIndexByte xs c in if i \<ge> 0 then i + 1 else if x = c then 0 else -1)"

fun IndexByte :: "string \<Rightarrow> char \<Rightarrow> int" where
  "IndexByte [] c = -1"
| "IndexByte (x # xs) c =
     (if x = c then 0 else (let i = IndexByte xs c in if i \<ge> 0 then i + 1 else -1))"

text \<open>\<^verbatim>\<open>strings.Count\<close> of a one-byte string.\<close>

definition count_char :: "string \<Rightarrow> char \<Rightarrow> nat" where
  "count_char s c = length (filter (\<lambda>x. x = c) s)"

section \<open>Integers and package strconv\<close>

definition in_int64 :: "int \<Rightarrow> bool" where
  "in_int64 n \<longleftrightarrow> - (2 ^ 63) \<le> n \<and> n < 2 ^ 63"

definition in_int32 :: "int \<Rightarrow> bool" where
  "in_int32 n \<longleftrightarrow> - (2 ^ 31) \<le> n \<and> n < 2 ^ 31"

text \<open>Two's complement wrap-around of a 64-bit signed operation.\<close>

definition wrap64 :: "int \<Rightarrow> int" where
  "wrap64 n = (n + 2 ^ 63) mod 2 ^ 64 - 2 ^ 63"

fun nat_digits :: "nat \<Rightarrow> string" where
  "nat_digits n = (if n < 10 then [digit_char n] else nat_digits (n div 10) @ [digit_char n])"

declare nat_digits.simps [simp del]

definition Itoa :: "int \<Rightarrow> string" where
  "Itoa n = (if n < 0 then CHR ''-'' # nat_digits (nat (- n)) else nat_digits (nat n))"

fun digits_val :: "nat \<Rightarrow> string \<Rightarrow> nat" where
  "digits_val acc [] = acc"
| "digits_val acc (c # cs) = digits_val (10 * acc + digit_val c) cs"

text \<open>\<^verbatim>\<open>strconv.Atoi\<close> and \<^verbatim>\<open>strconv.ParseInt(s, 10, 64)\<close>: an optional sign, at least one digit,
  and a value in range.\<close>

definition Atoi :: "string \<Rightarrow> int option" where
  "Atoi s =
     (let neg = (case s of c # _ \<Rightarrow> c = CHR ''-'' | [] \<Rightarrow> False);
          ds = (case s of c # cs \<Rightarrow> if c = CHR ''-'' \<or> c = CHR ''+'' then cs else s | [] \<Rightarrow> []);
          n = (if neg then - int (digits_val 0 ds) else int (digits_val 0 ds))
      in if ds \<noteq> [] \<and> list_all is_digit ds \<and> in_int64 n then Some n else None)"

text \<open>\<^verbatim>\<open>strconv.Quote\<close>, the \<^verbatim>\<open>%q\<close> verb: quotation marks around the string, and the escapes of the
  quotation mark, the backslash and the ASCII control bytes.\<close>

definition hex_char :: "nat \<Rightarrow> char" where
  "hex_char n = (if n < 10 then char_of (48 + n) else char_of (87 + n))"

definition quote_char :: "char \<Rightarrow> string" where
  "quote_char c =
     (let n = (of_char c :: nat) in
      if n = 0x22 \<or> n = 0x5C then [CHR 0x5C, c]
      else if n = 7 then [CHR 0x5C, CHR ''a'']
      else if n = 8 then [CHR 0x5C, CHR ''b'']
      else if n = 12 then [CHR 0x5C, CHR ''f'']
      else if n = 10 then [CHR 0x5C, CHR ''n'']
      else if n = 13 then [CHR 0x5C, CHR ''r'']
      else if n = 9 then [CHR 0x5C, CHR ''t'']
      else if n = 11 then [CHR 0x5C, CHR ''v'']
      else if n < 32 \<or> n = 127 then [CHR 0x5C, CHR ''x'', hex_char (n div 16), hex_char (n mod 16)]
      else [c])"

definition Quote :: "string \<Rightarrow> string" where
  "Quote s = CHR 0x22 # concat (map quote_char s) @ [CHR 0x22]"

section \<open>Maps from strings to strings\<close>

type_synonym smap = "(string \<times> string) list"

text \<open>\<^verbatim>\<open>v, ok := m[k]\<close> and the one-result form \<^verbatim>\<open>m[k]\<close>, which yields the empty string for a
  missing key.\<close>

abbreviation lookup :: "(string \<times> 'v) list \<Rightarrow> string \<Rightarrow> 'v option" where
  "lookup m k \<equiv> map_of m k"

definition get_str :: "smap \<Rightarrow> string \<Rightarrow> string" where
  "get_str m k = (case lookup m k of None \<Rightarrow> [] | Some v \<Rightarrow> v)"

text \<open>\<^verbatim>\<open>m[k] = v\<close>.\<close>

abbreviation put :: "string \<Rightarrow> 'v \<Rightarrow> (string \<times> 'v) list \<Rightarrow> (string \<times> 'v) list" where
  "put k v m \<equiv> AList.update k v m"

section \<open>Package path/filepath\<close>

text \<open>\<^verbatim>\<open>filepath.Clean\<close> on a slash-separated path: the components are read from left to right
  onto a stack.\<close>

fun clean_comps :: "bool \<Rightarrow> string list \<Rightarrow> string list \<Rightarrow> string list" where
  "clean_comps rooted acc [] = rev acc"
| "clean_comps rooted acc (w # ws) =
     (if w = [] \<or> w = ''.'' then clean_comps rooted acc ws
      else if w = ''..'' then
        (case acc of
           [] \<Rightarrow> if rooted then clean_comps rooted [] ws else clean_comps rooted [w] ws
         | a # as \<Rightarrow> if a = ''..'' then clean_comps rooted (w # acc) ws
                     else clean_comps rooted as ws)
      else clean_comps rooted (w # acc) ws)"

definition Clean :: "string \<Rightarrow> string" where
  "Clean p =
     (let rooted = HasPrefix p ''/'';
          body = join_char CHR ''/'' (clean_comps rooted [] (split_char CHR ''/'' p))
      in if p = [] then ''.''
         else if rooted then CHR ''/'' # body
         else if body = [] then ''.'' else body)"

definition Join2 :: "string \<Rightarrow> string \<Rightarrow> string" where
  "Join2 a b =
     (if a = [] \<and> b = [] then []
      else if a = [] then Clean b
      else if b = [] then Clean a
      else Clean (a @ ''/'' @ b))"

section \<open>net.SplitHostPort\<close>

text \<open>The host and the port of \<^verbatim>\<open>host:port\<close> or \<^verbatim>\<open>[host]:port\<close>; \<open>None\<close> where Go returns an error
  (no port, too many colons, misplaced brackets).\<close>

definition SplitHostPort :: "string \<Rightarrow> (string \<times> string) option" where
  "SplitHostPort hp =
     (let i = LastIndexByte hp CHR '':'' in
      if i < 0 then None
      else if HasPrefix hp ''['' then
        (let e = IndexByte hp CHR '']'' in
         if e < 0 then None
         else if e + 1 \<noteq> i then None
         else (let host = take (nat e - 1) (tl hp); rest = drop (nat e + 1) hp in
               if CHR ''['' \<in> set (tl hp) \<or> CHR '']'' \<in> set rest then None
               else Some (host, drop (nat i + 1) hp)))
      else (let host = take (nat i) hp in
            if CHR '':'' \<in> set host \<or> CHR ''['' \<in> set hp \<or> CHR '']'' \<in> set hp then None
            else Some (host, drop (nat i + 1) hp)))"

section \<open>Lemmas on the string library\<close>

lemma HasPrefix_iff: "HasPrefix s p \<longleftrightarrow> prefix p s"
  unfolding HasPrefix_def
  by (metis append_eq_conv_conj append_take_drop_id prefixE prefixI)

lemma HasSuffix_iff: "HasSuffix s p \<longleftrightarrow> suffix p s"
proof
  assume "HasSuffix s p"
  then show "suffix p s"
    unfolding HasSuffix_def by (metis suffix_drop)
next
  assume "suffix p s"
  then show "HasSuffix s p"
    unfolding HasSuffix_def by (auto elim!: suffixE)
qed

lemma HasPrefix_append [simp]: "HasPrefix (p @ s) p"
  by (simp add: HasPrefix_def)

lemma HasSuffix_append [simp]: "HasSuffix (s @ p) p"
  by (simp add: HasSuffix_def)

lemma HasPrefix_Nil [simp]: "HasPrefix s []"
  by (simp add: HasPrefix_def)

lemma Contains_iff: "Contains s p \<longleftrightarrow> sublist p s"
proof (induction s)
  case Nil
  then show ?case by simp
next
  case (Cons c cs)
  then show ?case by (simp add: HasPrefix_iff sublist_Cons_right)
qed

lemma Contains_singleton [simp]: "Contains s [c] \<longleftrightarrow> c \<in> set s"
proof (induction s)
  case Nil
  then show ?case by simp
next
  case (Cons x xs)
  then show ?case by (auto simp: HasPrefix_def)
qed

lemma split_char_not_Nil [simp]: "split_char sep s \<noteq> []"
  by (cases s) (auto split: list.splits)

lemma join_split_char [simp]: "join_char sep (split_char sep s) = s"
proof (induction s)
  case Nil
  then show ?case by simp
next
  case (Cons c cs)
  obtain w ws where ws: "split_char sep cs = w # ws"
    by (cases "split_char sep cs") auto
  from Cons have IH: "join_char sep (w # ws) = cs" by (simp add: ws)
  show ?case
    using IH by (cases ws) (auto simp: ws)
qed

lemma split_char_no_sep: "w \<in> set (split_char sep s) \<Longrightarrow> sep \<notin> set w"
proof (induction s arbitrary: w)
  case Nil
  then show ?case by simp
next
  case (Cons c cs)
  then show ?case by (fastforce split: if_splits list.splits)
qed

lemma split_char_single: "sep \<notin> set s \<Longrightarrow> split_char sep s = [s]"
  by (induction s) auto

lemma split_char_append:
  "split_char sep (a @ sep # b) = split_char sep a @ split_char sep b"
proof (induction a)
  case Nil
  then show ?case by simp
next
  case (Cons x xs)
  then show ?case
    by (cases "split_char sep xs") auto
qed

lemma split_join_char:
  "ws \<noteq> [] \<Longrightarrow> \<forall>w \<in> set ws. sep \<notin> set w \<Longrightarrow> split_char sep (join_char sep ws) = ws"
proof (induction ws rule: join_char.induct)
  case (1 sep)
  then show ?case by simp
next
  case (2 sep w)
  then show ?case by (simp add: split_char_single)
next
  case (3 sep w v vs)
  then show ?case by (simp add: split_char_append split_char_single)
qed

lemma split_char_inj: "split_char sep a = split_char sep b \<Longrightarrow> a = b"
  by (metis join_split_char)

lemma splitn2_found:
  "sep \<notin> set a \<Longrightarrow> splitn2 sep (a @ sep # b) = [a, b]"
proof -
  assume a: "sep \<notin> set a"
  then have "\<forall>x \<in> set a. x \<noteq> sep" by auto
  then show ?thesis by (simp add: splitn2_def)
qed

lemma splitn2_not_found: "sep \<notin> set s \<Longrightarrow> splitn2 sep s = [s]"
proof -
  assume "sep \<notin> set s"
  then have "dropWhile (\<lambda>c. c \<noteq> sep) s = []"
    by (metis (mono_tags, lifting) dropWhile_eq_Nil_conv)
  then show ?thesis unfolding splitn2_def by (simp only: list.case)
qed

lemma splitn2_cases:
  obtains (whole) "sep \<notin> set s" and "splitn2 sep s = [s]"
    | (two) a b where "s = a @ sep # b" and "sep \<notin> set a" and "splitn2 sep s = [a, b]"
proof (cases "sep \<in> set s")
  case True
  then obtain a b where "s = a @ sep # b" and "sep \<notin> set a"
    by (meson split_list_first)
  then show ?thesis using two splitn2_found by metis
next
  case False
  then show ?thesis using whole splitn2_not_found by metis
qed

lemma LastIndexByte_ge: "LastIndexByte s c \<ge> -1"
  by (induction s) (auto simp: Let_def)

lemma LastIndexByte_neg [simp]: "LastIndexByte s c < 0 \<longleftrightarrow> c \<notin> set s"
proof (induction s)
  case Nil
  then show ?case by simp
next
  case (Cons x xs)
  then show ?case using LastIndexByte_ge [of xs c] by (auto simp: Let_def)
qed

lemma LastIndexByte_append:
  "c \<notin> set b \<Longrightarrow> LastIndexByte (a @ c # b) c = int (length a)"
proof (induction a)
  case Nil
  then have "\<not> 0 \<le> LastIndexByte b c" by (simp add: not_le)
  then show ?case by (simp add: Let_def)
next
  case (Cons x xs)
  then show ?case by (simp add: Let_def)
qed

lemma LastIndexByte_cases:
  obtains (none) "c \<notin> set s" and "LastIndexByte s c = -1"
    | (some) a b where "s = a @ c # b" and "c \<notin> set b" and "LastIndexByte s c = int (length a)"
proof (cases "c \<in> set s")
  case True
  then obtain a b where "s = a @ c # b" and "c \<notin> set b"
    by (meson split_list_last)
  then show ?thesis using some LastIndexByte_append by metis
next
  case False
  then have "LastIndexByte s c < 0" by (simp only: LastIndexByte_neg not_False_eq_True)
  then have "LastIndexByte s c = -1" using LastIndexByte_ge [of s c] by linarith
  then show ?thesis using none False by blast
qed

lemma ToLower_length [simp]: "length (ToLower s) = length s"
  by (simp add: ToLower_def)

lemma ToLower_append: "ToLower (a @ b) = ToLower a @ ToLower b"
  by (simp add: ToLower_def)

lemma of_char_of_nat [simp]: "n < 256 \<Longrightarrow> (of_char (char_of n) :: nat) = n" for n :: nat
  by simp

lemma lower_char_not_upper [simp]: "\<not> is_upper (lower_char c)"
  by (auto simp: lower_char_def is_upper_def)

lemma lower_char_idem [simp]: "lower_char (lower_char c) = lower_char c"
  by (simp add: lower_char_def)

lemma lower_char_id: "\<not> is_upper c \<Longrightarrow> lower_char c = c"
  by (auto simp: lower_char_def is_upper_def)

lemma get_str_put [simp]:
  "get_str (put k v m) k' = (if k = k' then v else get_str m k')"
  by (simp add: get_str_def update_conv')

lemma lookup_put [simp]:
  "lookup (put k v m) k' = (if k = k' then Some v else lookup m k')"
  by (simp add: update_conv')

lemma delete_absent: "lookup m k = None \<Longrightarrow> AList.delete k m = m"
  by (induction m) (auto split: if_splits)

lemma wrap64_id: "in_int64 n \<Longrightarrow> wrap64 n = n"
  by (auto simp: wrap64_def in_int64_def)

lemma wrap64_range: "in_int64 (wrap64 n)"
proof -
  have "0 \<le> (n + 2 ^ 63) mod 2 ^ 64" "(n + 2 ^ 63) mod 2 ^ 64 < (2 ^ 64 :: int)"
    by simp_all
  then show ?thesis by (auto simp: wrap64_def in_int64_def)
qed

lemma digit_char_val: "digit_val (digit_char n) = n mod 10" and is_digit_char: "is_digit (digit_char n)"
  by (simp_all add: digit_val_def digit_char_def is_digit_def)

lemma digits_val_append: "digits_val acc (a @ b) = digits_val (digits_val acc a) b"
  by (induction a arbitrary: acc) auto

lemma nat_digits_val: "digits_val 0 (nat_digits n) = n"
proof (induction n rule: nat_digits.induct)
  case (1 n)
  show ?case
  proof (cases "n < 10")
    case True
    then show ?thesis by (subst nat_digits.simps) (simp add: digit_char_val)
  next
    case False
    with "1" show ?thesis
      by (subst nat_digits.simps) (simp add: digits_val_append digit_char_val)
  qed
qed

lemma nat_digits_all: "list_all is_digit (nat_digits n)" and nat_digits_ne: "nat_digits n \<noteq> []"
proof (induction n rule: nat_digits.induct)
  case (1 n)
  { case 1
    show ?case using "1.IH" by (subst nat_digits.simps) (auto simp: is_digit_char)
  next
    case 2
    show ?case by (subst nat_digits.simps) simp }
qed

lemma digit_not_sign: "is_digit c \<Longrightarrow> c \<noteq> CHR ''-'' \<and> c \<noteq> CHR ''+''"
  by (auto simp: is_digit_def)

text \<open>Printing a 64-bit integer and reading it back is the identity.\<close>

lemma Atoi_Itoa: "in_int64 n \<Longrightarrow> Atoi (Itoa n) = Some n"
proof (cases "n < 0")
  case True
  assume "in_int64 n"
  with True show ?thesis
    by (simp add: Atoi_def Itoa_def Let_def nat_digits_val nat_digits_all nat_digits_ne)
next
  case False
  assume r: "in_int64 n"
  obtain c cs where cs: "nat_digits (nat n) = c # cs"
    using nat_digits_ne by (cases "nat_digits (nat n)") auto
  moreover have "is_digit c"
    using nat_digits_all [of "nat n"] by (simp add: cs)
  ultimately show ?thesis
    using False r nat_digits_all [of "nat n"] nat_digits_val [of "nat n"] digit_not_sign [of c]
    by (simp add: Atoi_def Itoa_def Let_def)
qed

end
