(* ===== verification/Client_Wire.thy ===== *)
theory Client_Wire
  imports Go_Prelude
begin

text \<open>
  The wire between the driver and the TrueNAS appliance: JSON values, the errors of package
  client (\<^verbatim>\<open>pkg/client/client.go\<close>), one JSON-RPC call, and the calculus in which every later
  component states what it sends.

  The appliance is not part of the repository. It is the parameter \<open>rpc\<close>, a function from an
  opaque world and a request to an answer and a new world: the outcome of one \<^verbatim>\<open>Client.Call\<close>,
  reconnections and retries included. Nothing is assumed of it, so a theorem without a
  hypothesis on \<open>rpc\<close> holds for every appliance, every failure and every interleaving of other
  clients. \<open>Call\<close> appends each exchange to \<open>wire_log\<close>, so that what an operation sent, and
  what it was answered, can be stated.

  \<open>yields R m\<close> says that from every state the program \<open>m\<close> ends with a result and a list of new
  exchanges related by \<open>R\<close>; \<open>emits P m\<close> says that every exchange of \<open>m\<close> satisfies \<open>P\<close>. The rules
  in \<open>emits_intros\<close> and \<open>yields_intros\<close> follow the shape of a program.
\<close>

named_theorems emits_intros "rules that follow the shape of a program for emits"
named_theorems yields_intros "rules that follow the shape of a program for yields"

section \<open>JSON\<close>

text \<open>A number literal is \<open>JNum n\<close> when it is written as an integer; any other literal is
  \<open>JFrac n\<close>, with \<open>n\<close> its value truncated towards zero.\<close>

datatype jval =
    JNull
  | JBool bool
  | JNum int
  | JFrac int
  | JStr string
  | JArr "jval list"
  | JObj "(string \<times> jval) list"

text \<open>A number stored in an \<^verbatim>\<open>any\<close> is a \<^verbatim>\<open>float64\<close>: 53 significant bits, ties to even.\<close>

function excess_bits :: "int \<Rightarrow> nat" where
  "excess_bits a = (if a < 2 ^ 53 then 0 else Suc (excess_bits (a div 2)))"
  by auto
termination
  by (relation "measure nat") auto

declare excess_bits.simps [simp del]

definition f64_of_abs :: "int \<Rightarrow> int" where
  "f64_of_abs a =
     (let k = excess_bits a; q = a div 2 ^ k; r = a mod 2 ^ k; half = 2 ^ k div 2;
          q' = (if k > 0 \<and> (r > half \<or> (r = half \<and> odd q)) then q + 1 else q)
      in q' * 2 ^ k)"

definition f64_of_int :: "int \<Rightarrow> int" where
  "f64_of_int n = (if n < 0 then - f64_of_abs (- n) else f64_of_abs n)"

text \<open>The conversion \<^verbatim>\<open>int64(f)\<close>; outside the range Go leaves the result to the implementation,
  and amd64 gives the smallest integer.\<close>

definition f64_to_int64 :: "int \<Rightarrow> int" where
  "f64_to_int64 n = (if in_int64 n then n else - (2 ^ 63))"

text \<open>\<^verbatim>\<open>json.Unmarshal\<close> into a typed destination: null leaves the zero value, a value of another
  type is an error (\<open>None\<close>).\<close>

fun dec_str :: "jval \<Rightarrow> string option" where
  "dec_str JNull = Some []"
| "dec_str (JStr s) = Some s"
| "dec_str _ = None"

fun dec_bool :: "jval \<Rightarrow> bool option" where
  "dec_bool JNull = Some False"
| "dec_bool (JBool b) = Some b"
| "dec_bool _ = None"

fun dec_int :: "jval \<Rightarrow> int option" where
  "dec_int JNull = Some 0"
| "dec_int (JNum n) = (if in_int64 n then Some n else None)"
| "dec_int _ = None"

definition dec_any :: "jval \<Rightarrow> jval option" where
  "dec_any v = Some v"

fun dec_list :: "(jval \<Rightarrow> 'a option) \<Rightarrow> jval \<Rightarrow> 'a list option" where
  "dec_list d JNull = Some []"
| "dec_list d (JArr vs) = those (map d vs)"
| "dec_list d _ = None"

fun dec_map :: "jval \<Rightarrow> (string \<times> jval) list option" where
  "dec_map JNull = Some []"
| "dec_map (JObj kvs) = Some kvs"
| "dec_map _ = None"

fun dec_ptr :: "(jval \<Rightarrow> 'a option) \<Rightarrow> jval \<Rightarrow> 'a option option" where
  "dec_ptr d JNull = Some None"
| "dec_ptr d v = map_option Some (d v)"

text \<open>A field of an object: the last occurrence of the key counts, an absent field keeps the
  zero value \<open>z\<close>.\<close>

definition dec_field :: "(string \<times> jval) list \<Rightarrow> string \<Rightarrow> (jval \<Rightarrow> 'a option) \<Rightarrow> 'a \<Rightarrow> 'a option" where
  "dec_field kvs k d z = (case lookup (rev kvs) k of None \<Rightarrow> Some z | Some v \<Rightarrow> d v)"

fun dec_struct :: "((string \<times> jval) list \<Rightarrow> 'a option) \<Rightarrow> jval \<Rightarrow> 'a option" where
  "dec_struct d JNull = d []"
| "dec_struct d (JObj kvs) = d kvs"
| "dec_struct d _ = None"

text \<open>\<^verbatim>\<open>json.Marshal\<close> of a struct: fields marked \<^verbatim>\<open>omitempty\<close> are left out at their zero value.\<close>

definition opt_str :: "string \<Rightarrow> string \<Rightarrow> (string \<times> jval) list" where
  "opt_str k v = (if v = [] then [] else [(k, JStr v)])"

definition opt_int :: "string \<Rightarrow> int \<Rightarrow> (string \<times> jval) list" where
  "opt_int k v = (if v = 0 then [] else [(k, JNum v)])"

definition opt_bool :: "string \<Rightarrow> bool \<Rightarrow> (string \<times> jval) list" where
  "opt_bool k v = (if v then [(k, JBool v)] else [])"

definition opt_ptr :: "string \<Rightarrow> ('a \<Rightarrow> jval) \<Rightarrow> 'a option \<Rightarrow> (string \<times> jval) list" where
  "opt_ptr k e v = (case v of None \<Rightarrow> [] | Some x \<Rightarrow> [(k, e x)])"

definition opt_strs :: "string \<Rightarrow> string list \<Rightarrow> (string \<times> jval) list" where
  "opt_strs k vs = (if vs = [] then [] else [(k, JArr (map JStr vs))])"

definition enc_smap :: "smap \<Rightarrow> jval" where
  "enc_smap m = JObj (map (\<lambda>(k, v). (k, JStr v)) m)"

section \<open>Errors\<close>

datatype goerr =
    ErrNotConnected
  | ErrAuthFailed
  | ErrClosed
  | ErrNotFound
  | ErrUnsupportedAPIVersion
  | RPCError int string string          \<comment> \<open>code, message, raw data\<close>
  | ConnectionError string goerr        \<comment> \<open>operation and cause\<close>
  | CtxError string                     \<comment> \<open>\<^verbatim>\<open>ctx.Err()\<close>\<close>
  | JSONError                           \<comment> \<open>an unmarshalling failure of encoding/json\<close>
  | Errorf string                       \<comment> \<open>a formatted error that wraps nothing\<close>
  | Wrapf string goerr                  \<comment> \<open>\<^verbatim>\<open>fmt.Errorf("prefix%w", err)\<close>\<close>

fun Error :: "goerr \<Rightarrow> string" where
  "Error ErrNotConnected = ''truenas: not connected''"
| "Error ErrAuthFailed = ''truenas: authentication failed''"
| "Error ErrClosed = ''truenas: client closed''"
| "Error ErrNotFound = ''truenas: resource not found''"
| "Error ErrUnsupportedAPIVersion = ''truenas: required API version not supported by server''"
| "Error (RPCError code msg data) =
     (if data \<noteq> [] then ''truenas: rpc error '' @ Itoa code @ '': '' @ msg @ '' (data: '' @ data @ '')''
      else ''truenas: rpc error '' @ Itoa code @ '': '' @ msg)"
| "Error (ConnectionError op e) = ''truenas: '' @ op @ '': '' @ Error e"
| "Error (CtxError s) = s"
| "Error JSONError = ''json: cannot unmarshal value''"
| "Error (Errorf s) = s"
| "Error (Wrapf pre e) = pre @ Error e"

text \<open>\<^verbatim>\<open>errors.Is(err, ErrNotFound)\<close> and \<^verbatim>\<open>errors.As(err, &rpcErr)\<close> walk the chain of wrapped errors.\<close>

fun is_not_found_sentinel :: "goerr \<Rightarrow> bool" where
  "is_not_found_sentinel ErrNotFound = True"
| "is_not_found_sentinel (ConnectionError op e) = is_not_found_sentinel e"
| "is_not_found_sentinel (Wrapf pre e) = is_not_found_sentinel e"
| "is_not_found_sentinel _ = False"

fun as_rpc_error :: "goerr \<Rightarrow> (int \<times> string \<times> string) option" where
  "as_rpc_error (RPCError code msg data) = Some (code, msg, data)"
| "as_rpc_error (ConnectionError op e) = as_rpc_error e"
| "as_rpc_error (Wrapf pre e) = as_rpc_error e"
| "as_rpc_error _ = None"

fun IsConnectionError :: "goerr \<Rightarrow> bool" where
  "IsConnectionError (ConnectionError op e) = True"
| "IsConnectionError (Wrapf pre e) = IsConnectionError e"
| "IsConnectionError _ = False"

definition rpcErrCodeNotFound :: int where
  "rpcErrCodeNotFound = -6"

definition IsNotFoundError :: "goerr \<Rightarrow> bool" where
  "IsNotFoundError err =
     (if is_not_found_sentinel err then True
      else case as_rpc_error err of
             None \<Rightarrow> False
           | Some (code, message, data) \<Rightarrow>
               if code = rpcErrCodeNotFound then True
               else (let msg = ToLower message in
                 if Contains msg ''not found'' \<or> Contains msg ''does not exist'' \<or> Contains msg ''no such''
                 then True
                 else if data \<noteq> [] then
                   (let d = ToLower data in
                    Contains d ''not found'' \<or> Contains d ''does not exist''
                    \<or> Contains d ''instancenotfound'' \<or> Contains d ''enoent'')
                 else False))"

section \<open>One call\<close>

datatype request = Request (Method: string) (Params: "jval list")

type_synonym exchange = "request \<times> (goerr + jval)"
type_synonym 'w rpc = "'w \<Rightarrow> request \<Rightarrow> (goerr + jval) \<times> 'w"

record 'w wire =
  world :: 'w
  wire_log :: "exchange list"

text \<open>\<^verbatim>\<open>Client.Call(ctx, method, params, &result)\<close>: send, wait, and unmarshal the result.\<close>

definition Call :: "'w rpc \<Rightarrow> string \<Rightarrow> jval list \<Rightarrow> (jval \<Rightarrow> 'a option)
    \<Rightarrow> (('w, 'z) wire_scheme, goerr + 'a) state" where
  "Call c method params dec = State (\<lambda>s.
     let req = Request method params; (answer, w) = c (world s) req;
         s' = s\<lparr>world := w, wire_log := wire_log s @ [(req, answer)]\<rparr>
     in (case answer of
           Inl err \<Rightarrow> Inl err
         | Inr v \<Rightarrow> (case dec v of
                       None \<Rightarrow> Inl (Wrapf ''unmarshal result: '' JSONError)
                     | Some x \<Rightarrow> Inr x), s'))"

abbreviation return :: "'a \<Rightarrow> ('s, 'a) state" where
  "return \<equiv> State_Monad.return"

definition gets :: "('s \<Rightarrow> 'a) \<Rightarrow> ('s, 'a) state" where
  "gets f = State (\<lambda>s. (f s, s))"

definition modify :: "('s \<Rightarrow> 's) \<Rightarrow> ('s, unit) state" where
  "modify f = State (\<lambda>s. ((), f s))"

text \<open>A \<^verbatim>\<open>for _, x := range xs\<close> loop without an early exit.\<close>

fun for_each :: "('a \<Rightarrow> ('s, unit) state) \<Rightarrow> 'a list \<Rightarrow> ('s, unit) state" where
  "for_each f [] = return ()"
| "for_each f (x # xs) = do { f x; for_each f xs }"

text \<open>\<^verbatim>\<open>if err != nil { return ..., fmt.Errorf("prefix%w", err) }\<close> around a call.\<close>

definition wrap_err :: "string \<Rightarrow> goerr + 'a \<Rightarrow> goerr + 'a" where
  "wrap_err pre r = (case r of Inl e \<Rightarrow> Inl (Wrapf pre e) | Inr x \<Rightarrow> Inr x)"

text \<open>\<^verbatim>\<open>x, err := m; if err != nil { h }; k\<close>.\<close>

definition if_err :: "('s, 'e + 'a) state \<Rightarrow> ('e \<Rightarrow> ('s, 'r) state) \<Rightarrow> ('a \<Rightarrow> ('s, 'r) state) \<Rightarrow> ('s, 'r) state" where
  "if_err m h k = do { r \<leftarrow> m; case r of Inl e \<Rightarrow> h e | Inr x \<Rightarrow> k x }"

section \<open>What a program sends\<close>

definition exchanges :: "(('w, 'z) wire_scheme, 'a) state \<Rightarrow> ('w, 'z) wire_scheme \<Rightarrow> exchange list" where
  "exchanges m s = drop (length (wire_log s)) (wire_log (snd (run_state m s)))"

definition yields :: "('a \<Rightarrow> exchange list \<Rightarrow> bool) \<Rightarrow> (('w, 'z) wire_scheme, 'a) state \<Rightarrow> bool" where
  "yields R m \<longleftrightarrow>
     (\<forall>s. \<exists>xs. wire_log (snd (run_state m s)) = wire_log s @ xs \<and> R (fst (run_state m s)) xs)"

definition emits :: "(exchange \<Rightarrow> bool) \<Rightarrow> (('w, 'z) wire_scheme, 'a) state \<Rightarrow> bool" where
  "emits P m \<longleftrightarrow> yields (\<lambda>_. list_all P) m"

section \<open>Rules\<close>

lemma run_state_Call [simp]:
  "run_state (Call c method params dec) s =
     (let req = Request method params; (answer, w) = c (world s) req;
          s' = s\<lparr>world := w, wire_log := wire_log s @ [(req, answer)]\<rparr>
      in (case answer of
            Inl err \<Rightarrow> Inl err
          | Inr v \<Rightarrow> (case dec v of
                        None \<Rightarrow> Inl (Wrapf ''unmarshal result: '' JSONError)
                      | Some x \<Rightarrow> Inr x), s'))"
  by (simp add: Call_def)

lemma run_state_gets [simp]: "run_state (gets f) s = (f s, s)"
  by (simp add: gets_def)

lemma run_state_modify [simp]: "run_state (modify f) s = ((), f s)"
  by (simp add: modify_def)

lemma yieldsD: "yields R m \<Longrightarrow> R (fst (run_state m s)) (exchanges m s)"
  unfolding yields_def exchanges_def by (metis append_eq_conv_conj)

lemma yieldsD_run:
  "yields R m \<Longrightarrow> run_state m s = (r, s') \<Longrightarrow> R r (exchanges m s)"
  using yieldsD [of R m s] by simp

lemma yields_log:
  "yields R m \<Longrightarrow> wire_log (snd (run_state m s)) = wire_log s @ exchanges m s"
  unfolding yields_def exchanges_def by (metis append_eq_conv_conj)

lemma yields_weaken: "yields Q m \<Longrightarrow> (\<And>a xs. Q a xs \<Longrightarrow> R a xs) \<Longrightarrow> yields R m"
  unfolding yields_def by blast

lemma yields_conj: "yields Q m \<Longrightarrow> yields R m \<Longrightarrow> yields (\<lambda>a xs. Q a xs \<and> R a xs) m"
  unfolding yields_def by (metis same_append_eq)

lemma yields_return [yields_intros]: "R a [] \<Longrightarrow> yields R (return a)"
  by (simp add: yields_def)

lemma yields_gets [yields_intros]: "(\<And>s. R (f s) []) \<Longrightarrow> yields R (gets f)"
  by (simp add: yields_def)

lemma yields_modify [yields_intros]:
  "(\<And>s. wire_log (f s) = wire_log s) \<Longrightarrow> R () [] \<Longrightarrow> yields R (modify f)"
  by (simp add: yields_def)

lemma yields_bind [yields_intros]:
  "yields (\<lambda>a xs. yields (\<lambda>b ys. R b (xs @ ys)) (f a)) m \<Longrightarrow> yields R (State_Monad.bind m f)"
proof -
  assume H: "yields (\<lambda>a xs. yields (\<lambda>b ys. R b (xs @ ys)) (f a)) m"
  show ?thesis
    unfolding yields_def
  proof
    fix s
    obtain a t where m: "run_state m s = (a, t)" by fastforce
    from H obtain xs where xs: "wire_log t = wire_log s @ xs"
      and f: "yields (\<lambda>b ys. R b (xs @ ys)) (f a)"
      unfolding yields_def [of _ m] by (metis m fst_conv snd_conv)
    obtain b u where b: "run_state (f a) t = (b, u)" by fastforce
    from f obtain ys where "wire_log u = wire_log t @ ys" and "R b (xs @ ys)"
      unfolding yields_def by (metis b fst_conv snd_conv)
    then show "\<exists>zs. wire_log (snd (run_state (State_Monad.bind m f) s)) = wire_log s @ zs
        \<and> R (fst (run_state (State_Monad.bind m f) s)) zs"
      using m b xs by (intro exI [of _ "xs @ ys"]) simp
  qed
qed

lemma yields_Call [yields_intros]:
  assumes "\<And>e. R (Inl e) [(Request method params, Inl e)]"
    and "\<And>v x. dec v = Some x \<Longrightarrow> R (Inr x) [(Request method params, Inr v)]"
    and "\<And>v. dec v = None \<Longrightarrow>
           R (Inl (Wrapf ''unmarshal result: '' JSONError)) [(Request method params, Inr v)]"
  shows "yields R (Call c method params dec)"
  unfolding yields_def using assms by (auto simp: Let_def split: sum.splits option.splits prod.splits)

lemma yields_if [yields_intros]:
  "(b \<Longrightarrow> yields R m) \<Longrightarrow> (\<not> b \<Longrightarrow> yields R n) \<Longrightarrow> yields R (if b then m else n)"
  by simp

lemma yields_case_sum [yields_intros]:
  "(\<And>e. r = Inl e \<Longrightarrow> yields R (f e)) \<Longrightarrow> (\<And>x. r = Inr x \<Longrightarrow> yields R (g x)) \<Longrightarrow>
     yields R (case r of Inl e \<Rightarrow> f e | Inr x \<Rightarrow> g x)"
  by (cases r) simp_all

lemma yields_case_option [yields_intros]:
  "(r = None \<Longrightarrow> yields R m) \<Longrightarrow> (\<And>x. r = Some x \<Longrightarrow> yields R (g x)) \<Longrightarrow>
     yields R (case r of None \<Rightarrow> m | Some x \<Rightarrow> g x)"
  by (cases r) simp_all

lemma yields_case_list [yields_intros]:
  "(r = [] \<Longrightarrow> yields R m) \<Longrightarrow> (\<And>x xs. r = x # xs \<Longrightarrow> yields R (g x xs)) \<Longrightarrow>
     yields R (case r of [] \<Rightarrow> m | x # xs \<Rightarrow> g x xs)"
  by (cases r) simp_all

lemma yields_case_prod [yields_intros]:
  "(\<And>a b. r = (a, b) \<Longrightarrow> yields R (g a b)) \<Longrightarrow> yields R (case r of (a, b) \<Rightarrow> g a b)"
  by (cases r) simp_all

lemma yields_Let [yields_intros]: "yields R (f x) \<Longrightarrow> yields R (Let x f)"
  by (simp add: Let_def)

lemma yields_if_err [yields_intros]:
  "yields (\<lambda>r xs. (case r of Inl e \<Rightarrow> yields (\<lambda>b ys. R b (xs @ ys)) (h e)
                          | Inr x \<Rightarrow> yields (\<lambda>b ys. R b (xs @ ys)) (k x))) m
     \<Longrightarrow> yields R (if_err m h k)"
  unfolding if_err_def by (rule yields_bind, erule yields_weaken) (auto split: sum.splits)

subsection \<open>Rules for emits\<close>

lemma emitsD: "emits P m \<Longrightarrow> list_all P (exchanges m s)"
  unfolding emits_def by (drule yieldsD)

lemma emits_weaken: "emits Q m \<Longrightarrow> (\<And>x. Q x \<Longrightarrow> P x) \<Longrightarrow> emits P m"
  unfolding emits_def by (erule yields_weaken) (auto simp: list_all_iff)

lemma emits_return [emits_intros]: "emits P (return a)"
  by (simp add: emits_def yields_def)

lemma emits_gets [emits_intros]: "emits P (gets f)"
  by (simp add: emits_def yields_def)

lemma emits_modify [emits_intros]: "(\<And>s. wire_log (f s) = wire_log s) \<Longrightarrow> emits P (modify f)"
  by (simp add: emits_def yields_def)

lemma emits_bind [emits_intros]:
  "emits P m \<Longrightarrow> (\<And>a. emits P (f a)) \<Longrightarrow> emits P (State_Monad.bind m f)"
  unfolding emits_def
  by (rule yields_bind, erule yields_weaken, rule yields_weaken) auto

lemma emits_bind_result:
  "yields (\<lambda>a xs. list_all P xs \<and> Q a) m \<Longrightarrow> (\<And>a. Q a \<Longrightarrow> emits P (f a)) \<Longrightarrow>
     emits P (State_Monad.bind m f)"
  unfolding emits_def
  by (rule yields_bind, erule yields_weaken, rule yields_weaken) auto

lemma emits_yields: "emits P m \<Longrightarrow> yields (\<lambda>a. Q a) m \<Longrightarrow> yields (\<lambda>a xs. list_all P xs \<and> Q a xs) m"
  unfolding emits_def by (rule yields_conj)

lemma emits_Call [emits_intros]:
  "(\<And>r. P (Request method params, r)) \<Longrightarrow> emits P (Call c method params dec)"
  unfolding emits_def by (rule yields_Call) auto

lemma emits_if [emits_intros]:
  "(b \<Longrightarrow> emits P m) \<Longrightarrow> (\<not> b \<Longrightarrow> emits P n) \<Longrightarrow> emits P (if b then m else n)"
  by simp

lemma emits_case_sum [emits_intros]:
  "(\<And>e. r = Inl e \<Longrightarrow> emits P (f e)) \<Longrightarrow> (\<And>x. r = Inr x \<Longrightarrow> emits P (g x)) \<Longrightarrow>
     emits P (case r of Inl e \<Rightarrow> f e | Inr x \<Rightarrow> g x)"
  by (cases r) simp_all

lemma emits_case_option [emits_intros]:
  "(r = None \<Longrightarrow> emits P m) \<Longrightarrow> (\<And>x. r = Some x \<Longrightarrow> emits P (g x)) \<Longrightarrow>
     emits P (case r of None \<Rightarrow> m | Some x \<Rightarrow> g x)"
  by (cases r) simp_all

lemma emits_case_list [emits_intros]:
  "(r = [] \<Longrightarrow> emits P m) \<Longrightarrow> (\<And>x xs. r = x # xs \<Longrightarrow> emits P (g x xs)) \<Longrightarrow>
     emits P (case r of [] \<Rightarrow> m | x # xs \<Rightarrow> g x xs)"
  by (cases r) simp_all

lemma emits_case_prod [emits_intros]:
  "(\<And>a b. r = (a, b) \<Longrightarrow> emits P (g a b)) \<Longrightarrow> emits P (case r of (a, b) \<Rightarrow> g a b)"
  by (cases r) simp_all

lemma emits_Let [emits_intros]: "emits P (f x) \<Longrightarrow> emits P (Let x f)"
  by (simp add: Let_def)

lemma emits_if_err [emits_intros]:
  "emits P m \<Longrightarrow> (\<And>e. emits P (h e)) \<Longrightarrow> (\<And>x. emits P (k x)) \<Longrightarrow> emits P (if_err m h k)"
  unfolding if_err_def by (intro emits_intros)

lemma emits_for_each [emits_intros]:
  "(\<And>x. x \<in> set xs \<Longrightarrow> emits P (f x)) \<Longrightarrow> emits P (for_each f xs)"
  by (induction xs) (auto intro!: emits_intros)

section \<open>Numbers\<close>

lemma excess_bits_small: "a < 2 ^ 53 \<Longrightarrow> excess_bits a = 0"
  by (subst excess_bits.simps) simp

lemma f64_of_abs_exact: "a < 2 ^ 53 \<Longrightarrow> f64_of_abs a = a"
  by (simp add: f64_of_abs_def excess_bits_small Let_def)

text \<open>Byte counts below 8 PiB survive the passage through a \<^verbatim>\<open>float64\<close>.\<close>

lemma f64_of_int_exact: "\<bar>n\<bar> < 2 ^ 53 \<Longrightarrow> f64_of_int n = n"
  by (auto simp: f64_of_int_def f64_of_abs_exact)

lemma f64_to_int64_exact: "\<bar>n\<bar> < 2 ^ 53 \<Longrightarrow> f64_to_int64 (f64_of_int n) = n"
  by (auto simp: f64_of_int_exact f64_to_int64_def in_int64_def)

end
