(* ===== verification/Client_Types.thy ===== *)
theory Client_Types
  imports Client_Wire
begin

text \<open>
  The data types of package client that cross the wire (\<^verbatim>\<open>pkg/client/storage.go\<close>,
  \<^verbatim>\<open>pkg/client/nvme.go\<close>, \<^verbatim>\<open>pkg/client/replication.go\<close>): one record per Go struct, with the
  struct's fields under a short prefix, the decoder \<open>dec_T\<close> of every struct that is read from
  an answer, and the encoder \<open>json_T\<close> of every struct that is sent. A pointer field is an
  option; a field tagged \<^verbatim>\<open>omitempty\<close> is sent only when it is not its zero value.
  \<^verbatim>\<open>Dataset\<close> has no decoder of its own: \<open>parseDatasetResponse\<close> of the storage component
  reads it from a raw object.
\<close>

section \<open>Datasets\<close>

record Dataset =
  ds_ID :: string
  ds_Name :: string
  ds_Pool :: string
  ds_Type :: string
  ds_Mountpoint :: string
  ds_Comments :: string
  ds_UserProperties :: smap
  ds_Used :: int
  ds_Available :: int
  ds_RefQuota :: int
  ds_RefReservation :: int
  ds_Volsize :: int
  ds_Compression :: jval
  ds_Deduplication :: jval
  ds_Sync :: jval
  ds_RecordSize :: jval
  ds_ACLMode :: jval
  ds_ACLType :: jval
  ds_ExtraProperties :: "(string \<times> jval) list"

record EncryptionOptions =
  eo_GenerateKey :: bool
  eo_Pbkdf2iters :: int
  eo_Algorithm :: string
  eo_Passphrase :: "string option"
  eo_Key :: "string option"

definition json_EncryptionOptions :: "EncryptionOptions \<Rightarrow> jval" where
  "json_EncryptionOptions opts = JObj (
    opt_bool ''generate_key'' (eo_GenerateKey opts) @
    opt_int ''pbkdf2iters'' (eo_Pbkdf2iters opts) @
    opt_str ''algorithm'' (eo_Algorithm opts) @
    opt_ptr ''passphrase'' JStr (eo_Passphrase opts) @
    opt_ptr ''key'' JStr (eo_Key opts))"

record DatasetCreateOptions =
  dco_Name :: string
  dco_Type :: string
  dco_RefQuota :: int
  dco_RefReservation :: int
  dco_Quota :: int
  dco_Reservation :: int
  dco_Compression :: string
  dco_Deduplication :: string
  dco_Sync :: string
  dco_RecordSize :: string
  dco_Volsize :: int
  dco_Volblocksize :: string
  dco_Sparse :: "bool option"
  dco_Comments :: string
  dco_CreateAncestors :: bool
  dco_Properties :: smap
  dco_UserProperties :: "smap list"
  dco_Encryption :: bool
  dco_EncryptionOptions :: "EncryptionOptions option"
  dco_InheritEncryption :: "bool option"

text \<open>The encoding of the fields themselves; \<open>MarshalJSON\<close> adds \<^verbatim>\<open>Properties\<close> to it.\<close>

definition json_datasetCreateOptions :: "DatasetCreateOptions \<Rightarrow> jval" where
  "json_datasetCreateOptions opts = JObj (
    [(''name'', JStr (dco_Name opts))] @
    opt_str ''type'' (dco_Type opts) @
    opt_int ''refquota'' (dco_RefQuota opts) @
    opt_int ''refreservation'' (dco_RefReservation opts) @
    opt_int ''quota'' (dco_Quota opts) @
    opt_int ''reservation'' (dco_Reservation opts) @
    opt_str ''compression'' (dco_Compression opts) @
    opt_str ''deduplication'' (dco_Deduplication opts) @
    opt_str ''sync'' (dco_Sync opts) @
    opt_str ''recordsize'' (dco_RecordSize opts) @
    opt_int ''volsize'' (dco_Volsize opts) @
    opt_str ''volblocksize'' (dco_Volblocksize opts) @
    opt_ptr ''sparse'' JBool (dco_Sparse opts) @
    opt_str ''comments'' (dco_Comments opts) @
    opt_bool ''create_ancestors'' (dco_CreateAncestors opts) @
    (if dco_UserProperties opts = [] then [] else [(''user_properties'', JArr (map enc_smap (dco_UserProperties opts)))]) @
    opt_bool ''encryption'' (dco_Encryption opts) @
    opt_ptr ''encryption_options'' json_EncryptionOptions (dco_EncryptionOptions opts) @
    opt_ptr ''inherit_encryption'' JBool (dco_InheritEncryption opts))"

record DatasetUpdateOptions =
  duo_Comments :: string
  duo_Sync :: string
  duo_Compression :: string
  duo_Exec :: string
  duo_Quota :: "int option"
  duo_RefQuota :: "int option"
  duo_Reservation :: "int option"
  duo_RefReservation :: "int option"
  duo_Checksum :: string
  duo_Deduplication :: string
  duo_Readonly :: string
  duo_Atime :: string
  duo_RecordSize :: string
  duo_Volsize :: "int option"
  duo_QuotaWarning :: "int option"
  duo_QuotaCritical :: "int option"
  duo_RefQuotaWarning :: "int option"
  duo_RefQuotaCritical :: "int option"
  duo_UserPropertiesUpdate :: "smap list"

definition json_DatasetUpdateOptions :: "DatasetUpdateOptions \<Rightarrow> jval" where
  "json_DatasetUpdateOptions opts = JObj (
    opt_str ''comments'' (duo_Comments opts) @
    opt_str ''sync'' (duo_Sync opts) @
    opt_str ''compression'' (duo_Compression opts) @
    opt_str ''exec'' (duo_Exec opts) @
    opt_ptr ''quota'' JNum (duo_Quota opts) @
    opt_ptr ''refquota'' JNum (duo_RefQuota opts) @
    opt_ptr ''reservation'' JNum (duo_Reservation opts) @
    opt_ptr ''refreservation'' JNum (duo_RefReservation opts) @
    opt_str ''checksum'' (duo_Checksum opts) @
    opt_str ''deduplication'' (duo_Deduplication opts) @
    opt_str ''readonly'' (duo_Readonly opts) @
    opt_str ''atime'' (duo_Atime opts) @
    opt_str ''recordsize'' (duo_RecordSize opts) @
    opt_ptr ''volsize'' JNum (duo_Volsize opts) @
    opt_ptr ''quota_warning'' JNum (duo_QuotaWarning opts) @
    opt_ptr ''quota_critical'' JNum (duo_QuotaCritical opts) @
    opt_ptr ''refquota_warning'' JNum (duo_RefQuotaWarning opts) @
    opt_ptr ''refquota_critical'' JNum (duo_RefQuotaCritical opts) @
    (if duo_UserPropertiesUpdate opts = [] then [] else [(''user_properties_update'', JArr (map enc_smap (duo_UserPropertiesUpdate opts)))]))"

record QueryOptions =
  qo_Select :: "string list"
  qo_OrderBy :: "string list"
  qo_Count :: bool
  qo_Get :: bool
  qo_Offset :: int
  qo_Limit :: int
  qo_ForceSQLFilters :: bool
  qo_Extra :: "(string \<times> jval) list"

definition json_QueryOptions :: "QueryOptions \<Rightarrow> jval" where
  "json_QueryOptions opts = JObj (
    opt_strs ''select'' (qo_Select opts) @
    opt_strs ''order_by'' (qo_OrderBy opts) @
    opt_bool ''count'' (qo_Count opts) @
    opt_bool ''get'' (qo_Get opts) @
    opt_int ''offset'' (qo_Offset opts) @
    opt_int ''limit'' (qo_Limit opts) @
    opt_bool ''force_sql_filters'' (qo_ForceSQLFilters opts) @
    (if qo_Extra opts = [] then [] else [(''extra'', JObj (qo_Extra opts))]))"

record DatasetGetExtraOptions =
  dgx_Properties :: "string list"
  dgx_RetrieveUserProps :: bool

definition json_DatasetGetExtraOptions :: "DatasetGetExtraOptions \<Rightarrow> jval" where
  "json_DatasetGetExtraOptions opts = JObj (
    [(''properties'', JArr (map JStr (dgx_Properties opts)))] @
    opt_bool ''retrieve_user_props'' (dgx_RetrieveUserProps opts))"

record DatasetQueryOptions =
  dq_Extra :: DatasetGetExtraOptions

definition json_DatasetQueryOptions :: "DatasetQueryOptions \<Rightarrow> jval" where
  "json_DatasetQueryOptions opts = JObj (
    [(''extra'', json_DatasetGetExtraOptions (dq_Extra opts))])"

record DatasetDeleteOptions =
  ddo_Recursive :: bool
  ddo_Force :: bool

definition json_DatasetDeleteOptions :: "DatasetDeleteOptions \<Rightarrow> jval" where
  "json_DatasetDeleteOptions opts = JObj (
    [(''recursive'', JBool (ddo_Recursive opts))] @
    [(''force'', JBool (ddo_Force opts))])"

section \<open>NFS shares\<close>

record NFSShare =
  nfs_ID :: int
  nfs_Path :: string
  nfs_Comment :: string
  nfs_Hosts :: "string list"
  nfs_ReadOnly :: bool
  nfs_MapRoot :: string
  nfs_MapAll :: string
  nfs_Security :: "string list"
  nfs_Enabled :: bool
  nfs_Networks :: "string list"

definition dec_NFSShare :: "jval \<Rightarrow> NFSShare option" where
  "dec_NFSShare = dec_struct (\<lambda>kv. do {
     v_ID \<leftarrow> dec_field kv ''id'' dec_int 0;
     v_Path \<leftarrow> dec_field kv ''path'' dec_str [];
     v_Comment \<leftarrow> dec_field kv ''comment'' dec_str [];
     v_Hosts \<leftarrow> dec_field kv ''hosts'' (dec_list dec_str) [];
     v_ReadOnly \<leftarrow> dec_field kv ''ro'' dec_bool False;
     v_MapRoot \<leftarrow> dec_field kv ''maproot'' dec_str [];
     v_MapAll \<leftarrow> dec_field kv ''mapall'' dec_str [];
     v_Security \<leftarrow> dec_field kv ''security'' (dec_list dec_str) [];
     v_Enabled \<leftarrow> dec_field kv ''enabled'' dec_bool False;
     v_Networks \<leftarrow> dec_field kv ''networks'' (dec_list dec_str) [];
     Some \<lparr>nfs_ID = v_ID, nfs_Path = v_Path, nfs_Comment = v_Comment, nfs_Hosts = v_Hosts,
       nfs_ReadOnly = v_ReadOnly, nfs_MapRoot = v_MapRoot, nfs_MapAll = v_MapAll, nfs_Security
       = v_Security, nfs_Enabled = v_Enabled, nfs_Networks = v_Networks\<rparr> })"

record NFSShareCreateOptions =
  nco_Path :: string
  nco_Comment :: string
  nco_Hosts :: "string list"
  nco_ReadOnly :: bool
  nco_MapRootUser :: "string option"
  nco_MapRootGroup :: "string option"
  nco_MapAllUser :: "string option"
  nco_MapAllGroup :: "string option"
  nco_Security :: "string list"
  nco_Enabled :: bool
  nco_Networks :: "string list"
  nco_ExposeSnapshots :: bool

definition json_NFSShareCreateOptions :: "NFSShareCreateOptions \<Rightarrow> jval" where
  "json_NFSShareCreateOptions opts = JObj (
    [(''path'', JStr (nco_Path opts))] @
    opt_str ''comment'' (nco_Comment opts) @
    opt_strs ''hosts'' (nco_Hosts opts) @
    [(''ro'', JBool (nco_ReadOnly opts))] @
    opt_ptr ''maproot_user'' JStr (nco_MapRootUser opts) @
    opt_ptr ''maproot_group'' JStr (nco_MapRootGroup opts) @
    opt_ptr ''mapall_user'' JStr (nco_MapAllUser opts) @
    opt_ptr ''mapall_group'' JStr (nco_MapAllGroup opts) @
    opt_strs ''security'' (nco_Security opts) @
    [(''enabled'', JBool (nco_Enabled opts))] @
    opt_strs ''networks'' (nco_Networks opts) @
    opt_bool ''expose_snapshots'' (nco_ExposeSnapshots opts))"

section \<open>iSCSI\<close>

record ISCSITargetGroup =
  grp_Portal :: int
  grp_Initiator :: int
  grp_AuthMethod :: string
  grp_Auth :: int

definition dec_ISCSITargetGroup :: "jval \<Rightarrow> ISCSITargetGroup option" where
  "dec_ISCSITargetGroup = dec_struct (\<lambda>kv. do {
     v_Portal \<leftarrow> dec_field kv ''portal'' dec_int 0;
     v_Initiator \<leftarrow> dec_field kv ''initiator'' dec_int 0;
     v_AuthMethod \<leftarrow> dec_field kv ''authmethod'' dec_str [];
     v_Auth \<leftarrow> dec_field kv ''auth'' dec_int 0;
     Some \<lparr>grp_Portal = v_Portal, grp_Initiator = v_Initiator, grp_AuthMethod = v_AuthMethod,
       grp_Auth = v_Auth\<rparr> })"

definition json_ISCSITargetGroup :: "ISCSITargetGroup \<Rightarrow> jval" where
  "json_ISCSITargetGroup opts = JObj (
    [(''portal'', JNum (grp_Portal opts))] @
    opt_int ''initiator'' (grp_Initiator opts) @
    opt_str ''authmethod'' (grp_AuthMethod opts) @
    opt_int ''auth'' (grp_Auth opts))"

record ISCSIAuth =
  auth_ID :: int
  auth_Tag :: int
  auth_User :: string
  auth_Secret :: string
  auth_PeerUser :: string
  auth_PeerSecret :: string
  auth_DiscoveryAuth :: string

definition dec_ISCSIAuth :: "jval \<Rightarrow> ISCSIAuth option" where
  "dec_ISCSIAuth = dec_struct (\<lambda>kv. do {
     v_ID \<leftarrow> dec_field kv ''id'' dec_int 0;
     v_Tag \<leftarrow> dec_field kv ''tag'' dec_int 0;
     v_User \<leftarrow> dec_field kv ''user'' dec_str [];
     v_Secret \<leftarrow> dec_field kv ''secret'' dec_str [];
     v_PeerUser \<leftarrow> dec_field kv ''peeruser'' dec_str [];
     v_PeerSecret \<leftarrow> dec_field kv ''peersecret'' dec_str [];
     v_DiscoveryAuth \<leftarrow> dec_field kv ''discovery_auth'' dec_str [];
     Some \<lparr>auth_ID = v_ID, auth_Tag = v_Tag, auth_User = v_User, auth_Secret = v_Secret,
       auth_PeerUser = v_PeerUser, auth_PeerSecret = v_PeerSecret, auth_DiscoveryAuth =
       v_DiscoveryAuth\<rparr> })"

record ISCSITarget =
  tgt_ID :: int
  tgt_Name :: string
  tgt_Alias :: string
  tgt_Mode :: string
  tgt_Groups :: "ISCSITargetGroup list"
  tgt_Auth :: "ISCSIAuth option"

definition dec_ISCSITarget :: "jval \<Rightarrow> ISCSITarget option" where
  "dec_ISCSITarget = dec_struct (\<lambda>kv. do {
     v_ID \<leftarrow> dec_field kv ''id'' dec_int 0;
     v_Name \<leftarrow> dec_field kv ''name'' dec_str [];
     v_Alias \<leftarrow> dec_field kv ''alias'' dec_str [];
     v_Mode \<leftarrow> dec_field kv ''mode'' dec_str [];
     v_Groups \<leftarrow> dec_field kv ''groups'' (dec_list dec_ISCSITargetGroup) [];
     v_Auth \<leftarrow> dec_field kv ''auth'' (dec_ptr dec_ISCSIAuth) None;
     Some \<lparr>tgt_ID = v_ID, tgt_Name = v_Name, tgt_Alias = v_Alias, tgt_Mode = v_Mode, tgt_Groups =
       v_Groups, tgt_Auth = v_Auth\<rparr> })"

record ISCSITargetCreateOptions =
  tco_Name :: string
  tco_Alias :: string
  tco_Mode :: string
  tco_Groups :: "ISCSITargetGroup list"

definition json_ISCSITargetCreateOptions :: "ISCSITargetCreateOptions \<Rightarrow> jval" where
  "json_ISCSITargetCreateOptions opts = JObj (
    [(''name'', JStr (tco_Name opts))] @
    opt_str ''alias'' (tco_Alias opts) @
    [(''mode'', JStr (tco_Mode opts))] @
    (if tco_Groups opts = [] then [] else [(''groups'', JArr (map json_ISCSITargetGroup (tco_Groups opts)))]))"

record ISCSIAuthCreateOptions =
  aco_Tag :: int
  aco_User :: string
  aco_Secret :: string
  aco_PeerUser :: string
  aco_PeerSecret :: string
  aco_DiscoveryAuth :: string

definition json_ISCSIAuthCreateOptions :: "ISCSIAuthCreateOptions \<Rightarrow> jval" where
  "json_ISCSIAuthCreateOptions opts = JObj (
    [(''tag'', JNum (aco_Tag opts))] @
    [(''user'', JStr (aco_User opts))] @
    [(''secret'', JStr (aco_Secret opts))] @
    opt_str ''peeruser'' (aco_PeerUser opts) @
    opt_str ''peersecret'' (aco_PeerSecret opts) @
    opt_str ''discovery_auth'' (aco_DiscoveryAuth opts))"

record ISCSIExtent =
  ext_ID :: int
  ext_Name :: string
  ext_Type :: string
  ext_Disk :: string
  ext_Path :: string
  ext_FileSize :: jval
  ext_Serial :: string
  ext_NAA :: string
  ext_BlockSize :: int
  ext_PBlockSize :: bool
  ext_AvailThreshold :: int
  ext_Comment :: string
  ext_InsecureTPC :: bool
  ext_XEN :: bool
  ext_RPM :: string
  ext_ReadOnly :: bool
  ext_Enabled :: bool

definition dec_ISCSIExtent :: "jval \<Rightarrow> ISCSIExtent option" where
  "dec_ISCSIExtent = dec_struct (\<lambda>kv. do {
     v_ID \<leftarrow> dec_field kv ''id'' dec_int 0;
     v_Name \<leftarrow> dec_field kv ''name'' dec_str [];
     v_Type \<leftarrow> dec_field kv ''type'' dec_str [];
     v_Disk \<leftarrow> dec_field kv ''disk'' dec_str [];
     v_Path \<leftarrow> dec_field kv ''path'' dec_str [];
     v_FileSize \<leftarrow> dec_field kv ''filesize'' dec_any JNull;
     v_Serial \<leftarrow> dec_field kv ''serial'' dec_str [];
     v_NAA \<leftarrow> dec_field kv ''naa'' dec_str [];
     v_BlockSize \<leftarrow> dec_field kv ''blocksize'' dec_int 0;
     v_PBlockSize \<leftarrow> dec_field kv ''pblocksize'' dec_bool False;
     v_AvailThreshold \<leftarrow> dec_field kv ''avail_threshold'' dec_int 0;
     v_Comment \<leftarrow> dec_field kv ''comment'' dec_str [];
     v_InsecureTPC \<leftarrow> dec_field kv ''insecure_tpc'' dec_bool False;
     v_XEN \<leftarrow> dec_field kv ''xen'' dec_bool False;
     v_RPM \<leftarrow> dec_field kv ''rpm'' dec_str [];
     v_ReadOnly \<leftarrow> dec_field kv ''ro'' dec_bool False;
     v_Enabled \<leftarrow> dec_field kv ''enabled'' dec_bool False;
     Some \<lparr>ext_ID = v_ID, ext_Name = v_Name, ext_Type = v_Type, ext_Disk = v_Disk, ext_Path =
       v_Path, ext_FileSize = v_FileSize, ext_Serial = v_Serial, ext_NAA = v_NAA, ext_BlockSize
       = v_BlockSize, ext_PBlockSize = v_PBlockSize, ext_AvailThreshold = v_AvailThreshold,
       ext_Comment = v_Comment, ext_InsecureTPC = v_InsecureTPC, ext_XEN = v_XEN, ext_RPM =
       v_RPM, ext_ReadOnly = v_ReadOnly, ext_Enabled = v_Enabled\<rparr> })"

record ISCSIExtentCreateOptions =
  eco_Name :: string
  eco_Type :: string
  eco_Disk :: string
  eco_BlockSize :: int
  eco_Enabled :: bool

definition json_ISCSIExtentCreateOptions :: "ISCSIExtentCreateOptions \<Rightarrow> jval" where
  "json_ISCSIExtentCreateOptions opts = JObj (
    [(''name'', JStr (eco_Name opts))] @
    [(''type'', JStr (eco_Type opts))] @
    opt_str ''disk'' (eco_Disk opts) @
    [(''blocksize'', JNum (eco_BlockSize opts))] @
    [(''enabled'', JBool (eco_Enabled opts))])"

record ISCSITargetExtent =
  te_ID :: int
  te_Target :: int
  te_Extent :: int
  te_LunID :: int

definition dec_ISCSITargetExtent :: "jval \<Rightarrow> ISCSITargetExtent option" where
  "dec_ISCSITargetExtent = dec_struct (\<lambda>kv. do {
     v_ID \<leftarrow> dec_field kv ''id'' dec_int 0;
     v_Target \<leftarrow> dec_field kv ''target'' dec_int 0;
     v_Extent \<leftarrow> dec_field kv ''extent'' dec_int 0;
     v_LunID \<leftarrow> dec_field kv ''lunid'' dec_int 0;
     Some \<lparr>te_ID = v_ID, te_Target = v_Target, te_Extent = v_Extent, te_LunID = v_LunID\<rparr> })"

record ISCSITargetExtentCreateOptions =
  teo_Target :: int
  teo_Extent :: int
  teo_LunID :: int

definition json_ISCSITargetExtentCreateOptions :: "ISCSITargetExtentCreateOptions \<Rightarrow> jval" where
  "json_ISCSITargetExtentCreateOptions opts = JObj (
    [(''target'', JNum (teo_Target opts))] @
    [(''extent'', JNum (teo_Extent opts))] @
    [(''lunid'', JNum (teo_LunID opts))])"

record ISCSITargetDeleteOptions =
  tdo_Force :: bool
  tdo_DeleteExtents :: bool

record ISCSIExtentDeleteOptions =
  edo_Remove :: bool
  edo_Force :: bool

record ISCSITargetExtentDeleteOptions =
  tedo_Force :: bool

record ISCSIPortalListen =
  listen_IP :: string
  listen_Port :: int

definition dec_ISCSIPortalListen :: "jval \<Rightarrow> ISCSIPortalListen option" where
  "dec_ISCSIPortalListen = dec_struct (\<lambda>kv. do {
     v_IP \<leftarrow> dec_field kv ''ip'' dec_str [];
     v_Port \<leftarrow> dec_field kv ''port'' dec_int 0;
     Some \<lparr>listen_IP = v_IP, listen_Port = v_Port\<rparr> })"

record ISCSIPortal =
  portal_ID :: int
  portal_Tag :: int
  portal_Comment :: string
  portal_Listen :: "ISCSIPortalListen list"
  portal_DiscoveryAuthMethod :: string
  portal_DiscoveryAuthGroup :: int

definition dec_ISCSIPortal :: "jval \<Rightarrow> ISCSIPortal option" where
  "dec_ISCSIPortal = dec_struct (\<lambda>kv. do {
     v_ID \<leftarrow> dec_field kv ''id'' dec_int 0;
     v_Tag \<leftarrow> dec_field kv ''tag'' dec_int 0;
     v_Comment \<leftarrow> dec_field kv ''comment'' dec_str [];
     v_Listen \<leftarrow> dec_field kv ''listen'' (dec_list dec_ISCSIPortalListen) [];
     v_DiscoveryAuthMethod \<leftarrow> dec_field kv ''discovery_authmethod'' dec_str [];
     v_DiscoveryAuthGroup \<leftarrow> dec_field kv ''discovery_authgroup'' dec_int 0;
     Some \<lparr>portal_ID = v_ID, portal_Tag = v_Tag, portal_Comment = v_Comment, portal_Listen =
       v_Listen, portal_DiscoveryAuthMethod = v_DiscoveryAuthMethod, portal_DiscoveryAuthGroup
       = v_DiscoveryAuthGroup\<rparr> })"

record ISCSIInitiator =
  ini_ID :: int
  ini_Initiators :: "string list"
  ini_Comment :: string

definition dec_ISCSIInitiator :: "jval \<Rightarrow> ISCSIInitiator option" where
  "dec_ISCSIInitiator = dec_struct (\<lambda>kv. do {
     v_ID \<leftarrow> dec_field kv ''id'' dec_int 0;
     v_Initiators \<leftarrow> dec_field kv ''initiators'' (dec_list dec_str) [];
     v_Comment \<leftarrow> dec_field kv ''comment'' dec_str [];
     Some \<lparr>ini_ID = v_ID, ini_Initiators = v_Initiators, ini_Comment = v_Comment\<rparr> })"

record ISCSIInitiatorCreateOptions =
  ico_Initiators :: "string list"
  ico_Comment :: string

definition json_ISCSIInitiatorCreateOptions :: "ISCSIInitiatorCreateOptions \<Rightarrow> jval" where
  "json_ISCSIInitiatorCreateOptions opts = JObj (
    opt_strs ''initiators'' (ico_Initiators opts) @
    opt_str ''comment'' (ico_Comment opts))"

record ISCSIGlobalConfig =
  iglob_ID :: int
  iglob_Basename :: string

definition dec_ISCSIGlobalConfig :: "jval \<Rightarrow> ISCSIGlobalConfig option" where
  "dec_ISCSIGlobalConfig = dec_struct (\<lambda>kv. do {
     v_ID \<leftarrow> dec_field kv ''id'' dec_int 0;
     v_Basename \<leftarrow> dec_field kv ''basename'' dec_str [];
     Some \<lparr>iglob_ID = v_ID, iglob_Basename = v_Basename\<rparr> })"

section \<open>Snapshots and snapshot tasks\<close>

record Snapshot =
  snap_ID :: string
  snap_Dataset :: string
  snap_Name :: string
  snap_CreateTime :: string
  snap_Used :: int
  snap_Referenced :: int
  snap_Properties :: "(string \<times> jval) list"

definition dec_Snapshot :: "jval \<Rightarrow> Snapshot option" where
  "dec_Snapshot = dec_struct (\<lambda>kv. do {
     v_ID \<leftarrow> dec_field kv ''id'' dec_str [];
     v_Dataset \<leftarrow> dec_field kv ''dataset'' dec_str [];
     v_Name \<leftarrow> dec_field kv ''name'' dec_str [];
     v_CreateTime \<leftarrow> dec_field kv ''createtime'' dec_str [];
     v_Used \<leftarrow> dec_field kv ''used'' dec_int 0;
     v_Referenced \<leftarrow> dec_field kv ''referenced'' dec_int 0;
     v_Properties \<leftarrow> dec_field kv ''properties'' dec_map [];
     Some \<lparr>snap_ID = v_ID, snap_Dataset = v_Dataset, snap_Name = v_Name, snap_CreateTime =
       v_CreateTime, snap_Used = v_Used, snap_Referenced = v_Referenced, snap_Properties =
       v_Properties\<rparr> })"

record SnapshotCreateOptions =
  sco_Dataset :: string
  sco_Name :: string
  sco_Recursive :: bool
  sco_Properties :: smap

definition json_SnapshotCreateOptions :: "SnapshotCreateOptions \<Rightarrow> jval" where
  "json_SnapshotCreateOptions opts = JObj (
    [(''dataset'', JStr (sco_Dataset opts))] @
    [(''name'', JStr (sco_Name opts))] @
    [(''recursive'', JBool (sco_Recursive opts))] @
    (if sco_Properties opts = [] then [] else [(''properties'', enc_smap (sco_Properties opts))]))"

record SnapshotDeleteOptions =
  sdo_Defer :: bool
  sdo_Recursive :: bool

definition json_SnapshotDeleteOptions :: "SnapshotDeleteOptions \<Rightarrow> jval" where
  "json_SnapshotDeleteOptions opts = JObj (
    [(''defer'', JBool (sdo_Defer opts))] @
    [(''recursive'', JBool (sdo_Recursive opts))])"

record SnapshotClone =
  sc_Snapshot :: string
  sc_DatasetDST :: string

definition json_SnapshotClone :: "SnapshotClone \<Rightarrow> jval" where
  "json_SnapshotClone opts = JObj (
    [(''snapshot'', JStr (sc_Snapshot opts))] @
    [(''dataset_dst'', JStr (sc_DatasetDST opts))])"

record SnapshotTaskSchedule =
  sched_Minute :: string
  sched_Hour :: string
  sched_Dom :: string
  sched_Month :: string
  sched_Dow :: string
  sched_Begin :: string
  sched_End :: string

definition dec_SnapshotTaskSchedule :: "jval \<Rightarrow> SnapshotTaskSchedule option" where
  "dec_SnapshotTaskSchedule = dec_struct (\<lambda>kv. do {
     v_Minute \<leftarrow> dec_field kv ''minute'' dec_str [];
     v_Hour \<leftarrow> dec_field kv ''hour'' dec_str [];
     v_Dom \<leftarrow> dec_field kv ''dom'' dec_str [];
     v_Month \<leftarrow> dec_field kv ''month'' dec_str [];
     v_Dow \<leftarrow> dec_field kv ''dow'' dec_str [];
     v_Begin \<leftarrow> dec_field kv ''begin'' dec_str [];
     v_End \<leftarrow> dec_field kv ''end'' dec_str [];
     Some \<lparr>sched_Minute = v_Minute, sched_Hour = v_Hour, sched_Dom = v_Dom, sched_Month = v_Month,
       sched_Dow = v_Dow, sched_Begin = v_Begin, sched_End = v_End\<rparr> })"

definition json_SnapshotTaskSchedule :: "SnapshotTaskSchedule \<Rightarrow> jval" where
  "json_SnapshotTaskSchedule opts = JObj (
    [(''minute'', JStr (sched_Minute opts))] @
    [(''hour'', JStr (sched_Hour opts))] @
    [(''dom'', JStr (sched_Dom opts))] @
    [(''month'', JStr (sched_Month opts))] @
    [(''dow'', JStr (sched_Dow opts))] @
    [(''begin'', JStr (sched_Begin opts))] @
    [(''end'', JStr (sched_End opts))])"

record SnapshotTask =
  task_ID :: int
  task_Dataset :: string
  task_Recursive :: bool
  task_LifetimeValue :: int
  task_LifetimeUnit :: string
  task_Enabled :: bool
  task_Exclude :: "string list"
  task_NamingSchema :: string
  task_AllowEmpty :: bool
  task_Schedule :: "SnapshotTaskSchedule option"
  task_State :: "(string \<times> jval) list"
  task_VMwareSync :: bool

definition dec_SnapshotTask :: "jval \<Rightarrow> SnapshotTask option" where
  "dec_SnapshotTask = dec_struct (\<lambda>kv. do {
     v_ID \<leftarrow> dec_field kv ''id'' dec_int 0;
     v_Dataset \<leftarrow> dec_field kv ''dataset'' dec_str [];
     v_Recursive \<leftarrow> dec_field kv ''recursive'' dec_bool False;
     v_LifetimeValue \<leftarrow> dec_field kv ''lifetime_value'' dec_int 0;
     v_LifetimeUnit \<leftarrow> dec_field kv ''lifetime_unit'' dec_str [];
     v_Enabled \<leftarrow> dec_field kv ''enabled'' dec_bool False;
     v_Exclude \<leftarrow> dec_field kv ''exclude'' (dec_list dec_str) [];
     v_NamingSchema \<leftarrow> dec_field kv ''naming_schema'' dec_str [];
     v_AllowEmpty \<leftarrow> dec_field kv ''allow_empty'' dec_bool False;
     v_Schedule \<leftarrow> dec_field kv ''schedule'' (dec_ptr dec_SnapshotTaskSchedule) None;
     v_State \<leftarrow> dec_field kv ''state'' dec_map [];
     v_VMwareSync \<leftarrow> dec_field kv ''vmware_sync'' dec_bool False;
     Some \<lparr>task_ID = v_ID, task_Dataset = v_Dataset, task_Recursive = v_Recursive,
       task_LifetimeValue = v_LifetimeValue, task_LifetimeUnit = v_LifetimeUnit, task_Enabled =
       v_Enabled, task_Exclude = v_Exclude, task_NamingSchema = v_NamingSchema, task_AllowEmpty
       = v_AllowEmpty, task_Schedule = v_Schedule, task_State = v_State, task_VMwareSync =
       v_VMwareSync\<rparr> })"

record SnapshotTaskCreateOptions =
  stco_Dataset :: string
  stco_Recursive :: bool
  stco_LifetimeValue :: int
  stco_LifetimeUnit :: string
  stco_Enabled :: bool
  stco_Exclude :: "string list"
  stco_NamingSchema :: string
  stco_AllowEmpty :: bool
  stco_Schedule :: "SnapshotTaskSchedule option"

definition json_SnapshotTaskCreateOptions :: "SnapshotTaskCreateOptions \<Rightarrow> jval" where
  "json_SnapshotTaskCreateOptions opts = JObj (
    [(''dataset'', JStr (stco_Dataset opts))] @
    opt_bool ''recursive'' (stco_Recursive opts) @
    opt_int ''lifetime_value'' (stco_LifetimeValue opts) @
    opt_str ''lifetime_unit'' (stco_LifetimeUnit opts) @
    [(''enabled'', JBool (stco_Enabled opts))] @
    opt_strs ''exclude'' (stco_Exclude opts) @
    opt_str ''naming_schema'' (stco_NamingSchema opts) @
    opt_bool ''allow_empty'' (stco_AllowEmpty opts) @
    opt_ptr ''schedule'' json_SnapshotTaskSchedule (stco_Schedule opts))"

record SnapshotTaskDeleteOptions =
  stdo_FixateRemovalDate :: bool

definition json_SnapshotTaskDeleteOptions :: "SnapshotTaskDeleteOptions \<Rightarrow> jval" where
  "json_SnapshotTaskDeleteOptions opts = JObj (
    [(''fixate_removal_date'', JBool (stdo_FixateRemovalDate opts))])"

section \<open>Pools and ZFS resources\<close>

record Pool =
  pool_ID :: int
  pool_Name :: string
  pool_GUID :: string
  pool_Status :: string
  pool_Healthy :: bool
  pool_Size :: int
  pool_Allocated :: int
  pool_Free :: int
  pool_Path :: string
  pool_Autotrim :: jval

definition dec_Pool :: "jval \<Rightarrow> Pool option" where
  "dec_Pool = dec_struct (\<lambda>kv. do {
     v_ID \<leftarrow> dec_field kv ''id'' dec_int 0;
     v_Name \<leftarrow> dec_field kv ''name'' dec_str [];
     v_GUID \<leftarrow> dec_field kv ''guid'' dec_str [];
     v_Status \<leftarrow> dec_field kv ''status'' dec_str [];
     v_Healthy \<leftarrow> dec_field kv ''healthy'' dec_bool False;
     v_Size \<leftarrow> dec_field kv ''size'' dec_int 0;
     v_Allocated \<leftarrow> dec_field kv ''allocated'' dec_int 0;
     v_Free \<leftarrow> dec_field kv ''free'' dec_int 0;
     v_Path \<leftarrow> dec_field kv ''path'' dec_str [];
     v_Autotrim \<leftarrow> dec_field kv ''autotrim'' dec_any JNull;
     Some \<lparr>pool_ID = v_ID, pool_Name = v_Name, pool_GUID = v_GUID, pool_Status = v_Status,
       pool_Healthy = v_Healthy, pool_Size = v_Size, pool_Allocated = v_Allocated, pool_Free =
       v_Free, pool_Path = v_Path, pool_Autotrim = v_Autotrim\<rparr> })"

record ZFSResourceQueryOptions =
  zq_Paths :: "string list"
  zq_Properties :: "string list"
  zq_GetUserProperties :: bool
  zq_GetSource :: bool
  zq_NestResults :: bool
  zq_GetChildren :: bool

definition json_ZFSResourceQueryOptions :: "ZFSResourceQueryOptions \<Rightarrow> jval" where
  "json_ZFSResourceQueryOptions opts = JObj (
    [(''paths'', JArr (map JStr (zq_Paths opts)))] @
    opt_strs ''properties'' (zq_Properties opts) @
    opt_bool ''get_user_properties'' (zq_GetUserProperties opts) @
    opt_bool ''get_source'' (zq_GetSource opts) @
    opt_bool ''nest_results'' (zq_NestResults opts) @
    opt_bool ''get_children'' (zq_GetChildren opts))"

record ZFSPropSource =
  zsrc_Type :: string
  zsrc_Value :: jval

definition dec_ZFSPropSource :: "jval \<Rightarrow> ZFSPropSource option" where
  "dec_ZFSPropSource = dec_struct (\<lambda>kv. do {
     v_Type \<leftarrow> dec_field kv ''type'' dec_str [];
     v_Value \<leftarrow> dec_field kv ''value'' dec_any JNull;
     Some \<lparr>zsrc_Type = v_Type, zsrc_Value = v_Value\<rparr> })"

record ZFSProperty =
  zprop_Raw :: string
  zprop_Value :: jval
  zprop_Source :: "ZFSPropSource option"

definition dec_ZFSProperty :: "jval \<Rightarrow> ZFSProperty option" where
  "dec_ZFSProperty = dec_struct (\<lambda>kv. do {
     v_Raw \<leftarrow> dec_field kv ''raw'' dec_str [];
     v_Value \<leftarrow> dec_field kv ''value'' dec_any JNull;
     v_Source \<leftarrow> dec_field kv ''source'' (dec_ptr dec_ZFSPropSource) None;
     Some \<lparr>zprop_Raw = v_Raw, zprop_Value = v_Value, zprop_Source = v_Source\<rparr> })"

text \<open>A \<^verbatim>\<open>map[string]ZFSProperty\<close>.\<close>

fun dec_ZFSProperties :: "jval \<Rightarrow> (string \<times> ZFSProperty) list option" where
  "dec_ZFSProperties JNull = Some []"
| "dec_ZFSProperties (JObj kvs) =
     those (map (\<lambda>(k, v). map_option (Pair k) (dec_ZFSProperty v)) kvs)"
| "dec_ZFSProperties _ = None"

record ZFSResource =
  zres_Name :: string
  zres_Pool :: string
  zres_Type :: string
  zres_Properties :: "(string \<times> ZFSProperty) list"

definition dec_ZFSResource :: "jval \<Rightarrow> ZFSResource option" where
  "dec_ZFSResource = dec_struct (\<lambda>kv. do {
     v_Name \<leftarrow> dec_field kv ''name'' dec_str [];
     v_Pool \<leftarrow> dec_field kv ''pool'' dec_str [];
     v_Type \<leftarrow> dec_field kv ''type'' dec_str [];
     v_Properties \<leftarrow> dec_field kv ''properties'' dec_ZFSProperties [];
     Some \<lparr>zres_Name = v_Name, zres_Pool = v_Pool, zres_Type = v_Type, zres_Properties =
       v_Properties\<rparr> })"

section \<open>NVMe over fabrics\<close>

record NVMeGlobalConfig =
  nglob_ID :: int
  nglob_BaseNQN :: string
  nglob_Kernel :: bool
  nglob_ANA :: bool
  nglob_RDMA :: bool
  nglob_XportReferral :: bool

definition dec_NVMeGlobalConfig :: "jval \<Rightarrow> NVMeGlobalConfig option" where
  "dec_NVMeGlobalConfig = dec_struct (\<lambda>kv. do {
     v_ID \<leftarrow> dec_field kv ''id'' dec_int 0;
     v_BaseNQN \<leftarrow> dec_field kv ''basenqn'' dec_str [];
     v_Kernel \<leftarrow> dec_field kv ''kernel'' dec_bool False;
     v_ANA \<leftarrow> dec_field kv ''ana'' dec_bool False;
     v_RDMA \<leftarrow> dec_field kv ''rdma'' dec_bool False;
     v_XportReferral \<leftarrow> dec_field kv ''xport_referral'' dec_bool False;
     Some \<lparr>nglob_ID = v_ID, nglob_BaseNQN = v_BaseNQN, nglob_Kernel = v_Kernel, nglob_ANA = v_ANA,
       nglob_RDMA = v_RDMA, nglob_XportReferral = v_XportReferral\<rparr> })"

record NVMeSubsystem =
  sub_ID :: int
  sub_Name :: string
  sub_SubNQN :: string
  sub_AllowAnyHost :: bool
  sub_Serial :: string
  sub_Hosts :: "int list"
  sub_Namespaces :: "int list"
  sub_Ports :: "int list"

definition dec_NVMeSubsystem :: "jval \<Rightarrow> NVMeSubsystem option" where
  "dec_NVMeSubsystem = dec_struct (\<lambda>kv. do {
     v_ID \<leftarrow> dec_field kv ''id'' dec_int 0;
     v_Name \<leftarrow> dec_field kv ''name'' dec_str [];
     v_SubNQN \<leftarrow> dec_field kv ''subnqn'' dec_str [];
     v_AllowAnyHost \<leftarrow> dec_field kv ''allow_any_host'' dec_bool False;
     v_Serial \<leftarrow> dec_field kv ''serial'' dec_str [];
     v_Hosts \<leftarrow> dec_field kv ''hosts'' (dec_list dec_int) [];
     v_Namespaces \<leftarrow> dec_field kv ''namespaces'' (dec_list dec_int) [];
     v_Ports \<leftarrow> dec_field kv ''ports'' (dec_list dec_int) [];
     Some \<lparr>sub_ID = v_ID, sub_Name = v_Name, sub_SubNQN = v_SubNQN, sub_AllowAnyHost =
       v_AllowAnyHost, sub_Serial = v_Serial, sub_Hosts = v_Hosts, sub_Namespaces =
       v_Namespaces, sub_Ports = v_Ports\<rparr> })"

record NVMeSubsysCreateOptions =
  subco_Name :: string
  subco_AllowAnyHost :: bool

definition json_NVMeSubsysCreateOptions :: "NVMeSubsysCreateOptions \<Rightarrow> jval" where
  "json_NVMeSubsysCreateOptions opts = JObj (
    [(''name'', JStr (subco_Name opts))] @
    [(''allow_any_host'', JBool (subco_AllowAnyHost opts))])"

record NVMeNamespace =
  ns_ID :: int
  ns_NSID :: int
  ns_DeviceType :: string
  ns_DevicePath :: string
  ns_DeviceUUID :: string
  ns_DeviceNGUID :: string
  ns_Enabled :: bool
  ns_Subsys :: "NVMeSubsystem option"

definition dec_NVMeNamespace :: "jval \<Rightarrow> NVMeNamespace option" where
  "dec_NVMeNamespace = dec_struct (\<lambda>kv. do {
     v_ID \<leftarrow> dec_field kv ''id'' dec_int 0;
     v_NSID \<leftarrow> dec_field kv ''nsid'' dec_int 0;
     v_DeviceType \<leftarrow> dec_field kv ''device_type'' dec_str [];
     v_DevicePath \<leftarrow> dec_field kv ''device_path'' dec_str [];
     v_DeviceUUID \<leftarrow> dec_field kv ''device_uuid'' dec_str [];
     v_DeviceNGUID \<leftarrow> dec_field kv ''device_nguid'' dec_str [];
     v_Enabled \<leftarrow> dec_field kv ''enabled'' dec_bool False;
     v_Subsys \<leftarrow> dec_field kv ''subsys'' (dec_ptr dec_NVMeSubsystem) None;
     Some \<lparr>ns_ID = v_ID, ns_NSID = v_NSID, ns_DeviceType = v_DeviceType, ns_DevicePath =
       v_DevicePath, ns_DeviceUUID = v_DeviceUUID, ns_DeviceNGUID = v_DeviceNGUID, ns_Enabled =
       v_Enabled, ns_Subsys = v_Subsys\<rparr> })"

record NVMeNamespaceCreateOptions =
  nsco_SubsysID :: int
  nsco_DeviceType :: string
  nsco_DevicePath :: string
  nsco_Enabled :: bool

definition json_NVMeNamespaceCreateOptions :: "NVMeNamespaceCreateOptions \<Rightarrow> jval" where
  "json_NVMeNamespaceCreateOptions opts = JObj (
    [(''subsys_id'', JNum (nsco_SubsysID opts))] @
    [(''device_type'', JStr (nsco_DeviceType opts))] @
    [(''device_path'', JStr (nsco_DevicePath opts))] @
    [(''enabled'', JBool (nsco_Enabled opts))])"

record NVMePort =
  port_ID :: int
  port_Index :: int
  port_AddrTrType :: string
  port_AddrAdrFam :: string
  port_AddrTrAddr :: string
  port_AddrTrSvcID :: jval
  port_Enabled :: bool

definition dec_NVMePort :: "jval \<Rightarrow> NVMePort option" where
  "dec_NVMePort = dec_struct (\<lambda>kv. do {
     v_ID \<leftarrow> dec_field kv ''id'' dec_int 0;
     v_Index \<leftarrow> dec_field kv ''index'' dec_int 0;
     v_AddrTrType \<leftarrow> dec_field kv ''addr_trtype'' dec_str [];
     v_AddrAdrFam \<leftarrow> dec_field kv ''addr_adrfam'' dec_str [];
     v_AddrTrAddr \<leftarrow> dec_field kv ''addr_traddr'' dec_str [];
     v_AddrTrSvcID \<leftarrow> dec_field kv ''addr_trsvcid'' dec_any JNull;
     v_Enabled \<leftarrow> dec_field kv ''enabled'' dec_bool False;
     Some \<lparr>port_ID = v_ID, port_Index = v_Index, port_AddrTrType = v_AddrTrType, port_AddrAdrFam =
       v_AddrAdrFam, port_AddrTrAddr = v_AddrTrAddr, port_AddrTrSvcID = v_AddrTrSvcID,
       port_Enabled = v_Enabled\<rparr> })"

record NVMePortCreateOptions =
  portco_AddrTrType :: string
  portco_AddrTrAddr :: string
  portco_AddrTrSvcID :: int

definition json_NVMePortCreateOptions :: "NVMePortCreateOptions \<Rightarrow> jval" where
  "json_NVMePortCreateOptions opts = JObj (
    [(''addr_trtype'', JStr (portco_AddrTrType opts))] @
    [(''addr_traddr'', JStr (portco_AddrTrAddr opts))] @
    [(''addr_trsvcid'', JNum (portco_AddrTrSvcID opts))])"

record NVMePortSubsys =
  ps_ID :: int
  ps_Port :: "NVMePort option"
  ps_Subsys :: "NVMeSubsystem option"

definition dec_NVMePortSubsys :: "jval \<Rightarrow> NVMePortSubsys option" where
  "dec_NVMePortSubsys = dec_struct (\<lambda>kv. do {
     v_ID \<leftarrow> dec_field kv ''id'' dec_int 0;
     v_Port \<leftarrow> dec_field kv ''port'' (dec_ptr dec_NVMePort) None;
     v_Subsys \<leftarrow> dec_field kv ''subsys'' (dec_ptr dec_NVMeSubsystem) None;
     Some \<lparr>ps_ID = v_ID, ps_Port = v_Port, ps_Subsys = v_Subsys\<rparr> })"

record NVMePortSubsysCreateOptions =
  psco_PortID :: int
  psco_SubsysID :: int

definition json_NVMePortSubsysCreateOptions :: "NVMePortSubsysCreateOptions \<Rightarrow> jval" where
  "json_NVMePortSubsysCreateOptions opts = JObj (
    [(''port_id'', JNum (psco_PortID opts))] @
    [(''subsys_id'', JNum (psco_SubsysID opts))])"

record NVMeHost =
  host_ID :: int
  host_HostNQN :: string
  host_DHCHAPKey :: string
  host_DHCHAPCtrlKey :: string
  host_DHCHAPHash :: string
  host_DHCHAPDHGroup :: string

definition dec_NVMeHost :: "jval \<Rightarrow> NVMeHost option" where
  "dec_NVMeHost = dec_struct (\<lambda>kv. do {
     v_ID \<leftarrow> dec_field kv ''id'' dec_int 0;
     v_HostNQN \<leftarrow> dec_field kv ''hostnqn'' dec_str [];
     v_DHCHAPKey \<leftarrow> dec_field kv ''dhchap_key'' dec_str [];
     v_DHCHAPCtrlKey \<leftarrow> dec_field kv ''dhchap_ctrl_key'' dec_str [];
     v_DHCHAPHash \<leftarrow> dec_field kv ''dhchap_hash'' dec_str [];
     v_DHCHAPDHGroup \<leftarrow> dec_field kv ''dhchap_dhgroup'' dec_str [];
     Some \<lparr>host_ID = v_ID, host_HostNQN = v_HostNQN, host_DHCHAPKey = v_DHCHAPKey,
       host_DHCHAPCtrlKey = v_DHCHAPCtrlKey, host_DHCHAPHash = v_DHCHAPHash, host_DHCHAPDHGroup
       = v_DHCHAPDHGroup\<rparr> })"

record NVMeHostCreateOptions =
  hostco_HostNQN :: string
  hostco_DHCHAPKey :: string
  hostco_DHCHAPCtrlKey :: string
  hostco_DHCHAPHash :: string
  hostco_DHCHAPDHGroup :: string

definition json_NVMeHostCreateOptions :: "NVMeHostCreateOptions \<Rightarrow> jval" where
  "json_NVMeHostCreateOptions opts = JObj (
    [(''hostnqn'', JStr (hostco_HostNQN opts))] @
    opt_str ''dhchap_key'' (hostco_DHCHAPKey opts) @
    opt_str ''dhchap_ctrl_key'' (hostco_DHCHAPCtrlKey opts) @
    opt_str ''dhchap_hash'' (hostco_DHCHAPHash opts) @
    opt_str ''dhchap_dhgroup'' (hostco_DHCHAPDHGroup opts))"

record NVMeHostSubsys =
  hs_ID :: int
  hs_Host :: "NVMeHost option"
  hs_Subsys :: "NVMeSubsystem option"

definition dec_NVMeHostSubsys :: "jval \<Rightarrow> NVMeHostSubsys option" where
  "dec_NVMeHostSubsys = dec_struct (\<lambda>kv. do {
     v_ID \<leftarrow> dec_field kv ''id'' dec_int 0;
     v_Host \<leftarrow> dec_field kv ''host'' (dec_ptr dec_NVMeHost) None;
     v_Subsys \<leftarrow> dec_field kv ''subsys'' (dec_ptr dec_NVMeSubsystem) None;
     Some \<lparr>hs_ID = v_ID, hs_Host = v_Host, hs_Subsys = v_Subsys\<rparr> })"

record NVMeHostSubsysCreateOptions =
  hsco_HostID :: int
  hsco_SubsysID :: int

definition json_NVMeHostSubsysCreateOptions :: "NVMeHostSubsysCreateOptions \<Rightarrow> jval" where
  "json_NVMeHostSubsysCreateOptions opts = JObj (
    [(''host_id'', JNum (hsco_HostID opts))] @
    [(''subsys_id'', JNum (hsco_SubsysID opts))])"

section \<open>Replication\<close>

record ReplicationRunOnetimeOptions =
  rro_Direction :: string
  rro_Transport :: string
  rro_SourceDatasets :: "string list"
  rro_TargetDataset :: string
  rro_NameRegex :: string
  rro_Recursive :: bool
  rro_Properties :: bool
  rro_Readonly :: string
  rro_RetentionPolicy :: string
  rro_OnlyFromScratch :: bool

definition json_ReplicationRunOnetimeOptions :: "ReplicationRunOnetimeOptions \<Rightarrow> jval" where
  "json_ReplicationRunOnetimeOptions opts = JObj (
    [(''direction'', JStr (rro_Direction opts))] @
    [(''transport'', JStr (rro_Transport opts))] @
    [(''source_datasets'', JArr (map JStr (rro_SourceDatasets opts)))] @
    [(''target_dataset'', JStr (rro_TargetDataset opts))] @
    opt_str ''name_regex'' (rro_NameRegex opts) @
    [(''recursive'', JBool (rro_Recursive opts))] @
    [(''properties'', JBool (rro_Properties opts))] @
    [(''readonly'', JStr (rro_Readonly opts))] @
    [(''retention_policy'', JStr (rro_RetentionPolicy opts))] @
    [(''only_from_scratch'', JBool (rro_OnlyFromScratch opts))])"

record Job =
  job_ID :: int
  job_State :: string
  job_Error :: string
  job_Exception :: string
  job_Result :: jval

definition dec_Job :: "jval \<Rightarrow> Job option" where
  "dec_Job = dec_struct (\<lambda>kv. do {
     v_ID \<leftarrow> dec_field kv ''id'' dec_int 0;
     v_State \<leftarrow> dec_field kv ''state'' dec_str [];
     v_Error \<leftarrow> dec_field kv ''error'' dec_str [];
     v_Exception \<leftarrow> dec_field kv ''exception'' dec_str [];
     v_Result \<leftarrow> dec_field kv ''result'' dec_any JNull;
     Some \<lparr>job_ID = v_ID, job_State = v_State, job_Error = v_Error, job_Exception = v_Exception,
       job_Result = v_Result\<rparr> })"

end
