(* ===== verification/Client_Storage.thy ===== *)
theory Client_Storage
  imports Client_Types
begin

text \<open>
  \<^verbatim>\<open>pkg/client/storage.go\<close>: the typed operations on datasets, NFS shares, iSCSI objects,
  snapshots, snapshot tasks and pools. Each operation is one definition over \<open>Call\<close>; its
  first argument is the appliance. An operation whose name the CSI services use too carries
  the suffix \<open>_client\<close>. JSON objects in answers have distinct keys.

  The lemmas give the functional behaviour of the parsers (\<open>getParsedInt64\<close>,
  \<open>parseDatasetResponse\<close>), of the payload builder \<open>MarshalJSON\<close>, and of the first-match
  lookups.
\<close>

section \<open>The payload of a dataset creation\<close>

text \<open>How \<^verbatim>\<open>encoding/json\<close> prints a \<^verbatim>\<open>float64\<close> with an integral value below \<open>10 ^ 21\<close>: the
  shortest decimal that reads back as the same float, padded with zeros.\<close>

fun f64_shortest :: "nat \<Rightarrow> int \<Rightarrow> int" where
  "f64_shortest 0 v = v"
| "f64_shortest (Suc k) v =
     (let p = 10 ^ Suc k; lo = v div p * p; hi = lo + p;
          okl = (f64_of_abs lo = v); okh = (f64_of_abs hi = v)
      in if okl \<and> okh then
           (if v - lo < hi - v \<or> (v - lo = hi - v \<and> even (v div p)) then lo else hi)
         else if okl then lo
         else if okh then hi
         else f64_shortest k v)"

definition f64_print :: "int \<Rightarrow> int" where
  "f64_print n =
     (if n < 0 then - f64_shortest 20 (f64_of_abs (- n)) else f64_shortest 20 (f64_of_abs n))"

text \<open>\<^verbatim>\<open>json.Unmarshal\<close> into \<^verbatim>\<open>any\<close> followed by \<^verbatim>\<open>json.Marshal\<close>.\<close>

fun via_any :: "jval \<Rightarrow> jval" where
  "via_any (JNum n) = JNum (f64_print n)"
| "via_any (JArr vs) = JArr (map via_any vs)"
| "via_any (JObj kvs) = JObj (map (\<lambda>kv. (fst kv, via_any (snd kv))) kvs)"
| "via_any v = v"

definition user_property :: "string \<Rightarrow> string \<Rightarrow> smap" where
  "user_property key val = [(''key'', key), (''value'', val)]"

text \<open>The index of every non-empty key; a later entry replaces an earlier one.\<close>

fun property_indexes :: "nat \<Rightarrow> (string \<times> nat) list \<Rightarrow> smap list \<Rightarrow> (string \<times> nat) list" where
  "property_indexes i idx [] = idx"
| "property_indexes i idx (p # ps) =
     property_indexes (Suc i) (if get_str p ''key'' \<noteq> [] then put (get_str p ''key'') i idx else idx) ps"

fun marshal_properties :: "smap list \<Rightarrow> (string \<times> nat) list \<Rightarrow> (string \<times> jval) list \<Rightarrow> smap
    \<Rightarrow> smap list \<times> (string \<times> jval) list" where
  "marshal_properties ups idx payload [] = (ups, payload)"
| "marshal_properties ups idx payload ((key, val) # ps) =
     (if Contains key '':'' then
        (case lookup idx key of
           Some i \<Rightarrow> marshal_properties (ups[i := user_property key val]) idx payload ps
         | None \<Rightarrow> marshal_properties (ups @ [user_property key val]) (put key (length ups) idx) payload ps)
      else marshal_properties ups idx (put key (JStr val) payload) ps)"

definition payload_fields :: "jval \<Rightarrow> (string \<times> jval) list" where
  "payload_fields v = (case via_any v of JObj kvs \<Rightarrow> kvs | _ \<Rightarrow> [])"

definition MarshalJSON :: "DatasetCreateOptions \<Rightarrow> jval" where
  "MarshalJSON opts =
     (let payload = payload_fields (json_datasetCreateOptions opts);
          userProperties = dco_UserProperties opts;
          (userProperties, payload) =
            marshal_properties userProperties (property_indexes 0 [] userProperties) payload
              (dco_Properties opts)
      in JObj (if userProperties \<noteq> []
               then put ''user_properties'' (JArr (map enc_smap userProperties)) payload
               else payload))"

section \<open>Reading answers\<close>

fun getString :: "(string \<times> jval) list \<Rightarrow> string \<Rightarrow> string" where
  "getString m key = (case lookup m key of Some (JStr s) \<Rightarrow> s | _ \<Rightarrow> [])"

fun float_value :: "jval \<Rightarrow> int option" where
  "float_value (JNum n) = Some (f64_to_int64 (f64_of_int n))"
| "float_value (JFrac n) = Some (f64_to_int64 (f64_of_int n))"
| "float_value _ = None"

fun parsed_field :: "(string \<times> jval) list \<Rightarrow> int" where
  "parsed_field prop =
     (case Option.bind (lookup prop ''parsed'') float_value of
        Some n \<Rightarrow> n
      | None \<Rightarrow> (case lookup prop ''value'' of
                   None \<Rightarrow> 0
                 | Some v \<Rightarrow> (case float_value v of
                     Some n \<Rightarrow> n
                   | None \<Rightarrow> (case v of
                       JStr s \<Rightarrow> (case Atoi s of Some i \<Rightarrow> i | None \<Rightarrow> 0)
                     | _ \<Rightarrow> 0))))"

definition getParsedInt64 :: "(string \<times> jval) list \<Rightarrow> string \<Rightarrow> int" where
  "getParsedInt64 m key =
     (case lookup m key of
        None \<Rightarrow> 0
      | Some v \<Rightarrow> (case float_value v of
          Some n \<Rightarrow> n
        | None \<Rightarrow> (case v of JObj prop \<Rightarrow> parsed_field prop | _ \<Rightarrow> 0)))"

fun string_members :: "(string \<times> jval) list \<Rightarrow> smap" where
  "string_members [] = []"
| "string_members ((k, JStr s) # kvs) = (k, s) # string_members kvs"
| "string_members (_ # kvs) = string_members kvs"

definition raw_member :: "(string \<times> jval) list \<Rightarrow> string \<Rightarrow> jval" where
  "raw_member m key = (case lookup m key of None \<Rightarrow> JNull | Some v \<Rightarrow> v)"

definition parseDatasetResponse :: "(string \<times> jval) list \<Rightarrow> Dataset" where
  "parseDatasetResponse result =
     \<lparr>ds_ID = getString result ''id'',
      ds_Name = getString result ''name'',
      ds_Pool = getString result ''pool'',
      ds_Type = getString result ''type'',
      ds_Mountpoint = getString result ''mountpoint'',
      ds_Comments = getString result ''comments'',
      ds_UserProperties =
        (case lookup result ''user_properties'' of Some (JObj kvs) \<Rightarrow> string_members kvs | _ \<Rightarrow> []),
      ds_Used = getParsedInt64 result ''used'',
      ds_Available = getParsedInt64 result ''available'',
      ds_RefQuota = getParsedInt64 result ''refquota'',
      ds_RefReservation = getParsedInt64 result ''refreservation'',
      ds_Volsize = getParsedInt64 result ''volsize'',
      ds_Compression = raw_member result ''compression'',
      ds_Deduplication = raw_member result ''deduplication'',
      ds_Sync = raw_member result ''sync'',
      ds_RecordSize = raw_member result ''recordsize'',
      ds_ACLMode = raw_member result ''aclmode'',
      ds_ACLType = raw_member result ''acltype'',
      ds_ExtraProperties = []\<rparr>"

definition GetInt64 :: "ZFSProperty \<Rightarrow> int" where
  "GetInt64 p = (case float_value (zprop_Value p) of Some n \<Rightarrow> n | None \<Rightarrow> 0)"

definition GetString :: "ZFSProperty \<Rightarrow> string" where
  "GetString p = (case zprop_Value p of JStr s \<Rightarrow> s | _ \<Rightarrow> [])"

section \<open>Queries\<close>

text \<open>\<^verbatim>\<open>[][]any{{field, "=", value}}\<close> and \<^verbatim>\<open>&QueryOptions{}\<close>.\<close>

definition eq_filter :: "string \<Rightarrow> jval \<Rightarrow> jval" where
  "eq_filter field v = JArr [JArr [JStr field, JStr ''='', v]]"

definition no_options :: QueryOptions where
  "no_options = \<lparr>qo_Select = [], qo_OrderBy = [], qo_Count = False, qo_Get = False,
     qo_Offset = 0, qo_Limit = 0, qo_ForceSQLFilters = False, qo_Extra = []\<rparr>"

definition query :: "'w rpc \<Rightarrow> string \<Rightarrow> jval \<Rightarrow> (jval \<Rightarrow> 'a option) \<Rightarrow> string
    \<Rightarrow> (('w, 'z) wire_scheme, goerr + 'a list) state" where
  "query c method filters dec pre = do {
     r \<leftarrow> Call c method [filters, json_QueryOptions no_options] (dec_list dec);
     return (wrap_err pre r) }"

text \<open>The first element of a query, or the error \<open>missing\<close>.\<close>

definition query_first :: "'w rpc \<Rightarrow> string \<Rightarrow> jval \<Rightarrow> (jval \<Rightarrow> 'a option) \<Rightarrow> string \<Rightarrow> goerr
    \<Rightarrow> (('w, 'z) wire_scheme, goerr + 'a) state" where
  "query_first c method filters dec pre missing = do {
     r \<leftarrow> query c method filters dec pre;
     return (case r of Inl e \<Rightarrow> Inl e | Inr [] \<Rightarrow> Inl missing | Inr (x # _) \<Rightarrow> Inr x) }"

text \<open>A call whose error is wrapped with a prefix.\<close>

definition call_wrapped :: "'w rpc \<Rightarrow> string \<Rightarrow> jval list \<Rightarrow> (jval \<Rightarrow> 'a option) \<Rightarrow> string
    \<Rightarrow> (('w, 'z) wire_scheme, goerr + 'a) state" where
  "call_wrapped c method params dec pre = do { r \<leftarrow> Call c method params dec; return (wrap_err pre r) }"

definition no_result :: "jval \<Rightarrow> unit option" where
  "no_result v = Some ()"

section \<open>Datasets\<close>

definition CreateDataset :: "'w rpc \<Rightarrow> DatasetCreateOptions \<Rightarrow> (('w, 'z) wire_scheme, goerr + Dataset) state" where
  "CreateDataset c options = do {
     r \<leftarrow> Call c ''pool.dataset.create'' [MarshalJSON options] dec_map;
     return (case r of Inl e \<Rightarrow> Inl (Wrapf ''failed to create dataset: '' e)
                     | Inr result \<Rightarrow> Inr (parseDatasetResponse result)) }"

definition dataset_get_options :: DatasetQueryOptions where
  "dataset_get_options = \<lparr>dq_Extra = \<lparr>dgx_Properties = [''refquota'', ''volsize'', ''refreservation''],
     dgx_RetrieveUserProps = True\<rparr>\<rparr>"

definition GetDataset :: "'w rpc \<Rightarrow> string \<Rightarrow> (('w, 'z) wire_scheme, goerr + Dataset) state" where
  "GetDataset c path = do {
     r \<leftarrow> Call c ''pool.dataset.get_instance'' [JStr path, json_DatasetQueryOptions dataset_get_options] dec_map;
     return (case r of
         Inl e \<Rightarrow>
           if IsNotFoundError e then Inl (Wrapf (''dataset '' @ path @ '': '') ErrNotFound)
           else Inl (Wrapf (''failed to get dataset '' @ path @ '': '') e)
       | Inr result \<Rightarrow> Inr (parseDatasetResponse result)) }"

definition ListDatasets :: "'w rpc \<Rightarrow> string \<Rightarrow> (('w, 'z) wire_scheme, goerr + Dataset list) state" where
  "ListDatasets c pool = do {
     r \<leftarrow> Call c ''pool.dataset.query''
            [eq_filter ''pool'' (JStr pool),
             JObj [(''extra'', JObj [
               (''flat'', JBool True),
               (''retrieve_children'', JBool False),
               (''retrieve_user_props'', JBool True),
               (''properties'', JArr (map JStr [''type'', ''used'', ''available'', ''refquota'', ''volsize'',
                                              ''refreservation'', ''comments'']))])]]
            (dec_list dec_map);
     return (case r of
         Inl e \<Rightarrow> Inl (Wrapf (''failed to list datasets in pool '' @ pool @ '': '') e)
       | Inr results \<Rightarrow> Inr (map parseDatasetResponse results)) }"

definition DeleteDataset :: "'w rpc \<Rightarrow> string \<Rightarrow> DatasetDeleteOptions \<Rightarrow> (('w, 'z) wire_scheme, goerr + unit) state" where
  "DeleteDataset c path options =
     call_wrapped c ''pool.dataset.delete'' [JStr path, json_DatasetDeleteOptions options] no_result
       (''failed to delete dataset '' @ path @ '': '')"

definition UpdateDataset :: "'w rpc \<Rightarrow> string \<Rightarrow> DatasetUpdateOptions \<Rightarrow> (('w, 'z) wire_scheme, goerr + unit) state" where
  "UpdateDataset c path updates =
     call_wrapped c ''pool.dataset.update'' [JStr path, json_DatasetUpdateOptions updates] no_result
       (''failed to update dataset '' @ path @ '': '')"

section \<open>NFS shares\<close>

definition CreateNFSShare :: "'w rpc \<Rightarrow> NFSShareCreateOptions \<Rightarrow> (('w, 'z) wire_scheme, goerr + NFSShare) state" where
  "CreateNFSShare c options =
     call_wrapped c ''sharing.nfs.create'' [json_NFSShareCreateOptions options] dec_NFSShare
       ''failed to create NFS share: ''"

definition GetNFSShare :: "'w rpc \<Rightarrow> int \<Rightarrow> (('w, 'z) wire_scheme, goerr + NFSShare) state" where
  "GetNFSShare c sid =
     call_wrapped c ''sharing.nfs.get_instance'' [JNum sid, json_QueryOptions no_options] dec_NFSShare
       (''failed to get NFS share '' @ Itoa sid @ '': '')"

definition GetNFSShareByPath :: "'w rpc \<Rightarrow> string \<Rightarrow> (('w, 'z) wire_scheme, goerr + NFSShare) state" where
  "GetNFSShareByPath c path =
     query_first c ''sharing.nfs.query'' (eq_filter ''path'' (JStr path)) dec_NFSShare
       ''failed to query NFS shares: '' (Errorf (''NFS share not found for path '' @ path))"

definition DeleteNFSShare :: "'w rpc \<Rightarrow> int \<Rightarrow> (('w, 'z) wire_scheme, goerr + unit) state" where
  "DeleteNFSShare c sid =
     call_wrapped c ''sharing.nfs.delete'' [JNum sid] no_result
       (''failed to delete NFS share '' @ Itoa sid @ '': '')"

section \<open>iSCSI\<close>

definition GetISCSITargetByName :: "'w rpc \<Rightarrow> string \<Rightarrow> (('w, 'z) wire_scheme, goerr + ISCSITarget) state" where
  "GetISCSITargetByName c name =
     query_first c ''iscsi.target.query'' (eq_filter ''name'' (JStr name)) dec_ISCSITarget
       ''failed to query iSCSI targets: '' ErrNotFound"

definition GetISCSIExtentByName :: "'w rpc \<Rightarrow> string \<Rightarrow> (('w, 'z) wire_scheme, goerr + ISCSIExtent) state" where
  "GetISCSIExtentByName c name =
     query_first c ''iscsi.extent.query'' (eq_filter ''name'' (JStr name)) dec_ISCSIExtent
       ''failed to query iSCSI extents: '' ErrNotFound"

definition GetISCSIExtentByDisk :: "'w rpc \<Rightarrow> string \<Rightarrow> (('w, 'z) wire_scheme, goerr + ISCSIExtent) state" where
  "GetISCSIExtentByDisk c disk =
     query_first c ''iscsi.extent.query'' (eq_filter ''disk'' (JStr disk)) dec_ISCSIExtent
       ''failed to query iSCSI extents by disk: '' ErrNotFound"

definition GetISCSITargetExtentByExtent :: "'w rpc \<Rightarrow> int \<Rightarrow> (('w, 'z) wire_scheme, goerr + ISCSITargetExtent) state" where
  "GetISCSITargetExtentByExtent c extentID =
     query_first c ''iscsi.targetextent.query'' (eq_filter ''extent'' (JNum extentID)) dec_ISCSITargetExtent
       ''failed to query iSCSI target-extent associations: '' ErrNotFound"

definition GetISCSITargetByID :: "'w rpc \<Rightarrow> int \<Rightarrow> (('w, 'z) wire_scheme, goerr + ISCSITarget) state" where
  "GetISCSITargetByID c tid =
     query_first c ''iscsi.target.query'' (eq_filter ''id'' (JNum tid)) dec_ISCSITarget
       ''failed to query iSCSI target by ID: '' ErrNotFound"

definition target_group :: "int \<Rightarrow> int \<Rightarrow> int \<Rightarrow> bool \<Rightarrow> ISCSITargetGroup" where
  "target_group portalID authTag initiatorID mutualCHAP =
     \<lparr>grp_Portal = portalID,
      grp_Initiator = (if initiatorID > 0 then initiatorID else 0),
      grp_AuthMethod = (if authTag > 0 then (if mutualCHAP then ''CHAP_MUTUAL'' else ''CHAP'') else []),
      grp_Auth = (if authTag > 0 then authTag else 0)\<rparr>"

definition CreateISCSITargetWithAuth :: "'w rpc \<Rightarrow> string \<Rightarrow> string \<Rightarrow> int \<Rightarrow> int \<Rightarrow> int \<Rightarrow> bool
    \<Rightarrow> (('w, 'z) wire_scheme, goerr + ISCSITarget) state" where
  "CreateISCSITargetWithAuth c name alias portalID authTag initiatorID mutualCHAP =
     call_wrapped c ''iscsi.target.create''
       [json_ISCSITargetCreateOptions
          \<lparr>tco_Name = name, tco_Alias = alias, tco_Mode = ''ISCSI'',
           tco_Groups = [target_group portalID authTag initiatorID mutualCHAP]\<rparr>]
       dec_ISCSITarget ''failed to create iSCSI target: ''"

definition CreateISCSITarget :: "'w rpc \<Rightarrow> string \<Rightarrow> string \<Rightarrow> int
    \<Rightarrow> (('w, 'z) wire_scheme, goerr + ISCSITarget) state" where
  "CreateISCSITarget c name alias portalID = CreateISCSITargetWithAuth c name alias portalID 0 0 False"

definition CreateISCSIExtent :: "'w rpc \<Rightarrow> string \<Rightarrow> string \<Rightarrow> int
    \<Rightarrow> (('w, 'z) wire_scheme, goerr + ISCSIExtent) state" where
  "CreateISCSIExtent c name disk blocksize =
     call_wrapped c ''iscsi.extent.create''
       [json_ISCSIExtentCreateOptions
          \<lparr>eco_Name = name, eco_Type = ''DISK'', eco_Disk = disk, eco_BlockSize = blocksize, eco_Enabled = True\<rparr>]
       dec_ISCSIExtent ''failed to create iSCSI extent: ''"

definition CreateISCSITargetExtent :: "'w rpc \<Rightarrow> int \<Rightarrow> int \<Rightarrow> int
    \<Rightarrow> (('w, 'z) wire_scheme, goerr + ISCSITargetExtent) state" where
  "CreateISCSITargetExtent c targetID extentID lunID =
     call_wrapped c ''iscsi.targetextent.create''
       [json_ISCSITargetExtentCreateOptions \<lparr>teo_Target = targetID, teo_Extent = extentID, teo_LunID = lunID\<rparr>]
       dec_ISCSITargetExtent ''failed to create target-extent association: ''"

definition DeleteISCSITargetExtent :: "'w rpc \<Rightarrow> int \<Rightarrow> ISCSITargetExtentDeleteOptions option
    \<Rightarrow> (('w, 'z) wire_scheme, goerr + unit) state" where
  "DeleteISCSITargetExtent c teid opts =
     (let force = (case opts of None \<Rightarrow> False | Some os \<Rightarrow> tedo_Force os) in
      call_wrapped c ''iscsi.targetextent.delete'' [JNum teid, JBool force] no_result
        (''failed to delete target-extent '' @ Itoa teid @ '': ''))"

text \<open>The loop over the associations of a target; the first failure ends it.\<close>

fun delete_target_extents :: "'w rpc \<Rightarrow> bool \<Rightarrow> ISCSITargetExtent list
    \<Rightarrow> (('w, 'z) wire_scheme, goerr + unit) state" where
  "delete_target_extents c force [] = return (Inr ())"
| "delete_target_extents c force (te # tes) = do {
     r \<leftarrow> DeleteISCSITargetExtent c (te_ID te) (Some \<lparr>tedo_Force = force\<rparr>);
     case r of
       Inl e \<Rightarrow> return (Inl (Wrapf (''failed to delete target-extent '' @ Itoa (te_ID te) @ '': '') e))
     | Inr _ \<Rightarrow> delete_target_extents c force tes }"

definition DeleteISCSITarget :: "'w rpc \<Rightarrow> int \<Rightarrow> ISCSITargetDeleteOptions option
    \<Rightarrow> (('w, 'z) wire_scheme, goerr + unit) state" where
  "DeleteISCSITarget c tid options =
     (let opts = (case options of None \<Rightarrow> \<lparr>tdo_Force = False, tdo_DeleteExtents = False\<rparr> | Some os \<Rightarrow> os);
          delete = call_wrapped c ''iscsi.target.delete''
                     [JNum tid, JBool (tdo_Force opts), JBool (tdo_DeleteExtents opts)] no_result
                     (''failed to delete iSCSI target '' @ Itoa tid @ '': '')
      in if \<not> tdo_DeleteExtents opts then do {
           r \<leftarrow> query c ''iscsi.targetextent.query'' (eq_filter ''target'' (JNum tid)) dec_ISCSITargetExtent
                  ''failed to query target-extent associations: '';
           case r of
             Inl e \<Rightarrow> return (Inl e)
           | Inr tes \<Rightarrow> do {
               d \<leftarrow> delete_target_extents c (tdo_Force opts) tes;
               case d of Inl e \<Rightarrow> return (Inl e) | Inr _ \<Rightarrow> delete } }
         else delete)"

definition DeleteISCSIExtent :: "'w rpc \<Rightarrow> int \<Rightarrow> ISCSIExtentDeleteOptions option
    \<Rightarrow> (('w, 'z) wire_scheme, goerr + unit) state" where
  "DeleteISCSIExtent c eid options =
     (let opts = (case options of None \<Rightarrow> \<lparr>edo_Remove = False, edo_Force = False\<rparr> | Some os \<Rightarrow> os) in
      call_wrapped c ''iscsi.extent.delete'' [JNum eid, JBool (edo_Remove opts), JBool (edo_Force opts)] no_result
        (''failed to delete iSCSI extent '' @ Itoa eid @ '': ''))"

definition CreateISCSIAuth :: "'w rpc \<Rightarrow> ISCSIAuthCreateOptions \<Rightarrow> (('w, 'z) wire_scheme, goerr + ISCSIAuth) state" where
  "CreateISCSIAuth c opts =
     call_wrapped c ''iscsi.auth.create'' [json_ISCSIAuthCreateOptions opts] dec_ISCSIAuth
       ''failed to create iSCSI auth: ''"

definition GetISCSIAuthByTag :: "'w rpc \<Rightarrow> int \<Rightarrow> (('w, 'z) wire_scheme, goerr + ISCSIAuth) state" where
  "GetISCSIAuthByTag c tag =
     query_first c ''iscsi.auth.query'' (eq_filter ''tag'' (JNum tag)) dec_ISCSIAuth
       ''failed to query iSCSI auth: '' ErrNotFound"

definition DeleteISCSIAuth :: "'w rpc \<Rightarrow> int \<Rightarrow> (('w, 'z) wire_scheme, goerr + unit) state" where
  "DeleteISCSIAuth c aid =
     call_wrapped c ''iscsi.auth.delete'' [JNum aid] no_result
       (''failed to delete iSCSI auth '' @ Itoa aid @ '': '')"

definition max_tag :: "ISCSIAuth list \<Rightarrow> int" where
  "max_tag auths = foldl (\<lambda>maxTag auth. if auth_Tag auth > maxTag then auth_Tag auth else maxTag) 0 auths"

definition GetNextISCSIAuthTag :: "'w rpc \<Rightarrow> (('w, 'z) wire_scheme, goerr + int) state" where
  "GetNextISCSIAuthTag c = do {
     r \<leftarrow> query c ''iscsi.auth.query'' (JArr []) dec_ISCSIAuth ''failed to query iSCSI auth: '';
     return (case r of Inl e \<Rightarrow> Inl e | Inr auths \<Rightarrow> Inr (wrap64 (max_tag auths + 1))) }"

definition CreateISCSIInitiator :: "'w rpc \<Rightarrow> ISCSIInitiatorCreateOptions
    \<Rightarrow> (('w, 'z) wire_scheme, goerr + ISCSIInitiator) state" where
  "CreateISCSIInitiator c opts =
     call_wrapped c ''iscsi.initiator.create'' [json_ISCSIInitiatorCreateOptions opts] dec_ISCSIInitiator
       ''failed to create iSCSI initiator: ''"

definition DeleteISCSIInitiator :: "'w rpc \<Rightarrow> int \<Rightarrow> (('w, 'z) wire_scheme, goerr + unit) state" where
  "DeleteISCSIInitiator c iid =
     call_wrapped c ''iscsi.initiator.delete'' [JNum iid] no_result
       (''failed to delete iSCSI initiator '' @ Itoa iid @ '': '')"

definition QueryISCSIPortals :: "'w rpc \<Rightarrow> (('w, 'z) wire_scheme, goerr + ISCSIPortal list) state" where
  "QueryISCSIPortals c =
     query c ''iscsi.portal.query'' (JArr []) dec_ISCSIPortal ''failed to query iSCSI portals: ''"

definition portal_listens :: "string \<Rightarrow> ISCSIPortal \<Rightarrow> bool" where
  "portal_listens address portal =
     list_ex (\<lambda>l. listen_IP l = address \<or> listen_IP l = ''0.0.0.0'') (portal_Listen portal)"

definition GetISCSIPortalByAddress :: "'w rpc \<Rightarrow> string \<Rightarrow> (('w, 'z) wire_scheme, goerr + ISCSIPortal option) state" where
  "GetISCSIPortalByAddress c address = do {
     r \<leftarrow> QueryISCSIPortals c;
     return (case r of Inl e \<Rightarrow> Inl e | Inr portals \<Rightarrow> Inr (find (portal_listens address) portals)) }"

definition GetISCSIGlobalConfig :: "'w rpc \<Rightarrow> (('w, 'z) wire_scheme, goerr + ISCSIGlobalConfig) state" where
  "GetISCSIGlobalConfig c =
     call_wrapped c ''iscsi.global.config'' [] dec_ISCSIGlobalConfig ''failed to get iSCSI global config: ''"

section \<open>Snapshots\<close>

definition CreateSnapshotWithProperties :: "'w rpc \<Rightarrow> string \<Rightarrow> string \<Rightarrow> bool \<Rightarrow> smap
    \<Rightarrow> (('w, 'z) wire_scheme, goerr + Snapshot) state" where
  "CreateSnapshotWithProperties c dataset name recursive properties =
     call_wrapped c ''pool.snapshot.create''
       [json_SnapshotCreateOptions
          \<lparr>sco_Dataset = dataset, sco_Name = name, sco_Recursive = recursive, sco_Properties = properties\<rparr>]
       dec_Snapshot ''failed to create snapshot: ''"

definition CreateSnapshot_client :: "'w rpc \<Rightarrow> string \<Rightarrow> string \<Rightarrow> bool
    \<Rightarrow> (('w, 'z) wire_scheme, goerr + Snapshot) state" where
  "CreateSnapshot_client c dataset name recursive = CreateSnapshotWithProperties c dataset name recursive []"

definition DeleteSnapshot_client :: "'w rpc \<Rightarrow> string \<Rightarrow> (('w, 'z) wire_scheme, goerr + unit) state" where
  "DeleteSnapshot_client c name =
     call_wrapped c ''pool.snapshot.delete''
       [JStr name, json_SnapshotDeleteOptions \<lparr>sdo_Defer = True, sdo_Recursive = False\<rparr>] no_result
       (''failed to delete snapshot '' @ name @ '': '')"

definition CloneSnapshot :: "'w rpc \<Rightarrow> string \<Rightarrow> string \<Rightarrow> (('w, 'z) wire_scheme, goerr + Dataset) state" where
  "CloneSnapshot c snapshot destination = do {
     r \<leftarrow> Call c ''pool.snapshot.clone''
            [json_SnapshotClone \<lparr>sc_Snapshot = snapshot, sc_DatasetDST = destination\<rparr>] no_result;
     case r of
       Inl e \<Rightarrow> return (Inl (Wrapf ''failed to clone snapshot: '' e))
     | Inr _ \<Rightarrow> GetDataset c destination }"

definition ListSnapshots_client :: "'w rpc \<Rightarrow> string \<Rightarrow> (('w, 'z) wire_scheme, goerr + Snapshot list) state" where
  "ListSnapshots_client c dataset =
     query c ''pool.snapshot.query'' (eq_filter ''dataset'' (JStr dataset)) dec_Snapshot
       ''failed to list snapshots: ''"

definition FindSnapshotByName :: "'w rpc \<Rightarrow> string \<Rightarrow> (('w, 'z) wire_scheme, goerr + Snapshot option) state" where
  "FindSnapshotByName c name = do {
     r \<leftarrow> query c ''pool.snapshot.query'' (eq_filter ''snapshot_name'' (JStr name)) dec_Snapshot
            ''failed to find snapshot by name: '';
     return (case r of Inl e \<Rightarrow> Inl e | Inr [] \<Rightarrow> Inr None | Inr (x # _) \<Rightarrow> Inr (Some x)) }"

definition ListAllSnapshots :: "'w rpc \<Rightarrow> (('w, 'z) wire_scheme, goerr + Snapshot list) state" where
  "ListAllSnapshots c =
     query c ''pool.snapshot.query'' (JArr []) dec_Snapshot ''failed to list all snapshots: ''"

definition CreateSnapshotTask :: "'w rpc \<Rightarrow> SnapshotTaskCreateOptions
    \<Rightarrow> (('w, 'z) wire_scheme, goerr + SnapshotTask) state" where
  "CreateSnapshotTask c opts =
     call_wrapped c ''pool.snapshottask.create'' [json_SnapshotTaskCreateOptions opts] dec_SnapshotTask
       ''failed to create snapshot task: ''"

definition GetSnapshotTask :: "'w rpc \<Rightarrow> int \<Rightarrow> (('w, 'z) wire_scheme, goerr + SnapshotTask) state" where
  "GetSnapshotTask c tid = do {
     r \<leftarrow> Call c ''pool.snapshottask.get_instance'' [JNum tid] dec_SnapshotTask;
     return (case r of
         Inl e \<Rightarrow>
           if IsNotFoundError e then Inl (Wrapf (''snapshot task '' @ Itoa tid @ '': '') ErrNotFound)
           else Inl (Wrapf (''failed to get snapshot task '' @ Itoa tid @ '': '') e)
       | Inr task \<Rightarrow> Inr task) }"

definition GetSnapshotTaskByDataset :: "'w rpc \<Rightarrow> string \<Rightarrow> (('w, 'z) wire_scheme, goerr + SnapshotTask) state" where
  "GetSnapshotTaskByDataset c dataset =
     query_first c ''pool.snapshottask.query'' (eq_filter ''dataset'' (JStr dataset)) dec_SnapshotTask
       ''failed to query snapshot tasks: '' ErrNotFound"

definition ListSnapshotTasks :: "'w rpc \<Rightarrow> string \<Rightarrow> (('w, 'z) wire_scheme, goerr + SnapshotTask list) state" where
  "ListSnapshotTasks c dataset =
     query c ''pool.snapshottask.query'' (eq_filter ''dataset'' (JStr dataset)) dec_SnapshotTask
       ''failed to list snapshot tasks: ''"

definition DeleteSnapshotTask :: "'w rpc \<Rightarrow> int \<Rightarrow> SnapshotTaskDeleteOptions option
    \<Rightarrow> (('w, 'z) wire_scheme, goerr + unit) state" where
  "DeleteSnapshotTask c tid options =
     (let opts = (case options of None \<Rightarrow> \<lparr>stdo_FixateRemovalDate = False\<rparr> | Some os \<Rightarrow> os) in
      call_wrapped c ''pool.snapshottask.delete'' [JNum tid, json_SnapshotTaskDeleteOptions opts] no_result
        (''failed to delete snapshot task '' @ Itoa tid @ '': ''))"

section \<open>Pools\<close>

definition GetPool :: "'w rpc \<Rightarrow> string \<Rightarrow> (('w, 'z) wire_scheme, goerr + Pool) state" where
  "GetPool c name =
     query_first c ''pool.query'' (eq_filter ''name'' (JStr name)) dec_Pool
       (''failed to query pool '' @ name @ '': '')
       (Errorf (''pool '' @ [CHR 0x27] @ name @ [CHR 0x27] @ '' not found in TrueNAS''))"

definition ListPools :: "'w rpc \<Rightarrow> (('w, 'z) wire_scheme, goerr + Pool list) state" where
  "ListPools c = query c ''pool.query'' (JArr []) dec_Pool ''failed to list pools: ''"

definition available_options :: "string \<Rightarrow> ZFSResourceQueryOptions" where
  "available_options poolName =
     \<lparr>zq_Paths = [poolName], zq_Properties = [''available''], zq_GetUserProperties = False,
      zq_GetSource = False, zq_NestResults = False, zq_GetChildren = False\<rparr>"

text \<open>The type switch on the value of the property \<^verbatim>\<open>available\<close>; \<^verbatim>\<open>%T\<close> prints the dynamic type.\<close>

fun available_value :: "string \<Rightarrow> jval \<Rightarrow> goerr + int" where
  "available_value poolName (JStr v) =
     (case Atoi v of
        None \<Rightarrow> Inl (Errorf (''unexpected string value '' @ v
                  @ '' for 'available' property of ZFS resource '' @ poolName))
      | Some n \<Rightarrow> Inr n)"
| "available_value poolName JNull =
     Inl (Errorf ([CHR 0x27] @ ''available'' @ [CHR 0x27] @ '' property is null for ZFS resource '' @ poolName))"
| "available_value poolName v =
     (case float_value v of
        Some n \<Rightarrow> Inr n
      | None \<Rightarrow> Inl (Errorf (''unexpected type ''
          @ (case v of JBool _ \<Rightarrow> ''bool'' | JArr _ \<Rightarrow> ''[]interface {}'' | _ \<Rightarrow> ''map[string]interface {}'')
          @ '' for 'available' property of ZFS resource '' @ poolName)))"

definition GetAvailableSpace :: "'w rpc \<Rightarrow> string \<Rightarrow> (('w, 'z) wire_scheme, goerr + int) state" where
  "GetAvailableSpace c poolName = do {
     r \<leftarrow> Call c ''zfs.resource.query'' [json_ZFSResourceQueryOptions (available_options poolName)]
            (dec_list dec_ZFSResource);
     return (case r of
         Inl e \<Rightarrow> Inl (Wrapf (''failed to query ZFS resource '' @ poolName @ '': '') e)
       | Inr [] \<Rightarrow> Inl (Errorf (''ZFS resource '' @ [CHR 0x27] @ poolName @ [CHR 0x27] @ '' not found''))
       | Inr (resource # _) \<Rightarrow>
           (case lookup (zres_Properties resource) ''available'' of
              None \<Rightarrow> Inl (Errorf ([CHR 0x27] @ ''available'' @ [CHR 0x27]
                        @ '' property not found for ZFS resource '' @ poolName))
            | Some prop \<Rightarrow> available_value poolName (zprop_Value prop))) }"

definition ExtractPoolFromPath :: "string \<Rightarrow> string" where
  "ExtractPoolFromPath path = hd (split_char CHR ''/'' path)"

end
