(* ===== verification/Client_NVMe.thy ===== *)
theory Client_NVMe
  imports Client_Storage
begin

text \<open>
  \<^verbatim>\<open>pkg/client/nvme.go\<close> and \<^verbatim>\<open>pkg/client/replication.go\<close>: the nvmet operations (subsystems,
  namespaces, ports, hosts and their links) and the one-shot replication jobs.

  \<^verbatim>\<open>WaitForJob\<close> polls until the job is terminal or its context is done. The context is the
  number of further polls it allows before it is done, so that every finite run of the loop
  is covered; the poll interval is time, which the model does not have.
\<close>

section \<open>Subsystems and namespaces\<close>

definition NVMeTransportTCP :: string where "NVMeTransportTCP = ''TCP''"
definition NVMeDeviceTypeZVOL :: string where "NVMeDeviceTypeZVOL = ''ZVOL''"
definition NVMeDefaultPort :: int where "NVMeDefaultPort = 4420"

definition GetNVMeGlobalConfig :: "'w rpc \<Rightarrow> (('w, 'z) wire_scheme, goerr + NVMeGlobalConfig) state" where
  "GetNVMeGlobalConfig c =
     call_wrapped c ''nvmet.global.config'' [] dec_NVMeGlobalConfig ''failed to get nvmet global config: ''"

definition CreateNVMeSubsystem :: "'w rpc \<Rightarrow> string \<Rightarrow> bool \<Rightarrow> (('w, 'z) wire_scheme, goerr + NVMeSubsystem) state" where
  "CreateNVMeSubsystem c name allowAnyHost =
     call_wrapped c ''nvmet.subsys.create''
       [json_NVMeSubsysCreateOptions \<lparr>subco_Name = name, subco_AllowAnyHost = allowAnyHost\<rparr>]
       dec_NVMeSubsystem ''failed to create nvmet subsystem: ''"

definition GetNVMeSubsystemByNQN :: "'w rpc \<Rightarrow> string \<Rightarrow> (('w, 'z) wire_scheme, goerr + NVMeSubsystem) state" where
  "GetNVMeSubsystemByNQN c nqn =
     query_first c ''nvmet.subsys.query'' (eq_filter ''subnqn'' (JStr nqn)) dec_NVMeSubsystem
       ''failed to query nvmet subsystem by nqn: '' ErrNotFound"

definition GetNVMeSubsystemByName :: "'w rpc \<Rightarrow> string \<Rightarrow> (('w, 'z) wire_scheme, goerr + NVMeSubsystem) state" where
  "GetNVMeSubsystemByName c name =
     query_first c ''nvmet.subsys.query'' (eq_filter ''name'' (JStr name)) dec_NVMeSubsystem
       ''failed to query nvmet subsystem by name: '' ErrNotFound"

definition SetNVMeSubsystemAllowAnyHost :: "'w rpc \<Rightarrow> int \<Rightarrow> bool \<Rightarrow> (('w, 'z) wire_scheme, goerr + unit) state" where
  "SetNVMeSubsystemAllowAnyHost c sid allow =
     call_wrapped c ''nvmet.subsys.update'' [JNum sid, JObj [(''allow_any_host'', JBool allow)]] no_result
       (''failed to update nvmet subsystem '' @ Itoa sid @ '': '')"

definition DeleteNVMeSubsystem :: "'w rpc \<Rightarrow> int \<Rightarrow> (('w, 'z) wire_scheme, goerr + unit) state" where
  "DeleteNVMeSubsystem c sid =
     call_wrapped c ''nvmet.subsys.delete'' [JNum sid] no_result
       (''failed to delete nvmet subsystem '' @ Itoa sid @ '': '')"

definition CreateNVMeNamespace :: "'w rpc \<Rightarrow> int \<Rightarrow> string \<Rightarrow> string
    \<Rightarrow> (('w, 'z) wire_scheme, goerr + NVMeNamespace) state" where
  "CreateNVMeNamespace c subsysID deviceType devicePath =
     call_wrapped c ''nvmet.namespace.create''
       [json_NVMeNamespaceCreateOptions
          \<lparr>nsco_SubsysID = subsysID, nsco_DeviceType = deviceType, nsco_DevicePath = devicePath,
           nsco_Enabled = True\<rparr>]
       dec_NVMeNamespace ''failed to create nvmet namespace: ''"

definition GetNVMeNamespaceByDevice :: "'w rpc \<Rightarrow> string \<Rightarrow> (('w, 'z) wire_scheme, goerr + NVMeNamespace) state" where
  "GetNVMeNamespaceByDevice c devicePath =
     query_first c ''nvmet.namespace.query'' (eq_filter ''device_path'' (JStr devicePath)) dec_NVMeNamespace
       ''failed to query nvmet namespace by device: '' ErrNotFound"

text \<open>The client-side filters: a link belongs to an object when it carries the object and its id.\<close>

definition has_subsys :: "int \<Rightarrow> NVMeSubsystem option \<Rightarrow> bool" where
  "has_subsys sid s = (case s of None \<Rightarrow> False | Some sub \<Rightarrow> sub_ID sub = sid)"

definition has_host :: "int \<Rightarrow> NVMeHost option \<Rightarrow> bool" where
  "has_host hid h = (case h of None \<Rightarrow> False | Some host \<Rightarrow> host_ID host = hid)"

definition GetNVMeNamespacesBySubsystem :: "'w rpc \<Rightarrow> int
    \<Rightarrow> (('w, 'z) wire_scheme, goerr + NVMeNamespace list) state" where
  "GetNVMeNamespacesBySubsystem c subsysID = do {
     r \<leftarrow> query c ''nvmet.namespace.query'' (JArr []) dec_NVMeNamespace ''failed to query nvmet namespaces: '';
     return (case r of Inl e \<Rightarrow> Inl e | Inr all \<Rightarrow> Inr (filter (\<lambda>ns. has_subsys subsysID (ns_Subsys ns)) all)) }"

definition DeleteNVMeNamespace :: "'w rpc \<Rightarrow> int \<Rightarrow> (('w, 'z) wire_scheme, goerr + unit) state" where
  "DeleteNVMeNamespace c nid =
     call_wrapped c ''nvmet.namespace.delete'' [JNum nid] no_result
       (''failed to delete nvmet namespace '' @ Itoa nid @ '': '')"

section \<open>Ports\<close>

definition QueryNVMePorts :: "'w rpc \<Rightarrow> (('w, 'z) wire_scheme, goerr + NVMePort list) state" where
  "QueryNVMePorts c = query c ''nvmet.port.query'' (JArr []) dec_NVMePort ''failed to query nvmet ports: ''"

definition CreateNVMePort :: "'w rpc \<Rightarrow> string \<Rightarrow> int \<Rightarrow> (('w, 'z) wire_scheme, goerr + NVMePort) state" where
  "CreateNVMePort c addr svcID =
     call_wrapped c ''nvmet.port.create''
       [json_NVMePortCreateOptions
          \<lparr>portco_AddrTrType = NVMeTransportTCP, portco_AddrTrAddr = addr, portco_AddrTrSvcID = svcID\<rparr>]
       dec_NVMePort ''failed to create nvmet port: ''"

definition GetNVMePortByAddr :: "'w rpc \<Rightarrow> string \<Rightarrow> (('w, 'z) wire_scheme, goerr + NVMePort) state" where
  "GetNVMePortByAddr c addr = do {
     r \<leftarrow> query c ''nvmet.port.query'' (eq_filter ''addr_traddr'' (JStr addr)) dec_NVMePort
            ''failed to query nvmet port by addr: '';
     return (case r of
         Inl e \<Rightarrow> Inl e
       | Inr ports \<Rightarrow> (case find (\<lambda>p. port_AddrTrType p = NVMeTransportTCP) ports of
                        None \<Rightarrow> Inl ErrNotFound
                      | Some p \<Rightarrow> Inr p)) }"

definition CreateNVMePortSubsys :: "'w rpc \<Rightarrow> int \<Rightarrow> int \<Rightarrow> (('w, 'z) wire_scheme, goerr + NVMePortSubsys) state" where
  "CreateNVMePortSubsys c portID subsysID =
     call_wrapped c ''nvmet.port_subsys.create''
       [json_NVMePortSubsysCreateOptions \<lparr>psco_PortID = portID, psco_SubsysID = subsysID\<rparr>]
       dec_NVMePortSubsys ''failed to create nvmet port-subsys link: ''"

definition GetNVMePortSubsysBySubsystem :: "'w rpc \<Rightarrow> int
    \<Rightarrow> (('w, 'z) wire_scheme, goerr + NVMePortSubsys list) state" where
  "GetNVMePortSubsysBySubsystem c subsysID = do {
     r \<leftarrow> query c ''nvmet.port_subsys.query'' (JArr []) dec_NVMePortSubsys
            ''failed to query nvmet port-subsys links: '';
     return (case r of Inl e \<Rightarrow> Inl e | Inr all \<Rightarrow> Inr (filter (\<lambda>ps. has_subsys subsysID (ps_Subsys ps)) all)) }"

definition DeleteNVMePortSubsys :: "'w rpc \<Rightarrow> int \<Rightarrow> (('w, 'z) wire_scheme, goerr + unit) state" where
  "DeleteNVMePortSubsys c pid =
     call_wrapped c ''nvmet.port_subsys.delete'' [JNum pid] no_result
       (''failed to delete nvmet port-subsys link '' @ Itoa pid @ '': '')"

section \<open>Hosts\<close>

definition CreateNVMeHost :: "'w rpc \<Rightarrow> NVMeHostCreateOptions \<Rightarrow> (('w, 'z) wire_scheme, goerr + NVMeHost) state" where
  "CreateNVMeHost c opts =
     call_wrapped c ''nvmet.host.create'' [json_NVMeHostCreateOptions opts] dec_NVMeHost
       ''failed to create nvmet host: ''"

definition GetNVMeHostByNQN :: "'w rpc \<Rightarrow> string \<Rightarrow> (('w, 'z) wire_scheme, goerr + NVMeHost) state" where
  "GetNVMeHostByNQN c hostNQN =
     query_first c ''nvmet.host.query'' (eq_filter ''hostnqn'' (JStr hostNQN)) dec_NVMeHost
       ''failed to query nvmet host by nqn: '' ErrNotFound"

definition DeleteNVMeHost :: "'w rpc \<Rightarrow> int \<Rightarrow> (('w, 'z) wire_scheme, goerr + unit) state" where
  "DeleteNVMeHost c hid =
     call_wrapped c ''nvmet.host.delete'' [JNum hid] no_result
       (''failed to delete nvmet host '' @ Itoa hid @ '': '')"

definition CreateNVMeHostSubsys :: "'w rpc \<Rightarrow> int \<Rightarrow> int \<Rightarrow> (('w, 'z) wire_scheme, goerr + NVMeHostSubsys) state" where
  "CreateNVMeHostSubsys c hostID subsysID =
     call_wrapped c ''nvmet.host_subsys.create''
       [json_NVMeHostSubsysCreateOptions \<lparr>hsco_HostID = hostID, hsco_SubsysID = subsysID\<rparr>]
       dec_NVMeHostSubsys ''failed to create nvmet host-subsys link: ''"

definition GetNVMeHostSubsysByHost :: "'w rpc \<Rightarrow> int \<Rightarrow> (('w, 'z) wire_scheme, goerr + NVMeHostSubsys list) state" where
  "GetNVMeHostSubsysByHost c hostID = do {
     r \<leftarrow> query c ''nvmet.host_subsys.query'' (JArr []) dec_NVMeHostSubsys
            ''failed to query nvmet host-subsys links: '';
     return (case r of Inl e \<Rightarrow> Inl e | Inr all \<Rightarrow> Inr (filter (\<lambda>hs. has_host hostID (hs_Host hs)) all)) }"

definition GetNVMeHostSubsysBySubsystem :: "'w rpc \<Rightarrow> int
    \<Rightarrow> (('w, 'z) wire_scheme, goerr + NVMeHostSubsys list) state" where
  "GetNVMeHostSubsysBySubsystem c subsysID = do {
     r \<leftarrow> query c ''nvmet.host_subsys.query'' (JArr []) dec_NVMeHostSubsys
            ''failed to query nvmet host-subsys links: '';
     return (case r of Inl e \<Rightarrow> Inl e | Inr all \<Rightarrow> Inr (filter (\<lambda>hs. has_subsys subsysID (hs_Subsys hs)) all)) }"

definition DeleteNVMeHostSubsys :: "'w rpc \<Rightarrow> int \<Rightarrow> (('w, 'z) wire_scheme, goerr + unit) state" where
  "DeleteNVMeHostSubsys c lid =
     call_wrapped c ''nvmet.host_subsys.delete'' [JNum lid] no_result
       (''failed to delete nvmet host-subsys link '' @ Itoa lid @ '': '')"

section \<open>Replication\<close>

definition RunReplicationOnetime :: "'w rpc \<Rightarrow> ReplicationRunOnetimeOptions
    \<Rightarrow> (('w, 'z) wire_scheme, goerr + int) state" where
  "RunReplicationOnetime c options =
     call_wrapped c ''replication.run_onetime'' [json_ReplicationRunOnetimeOptions options] dec_int
       ''failed to start one-time replication: ''"

definition GetJob :: "'w rpc \<Rightarrow> int \<Rightarrow> (('w, 'z) wire_scheme, goerr + Job) state" where
  "GetJob c jid = do {
     r \<leftarrow> Call c ''core.get_jobs''
            [eq_filter ''id'' (JNum jid), json_QueryOptions (no_options\<lparr>qo_Limit := 1\<rparr>)] (dec_list dec_Job);
     return (case r of
         Inl e \<Rightarrow> Inl (Wrapf (''failed to get TrueNAS job '' @ Itoa jid @ '': '') e)
       | Inr [] \<Rightarrow> Inl (Wrapf (''TrueNAS job '' @ Itoa jid @ '': '') ErrNotFound)
       | Inr (job # _) \<Rightarrow> Inr job) }"

definition job_done :: "Job \<Rightarrow> bool" where
  "job_done job \<longleftrightarrow> job_State job \<in> {''SUCCESS'', ''FAILED'', ''ABORTED''}"

fun WaitForJob :: "'w rpc \<Rightarrow> nat \<Rightarrow> int \<Rightarrow> (('w, 'z) wire_scheme, goerr + Job) state" where
  "WaitForJob c polls jid = do {
     r \<leftarrow> GetJob c jid;
     case r of
       Inl e \<Rightarrow> return (Inl e)
     | Inr job \<Rightarrow>
         if job_done job then return (Inr job)
         else (case polls of
                 0 \<Rightarrow> return (Inl (CtxError ''context deadline exceeded''))
               | Suc n \<Rightarrow> WaitForJob c n jid) }"

declare WaitForJob.simps [simp del]

end
