(* ===== verification/Client_Traffic.thy ===== *)
theory Client_Traffic
  imports Client_NVMe
begin

text \<open>
  What the client operations send. \<open>single c meth m\<close> says that \<open>m\<close> makes exactly one call, of the
  method \<open>meth\<close>; every typed operation but the composite ones is of this form. \<open>is_read\<close>
  separates the methods that change nothing on the appliance from the others.

  \<open>fails_leaving Q m\<close> says that whenever \<open>m\<close> fails, what it sent satisfies \<open>Q\<close>; it is the form
  in which the clean-up of a failed creation is stated.
\<close>

named_theorems single_intros "the operations that make exactly one call"

section \<open>One call\<close>

text \<open>The state after one call of the client.\<close>

definition after_call :: "'w rpc \<Rightarrow> request \<Rightarrow> ('w, 'z) wire_scheme \<Rightarrow> ('w, 'z) wire_scheme" where
  "after_call c q s = (let (answer, w) = c (world s) q in s\<lparr>world := w, wire_log := wire_log s @ [(q, answer)]\<rparr>)"

definition single :: "'w rpc \<Rightarrow> string \<Rightarrow> (('w, 'z) wire_scheme, 'a) state \<Rightarrow> bool" where
  "single c meth m \<longleftrightarrow> (\<forall>s. \<exists>ps. snd (run_state m s) = after_call c (Request meth ps) s)"

lemma single_Call: "single c meth (Call c meth ps dec)"
  unfolding single_def
proof (intro allI exI [of _ ps])
  show "snd (run_state (Call c meth ps dec) s) = after_call c (Request meth ps) s" for s
    by (cases "c (world s) (Request meth ps)") (simp add: after_call_def)
qed

lemma single_bind_return: "single c meth m \<Longrightarrow> single c meth (State_Monad.bind m (\<lambda>r. return (f r)))"
  unfolding single_def by (simp add: split_beta)

lemma emits_single: "single c meth m \<Longrightarrow> (\<And>ps r. P (Request meth ps, r)) \<Longrightarrow> emits P m"
  unfolding emits_def yields_def single_def
proof
  fix s
  assume "\<forall>s. \<exists>ps. snd (run_state m s) = after_call c (Request meth ps) s"
    and P: "\<And>ps r. P (Request meth ps, r)"
  then obtain ps where "snd (run_state m s) = after_call c (Request meth ps) s" by blast
  then show "\<exists>xs. wire_log (snd (run_state m s)) = wire_log s @ xs \<and> list_all P xs"
    using P by (cases "c (world s) (Request meth ps)") (simp add: after_call_def)
qed

lemmas client_shapes = query_def query_first_def call_wrapped_def Let_def

lemmas single_shapes = single_bind_return single_Call

lemma single_CreateDataset [single_intros]: "single c ''pool.dataset.create'' (CreateDataset c options)"
  unfolding CreateDataset_def client_shapes by (intro single_shapes)

lemma single_GetDataset [single_intros]: "single c ''pool.dataset.get_instance'' (GetDataset c path)"
  unfolding GetDataset_def client_shapes by (intro single_shapes)

lemma single_ListDatasets [single_intros]: "single c ''pool.dataset.query'' (ListDatasets c pool)"
  unfolding ListDatasets_def client_shapes by (intro single_shapes)

lemma single_DeleteDataset [single_intros]: "single c ''pool.dataset.delete'' (DeleteDataset c path options)"
  unfolding DeleteDataset_def client_shapes by (intro single_shapes)

lemma single_UpdateDataset [single_intros]: "single c ''pool.dataset.update'' (UpdateDataset c path updates)"
  unfolding UpdateDataset_def client_shapes by (intro single_shapes)

lemma single_CreateNFSShare [single_intros]: "single c ''sharing.nfs.create'' (CreateNFSShare c options)"
  unfolding CreateNFSShare_def client_shapes by (intro single_shapes)

lemma single_GetNFSShare [single_intros]: "single c ''sharing.nfs.get_instance'' (GetNFSShare c sid)"
  unfolding GetNFSShare_def client_shapes by (intro single_shapes)

lemma single_GetNFSShareByPath [single_intros]: "single c ''sharing.nfs.query'' (GetNFSShareByPath c path)"
  unfolding GetNFSShareByPath_def client_shapes by (intro single_shapes)

lemma single_DeleteNFSShare [single_intros]: "single c ''sharing.nfs.delete'' (DeleteNFSShare c sid)"
  unfolding DeleteNFSShare_def client_shapes by (intro single_shapes)

lemma single_GetISCSITargetByName [single_intros]: "single c ''iscsi.target.query'' (GetISCSITargetByName c name)"
  unfolding GetISCSITargetByName_def client_shapes by (intro single_shapes)

lemma single_GetISCSIExtentByName [single_intros]: "single c ''iscsi.extent.query'' (GetISCSIExtentByName c name)"
  unfolding GetISCSIExtentByName_def client_shapes by (intro single_shapes)

lemma single_GetISCSIExtentByDisk [single_intros]: "single c ''iscsi.extent.query'' (GetISCSIExtentByDisk c disk)"
  unfolding GetISCSIExtentByDisk_def client_shapes by (intro single_shapes)

lemma single_GetISCSITargetExtentByExtent [single_intros]: "single c ''iscsi.targetextent.query'' (GetISCSITargetExtentByExtent c extentID)"
  unfolding GetISCSITargetExtentByExtent_def client_shapes by (intro single_shapes)

lemma single_GetISCSITargetByID [single_intros]: "single c ''iscsi.target.query'' (GetISCSITargetByID c tid)"
  unfolding GetISCSITargetByID_def client_shapes by (intro single_shapes)

lemma single_CreateISCSITargetWithAuth [single_intros]: "single c ''iscsi.target.create'' (CreateISCSITargetWithAuth c name alias portalID authTag initiatorID mutualCHAP)"
  unfolding CreateISCSITargetWithAuth_def client_shapes by (intro single_shapes)

lemma single_CreateISCSIExtent [single_intros]: "single c ''iscsi.extent.create'' (CreateISCSIExtent c name disk blocksize)"
  unfolding CreateISCSIExtent_def client_shapes by (intro single_shapes)

lemma single_CreateISCSITargetExtent [single_intros]: "single c ''iscsi.targetextent.create'' (CreateISCSITargetExtent c targetID extentID lunID)"
  unfolding CreateISCSITargetExtent_def client_shapes by (intro single_shapes)

lemma single_DeleteISCSITargetExtent [single_intros]: "single c ''iscsi.targetextent.delete'' (DeleteISCSITargetExtent c teid opts)"
  unfolding DeleteISCSITargetExtent_def client_shapes by (intro single_shapes)

lemma single_DeleteISCSIExtent [single_intros]: "single c ''iscsi.extent.delete'' (DeleteISCSIExtent c eid options)"
  unfolding DeleteISCSIExtent_def client_shapes by (intro single_shapes)

lemma single_CreateISCSIAuth [single_intros]: "single c ''iscsi.auth.create'' (CreateISCSIAuth c opts)"
  unfolding CreateISCSIAuth_def client_shapes by (intro single_shapes)

lemma single_GetISCSIAuthByTag [single_intros]: "single c ''iscsi.auth.query'' (GetISCSIAuthByTag c tag)"
  unfolding GetISCSIAuthByTag_def client_shapes by (intro single_shapes)

lemma single_DeleteISCSIAuth [single_intros]: "single c ''iscsi.auth.delete'' (DeleteISCSIAuth c aid)"
  unfolding DeleteISCSIAuth_def client_shapes by (intro single_shapes)

lemma single_GetNextISCSIAuthTag [single_intros]: "single c ''iscsi.auth.query'' (GetNextISCSIAuthTag c)"
  unfolding GetNextISCSIAuthTag_def client_shapes by (intro single_shapes)

lemma single_CreateISCSIInitiator [single_intros]: "single c ''iscsi.initiator.create'' (CreateISCSIInitiator c opts)"
  unfolding CreateISCSIInitiator_def client_shapes by (intro single_shapes)

lemma single_DeleteISCSIInitiator [single_intros]: "single c ''iscsi.initiator.delete'' (DeleteISCSIInitiator c iid)"
  unfolding DeleteISCSIInitiator_def client_shapes by (intro single_shapes)

lemma single_QueryISCSIPortals [single_intros]: "single c ''iscsi.portal.query'' (QueryISCSIPortals c)"
  unfolding QueryISCSIPortals_def client_shapes by (intro single_shapes)

lemma single_GetISCSIGlobalConfig [single_intros]: "single c ''iscsi.global.config'' (GetISCSIGlobalConfig c)"
  unfolding GetISCSIGlobalConfig_def client_shapes by (intro single_shapes)

lemma single_CreateSnapshotWithProperties [single_intros]: "single c ''pool.snapshot.create'' (CreateSnapshotWithProperties c dataset name recursive properties)"
  unfolding CreateSnapshotWithProperties_def client_shapes by (intro single_shapes)

lemma single_DeleteSnapshot_client [single_intros]: "single c ''pool.snapshot.delete'' (DeleteSnapshot_client c name)"
  unfolding DeleteSnapshot_client_def client_shapes by (intro single_shapes)

lemma single_ListSnapshots_client [single_intros]: "single c ''pool.snapshot.query'' (ListSnapshots_client c dataset)"
  unfolding ListSnapshots_client_def client_shapes by (intro single_shapes)

lemma single_FindSnapshotByName [single_intros]: "single c ''pool.snapshot.query'' (FindSnapshotByName c name)"
  unfolding FindSnapshotByName_def client_shapes by (intro single_shapes)

lemma single_ListAllSnapshots [single_intros]: "single c ''pool.snapshot.query'' (ListAllSnapshots c)"
  unfolding ListAllSnapshots_def client_shapes by (intro single_shapes)

lemma single_CreateSnapshotTask [single_intros]: "single c ''pool.snapshottask.create'' (CreateSnapshotTask c opts)"
  unfolding CreateSnapshotTask_def client_shapes by (intro single_shapes)

lemma single_GetSnapshotTask [single_intros]: "single c ''pool.snapshottask.get_instance'' (GetSnapshotTask c tid)"
  unfolding GetSnapshotTask_def client_shapes by (intro single_shapes)

lemma single_GetSnapshotTaskByDataset [single_intros]: "single c ''pool.snapshottask.query'' (GetSnapshotTaskByDataset c dataset)"
  unfolding GetSnapshotTaskByDataset_def client_shapes by (intro single_shapes)

lemma single_ListSnapshotTasks [single_intros]: "single c ''pool.snapshottask.query'' (ListSnapshotTasks c dataset)"
  unfolding ListSnapshotTasks_def client_shapes by (intro single_shapes)

lemma single_DeleteSnapshotTask [single_intros]: "single c ''pool.snapshottask.delete'' (DeleteSnapshotTask c tid options)"
  unfolding DeleteSnapshotTask_def client_shapes by (intro single_shapes)

lemma single_GetPool [single_intros]: "single c ''pool.query'' (GetPool c name)"
  unfolding GetPool_def client_shapes by (intro single_shapes)

lemma single_ListPools [single_intros]: "single c ''pool.query'' (ListPools c)"
  unfolding ListPools_def client_shapes by (intro single_shapes)

lemma single_GetAvailableSpace [single_intros]: "single c ''zfs.resource.query'' (GetAvailableSpace c poolName)"
  unfolding GetAvailableSpace_def client_shapes by (intro single_shapes)

lemma single_GetNVMeGlobalConfig [single_intros]: "single c ''nvmet.global.config'' (GetNVMeGlobalConfig c)"
  unfolding GetNVMeGlobalConfig_def client_shapes by (intro single_shapes)

lemma single_CreateNVMeSubsystem [single_intros]: "single c ''nvmet.subsys.create'' (CreateNVMeSubsystem c name allowAnyHost)"
  unfolding CreateNVMeSubsystem_def client_shapes by (intro single_shapes)

lemma single_GetNVMeSubsystemByNQN [single_intros]: "single c ''nvmet.subsys.query'' (GetNVMeSubsystemByNQN c nqn)"
  unfolding GetNVMeSubsystemByNQN_def client_shapes by (intro single_shapes)

lemma single_GetNVMeSubsystemByName [single_intros]: "single c ''nvmet.subsys.query'' (GetNVMeSubsystemByName c name)"
  unfolding GetNVMeSubsystemByName_def client_shapes by (intro single_shapes)

lemma single_SetNVMeSubsystemAllowAnyHost [single_intros]: "single c ''nvmet.subsys.update'' (SetNVMeSubsystemAllowAnyHost c sid allow)"
  unfolding SetNVMeSubsystemAllowAnyHost_def client_shapes by (intro single_shapes)

lemma single_DeleteNVMeSubsystem [single_intros]: "single c ''nvmet.subsys.delete'' (DeleteNVMeSubsystem c sid)"
  unfolding DeleteNVMeSubsystem_def client_shapes by (intro single_shapes)

lemma single_CreateNVMeNamespace [single_intros]: "single c ''nvmet.namespace.create'' (CreateNVMeNamespace c subsysID deviceType devicePath)"
  unfolding CreateNVMeNamespace_def client_shapes by (intro single_shapes)

lemma single_GetNVMeNamespaceByDevice [single_intros]: "single c ''nvmet.namespace.query'' (GetNVMeNamespaceByDevice c devicePath)"
  unfolding GetNVMeNamespaceByDevice_def client_shapes by (intro single_shapes)

lemma single_GetNVMeNamespacesBySubsystem [single_intros]: "single c ''nvmet.namespace.query'' (GetNVMeNamespacesBySubsystem c subsysID)"
  unfolding GetNVMeNamespacesBySubsystem_def client_shapes by (intro single_shapes)

lemma single_DeleteNVMeNamespace [single_intros]: "single c ''nvmet.namespace.delete'' (DeleteNVMeNamespace c nid)"
  unfolding DeleteNVMeNamespace_def client_shapes by (intro single_shapes)

lemma single_QueryNVMePorts [single_intros]: "single c ''nvmet.port.query'' (QueryNVMePorts c)"
  unfolding QueryNVMePorts_def client_shapes by (intro single_shapes)

lemma single_CreateNVMePort [single_intros]: "single c ''nvmet.port.create'' (CreateNVMePort c addr svcID)"
  unfolding CreateNVMePort_def client_shapes by (intro single_shapes)

lemma single_GetNVMePortByAddr [single_intros]: "single c ''nvmet.port.query'' (GetNVMePortByAddr c addr)"
  unfolding GetNVMePortByAddr_def client_shapes by (intro single_shapes)

lemma single_CreateNVMePortSubsys [single_intros]: "single c ''nvmet.port_subsys.create'' (CreateNVMePortSubsys c portID subsysID)"
  unfolding CreateNVMePortSubsys_def client_shapes by (intro single_shapes)

lemma single_GetNVMePortSubsysBySubsystem [single_intros]: "single c ''nvmet.port_subsys.query'' (GetNVMePortSubsysBySubsystem c subsysID)"
  unfolding GetNVMePortSubsysBySubsystem_def client_shapes by (intro single_shapes)

lemma single_DeleteNVMePortSubsys [single_intros]: "single c ''nvmet.port_subsys.delete'' (DeleteNVMePortSubsys c pid)"
  unfolding DeleteNVMePortSubsys_def client_shapes by (intro single_shapes)

lemma single_CreateNVMeHost [single_intros]: "single c ''nvmet.host.create'' (CreateNVMeHost c opts)"
  unfolding CreateNVMeHost_def client_shapes by (intro single_shapes)

lemma single_GetNVMeHostByNQN [single_intros]: "single c ''nvmet.host.query'' (GetNVMeHostByNQN c hostNQN)"
  unfolding GetNVMeHostByNQN_def client_shapes by (intro single_shapes)

lemma single_DeleteNVMeHost [single_intros]: "single c ''nvmet.host.delete'' (DeleteNVMeHost c hid)"
  unfolding DeleteNVMeHost_def client_shapes by (intro single_shapes)

lemma single_CreateNVMeHostSubsys [single_intros]: "single c ''nvmet.host_subsys.create'' (CreateNVMeHostSubsys c hostID subsysID)"
  unfolding CreateNVMeHostSubsys_def client_shapes by (intro single_shapes)

lemma single_GetNVMeHostSubsysByHost [single_intros]: "single c ''nvmet.host_subsys.query'' (GetNVMeHostSubsysByHost c hostID)"
  unfolding GetNVMeHostSubsysByHost_def client_shapes by (intro single_shapes)

lemma single_GetNVMeHostSubsysBySubsystem [single_intros]: "single c ''nvmet.host_subsys.query'' (GetNVMeHostSubsysBySubsystem c subsysID)"
  unfolding GetNVMeHostSubsysBySubsystem_def client_shapes by (intro single_shapes)

lemma single_DeleteNVMeHostSubsys [single_intros]: "single c ''nvmet.host_subsys.delete'' (DeleteNVMeHostSubsys c lid)"
  unfolding DeleteNVMeHostSubsys_def client_shapes by (intro single_shapes)

lemma single_RunReplicationOnetime [single_intros]: "single c ''replication.run_onetime'' (RunReplicationOnetime c options)"
  unfolding RunReplicationOnetime_def client_shapes by (intro single_shapes)

lemma single_GetJob [single_intros]: "single c ''core.get_jobs'' (GetJob c jid)"
  unfolding GetJob_def client_shapes by (intro single_shapes)

section \<open>Composite operations\<close>

lemmas client_emits [emits_intros] = single_intros [THEN emits_single]

lemma emits_CreateISCSITarget [emits_intros]:
  "(\<And>ps r. P (Request ''iscsi.target.create'' ps, r)) \<Longrightarrow> emits P (CreateISCSITarget c name alias portalID)"
  unfolding CreateISCSITarget_def by (intro emits_intros)

lemma emits_CreateSnapshot_client [emits_intros]:
  "(\<And>ps r. P (Request ''pool.snapshot.create'' ps, r)) \<Longrightarrow> emits P (CreateSnapshot_client c dataset name recursive)"
  unfolding CreateSnapshot_client_def by (intro emits_intros)

lemma emits_GetISCSIPortalByAddress [emits_intros]:
  "(\<And>ps r. P (Request ''iscsi.portal.query'' ps, r)) \<Longrightarrow> emits P (GetISCSIPortalByAddress c address)"
  unfolding GetISCSIPortalByAddress_def by (intro emits_intros)

lemma emits_CloneSnapshot [emits_intros]:
  "(\<And>ps r. P (Request ''pool.snapshot.clone'' ps, r)) \<Longrightarrow> (\<And>ps r. P (Request ''pool.dataset.get_instance'' ps, r))
     \<Longrightarrow> emits P (CloneSnapshot c snapshot destination)"
  unfolding CloneSnapshot_def by (intro emits_intros)

lemma emits_delete_target_extents [emits_intros]:
  "(\<And>ps r. P (Request ''iscsi.targetextent.delete'' ps, r)) \<Longrightarrow> emits P (delete_target_extents c force tes)"
  by (induction tes) (auto intro!: emits_intros)

lemma emits_DeleteISCSITarget [emits_intros]:
  "(\<And>ps r. P (Request ''iscsi.targetextent.query'' ps, r)) \<Longrightarrow>
   (\<And>ps r. P (Request ''iscsi.targetextent.delete'' ps, r)) \<Longrightarrow>
   (\<And>ps r. P (Request ''iscsi.target.delete'' ps, r)) \<Longrightarrow> emits P (DeleteISCSITarget c tid options)"
  unfolding DeleteISCSITarget_def client_shapes by (intro emits_intros)

lemma emits_WaitForJob [emits_intros]:
  "(\<And>ps r. P (Request ''core.get_jobs'' ps, r)) \<Longrightarrow> emits P (WaitForJob c polls jid)"
proof (induction polls)
  case 0
  then show ?case by (subst WaitForJob.simps) (auto intro!: emits_intros)
next
  case (Suc n)
  then show ?case by (subst WaitForJob.simps) (auto intro!: emits_intros)
qed

section \<open>What a program changes beside the wire\<close>

text \<open>\<open>keeps I m\<close>: the program \<open>m\<close> preserves \<open>I\<close>. The contract \<open>wire_kept c I\<close>: every call of the client \<open>c\<close>
  preserves \<open>I\<close>, because \<open>I\<close> does not look at the wire or because it speaks of what \<open>c\<close> does.\<close>

definition keeps :: "('s \<Rightarrow> bool) \<Rightarrow> ('s, 'a) state \<Rightarrow> bool" where
  "keeps I m \<longleftrightarrow> (\<forall>s. I s \<longrightarrow> I (snd (run_state m s)))"

locale wire_kept =
  fixes c :: "'w rpc" and I :: "('w, 'z) wire_scheme \<Rightarrow> bool"
  assumes call_kept: "I s \<Longrightarrow> I (after_call c q s)"
begin

lemma keeps_single: "single c meth m \<Longrightarrow> keeps I m"
  unfolding single_def keeps_def by (metis call_kept)

end

named_theorems keeps_intros "rules that follow the shape of a program for keeps"

lemma keeps_return [keeps_intros]: "keeps I (return a)"
  by (simp add: keeps_def)

lemma keeps_gets [keeps_intros]: "keeps I (gets f)"
  by (simp add: keeps_def)

lemma keeps_modify: "(\<And>s. I s \<Longrightarrow> I (f s)) \<Longrightarrow> keeps I (modify f)"
  by (simp add: keeps_def)

lemma keeps_bind [keeps_intros]:
  "keeps I m \<Longrightarrow> (\<And>a. keeps I (f a)) \<Longrightarrow> keeps I (State_Monad.bind m f)"
  by (simp add: keeps_def split_beta)

lemma keeps_if [keeps_intros]: "(b \<Longrightarrow> keeps I m) \<Longrightarrow> (\<not> b \<Longrightarrow> keeps I n) \<Longrightarrow> keeps I (if b then m else n)"
  by simp

lemma keeps_case_sum [keeps_intros]:
  "(\<And>e. keeps I (f e)) \<Longrightarrow> (\<And>x. keeps I (g x)) \<Longrightarrow> keeps I (case r of Inl e \<Rightarrow> f e | Inr x \<Rightarrow> g x)"
  by (cases r) simp_all

lemma keeps_case_option [keeps_intros]:
  "keeps I m \<Longrightarrow> (\<And>x. keeps I (g x)) \<Longrightarrow> keeps I (case r of None \<Rightarrow> m | Some x \<Rightarrow> g x)"
  by (cases r) simp_all

lemma keeps_case_list [keeps_intros]:
  "keeps I m \<Longrightarrow> (\<And>x xs. keeps I (g x xs)) \<Longrightarrow> keeps I (case r of [] \<Rightarrow> m | x # xs \<Rightarrow> g x xs)"
  by (cases r) simp_all

lemma keeps_case_prod [keeps_intros]:
  "(\<And>a b. keeps I (g a b)) \<Longrightarrow> keeps I (case r of (a, b) \<Rightarrow> g a b)"
  by (cases r) simp_all

lemma keeps_Let [keeps_intros]: "keeps I (f x) \<Longrightarrow> keeps I (Let x f)"
  by (simp add: Let_def)

lemma keeps_if_err [keeps_intros]:
  "keeps I m \<Longrightarrow> (\<And>e. keeps I (h e)) \<Longrightarrow> (\<And>x. keeps I (k x)) \<Longrightarrow> keeps I (if_err m h k)"
  unfolding if_err_def by (intro keeps_intros)

lemma keeps_for_each [keeps_intros]: "(\<And>x. keeps I (f x)) \<Longrightarrow> keeps I (for_each f xs)"
  by (induction xs) (auto intro!: keeps_intros)

lemma keeps_calling: "single c meth m \<Longrightarrow> wire_kept c I \<Longrightarrow> keeps I m"
  by (rule wire_kept.keeps_single)

lemmas client_keeps [keeps_intros] = single_intros [THEN keeps_calling]

lemma keeps_Call [keeps_intros]: "wire_kept c I \<Longrightarrow> keeps I (Call c meth ps dec)"
  by (rule keeps_calling [OF single_Call])

lemma keeps_composites [keeps_intros]:
  assumes "wire_kept c I"
  shows "keeps I (CreateISCSITarget c name alias portalID)"
    and "keeps I (CreateSnapshot_client c dataset name recursive)"
    and "keeps I (GetISCSIPortalByAddress c address)"
    and "keeps I (CloneSnapshot c snapshot destination)"
    and "keeps I (DeleteISCSITarget c tid options)"
    and "keeps I (WaitForJob c polls jid)"
proof -
  have te: "keeps I (delete_target_extents c force tes)" for force tes
    by (induction tes) (auto intro!: keeps_intros assms)
  show "keeps I (DeleteISCSITarget c tid options)"
    unfolding DeleteISCSITarget_def client_shapes by (intro keeps_intros te assms)
  show "keeps I (WaitForJob c polls jid)"
  proof (induction polls)
    case 0
    then show ?case by (subst WaitForJob.simps) (auto intro!: keeps_intros assms)
  next
    case (Suc n)
    then show ?case by (subst WaitForJob.simps) (auto intro!: keeps_intros assms)
  qed
qed (auto simp: CreateISCSITarget_def CreateSnapshot_client_def GetISCSIPortalByAddress_def CloneSnapshot_def
      intro!: keeps_intros assms)

section \<open>Reads\<close>

definition is_read :: "request \<Rightarrow> bool" where
  "is_read q \<longleftrightarrow> HasSuffix (Method q) ''.query'' \<or> HasSuffix (Method q) ''.get_instance''
     \<or> HasSuffix (Method q) ''.config'' \<or> Method q = ''core.get_jobs''"

abbreviation reads :: "exchange \<Rightarrow> bool" where
  "reads x \<equiv> is_read (fst x)"

text \<open>\<open>uses M m\<close>: the program calls methods of \<open>M\<close> only.\<close>

definition uses :: "string list \<Rightarrow> (('w, 'z) wire_scheme, 'a) state \<Rightarrow> bool" where
  "uses M m \<longleftrightarrow> emits (\<lambda>x. Method (fst x) \<in> set M) m"

lemma usesI: "emits (\<lambda>x. Method (fst x) \<in> set M) m \<Longrightarrow> uses M m"
  by (simp add: uses_def)

lemma uses_emits: "uses M m \<Longrightarrow> (\<And>q r. Method q \<in> set M \<Longrightarrow> P (q, r)) \<Longrightarrow> emits P m"
  unfolding uses_def by (erule emits_weaken) auto

lemma uses_emits_method:
  assumes "uses M m" "list_all (\<lambda>meth. \<forall>ps r. P (Request meth ps, r)) M"
  shows "emits P m"
  using assms(1)
proof (rule uses_emits)
  show "P (q, r)" if "Method q \<in> set M" for q r
    using that assms(2) by (cases q) (simp add: list_all_iff)
qed

section \<open>Traces closed under concatenation\<close>

text \<open>\<open>traces Q m\<close>: everything \<open>m\<close> sends, taken as one list, satisfies \<open>Q\<close>.\<close>

definition traces :: "(exchange list \<Rightarrow> bool) \<Rightarrow> (('w, 'z) wire_scheme, 'a) state \<Rightarrow> bool" where
  "traces Q m \<longleftrightarrow> yields (\<lambda>_ xs. Q xs) m"

definition concat_closed :: "(exchange list \<Rightarrow> bool) \<Rightarrow> bool" where
  "concat_closed Q \<longleftrightarrow> Q [] \<and> (\<forall>xs ys. Q xs \<longrightarrow> Q ys \<longrightarrow> Q (xs @ ys))"

lemma tracesD: "traces Q m \<Longrightarrow> Q (exchanges m s)"
  unfolding traces_def by (drule yieldsD)

lemma traces_return: "concat_closed Q \<Longrightarrow> traces Q (return a)"
  unfolding traces_def concat_closed_def by (rule yields_return) simp

lemma traces_after: "concat_closed Q \<Longrightarrow> traces Q m \<Longrightarrow> Q xs \<Longrightarrow> yields (\<lambda>_ ys. Q (xs @ ys)) m"
  unfolding traces_def concat_closed_def by (erule yields_weaken) simp

lemma traces_bind: "concat_closed Q \<Longrightarrow> traces Q m \<Longrightarrow> (\<And>a. traces Q (f a)) \<Longrightarrow> traces Q (State_Monad.bind m f)"
  unfolding traces_def [of Q m] traces_def [of Q "State_Monad.bind m f"]
  by (rule yields_bind, erule yields_weaken, rule traces_after)

lemma traces_if_err:
  "concat_closed Q \<Longrightarrow> traces Q m \<Longrightarrow> (\<And>e. traces Q (h e)) \<Longrightarrow> (\<And>x. traces Q (k x)) \<Longrightarrow> traces Q (if_err m h k)"
  unfolding if_err_def by (rule traces_bind) (auto split: sum.splits)

lemma traces_for_each: "concat_closed Q \<Longrightarrow> (\<And>x. traces Q (f x)) \<Longrightarrow> traces Q (for_each f xs)"
  by (induction xs) (auto intro: traces_return traces_bind)

lemma traces_emits: "emits P m \<Longrightarrow> (\<And>xs. list_all P xs \<Longrightarrow> Q xs) \<Longrightarrow> traces Q m"
  unfolding traces_def emits_def by (erule yields_weaken) simp

section \<open>Successes\<close>

text \<open>\<open>succeeds S m\<close>: whenever \<open>m\<close> returns a value without error, the value and what was sent
  satisfy \<open>S\<close>. \<open>fails m\<close>: it never does.\<close>

definition succeeds :: "('a \<Rightarrow> exchange list \<Rightarrow> bool) \<Rightarrow> (('w, 'z) wire_scheme, 'e + 'a) state \<Rightarrow> bool" where
  "succeeds S m \<longleftrightarrow> yields (\<lambda>r xs. \<forall>x. r = Inr x \<longrightarrow> S x xs) m"

lemma succeedsD: "succeeds S m \<Longrightarrow> fst (run_state m s) = Inr x \<Longrightarrow> S x (exchanges m s)"
  unfolding succeeds_def by (drule yieldsD [of _ _ s]) simp

lemma succeeds_Inl: "succeeds S (return (Inl e))"
  unfolding succeeds_def by (rule yields_return) simp

lemma succeeds_Inr: "S x [] \<Longrightarrow> succeeds S (return (Inr x))"
  unfolding succeeds_def by (rule yields_return) simp

lemma succeeds_weaken: "succeeds S m \<Longrightarrow> (\<And>x xs. S x xs \<Longrightarrow> T x xs) \<Longrightarrow> succeeds T m"
  unfolding succeeds_def by (erule yields_weaken) simp

lemma succeeds_bind:
  "yields T m \<Longrightarrow> (\<And>a xs. T a xs \<Longrightarrow> succeeds (\<lambda>y ys. S y (xs @ ys)) (f a)) \<Longrightarrow> succeeds S (State_Monad.bind m f)"
  unfolding succeeds_def by (rule yields_bind, erule yields_weaken) blast

lemma succeeds_skip:
  "emits (\<lambda>_. True) m \<Longrightarrow> (\<And>a xs. succeeds (\<lambda>y ys. S y (xs @ ys)) (f a)) \<Longrightarrow> succeeds S (State_Monad.bind m f)"
  unfolding emits_def by (rule succeeds_bind)

lemma succeeds_if_err:
  assumes "succeeds T m" and "emits (\<lambda>_. True) m" and "\<And>e xs. succeeds (\<lambda>y ys. S y (xs @ ys)) (h e)"
    and "\<And>x xs. T x xs \<Longrightarrow> succeeds (\<lambda>y ys. S y (xs @ ys)) (k x)"
  shows "succeeds S (if_err m h k)"
  unfolding if_err_def
  by (rule succeeds_bind [OF assms(1) [unfolded succeeds_def]]) (auto split: sum.splits intro: assms(3,4))

text \<open>One successful call: the answer decodes to the value.\<close>

lemma succeeds_call_wrapped:
  "succeeds (\<lambda>x xs. \<exists>v. xs = [(Request meth ps, Inr v)] \<and> dec v = Some x) (call_wrapped c meth ps dec pre)"
  unfolding succeeds_def call_wrapped_def
  by (intro yields_intros) (auto simp: wrap_err_def)

section \<open>Failures\<close>

definition fails_leaving :: "(exchange list \<Rightarrow> bool) \<Rightarrow> (('w, 'z) wire_scheme, 'e + 'a) state \<Rightarrow> bool" where
  "fails_leaving Q m \<longleftrightarrow> yields (\<lambda>r xs. isl r \<longrightarrow> Q xs) m"

text \<open>A property of what was sent last survives anything sent before.\<close>

definition final :: "(exchange list \<Rightarrow> bool) \<Rightarrow> bool" where
  "final Q \<longleftrightarrow> (\<forall>xs ys. Q ys \<longrightarrow> Q (xs @ ys))"

lemma fails_leavingD:
  "fails_leaving Q m \<Longrightarrow> isl (fst (run_state m s)) \<Longrightarrow> Q (exchanges m s)"
  unfolding fails_leaving_def by (drule yieldsD [of _ _ s]) simp

lemma fails_leaving_Inr: "fails_leaving Q (return (Inr x))"
  unfolding fails_leaving_def by (rule yields_return) simp

lemma fails_leaving_after:
  "final Q \<Longrightarrow> fails_leaving Q m \<Longrightarrow> yields (\<lambda>b ys. isl b \<longrightarrow> Q (xs @ ys)) m"
  unfolding fails_leaving_def final_def by (erule yields_weaken) simp

lemma fails_leaving_bind:
  "final Q \<Longrightarrow> emits (\<lambda>_. True) m \<Longrightarrow> (\<And>a. fails_leaving Q (f a)) \<Longrightarrow> fails_leaving Q (State_Monad.bind m f)"
  unfolding fails_leaving_def [of Q "State_Monad.bind m f"] emits_def
  by (rule yields_bind, erule yields_weaken, erule fails_leaving_after) simp

lemma fails_leaving_if_err:
  "final Q \<Longrightarrow> emits (\<lambda>_. True) m \<Longrightarrow> (\<And>e. fails_leaving Q (h e)) \<Longrightarrow> (\<And>x. fails_leaving Q (k x))
     \<Longrightarrow> fails_leaving Q (if_err m h k)"
  unfolding if_err_def by (rule fails_leaving_bind) (auto split: sum.splits)

text \<open>The handler passes the error on: the failing program itself has cleaned up.\<close>

lemma fails_leaving_if_err_pass:
  "final Q \<Longrightarrow> fails_leaving Q m \<Longrightarrow> (\<And>x. fails_leaving Q (k x))
     \<Longrightarrow> fails_leaving Q (if_err m (\<lambda>e. return (Inl (g e))) k)"
  unfolding fails_leaving_def [of Q m] fails_leaving_def [of Q "if_err m (\<lambda>e. return (Inl (g e))) k"]
  by (rule yields_if_err, erule yields_weaken)
    (auto intro: yields_return fails_leaving_after split: sum.splits)

end
