(* ===== verification/Driver_Metrics.thy ===== *)
theory Driver_Metrics
  imports Client_Wire
begin

text \<open>
  \<^verbatim>\<open>pkg/driver/metrics.go\<close>: the driver's own accounting. The Prometheus collectors are not part
  of the repository, so the model keeps the calls made on them, in order: \<open>metric_calls\<close>. The
  in-process table of provisioned volumes is \<open>volumes\<close>.

  The gauges are right when, for every pair of labels, the amounts added to a gauge sum up to
  the amounts of the volumes in the table. The locale \<open>volume_ledger\<close> states what a table with
  a running total promises and proves this once; it is interpreted for the capacity gauge and
  for the volume counter.
\<close>

section \<open>gRPC status\<close>

datatype code =
    OK | Canceled | Unknown | InvalidArgument | DeadlineExceeded | NotFound | AlreadyExists
  | PermissionDenied | ResourceExhausted | FailedPrecondition | Aborted | OutOfRange
  | Unimplemented | Internal | Unavailable | DataLoss | Unauthenticated

fun code_String :: "code \<Rightarrow> string" where
  "code_String OK = ''OK''"
| "code_String Canceled = ''Canceled''"
| "code_String Unknown = ''Unknown''"
| "code_String InvalidArgument = ''InvalidArgument''"
| "code_String DeadlineExceeded = ''DeadlineExceeded''"
| "code_String NotFound = ''NotFound''"
| "code_String AlreadyExists = ''AlreadyExists''"
| "code_String PermissionDenied = ''PermissionDenied''"
| "code_String ResourceExhausted = ''ResourceExhausted''"
| "code_String FailedPrecondition = ''FailedPrecondition''"
| "code_String Aborted = ''Aborted''"
| "code_String OutOfRange = ''OutOfRange''"
| "code_String Unimplemented = ''Unimplemented''"
| "code_String Internal = ''Internal''"
| "code_String Unavailable = ''Unavailable''"
| "code_String DataLoss = ''DataLoss''"
| "code_String Unauthenticated = ''Unauthenticated''"

datatype status = Status (Code: code) (Message: string)

section \<open>State\<close>

datatype metric_call =
    Inc string "string list"
  | Observe string "string list"
  | Set string int
  | Add string "string list" int

record provisionedVolume =
  pv_pool :: string
  pv_protocol :: string
  pv_capacity :: int

record Metrics =
  metric_calls :: "metric_call list"
  volumes :: "(string \<times> provisionedVolume) list"

definition NewMetrics :: Metrics where
  "NewMetrics = \<lparr>metric_calls = [], volumes = []\<rparr>"

definition collect :: "metric_call list \<Rightarrow> Metrics \<Rightarrow> Metrics" where
  "collect cs m = m\<lparr>metric_calls := metric_calls m @ cs\<rparr>"

section \<open>Operations\<close>

definition outcome_of :: "status + 'a \<Rightarrow> string" where
  "outcome_of r = (case r of Inl _ \<Rightarrow> ''error'' | Inr _ \<Rightarrow> ''success'')"

definition ObserveCSI :: "string \<Rightarrow> status + 'a \<Rightarrow> Metrics \<Rightarrow> Metrics" where
  "ObserveCSI fullMethod r m =
     (let index = LastIndexByte fullMethod CHR ''/'';
          operation = (if index \<ge> 0 then drop (nat (index + 1)) fullMethod else fullMethod);
          code = (case r of Inl st \<Rightarrow> code_String (Code st) | Inr _ \<Rightarrow> code_String OK)
      in collect [Inc ''operations_total'' [operation, outcome_of r, code],
                  Observe ''operations_duration_seconds'' [operation]] m)"

definition RecordVolumeOperation :: "string \<Rightarrow> string \<Rightarrow> status + 'a \<Rightarrow> Metrics \<Rightarrow> Metrics" where
  "RecordVolumeOperation protocol operation r m =
     (let protocol = (if protocol = ''nfs'' \<or> protocol = ''iscsi'' \<or> protocol = ''nvmeof''
                      then protocol else ''unknown'')
      in collect [Inc ''volume_operations_total'' [protocol, operation, outcome_of r]] m)"

definition ObserveRequest :: "string \<Rightarrow> string \<Rightarrow> Metrics \<Rightarrow> Metrics" where
  "ObserveRequest method outcome m =
     collect [Inc ''truenas_requests_total'' [method, outcome],
              Observe ''truenas_requests_duration_seconds'' [method]] m"

definition SetConnectionStatus :: "bool \<Rightarrow> Metrics \<Rightarrow> Metrics" where
  "SetConnectionStatus connected m =
     (if connected then collect [Set ''truenas_connection_status'' 1] m
      else collect [Set ''truenas_connection_status'' 0] m)"

definition ObserveConnectionAttempt :: "string \<Rightarrow> Metrics \<Rightarrow> Metrics" where
  "ObserveConnectionAttempt result m = collect [Inc ''truenas_connection_attempts_total'' [result]] m"

definition ObserveReconnect :: "string \<Rightarrow> Metrics \<Rightarrow> Metrics" where
  "ObserveReconnect result m = collect [Inc ''truenas_reconnects_total'' [result]] m"

text \<open>The two gauges move together; \<^verbatim>\<open>Inc\<close> and \<^verbatim>\<open>Dec\<close> on a gauge add 1 and -1.\<close>

definition gauge_calls :: "provisionedVolume \<Rightarrow> int \<Rightarrow> metric_call list" where
  "gauge_calls v sign =
     [Add ''provisioned_capacity_bytes'' [pv_pool v, pv_protocol v] (f64_of_int (sign * pv_capacity v)),
      Add ''provisioned_volumes'' [pv_pool v, pv_protocol v] sign]"

definition provisioned :: "string \<Rightarrow> string \<Rightarrow> int \<Rightarrow> provisionedVolume" where
  "provisioned pool protocol capacity =
     \<lparr>pv_pool = (if pool = [] then ''unknown'' else pool),
      pv_protocol = (if protocol = [] then ''unknown'' else protocol),
      pv_capacity = (if capacity < 0 then 0 else capacity)\<rparr>"

definition SetProvisionedVolume :: "string \<Rightarrow> string \<Rightarrow> string \<Rightarrow> int \<Rightarrow> Metrics \<Rightarrow> Metrics" where
  "SetProvisionedVolume volumeID pool protocol capacity m =
     (let v = provisioned pool protocol capacity;
          m1 = (case lookup (volumes m) volumeID of
                  Some previous \<Rightarrow> collect (gauge_calls previous (-1)) m
                | None \<Rightarrow> m);
          m2 = m1\<lparr>volumes := put volumeID v (volumes m1)\<rparr>
      in collect (gauge_calls v 1) m2)"

definition RemoveProvisionedVolume_metrics :: "string \<Rightarrow> Metrics \<Rightarrow> Metrics" where
  "RemoveProvisionedVolume_metrics volumeID m =
     (case lookup (volumes m) volumeID of
        None \<Rightarrow> m
      | Some previous \<Rightarrow>
          collect (gauge_calls previous (-1)) (m\<lparr>volumes := AList.delete volumeID (volumes m)\<rparr>))"

section \<open>What the gauges show\<close>

text \<open>The total added to a gauge under given labels.\<close>

fun gauge_total :: "string \<Rightarrow> string list \<Rightarrow> metric_call list \<Rightarrow> int" where
  "gauge_total name labels [] = 0"
| "gauge_total name labels (Add n ls x # cs) =
     (if n = name \<and> ls = labels then x else 0) + gauge_total name labels cs"
| "gauge_total name labels (_ # cs) = gauge_total name labels cs"

definition in_group :: "string list \<Rightarrow> provisionedVolume \<Rightarrow> bool" where
  "in_group labels v \<longleftrightarrow> labels = [pv_pool v, pv_protocol v]"

lemma gauge_total_append [simp]:
  "gauge_total n l (xs @ ys) = gauge_total n l xs + gauge_total n l ys"
  by (induction n l xs rule: gauge_total.induct) auto

lemma collect_simps [simp]:
  "metric_calls (collect cs m) = metric_calls m @ cs" "volumes (collect cs m) = volumes m"
  by (simp_all add: collect_def)

text \<open>A table with a running total: setting an entry replaces its contribution, removing one
  takes it out.\<close>

locale volume_ledger =
  fixes set_entry :: "string \<Rightarrow> 'v \<Rightarrow> 's \<Rightarrow> 's"
    and remove_entry :: "string \<Rightarrow> 's \<Rightarrow> 's"
    and entries :: "'s \<Rightarrow> (string \<times> 'v) list"
    and total :: "'s \<Rightarrow> 'l \<Rightarrow> int"
    and amount :: "'l \<Rightarrow> 'v \<Rightarrow> int"
  assumes entries_set: "entries (set_entry k v s) = put k v (entries s)"
    and entries_remove: "entries (remove_entry k s) = AList.delete k (entries s)"
    and total_set: "total (set_entry k v s) l =
          total s l - (case lookup (entries s) k of None \<Rightarrow> 0 | Some u \<Rightarrow> amount l u) + amount l v"
    and total_remove: "total (remove_entry k s) l =
          total s l - (case lookup (entries s) k of None \<Rightarrow> 0 | Some u \<Rightarrow> amount l u)"
begin

definition balanced :: "'s \<Rightarrow> bool" where
  "balanced s \<longleftrightarrow> distinct (map fst (entries s))
     \<and> (\<forall>l. total s l = sum_list (map (\<lambda>(k, v). amount l v) (entries s)))"

lemma sum_put:
  "distinct (map fst xs) \<Longrightarrow>
     sum_list (map (\<lambda>(k, v). amount l v) (put k v xs)) =
       sum_list (map (\<lambda>(k, v). amount l v) xs)
         - (case lookup xs k of None \<Rightarrow> 0 | Some u \<Rightarrow> amount l u) + amount l v"
proof (induction xs)
  case Nil
  then show ?case by simp
next
  case (Cons p xs)
  then show ?case by (cases p) (auto split: option.splits)
qed

lemma sum_delete:
  "distinct (map fst xs) \<Longrightarrow>
     sum_list (map (\<lambda>(k, v). amount l v) (AList.delete k xs)) =
       sum_list (map (\<lambda>(k, v). amount l v) xs)
         - (case lookup xs k of None \<Rightarrow> 0 | Some u \<Rightarrow> amount l u)"
proof (induction xs)
  case Nil
  then show ?case by simp
next
  case (Cons p xs)
  then show ?case
    by (cases p) (auto simp: delete_absent map_of_eq_None_iff split: option.splits)
qed

lemma balanced_set: "balanced s \<Longrightarrow> balanced (set_entry k v s)"
  unfolding balanced_def by (simp add: entries_set total_set sum_put distinct_update)

lemma balanced_remove: "balanced s \<Longrightarrow> balanced (remove_entry k s)"
  unfolding balanced_def by (simp add: entries_remove total_remove sum_delete distinct_delete)

end

text \<open>An update as the driver makes it, on a record of pool, protocol and capacity.\<close>

definition set_volume :: "string \<Rightarrow> provisionedVolume \<Rightarrow> Metrics \<Rightarrow> Metrics" where
  "set_volume k v m =
     collect (gauge_calls v 1)
       ((case lookup (volumes m) k of Some u \<Rightarrow> collect (gauge_calls u (-1)) m | None \<Rightarrow> m)
          \<lparr>volumes := put k v (volumes m)\<rparr>)"

lemma SetProvisionedVolume_eq:
  "SetProvisionedVolume k pool protocol capacity m = set_volume k (provisioned pool protocol capacity) m"
  by (simp add: SetProvisionedVolume_def set_volume_def Let_def split: option.splits)

lemma f64_of_int_minus: "f64_of_int (- n) = - f64_of_int n"
  by (auto simp: f64_of_int_def f64_of_abs_exact)

definition capacity_amount :: "string list \<Rightarrow> provisionedVolume \<Rightarrow> int" where
  "capacity_amount labels v = (if in_group labels v then f64_of_int (pv_capacity v) else 0)"

definition count_amount :: "string list \<Rightarrow> provisionedVolume \<Rightarrow> int" where
  "count_amount labels v = (if in_group labels v then 1 else 0)"

lemma gauge_total_calls:
  "gauge_total ''provisioned_capacity_bytes'' l (gauge_calls v 1) = capacity_amount l v"
  "gauge_total ''provisioned_capacity_bytes'' l (gauge_calls v (-1)) = - capacity_amount l v"
  "gauge_total ''provisioned_volumes'' l (gauge_calls v 1) = count_amount l v"
  "gauge_total ''provisioned_volumes'' l (gauge_calls v (-1)) = - count_amount l v"
  by (auto simp: gauge_calls_def capacity_amount_def count_amount_def in_group_def f64_of_int_minus)

interpretation cap: volume_ledger set_volume RemoveProvisionedVolume_metrics volumes
  "\<lambda>m l. gauge_total ''provisioned_capacity_bytes'' l (metric_calls m)" capacity_amount
  by unfold_locales
    (auto simp: set_volume_def RemoveProvisionedVolume_metrics_def gauge_total_calls delete_absent
      split: option.splits)

interpretation cnt: volume_ledger set_volume RemoveProvisionedVolume_metrics volumes
  "\<lambda>m l. gauge_total ''provisioned_volumes'' l (metric_calls m)" count_amount
  by unfold_locales
    (auto simp: set_volume_def RemoveProvisionedVolume_metrics_def gauge_total_calls delete_absent
      split: option.splits)

text \<open>The invariant of the metrics: both gauges are balanced.\<close>

definition metrics_balanced :: "Metrics \<Rightarrow> bool" where
  "metrics_balanced m \<longleftrightarrow> cap.balanced m \<and> cnt.balanced m"

lemma metrics_balanced_New: "metrics_balanced NewMetrics"
  by (simp add: metrics_balanced_def cap.balanced_def cnt.balanced_def NewMetrics_def)

lemma metrics_balanced_set:
  "metrics_balanced m \<Longrightarrow> metrics_balanced (SetProvisionedVolume k pool protocol capacity m)"
  by (simp add: metrics_balanced_def SetProvisionedVolume_eq cap.balanced_set cnt.balanced_set)

lemma metrics_balanced_remove:
  "metrics_balanced m \<Longrightarrow> metrics_balanced (RemoveProvisionedVolume_metrics k m)"
  by (simp add: metrics_balanced_def cap.balanced_remove cnt.balanced_remove)

end
