(* ===== verification/Driver_Core.thy ===== *)
theory Driver_Core
  imports Client_Traffic Driver_Metrics
begin

text \<open>
  \<^verbatim>\<open>pkg/driver/driver.go\<close>: the driver object, what it resolves lazily and caches, volume
  identifiers and names, and the reconstruction of a volume's metadata from the appliance.

  The record \<open>driver\<close> holds what is fixed after \<^verbatim>\<open>NewDriver\<close>: the configuration and the
  collaborators outside the repository (the appliance, the clock, the number of polls a
  context allows, the template engine). The record \<open>sys\<close> extends the wire with what changes:
  the cached portal id, basename and port id, the registered nodes and the metrics.
  Logging has no effect in the model.
\<close>

section \<open>Constants\<close>

abbreviation ProtocolISCSI :: string where "ProtocolISCSI \<equiv> ''iscsi''"
abbreviation ProtocolNFS :: string where "ProtocolNFS \<equiv> ''nfs''"
abbreviation ProtocolNVMeOF :: string where "ProtocolNVMeOF \<equiv> ''nvmeof''"

abbreviation datasetTypeFilesystem :: string where "datasetTypeFilesystem \<equiv> ''FILESYSTEM''"
abbreviation datasetTypeVolume :: string where "datasetTypeVolume \<equiv> ''VOLUME''"

abbreviation PublishContextProtocol :: string where "PublishContextProtocol \<equiv> ''protocol''"
abbreviation PublishContextTargetIQN :: string where "PublishContextTargetIQN \<equiv> ''targetIQN''"
abbreviation PublishContextTargetPortal :: string where "PublishContextTargetPortal \<equiv> ''targetPortal''"
abbreviation PublishContextLUN :: string where "PublishContextLUN \<equiv> ''lun''"
abbreviation PublishContextNFSServer :: string where "PublishContextNFSServer \<equiv> ''nfsServer''"
abbreviation PublishContextNFSPath :: string where "PublishContextNFSPath \<equiv> ''nfsPath''"
abbreviation PublishContextNVMeSubNQN :: string where "PublishContextNVMeSubNQN \<equiv> ''nvmeSubNQN''"
abbreviation PublishContextNVMePortAddr :: string where "PublishContextNVMePortAddr \<equiv> ''nvmePortAddr''"
abbreviation PublishContextNVMePortSvcID :: string where "PublishContextNVMePortSvcID \<equiv> ''nvmePortSvcID''"
abbreviation PublishContextNVMeTransport :: string where "PublishContextNVMeTransport \<equiv> ''nvmeTransport''"
abbreviation PublishContextNVMeNSUUID :: string where "PublishContextNVMeNSUUID \<equiv> ''nvmeNamespaceUUID''"
abbreviation defaultNVMeOFTransport :: string where "defaultNVMeOFTransport \<equiv> ''tcp''"

section \<open>Data\<close>

text \<open>\<^verbatim>\<open>csi.VolumeContentSource\<close>: one of its two kinds, or a message whose kind is unset.\<close>

datatype content_source = SourceSnapshot string | SourceVolume string | SourceUnset

record VolumeInfo =
  vi_ID :: string
  vi_Name :: string
  vi_CapacityBytes :: int
  vi_VolumeContext :: smap
  vi_ContentSource :: "content_source option"
  vi_DatasetPath :: string
  vi_PoolName :: string
  vi_Protocol :: string
  vi_NFSPath :: string
  vi_NFSShareID :: int
  vi_TargetIQN :: string
  vi_TargetPortal :: string
  vi_LUN :: int
  vi_ISCSITargetID :: int
  vi_ISCSIExtentID :: int
  vi_ISCSIAuthID :: int
  vi_ISCSIInitiatorID :: int
  vi_NVMeSubNQN :: string
  vi_NVMeNamespaceUUID :: string
  vi_NVMeSubsysID :: int
  vi_NVMeNamespaceID :: int
  vi_NVMePortID :: int
  vi_NVMeHostID :: int
  vi_NVMeHostSubsysID :: int

definition zero_VolumeInfo :: VolumeInfo where
  "zero_VolumeInfo = \<lparr>vi_ID = [], vi_Name = [], vi_CapacityBytes = 0, vi_VolumeContext = [],
     vi_ContentSource = None, vi_DatasetPath = [], vi_PoolName = [], vi_Protocol = [], vi_NFSPath = [],
     vi_NFSShareID = 0, vi_TargetIQN = [], vi_TargetPortal = [], vi_LUN = 0, vi_ISCSITargetID = 0,
     vi_ISCSIExtentID = 0, vi_ISCSIAuthID = 0, vi_ISCSIInitiatorID = 0, vi_NVMeSubNQN = [],
     vi_NVMeNamespaceUUID = [], vi_NVMeSubsysID = 0, vi_NVMeNamespaceID = 0, vi_NVMePortID = 0,
     vi_NVMeHostID = 0, vi_NVMeHostSubsysID = 0\<rparr>"

record ISCSIDeleteOptions =
  ido_ForceDelete :: bool
  ido_DeleteExtentsWithTarget :: bool

text \<open>What is fixed. \<open>template_parse\<close> and \<open>template_execute\<close> stand for \<^verbatim>\<open>text/template\<close>: the
  parse error of a source, and its execution on the maps \<^verbatim>\<open>parameters\<close>, \<^verbatim>\<open>pvc\<close> and \<^verbatim>\<open>pv\<close>.\<close>

record 'w driver =
  d_client :: "'w rpc"
  d_now :: "'w \<Rightarrow> int"
  d_ctxPolls :: "'w \<Rightarrow> nat"
  d_templateParse :: "string \<Rightarrow> goerr option"
  d_templateExecute :: "string \<Rightarrow> smap \<Rightarrow> smap \<Rightarrow> smap \<Rightarrow> goerr + string"
  d_name :: string
  d_version :: string
  d_nodeID :: string
  d_defaultPool :: string
  d_detachedSnapshotParentDataset :: string
  d_nfsServer :: string
  d_iscsiPortal :: string
  d_iscsiIQNBase :: string
  d_nvmeofPortal :: string

record 'w sys = "'w wire" +
  iscsiPortalID :: int
  iscsiBasename :: string
  nvmeofPortID :: int
  registeredNodes :: "string list"
  metrics :: Metrics

type_synonym ('w, 'a) prog = "('w sys, 'a) state"

section \<open>Names and identifiers\<close>

definition ParseVolumeID :: "string \<Rightarrow> goerr + string \<times> string" where
  "ParseVolumeID volumeID =
     (case splitn2 CHR ''/'' volumeID of
        [pool, name] \<Rightarrow> Inr (pool, name)
      | _ \<Rightarrow> Inl (Errorf (''invalid volume ID format: '' @ volumeID)))"

definition GetProtocolFromParameters :: "smap \<Rightarrow> string" where
  "GetProtocolFromParameters parameters =
     (case lookup parameters ''protocol'' of Some protocol \<Rightarrow> ToLower protocol | None \<Rightarrow> ProtocolNFS)"

definition GetPoolFromParameters :: "'w driver \<Rightarrow> smap \<Rightarrow> string" where
  "GetPoolFromParameters d parameters =
     (case lookup parameters ''pool'' of Some pool \<Rightarrow> pool | None \<Rightarrow> d_defaultPool d)"

definition GetISCSIDeleteOptionsFromParameters :: "smap \<Rightarrow> ISCSIDeleteOptions" where
  "GetISCSIDeleteOptionsFromParameters parameters =
     \<lparr>ido_ForceDelete =
        (case lookup parameters ''forceDelete'' of Some val \<Rightarrow> EqualFold val ''true'' | None \<Rightarrow> False),
      ido_DeleteExtentsWithTarget =
        (case lookup parameters ''deleteExtentsWithTarget'' of
           Some val \<Rightarrow> EqualFold val ''true'' | None \<Rightarrow> False)\<rparr>"

definition validateIQNFormat :: "string \<Rightarrow> goerr option" where
  "validateIQNFormat iqn =
     (if \<not> HasPrefix iqn ''iqn.'' then Some (Errorf (''IQN must start with '' @ [CHR 0x27] @ ''iqn.'' @ [CHR 0x27]))
      else (let parts = split_char CHR ''.'' iqn in
        if length parts < 3 then
          Some (Errorf (''IQN format invalid: must be iqn.YYYY-MM.domain (got: '' @ iqn @ '')''))
        else (let dateField = parts ! 1 in
          if length dateField \<noteq> 7 \<or> dateField ! 4 \<noteq> CHR ''-'' then
            Some (Errorf (''IQN date field must be YYYY-MM format (got: '' @ dateField @ '')''))
          else None)))"

definition SanitizeVolumeName :: "string \<Rightarrow> string" where
  "SanitizeVolumeName name =
     (let name = ReplaceAll1 CHR '' '' CHR ''_'' name;
          name = ReplaceAll1 CHR '':'' CHR ''_'' name;
          name = ReplaceAll1 CHR ''@'' CHR ''_'' name;
          name = ReplaceAll1 CHR ''#'' CHR ''_'' name
      in case name of
           [] \<Rightarrow> name
         | c # _ \<Rightarrow>
             (let n = (of_char c :: nat) in
              if n < 65 \<or> (n > 90 \<and> n < 97) \<or> n > 122 then ''vol_'' @ name else name))"

definition RegisterNode :: "string \<Rightarrow> ('w, unit) prog" where
  "RegisterNode nodeID = modify (\<lambda>s. s\<lparr>registeredNodes := List.insert nodeID (registeredNodes s)\<rparr>)"

definition IsNodeRegistered :: "string \<Rightarrow> ('w, bool) prog" where
  "IsNodeRegistered nodeID = gets (\<lambda>s. registeredNodes s = [] \<or> nodeID \<in> set (registeredNodes s))"

section \<open>Lazily resolved configuration\<close>

definition em_dash :: string where "em_dash = [CHR 0xE2, CHR 0x80, CHR 0x94]"
definition right_arrow :: string where "right_arrow = [CHR 0xE2, CHR 0x86, CHR 0x92]"

definition portal_host :: "string \<Rightarrow> string" where
  "portal_host portal = (case SplitHostPort portal of Some (host, _) \<Rightarrow> host | None \<Rightarrow> portal)"

definition ISCSIPortalID :: "'w driver \<Rightarrow> ('w, goerr + int) prog" where
  "ISCSIPortalID d = do {
     cached \<leftarrow> gets iscsiPortalID;
     if cached > 0 then return (Inr cached)
     else if d_iscsiPortal d = [] then
       return (Inl (Errorf ''iSCSI portal address is not configured (set TRUENAS_ISCSI_PORTAL)''))
     else do {
       r \<leftarrow> GetISCSIPortalByAddress (d_client d) (portal_host (d_iscsiPortal d));
       case r of
         Inl e \<Rightarrow> return (Inl (Wrapf ''failed to query iSCSI portals: '' e))
       | Inr None \<Rightarrow> return (Inl (Errorf (''no iSCSI portal found matching address ''
             @ Quote (portal_host (d_iscsiPortal d)) @ '' '' @ em_dash @ '' create one in TrueNAS UI (Shares ''
             @ right_arrow @ '' iSCSI '' @ right_arrow @ '' Portals)'')))
       | Inr (Some portal) \<Rightarrow> do {
           modify (\<lambda>s. s\<lparr>iscsiPortalID := portal_ID portal\<rparr>);
           return (Inr (portal_ID portal)) } } }"

definition splitNVMeOFPortal :: "string \<Rightarrow> string \<times> int" where
  "splitNVMeOFPortal portal =
     (case SplitHostPort portal of
        None \<Rightarrow> (portal, NVMeDefaultPort)
      | Some (host, portStr) \<Rightarrow>
          (case Atoi portStr of None \<Rightarrow> (host, NVMeDefaultPort) | Some port \<Rightarrow> (host, port)))"

definition NVMeOFPortAddr :: "'w driver \<Rightarrow> string" where
  "NVMeOFPortAddr d = fst (splitNVMeOFPortal (d_nvmeofPortal d))"

definition NVMeOFPortSvcID :: "'w driver \<Rightarrow> int" where
  "NVMeOFPortSvcID d = snd (splitNVMeOFPortal (d_nvmeofPortal d))"

definition resolveOrCreateNVMePort :: "'w rpc \<Rightarrow> string \<Rightarrow> int \<Rightarrow> (('w, 'z) wire_scheme, goerr + NVMePort) state" where
  "resolveOrCreateNVMePort c addr svcID = do {
     r \<leftarrow> GetNVMePortByAddr c addr;
     case r of
       Inr port \<Rightarrow> return (Inr port)
     | Inl e \<Rightarrow>
         if \<not> IsNotFoundError e then return (Inl (Wrapf ''failed to query NVMe-oF port: '' e))
         else do {
           created \<leftarrow> CreateNVMePort c addr svcID;
           return (wrap_err ''failed to create NVMe-oF port: '' created) } }"

definition NVMeOFPortID :: "'w driver \<Rightarrow> ('w, goerr + int) prog" where
  "NVMeOFPortID d = do {
     cached \<leftarrow> gets nvmeofPortID;
     if cached > 0 then return (Inr cached)
     else if d_nvmeofPortal d = [] then
       return (Inl (Errorf ''NVMe-oF portal is not configured (set TRUENAS_NVMEOF_PORTAL)''))
     else do {
       r \<leftarrow> resolveOrCreateNVMePort (d_client d) (NVMeOFPortAddr d) (NVMeOFPortSvcID d);
       case r of
         Inl e \<Rightarrow> return (Inl e)
       | Inr created \<Rightarrow> do {
           modify (\<lambda>s. s\<lparr>nvmeofPortID := port_ID created\<rparr>);
           return (Inr (port_ID created)) } } }"

definition resolveISCSIBasename :: "'w driver \<Rightarrow> ('w, string) prog" where
  "resolveISCSIBasename d = do {
     cached \<leftarrow> gets iscsiBasename;
     if cached \<noteq> [] then return cached
     else do {
       r \<leftarrow> GetISCSIGlobalConfig (d_client d);
       case r of
         Inl e \<Rightarrow> return []
       | Inr gc \<Rightarrow>
           if iglob_Basename gc = [] then return []
           else do {
             modify (\<lambda>s. s\<lparr>iscsiBasename := iglob_Basename gc\<rparr>);
             return (iglob_Basename gc) } } }"

definition ResolveISCSIIQNBase :: "'w driver \<Rightarrow> smap \<Rightarrow> ('w, string) prog" where
  "ResolveISCSIIQNBase d parameters = do {
     base \<leftarrow> resolveISCSIBasename d;
     if base \<noteq> [] then return base
     else return (case lookup parameters ''iscsi.iqn-base'' of
         Some iqnBase \<Rightarrow> iqnBase
       | None \<Rightarrow> (case lookup parameters ''iscsi.iqn-prefix'' of
           Some iqnBase \<Rightarrow> iqnBase
         | None \<Rightarrow> d_iscsiIQNBase d)) }"

section \<open>Reconstruction of a volume\<close>

text \<open>The iSCSI part: the extent is known; the association and the target are filled in as far
  as the appliance answers.\<close>

definition reconstruct_iscsi :: "'w driver \<Rightarrow> VolumeInfo \<Rightarrow> ISCSIExtent \<Rightarrow> ('w, VolumeInfo) prog" where
  "reconstruct_iscsi d volInfo extent =
     (let v = volInfo\<lparr>vi_Protocol := ProtocolISCSI, vi_ISCSIExtentID := ext_ID extent\<rparr> in do {
      a \<leftarrow> GetISCSITargetExtentByExtent (d_client d) (ext_ID extent);
      case a of
        Inl _ \<Rightarrow> return v
      | Inr assoc \<Rightarrow> do {
          t \<leftarrow> GetISCSITargetByID (d_client d) (te_Target assoc);
          case t of
            Inl _ \<Rightarrow> return (v\<lparr>vi_LUN := te_LunID assoc\<rparr>)
          | Inr target \<Rightarrow> do {
              base \<leftarrow> ResolveISCSIIQNBase d [];
              let iqn = base @ '':'' @ tgt_Name target;
              return (v\<lparr>vi_LUN := te_LunID assoc,
                        vi_ISCSITargetID := tgt_ID target,
                        vi_TargetIQN := iqn,
                        vi_TargetPortal := d_iscsiPortal d,
                        vi_VolumeContext :=
                          put PublishContextLUN (Itoa (te_LunID assoc))
                            (put PublishContextTargetIQN iqn
                              (put PublishContextTargetPortal (d_iscsiPortal d) (vi_VolumeContext v)))\<rparr>) } } })"

definition reconstruct_nvmeof :: "'w driver \<Rightarrow> VolumeInfo \<Rightarrow> NVMeNamespace \<Rightarrow> VolumeInfo" where
  "reconstruct_nvmeof d volInfo ns =
     (let nqn = (case ns_Subsys ns of None \<Rightarrow> vi_NVMeSubNQN volInfo | Some sub \<Rightarrow> sub_SubNQN sub) in
      volInfo\<lparr>vi_Protocol := ProtocolNVMeOF,
        vi_NVMeNamespaceID := ns_ID ns,
        vi_NVMeNamespaceUUID := ns_DeviceUUID ns,
        vi_NVMeSubsysID := (case ns_Subsys ns of None \<Rightarrow> vi_NVMeSubsysID volInfo | Some sub \<Rightarrow> sub_ID sub),
        vi_NVMeSubNQN := nqn,
        vi_VolumeContext :=
          put PublishContextNVMeNSUUID (ns_DeviceUUID ns)
            (put PublishContextNVMeTransport defaultNVMeOFTransport
              (put PublishContextNVMePortSvcID (Itoa (NVMeOFPortSvcID d))
                (put PublishContextNVMePortAddr (NVMeOFPortAddr d)
                  (put PublishContextNVMeSubNQN nqn (vi_VolumeContext volInfo)))))\<rparr>)"

definition reconstruct_nfs :: "'w driver \<Rightarrow> VolumeInfo \<Rightarrow> Dataset \<Rightarrow> VolumeInfo" where
  "reconstruct_nfs d volInfo dataset =
     (let ctx = (if d_nfsServer d \<noteq> [] then put PublishContextNFSServer (d_nfsServer d) (vi_VolumeContext volInfo)
                 else vi_VolumeContext volInfo)
      in volInfo\<lparr>vi_Protocol := ProtocolNFS, vi_CapacityBytes := ds_RefQuota dataset,
           vi_NFSPath := ds_Mountpoint dataset,
           vi_VolumeContext := put PublishContextNFSPath (ds_Mountpoint dataset) ctx\<rparr>)"

definition reconstruct_zvol :: "'w driver \<Rightarrow> VolumeInfo \<Rightarrow> string \<Rightarrow> ('w, VolumeInfo) prog" where
  "reconstruct_zvol d volInfo zvolPath = do {
     e \<leftarrow> GetISCSIExtentByDisk (d_client d) zvolPath;
     case e of
       Inr extent \<Rightarrow> reconstruct_iscsi d volInfo extent
     | Inl _ \<Rightarrow> do {
         n \<leftarrow> GetNVMeNamespaceByDevice (d_client d) zvolPath;
         case n of
           Inr ns \<Rightarrow> return (reconstruct_nvmeof d volInfo ns)
         | Inl _ \<Rightarrow> return (volInfo\<lparr>vi_Protocol := ProtocolISCSI\<rparr>) } }"

definition reconstructVolumeFromTrueNAS :: "'w driver \<Rightarrow> string \<Rightarrow> ('w, goerr + VolumeInfo) prog" where
  "reconstructVolumeFromTrueNAS d volumeID =
     (case ParseVolumeID volumeID of
        Inl e \<Rightarrow> return (Inl (Wrapf (''invalid volume ID '' @ volumeID @ '': '') e))
      | Inr (pool, datasetName) \<Rightarrow> (let datasetPath = pool @ ''/'' @ datasetName in do {
          r \<leftarrow> GetDataset (d_client d) datasetPath;
          case r of
            Inl e \<Rightarrow> return (Inl (Wrapf (''volume '' @ volumeID @ '' not found in TrueNAS: '') e))
          | Inr dataset \<Rightarrow> (let volInfo = zero_VolumeInfo\<lparr>vi_ID := volumeID, vi_Name := volumeID,
                                    vi_DatasetPath := datasetPath, vi_PoolName := pool\<rparr> in
              if ds_Type dataset = datasetTypeVolume then do {
                v \<leftarrow> reconstruct_zvol d
                       (volInfo\<lparr>vi_CapacityBytes := (if ds_Volsize dataset = 0 then ds_Used dataset
                                                  else ds_Volsize dataset)\<rparr>)
                       (''zvol/'' @ datasetPath);
                return (Inr v) }
              else return (Inr (reconstruct_nfs d volInfo dataset))) }))"

definition GetVolumeInfo :: "'w driver \<Rightarrow> string \<Rightarrow> ('w, goerr + VolumeInfo) prog" where
  "GetVolumeInfo d volumeID = reconstructVolumeFromTrueNAS d volumeID"

section \<open>Metrics of the driver\<close>

definition with_metrics :: "(Metrics \<Rightarrow> Metrics) \<Rightarrow> ('w, unit) prog" where
  "with_metrics f = modify (\<lambda>s. s\<lparr>metrics := f (metrics s)\<rparr>)"

definition RecordProvisionedVolume :: "VolumeInfo \<Rightarrow> ('w, unit) prog" where
  "RecordProvisionedVolume info =
     with_metrics (SetProvisionedVolume (vi_ID info) (vi_PoolName info) (vi_Protocol info) (vi_CapacityBytes info))"

definition RemoveProvisionedVolume :: "string \<Rightarrow> ('w, unit) prog" where
  "RemoveProvisionedVolume volumeID = with_metrics (RemoveProvisionedVolume_metrics volumeID)"

text \<open>\<^verbatim>\<open>defer func() { metrics.RecordVolumeOperation(protocol, operation, err) }()\<close>.\<close>

definition deferred_record :: "string \<Rightarrow> string \<Rightarrow> ('w, status + 'a) prog \<Rightarrow> ('w, status + 'a) prog" where
  "deferred_record protocol operation body = do {
     r \<leftarrow> body;
     with_metrics (RecordVolumeOperation protocol operation r);
     return r }"

section \<open>A concrete driver\<close>

text \<open>For examples: an appliance that answers each request by a fixed function, a template engine
  that copies its source, and a driver that has just started.\<close>

definition fixed_appliance :: "(request \<Rightarrow> goerr + jval) \<Rightarrow> unit rpc" where
  "fixed_appliance f w q = (f q, w)"

definition fixed_driver :: "(request \<Rightarrow> goerr + jval) \<Rightarrow> unit driver" where
  "fixed_driver f = \<lparr>d_client = fixed_appliance f, d_now = (\<lambda>_. 1700000000), d_ctxPolls = (\<lambda>_. 3),
     d_templateParse = (\<lambda>_. None), d_templateExecute = (\<lambda>src _ _ _. Inr src),
     d_name = ''csi.ix-csi.io'', d_version = ''dev'', d_nodeID = ''node-1'', d_defaultPool = ''tank'',
     d_detachedSnapshotParentDataset = ''tank/snaps'', d_nfsServer = ''10.0.0.1'', d_iscsiPortal = ''10.0.0.1:3260'',
     d_iscsiIQNBase = ''iqn.2000-01.io.truenas'', d_nvmeofPortal = ''10.0.0.1:4420''\<rparr>"

definition fresh_sys :: "unit sys" where
  "fresh_sys = \<lparr>world = (), wire_log = [], iscsiPortalID = 1, iscsiBasename = ''iqn.2000-01.io.truenas'',
     nvmeofPortID = 1, registeredNodes = [], metrics = NewMetrics\<rparr>"

section \<open>Lemmas on names and identifiers\<close>

lemma ReplaceAll1_set: "old \<noteq> new \<Longrightarrow> old \<notin> set (ReplaceAll1 old new s)"
  by (auto simp: ReplaceAll1_def)

lemma ReplaceAll1_keeps: "c \<notin> set s \<Longrightarrow> c \<noteq> new \<Longrightarrow> c \<notin> set (ReplaceAll1 old new s)"
  by (auto simp: ReplaceAll1_def)

lemma ReplaceAll1_id: "old \<notin> set s \<Longrightarrow> ReplaceAll1 old new s = s"
  by (induction s) (auto simp: ReplaceAll1_def)

definition is_letter :: "char \<Rightarrow> bool" where
  "is_letter c \<longleftrightarrow> is_upper c \<or> is_lower c"

definition bad_char :: "char \<Rightarrow> bool" where
  "bad_char c \<longleftrightarrow> c \<in> {CHR '' '', CHR '':'', CHR ''@'', CHR ''#''}"

definition clean_name :: "string \<Rightarrow> string" where
  "clean_name s = map (\<lambda>c. if bad_char c then CHR ''_'' else c) s"

lemma clean_name_eq:
  "ReplaceAll1 CHR ''#'' CHR ''_'' (ReplaceAll1 CHR ''@'' CHR ''_''
     (ReplaceAll1 CHR '':'' CHR ''_'' (ReplaceAll1 CHR '' '' CHR ''_'' s))) = clean_name s"
  by (induction s) (auto simp: clean_name_def ReplaceAll1_def bad_char_def)

lemma clean_name_chars: "c \<in> set (clean_name s) \<Longrightarrow> \<not> bad_char c"
  by (auto simp: clean_name_def bad_char_def)

lemma clean_name_id: "(\<And>c. c \<in> set s \<Longrightarrow> \<not> bad_char c) \<Longrightarrow> clean_name s = s"
  by (induction s) (auto simp: clean_name_def)

lemma letter_range:
  "(let n = (of_char c :: nat) in n < 65 \<or> (n > 90 \<and> n < 97) \<or> n > 122) \<longleftrightarrow> \<not> is_letter c"
  unfolding is_letter_def is_upper_def is_lower_def Let_def by linarith

lemma Sanitize_eq:
  "SanitizeVolumeName s =
     (case clean_name s of [] \<Rightarrow> [] | c # _ \<Rightarrow> if is_letter c then clean_name s else ''vol_'' @ clean_name s)"
  unfolding SanitizeVolumeName_def Let_def clean_name_eq letter_range [unfolded Let_def]
  by (simp split: list.splits)

lemma Sanitize_chars: "c \<in> set (SanitizeVolumeName s) \<Longrightarrow> \<not> bad_char c"
  using clean_name_chars [of c s]
  by (auto simp: Sanitize_eq bad_char_def split: list.splits if_splits)

lemma Sanitize_first: "s \<noteq> [] \<Longrightarrow> SanitizeVolumeName s \<noteq> [] \<and> is_letter (hd (SanitizeVolumeName s))"
proof -
  assume "s \<noteq> []"
  then have "clean_name s \<noteq> []" by (simp add: clean_name_def)
  then obtain c cs where "clean_name s = c # cs" by (cases "clean_name s") auto
  then show ?thesis by (simp add: Sanitize_eq is_letter_def is_lower_def)
qed

lemma Sanitize_fixed:
  assumes "\<And>c. c \<in> set s \<Longrightarrow> \<not> bad_char c" and "s \<noteq> [] \<Longrightarrow> is_letter (hd s)"
  shows "SanitizeVolumeName s = s"
proof -
  have "clean_name s = s" using assms(1) by (rule clean_name_id)
  then show ?thesis using assms(2) by (cases s) (simp_all add: Sanitize_eq)
qed

lemma Sanitize_idem: "SanitizeVolumeName (SanitizeVolumeName s) = SanitizeVolumeName s"
proof (rule Sanitize_fixed)
  show "\<not> bad_char c" if "c \<in> set (SanitizeVolumeName s)" for c
    using that by (rule Sanitize_chars)
  show "is_letter (hd (SanitizeVolumeName s))" if "SanitizeVolumeName s \<noteq> []"
    using that Sanitize_first [of s] by (cases s) (simp_all add: Sanitize_eq clean_name_def)
qed

lemma ParseVolumeID_cases:
  obtains (bad) e where "ParseVolumeID v = Inl e" and "CHR ''/'' \<notin> set v"
    | (good) pool name where "ParseVolumeID v = Inr (pool, name)" and "v = pool @ ''/'' @ name"
        and "CHR ''/'' \<notin> set pool"
proof (cases rule: splitn2_cases [of "CHR ''/''" v])
  case whole
  then show ?thesis using bad by (simp add: ParseVolumeID_def)
next
  case (two a b)
  then show ?thesis using good [of a b] by (simp add: ParseVolumeID_def)
qed

lemma ParseVolumeID_ok: "CHR ''/'' \<notin> set pool \<Longrightarrow> ParseVolumeID (pool @ ''/'' @ name) = Inr (pool, name)"
  by (simp add: ParseVolumeID_def splitn2_found)

text \<open>A sanitized volume name holds no space, colon, at-sign or number sign, begins with a
  letter when it is not empty, and sanitizing it again changes nothing: the dataset name is a
  function of the request that retries reproduce.\<close>

theorem SanitizeVolumeName_wellformed:
  "set (SanitizeVolumeName s) \<inter> {CHR '' '', CHR '':'', CHR ''@'', CHR ''#''} = {}
   \<and> (SanitizeVolumeName s = [] \<longleftrightarrow> s = [])
   \<and> (SanitizeVolumeName s = [] \<or> is_letter (hd (SanitizeVolumeName s)))
   \<and> SanitizeVolumeName (SanitizeVolumeName s) = SanitizeVolumeName s"
proof -
  have "set (SanitizeVolumeName s) \<inter> {CHR '' '', CHR '':'', CHR ''@'', CHR ''#''} = {}"
    using Sanitize_chars [of _ s] unfolding bad_char_def by blast
  moreover have "SanitizeVolumeName [] = []" by (simp add: Sanitize_eq clean_name_def)
  ultimately show ?thesis using Sanitize_first [of s] Sanitize_idem [of s] by metis
qed

text \<open>C40. A volume ID is read back into the pool and the name it was made of, for every pool
  without a slash; and an ID is rejected exactly when it holds no slash.\<close>

theorem ParseVolumeID_roundtrip:
  "(CHR ''/'' \<notin> set pool \<longrightarrow> ParseVolumeID (pool @ ''/'' @ name) = Inr (pool, name))
   \<and> (isl (ParseVolumeID v) \<longleftrightarrow> CHR ''/'' \<notin> set v)
   \<and> (\<forall>p n. ParseVolumeID v = Inr (p, n) \<longrightarrow> v = p @ ''/'' @ n)"
proof (cases rule: ParseVolumeID_cases [of v])
  case (bad e)
  then show ?thesis using ParseVolumeID_ok by simp
next
  case (good p n)
  then show ?thesis using ParseVolumeID_ok by simp
qed

theorem ParseVolumeID_roundtrip_witness:
  "ParseVolumeID (''tank'' @ ''/'' @ ''k8s/pvc-1'') = Inr (''tank'', ''k8s/pvc-1'')"
  using ParseVolumeID_roundtrip [of "''tank''" "''k8s/pvc-1''" "''x''"] by simp

end
