(* ===== verification/Detached.thy ===== *)
theory Detached
  imports Driver_Core
begin

text \<open>
  \<^verbatim>\<open>pkg/driver/detached.go\<close>: detached snapshots, which are datasets of their own under a
  configured parent, received by a local one-shot replication.

  The pure part validates dataset paths and builds and parses snapshot identifiers. The
  stateful part runs the transfer, clones and creates detached snapshots, and lists them.
\<close>

abbreviation detachedSnapshotProperty :: string where "detachedSnapshotProperty \<equiv> ''ix-csi:detached_snapshot''"
abbreviation detachedSnapshotPropertyValue :: string where "detachedSnapshotPropertyValue \<equiv> ''true''"
abbreviation detachedSnapshotSourcePrefix :: string where "detachedSnapshotSourcePrefix \<equiv> ''csi-detached-snapshot-''"
abbreviation detachedVolumeSourcePrefix :: string where "detachedVolumeSourcePrefix \<equiv> ''csi-detached-volume-''"

record detachedSnapshotInfo =
  dsi_ID :: string
  dsi_SourceVolumeID :: string
  dsi_Name :: string
  dsi_Dataset :: Dataset

section \<open>Paths and identifiers\<close>

definition detachedBoolParameter :: "smap \<Rightarrow> string \<Rightarrow> goerr + bool" where
  "detachedBoolParameter parameters key =
     (case lookup parameters key of
        None \<Rightarrow> Inr False
      | Some val \<Rightarrow>
          if val = [] then Inr False
          else (let v = ToLower (TrimSpace val) in
            if v \<noteq> ''true'' \<and> v \<noteq> ''false'' then
              Inl (Errorf (''invalid '' @ key @ '' value: '' @ v @ '' (valid: true, false)''))
            else Inr (v = ''true'')))"

definition datasetPathsOverlap :: "string \<Rightarrow> string \<Rightarrow> bool" where
  "datasetPathsOverlap first second =
     (let first = TrimSuffix (TrimSpace first) ''/''; second = TrimSuffix (TrimSpace second) ''/'' in
      first \<noteq> [] \<and> second \<noteq> [] \<and>
      (first = second \<or> HasPrefix first (second @ ''/'') \<or> HasPrefix second (first @ ''/'')))"

definition bad_part :: "string \<Rightarrow> bool" where
  "bad_part part \<longleftrightarrow> part = [] \<or> part = ''.'' \<or> part = ''..'' \<or> Contains part ''@''"

definition validateDatasetPath :: "string \<Rightarrow> goerr option" where
  "validateDatasetPath path =
     (if path = [] \<or> HasPrefix path ''/'' \<or> HasSuffix path ''/'' then
        Some (Errorf ''dataset path must be non-empty and relative'')
      else if list_ex bad_part (split_char CHR ''/'' path) then
        Some (Errorf (''invalid dataset path '' @ Quote path))
      else None)"

definition splitVolumeID :: "string \<Rightarrow> goerr + string \<times> string" where
  "splitVolumeID volumeID =
     (case splitn2 CHR ''/'' volumeID of
        [pool, name] \<Rightarrow>
          if pool = [] \<or> name = [] then Inl (Errorf (''invalid volume ID '' @ Quote volumeID))
          else (case validateDatasetPath volumeID of
                  Some e \<Rightarrow> Inl e
                | None \<Rightarrow> Inr (pool, name))
      | _ \<Rightarrow> Inl (Errorf (''invalid volume ID '' @ Quote volumeID)))"

definition detachedSnapshotParts :: "string \<Rightarrow> goerr + string \<times> string" where
  "detachedSnapshotParts sid =
     (if Contains sid ''@'' then Inl (Errorf (''snapshot ID '' @ Quote sid @ '' is a regular ZFS snapshot''))
      else case validateDatasetPath sid of
        Some e \<Rightarrow> Inl e
      | None \<Rightarrow> (let separator = LastIndexByte sid CHR ''/'' in
          if separator \<le> 0 \<or> separator = int (length sid) - 1 then
            Inl (Errorf (''invalid detached snapshot ID '' @ Quote sid))
          else (let sourceVolumeID = take (nat separator) sid; snapshotName = drop (nat separator + 1) sid in
            case splitVolumeID sourceVolumeID of
              Inl e \<Rightarrow> Inl (Wrapf (''invalid source volume in detached snapshot ID '' @ Quote sid @ '': '') e)
            | Inr _ \<Rightarrow> Inr (sourceVolumeID, snapshotName))))"

definition detachedSnapshotDataset :: "string \<Rightarrow> string \<Rightarrow> goerr + string" where
  "detachedSnapshotDataset parent sid =
     (case validateDatasetPath parent of
        Some e \<Rightarrow> Inl e
      | None \<Rightarrow> (case detachedSnapshotParts sid of
          Inl e \<Rightarrow> Inl e
        | Inr _ \<Rightarrow> Inr (TrimSuffix parent ''/'' @ ''/'' @ sid)))"

definition datasetCapacity :: "Dataset \<Rightarrow> int" where
  "datasetCapacity dataset =
     (if ds_Type dataset = datasetTypeVolume \<and> ds_Volsize dataset > 0 then ds_Volsize dataset
      else if ds_RefQuota dataset > 0 then ds_RefQuota dataset
      else ds_Used dataset)"

definition detachedParent :: "'w driver \<Rightarrow> goerr + string" where
  "detachedParent d =
     (let parent = d_detachedSnapshotParentDataset d in
      if parent = [] then
        Inl (Errorf ''detached snapshots require TRUENAS_DETACHED_SNAPSHOT_PARENT_DATASET'')
      else case validateDatasetPath parent of
        Some e \<Rightarrow> Inl (Wrapf (''invalid detached snapshot dataset parent '' @ Quote parent @ '': '') e)
      | None \<Rightarrow> Inr parent)"

definition validateDetachedSource :: "'w driver \<Rightarrow> string \<Rightarrow> goerr option" where
  "validateDetachedSource d sourceDataset =
     (case detachedParent d of
        Inl e \<Rightarrow> Some e
      | Inr parent \<Rightarrow> (case validateDatasetPath sourceDataset of
          Some e \<Rightarrow> Some e
        | None \<Rightarrow>
            if datasetPathsOverlap parent sourceDataset then
              Some (Errorf (''detached snapshot dataset parent '' @ Quote parent @ '' overlaps source dataset ''
                @ Quote sourceDataset))
            else None))"

definition validateDetachedTarget :: "'w driver \<Rightarrow> string \<Rightarrow> goerr option" where
  "validateDetachedTarget d targetDataset =
     (case detachedParent d of
        Inl e \<Rightarrow> Some e
      | Inr parent \<Rightarrow> (case validateDatasetPath targetDataset of
          Some e \<Rightarrow> Some e
        | None \<Rightarrow>
            if datasetPathsOverlap parent targetDataset then
              Some (Errorf (''detached snapshot dataset parent '' @ Quote parent @ '' overlaps target dataset ''
                @ Quote targetDataset))
            else None))"

definition validateDetachedVolumePaths :: "string \<Rightarrow> string \<Rightarrow> goerr option" where
  "validateDetachedVolumePaths sourceDataset targetDataset =
     (case validateDatasetPath sourceDataset of
        Some e \<Rightarrow> Some (Wrapf (''invalid detached volume source '' @ Quote sourceDataset @ '': '') e)
      | None \<Rightarrow> (case validateDatasetPath targetDataset of
          Some e \<Rightarrow> Some (Wrapf (''invalid detached volume target '' @ Quote targetDataset @ '': '') e)
        | None \<Rightarrow>
            if datasetPathsOverlap sourceDataset targetDataset then
              Some (Errorf (''detached volume source '' @ Quote sourceDataset @ '' overlaps target ''
                @ Quote targetDataset))
            else None))"

definition isDetachedSnapshotDataset :: "Dataset \<Rightarrow> bool" where
  "isDetachedSnapshotDataset dataset \<longleftrightarrow>
     get_str (ds_UserProperties dataset) detachedSnapshotProperty = detachedSnapshotPropertyValue"

definition datasetPathForEntry :: "Dataset \<Rightarrow> string" where
  "datasetPathForEntry dataset = (if ds_ID dataset \<noteq> [] then ds_ID dataset else ds_Name dataset)"

section \<open>Datasets and temporary snapshots\<close>

definition zero_DatasetCreateOptions :: DatasetCreateOptions where
  "zero_DatasetCreateOptions = \<lparr>dco_Name = [], dco_Type = [], dco_RefQuota = 0, dco_RefReservation = 0,
     dco_Quota = 0, dco_Reservation = 0, dco_Compression = [], dco_Deduplication = [], dco_Sync = [],
     dco_RecordSize = [], dco_Volsize = 0, dco_Volblocksize = [], dco_Sparse = None, dco_Comments = [],
     dco_CreateAncestors = False, dco_Properties = [], dco_UserProperties = [], dco_Encryption = False,
     dco_EncryptionOptions = None, dco_InheritEncryption = None\<rparr>"

definition zero_DatasetUpdateOptions :: DatasetUpdateOptions where
  "zero_DatasetUpdateOptions = \<lparr>duo_Comments = [], duo_Sync = [], duo_Compression = [], duo_Exec = [],
     duo_Quota = None, duo_RefQuota = None, duo_Reservation = None, duo_RefReservation = None,
     duo_Checksum = [], duo_Deduplication = [], duo_Readonly = [], duo_Atime = [], duo_RecordSize = [],
     duo_Volsize = None, duo_QuotaWarning = None, duo_QuotaCritical = None, duo_RefQuotaWarning = None,
     duo_RefQuotaCritical = None, duo_UserPropertiesUpdate = []\<rparr>"

definition ensureDataset :: "'w driver \<Rightarrow> string \<Rightarrow> ('w, goerr + unit) prog" where
  "ensureDataset d datasetPath = do {
     r \<leftarrow> GetDataset (d_client d) datasetPath;
     case r of
       Inr _ \<Rightarrow> return (Inr ())
     | Inl e \<Rightarrow>
         if \<not> IsNotFoundError e then return (Inl e)
         else do {
           c \<leftarrow> CreateDataset (d_client d)
                  (zero_DatasetCreateOptions\<lparr>dco_Name := datasetPath, dco_Type := datasetTypeFilesystem,
                     dco_CreateAncestors := True\<rparr>);
           case c of
             Inr _ \<Rightarrow> return (Inr ())
           | Inl err \<Rightarrow> do {
               g \<leftarrow> GetDataset (d_client d) datasetPath;
               return (case g of Inr _ \<Rightarrow> Inr () | Inl _ \<Rightarrow> Inl err) } } }"

definition ensureTargetParent :: "'w driver \<Rightarrow> string \<Rightarrow> ('w, goerr + unit) prog" where
  "ensureTargetParent d targetDataset =
     (let separator = LastIndexByte targetDataset CHR ''/'' in
      if separator \<le> 0 then return (Inr ())
      else ensureDataset d (take (nat separator) targetDataset))"

definition createTemporarySnapshot :: "'w driver \<Rightarrow> string \<Rightarrow> string \<Rightarrow> ('w, goerr + string) prog" where
  "createTemporarySnapshot d dataset name = do {
     r \<leftarrow> CreateSnapshot_client (d_client d) dataset name False;
     return (case r of
         Inr _ \<Rightarrow> Inr (dataset @ ''@'' @ name)
       | Inl e \<Rightarrow>
           if \<not> Contains (ToLower (Error e)) ''already exists'' then Inl e
           else Inr (dataset @ ''@'' @ name)) }"

definition deleteSnapshotIfPresent :: "'w driver \<Rightarrow> string \<Rightarrow> ('w, goerr option) prog" where
  "deleteSnapshotIfPresent d snapshotID = do {
     r \<leftarrow> DeleteSnapshot_client (d_client d) snapshotID;
     return (case r of
         Inr _ \<Rightarrow> None
       | Inl e \<Rightarrow> if \<not> IsNotFoundError e then Some e else None) }"

section \<open>The transfer\<close>

text \<open>\<^verbatim>\<open>regexp.QuoteMeta\<close>.\<close>

definition is_meta :: "char \<Rightarrow> bool" where
  "is_meta c \<longleftrightarrow> c = CHR 0x5C \<or> c \<in> set ''.+*?()|[]{}^$''"

definition QuoteMeta :: "string \<Rightarrow> string" where
  "QuoteMeta s = concat (map (\<lambda>c. if is_meta c then [CHR 0x5C, c] else [c]) s)"

definition replication_options :: "string \<Rightarrow> string \<Rightarrow> string \<Rightarrow> ReplicationRunOnetimeOptions" where
  "replication_options sourceDataset targetDataset snapshotName =
     \<lparr>rro_Direction = ''PUSH'', rro_Transport = ''LOCAL'', rro_SourceDatasets = [sourceDataset],
      rro_TargetDataset = targetDataset, rro_NameRegex = ''^'' @ QuoteMeta snapshotName @ ''$'',
      rro_Recursive = False, rro_Properties = False, rro_Readonly = ''IGNORE'',
      rro_RetentionPolicy = ''NONE'', rro_OnlyFromScratch = True\<rparr>"

text \<open>Start the replication and wait for it; the result is \<^verbatim>\<open>transferErr\<close>.\<close>

definition replicate_snapshot :: "'w driver \<Rightarrow> string \<Rightarrow> string \<Rightarrow> string \<Rightarrow> ('w, goerr option) prog" where
  "replicate_snapshot d sourceDataset targetDataset snapshotName = do {
     j \<leftarrow> RunReplicationOnetime (d_client d) (replication_options sourceDataset targetDataset snapshotName);
     case j of
       Inl e \<Rightarrow> return (Some e)
     | Inr jobID \<Rightarrow> do {
         polls \<leftarrow> gets (\<lambda>s. d_ctxPolls d (world s));
         w \<leftarrow> WaitForJob (d_client d) polls jobID;
         return (case w of
             Inl e \<Rightarrow> Some e
           | Inr job \<Rightarrow>
               if ToUpper (job_State job) \<noteq> ''SUCCESS'' then
                 Some (Errorf (''TrueNAS replication job '' @ Itoa (job_ID job) @ '' finished in state ''
                   @ job_State job @ '': '' @ job_Error job @ '' '' @ job_Exception job))
               else None) } }"

text \<open>\<^verbatim>\<open>if err != nil && transferErr == nil { transferErr = fmt.Errorf(prefix%w) }\<close>.\<close>

definition first_error :: "goerr option \<Rightarrow> string \<Rightarrow> goerr option \<Rightarrow> goerr option" where
  "first_error transferErr pre err =
     (case err of
        Some e \<Rightarrow> (case transferErr of None \<Rightarrow> Some (Wrapf pre e) | Some t \<Rightarrow> Some t)
      | None \<Rightarrow> transferErr)"

definition transferDetachedSnapshot :: "'w driver \<Rightarrow> string \<Rightarrow> string \<Rightarrow> bool \<Rightarrow> ('w, goerr option) prog" where
  "transferDetachedSnapshot d sourceSnapshotID targetDataset deleteSource =
     (let separator = LastIndexByte sourceSnapshotID CHR ''@'' in
      if separator \<le> 0 \<or> separator = int (length sourceSnapshotID) - 1 then
        return (Some (Errorf (''invalid source snapshot ID '' @ Quote sourceSnapshotID)))
      else (let sourceDataset = take (nat separator) sourceSnapshotID;
                snapshotName = drop (nat separator + 1) sourceSnapshotID;
                targetSnapshotID = targetDataset @ ''@'' @ snapshotName in
        case validateDatasetPath targetDataset of
          Some e \<Rightarrow> return (Some e)
        | None \<Rightarrow> do {
            p \<leftarrow> ensureTargetParent d targetDataset;
            case p of
              Inl e \<Rightarrow> return (Some (Wrapf ''failed to create target dataset parent: '' e))
            | Inr _ \<Rightarrow> do {
                t \<leftarrow> GetDataset (d_client d) targetDataset;
                transferErr \<leftarrow> (case t of
                    Inl e \<Rightarrow> if IsNotFoundError e then replicate_snapshot d sourceDataset targetDataset snapshotName
                             else return (Some e)
                  | Inr _ \<Rightarrow> return None);
                r \<leftarrow> deleteSnapshotIfPresent d targetSnapshotID;
                let transferErr = first_error transferErr
                      (''failed to remove received snapshot '' @ targetSnapshotID @ '': '') r;
                if deleteSource then do {
                  q \<leftarrow> deleteSnapshotIfPresent d sourceSnapshotID;
                  return (first_error transferErr
                    (''failed to remove temporary source snapshot '' @ sourceSnapshotID @ '': '') q) }
                else return transferErr } }))"

section \<open>Listing\<close>

definition detached_entry :: "string \<Rightarrow> string \<Rightarrow> Dataset \<Rightarrow> detachedSnapshotInfo option" where
  "detached_entry parent sourceVolumeID dataset =
     (let fullPath = datasetPathForEntry dataset;
          pre = (if sourceVolumeID \<noteq> [] then parent @ ''/'' @ sourceVolumeID @ ''/'' else parent @ ''/'') in
      if \<not> isDetachedSnapshotDataset dataset then None
      else if \<not> HasPrefix fullPath pre then None
      else (let relative = TrimPrefix fullPath (parent @ ''/'');
                separator = LastIndexByte relative CHR ''/'' in
        if separator \<le> 0 \<or> separator = int (length relative) - 1 then None
        else (let sourceID = take (nat separator) relative; name = drop (nat separator + 1) relative in
          if sourceVolumeID \<noteq> [] \<and> sourceID \<noteq> sourceVolumeID then None
          else Some \<lparr>dsi_ID = sourceID @ ''/'' @ name, dsi_SourceVolumeID = sourceID, dsi_Name = name,
                     dsi_Dataset = dataset\<rparr>)))"

definition listDetachedSnapshots :: "'w driver \<Rightarrow> string \<Rightarrow> ('w, goerr + detachedSnapshotInfo list) prog" where
  "listDetachedSnapshots d sourceVolumeID =
     (case detachedParent d of
        Inl e \<Rightarrow> return (Inl e)
      | Inr parent \<Rightarrow> do {
          r \<leftarrow> ListDatasets (d_client d) (ExtractPoolFromPath parent);
          return (case r of
              Inl e \<Rightarrow> Inl e
            | Inr datasets \<Rightarrow> Inr (List.map_filter (detached_entry parent sourceVolumeID) datasets)) })"

definition findDetachedSnapshotByName :: "'w driver \<Rightarrow> string \<Rightarrow> ('w, goerr + detachedSnapshotInfo option) prog" where
  "findDetachedSnapshotByName d name = do {
     r \<leftarrow> listDetachedSnapshots d [];
     return (case r of Inl e \<Rightarrow> Inl e | Inr snapshots \<Rightarrow> Inr (find (\<lambda>s. dsi_Name s = name) snapshots)) }"

section \<open>Clones and detached snapshots\<close>

definition temp_volume_name :: "string \<Rightarrow> string" where
  "temp_volume_name volumeID =
     detachedVolumeSourcePrefix @ SanitizeVolumeName (ReplaceAll1 CHR ''/'' CHR ''-'' volumeID)"

text \<open>The part of \<^verbatim>\<open>cloneDetachedSnapshot\<close> that runs once every path has been validated.\<close>

definition clone_detached_dataset :: "'w driver \<Rightarrow> string \<Rightarrow> string \<Rightarrow> string \<Rightarrow> string \<Rightarrow> ('w, goerr option) prog" where
  "clone_detached_dataset d snapshotID sourceVolumeID sourceDataset targetDataset = do {
     r \<leftarrow> GetDataset (d_client d) sourceDataset;
     case r of
       Inl e \<Rightarrow>
         if IsNotFoundError e then
           return (Some (Errorf (''detached source snapshot '' @ snapshotID @ '' was not found'')))
         else return (Some e)
     | Inr dataset \<Rightarrow>
         if \<not> isDetachedSnapshotDataset dataset then
           return (Some (Errorf (''detached source snapshot '' @ snapshotID @ '' is not managed by ix-csi'')))
         else do {
           t \<leftarrow> createTemporarySnapshot d sourceDataset (temp_volume_name sourceVolumeID);
           case t of
             Inl e \<Rightarrow> return (Some (Wrapf ''failed to create temporary snapshot for detached clone: '' e))
           | Inr tempSnapshotID \<Rightarrow> transferDetachedSnapshot d tempSnapshotID targetDataset True } }"

definition cloneDetachedSnapshot :: "'w driver \<Rightarrow> string \<Rightarrow> string \<Rightarrow> ('w, goerr option) prog" where
  "cloneDetachedSnapshot d snapshotID targetDataset =
     (if Contains snapshotID ''@'' then
        (let separator = LastIndexByte snapshotID CHR ''@'' in
         if separator \<le> 0 then return (Some (Errorf (''invalid source snapshot ID '' @ Quote snapshotID)))
         else case validateDetachedVolumePaths (take (nat separator) snapshotID) targetDataset of
           Some e \<Rightarrow> return (Some e)
         | None \<Rightarrow> transferDetachedSnapshot d snapshotID targetDataset False)
      else case detachedParent d of
        Inl e \<Rightarrow> return (Some e)
      | Inr parent \<Rightarrow> (case detachedSnapshotParts snapshotID of
          Inl e \<Rightarrow> return (Some e)
        | Inr (sourceVolumeID, _) \<Rightarrow> (case validateDetachedTarget d targetDataset of
            Some e \<Rightarrow> return (Some e)
          | None \<Rightarrow> (case detachedSnapshotDataset parent snapshotID of
              Inl e \<Rightarrow> return (Some e)
            | Inr sourceDataset \<Rightarrow> (case validateDetachedVolumePaths sourceDataset targetDataset of
                Some e \<Rightarrow> return (Some e)
              | None \<Rightarrow> clone_detached_dataset d snapshotID sourceVolumeID sourceDataset targetDataset)))))"

definition markDetachedSnapshot :: "'w driver \<Rightarrow> string \<Rightarrow> ('w, goerr + unit) prog" where
  "markDetachedSnapshot d datasetPath =
     UpdateDataset (d_client d) datasetPath
       (zero_DatasetUpdateOptions\<lparr>duo_UserPropertiesUpdate :=
          [user_property detachedSnapshotProperty detachedSnapshotPropertyValue]\<rparr>)"

text \<open>The creation proper, once no snapshot of that name and no dataset at the target exist.\<close>

definition make_detached_snapshot :: "'w driver \<Rightarrow> string \<Rightarrow> string \<Rightarrow> string \<Rightarrow> string \<Rightarrow> string \<Rightarrow> string
    \<Rightarrow> ('w, goerr + string) prog" where
  "make_detached_snapshot d parent sourceVolumeID snapshotName sourceDataset targetDataset detachedID = do {
     p \<leftarrow> ensureDataset d parent;
     case p of
       Inl e \<Rightarrow> return (Inl (Wrapf ''failed to create detached snapshot parent: '' e))
     | Inr _ \<Rightarrow> do {
         c \<leftarrow> ensureDataset d (TrimSuffix parent ''/'' @ ''/'' @ sourceVolumeID);
         case c of
           Inl e \<Rightarrow> return (Inl (Wrapf ''failed to create detached snapshot container: '' e))
         | Inr _ \<Rightarrow> do {
             t \<leftarrow> createTemporarySnapshot d sourceDataset (detachedSnapshotSourcePrefix @ snapshotName);
             case t of
               Inl e \<Rightarrow> return (Inl (Wrapf ''failed to create temporary snapshot: '' e))
             | Inr tempSnapshotID \<Rightarrow> do {
                 x \<leftarrow> transferDetachedSnapshot d tempSnapshotID targetDataset True;
                 case x of
                   Some e \<Rightarrow> return (Inl e)
                 | None \<Rightarrow> do {
                     m \<leftarrow> markDetachedSnapshot d targetDataset;
                     return (case m of
                         Inl e \<Rightarrow> Inl (Wrapf ''failed to mark detached snapshot: '' e)
                       | Inr _ \<Rightarrow> Inr detachedID) } } } } }"

definition createDetachedSnapshot :: "'w driver \<Rightarrow> string \<Rightarrow> string \<Rightarrow> string \<Rightarrow> ('w, goerr + string) prog" where
  "createDetachedSnapshot d sourceVolumeID snapshotName sourceDataset =
     (case detachedParent d of
        Inl e \<Rightarrow> return (Inl e)
      | Inr parent \<Rightarrow> (case validateDetachedSource d sourceDataset of
          Some e \<Rightarrow> return (Inl e)
        | None \<Rightarrow> (let detachedID = sourceVolumeID @ ''/'' @ snapshotName in
            case detachedSnapshotDataset parent detachedID of
              Inl e \<Rightarrow> return (Inl e)
            | Inr targetDataset \<Rightarrow> do {
                f \<leftarrow> findDetachedSnapshotByName d snapshotName;
                case f of
                  Inl e \<Rightarrow> return (Inl e)
                | Inr (Some existing) \<Rightarrow>
                    if dsi_ID existing = detachedID then return (Inr detachedID)
                    else return (Inl (Errorf (''detached snapshot name '' @ snapshotName
                           @ '' already exists for source volume '' @ dsi_SourceVolumeID existing)))
                | Inr None \<Rightarrow> do {
                    g \<leftarrow> GetDataset (d_client d) targetDataset;
                    case g of
                      Inr existing \<Rightarrow>
                        if \<not> isDetachedSnapshotDataset existing then
                          return (Inl (Errorf (''detached snapshot target '' @ targetDataset
                            @ '' already exists and is not managed by ix-csi'')))
                        else return (Inr detachedID)
                    | Inl e \<Rightarrow>
                        if \<not> IsNotFoundError e then return (Inl e)
                        else make_detached_snapshot d parent sourceVolumeID snapshotName sourceDataset
                               targetDataset detachedID } })))"

definition cloneDetachedVolume :: "'w driver \<Rightarrow> string \<Rightarrow> string \<Rightarrow> string \<Rightarrow> ('w, goerr option) prog" where
  "cloneDetachedVolume d sourceDataset targetDataset volumeID =
     (case validateDetachedVolumePaths sourceDataset targetDataset of
        Some e \<Rightarrow> return (Some e)
      | None \<Rightarrow> do {
          t \<leftarrow> createTemporarySnapshot d sourceDataset (temp_volume_name volumeID);
          case t of
            Inl e \<Rightarrow> return (Some (Wrapf ''failed to create temporary snapshot for detached volume clone: '' e))
          | Inr tempSnapshotID \<Rightarrow> transferDetachedSnapshot d tempSnapshotID targetDataset True })"

end
