(* ===== verification/Controller_Params.thy ===== *)
theory Controller_Params
  imports Detached
begin

text \<open>
  The part of \<^verbatim>\<open>pkg/driver/controller.go\<close> that turns a request's parameters into options for
  the appliance: capability and StorageClass validation, names of iSCSI targets, extents and
  NVMe subsystems, dataset properties, encryption, NFS share mapping, ZVOL options and
  snapshot tasks. The capability tables of \<^verbatim>\<open>driver.go\<close> and the CSI message types the
  controller reads are here too.
\<close>

section \<open>CSI messages\<close>

datatype access_mode =
    UNKNOWN | SINGLE_NODE_WRITER | SINGLE_NODE_READER_ONLY | MULTI_NODE_READER_ONLY
  | MULTI_NODE_SINGLE_WRITER | MULTI_NODE_MULTI_WRITER | SINGLE_NODE_SINGLE_WRITER
  | SINGLE_NODE_MULTI_WRITER

fun mode_String :: "access_mode \<Rightarrow> string" where
  "mode_String UNKNOWN = ''UNKNOWN''"
| "mode_String SINGLE_NODE_WRITER = ''SINGLE_NODE_WRITER''"
| "mode_String SINGLE_NODE_READER_ONLY = ''SINGLE_NODE_READER_ONLY''"
| "mode_String MULTI_NODE_READER_ONLY = ''MULTI_NODE_READER_ONLY''"
| "mode_String MULTI_NODE_SINGLE_WRITER = ''MULTI_NODE_SINGLE_WRITER''"
| "mode_String MULTI_NODE_MULTI_WRITER = ''MULTI_NODE_MULTI_WRITER''"
| "mode_String SINGLE_NODE_SINGLE_WRITER = ''SINGLE_NODE_SINGLE_WRITER''"
| "mode_String SINGLE_NODE_MULTI_WRITER = ''SINGLE_NODE_MULTI_WRITER''"

datatype access_type = AccessBlock | AccessMount string "string list" | AccessUnset

record VolumeCapability =
  cap_AccessType :: access_type
  cap_AccessMode :: "access_mode option"

definition cap_is_block :: "VolumeCapability \<Rightarrow> bool" where
  "cap_is_block c \<longleftrightarrow> cap_AccessType c = AccessBlock"

definition cap_is_mount :: "VolumeCapability \<Rightarrow> bool" where
  "cap_is_mount c = (case cap_AccessType c of AccessMount _ _ \<Rightarrow> True | _ \<Rightarrow> False)"

record CapacityRange =
  cr_RequiredBytes :: int
  cr_LimitBytes :: int

record CreateVolumeRequest =
  cvr_Name :: string
  cvr_CapacityRange :: "CapacityRange option"
  cvr_VolumeCapabilities :: "VolumeCapability list"
  cvr_Parameters :: smap
  cvr_Secrets :: smap
  cvr_VolumeContentSource :: "content_source option"

record Volume =
  vol_VolumeId :: string
  vol_CapacityBytes :: int
  vol_VolumeContext :: smap
  vol_ContentSource :: "content_source option"

section \<open>Capabilities of the driver\<close>

datatype controller_cap =
    CREATE_DELETE_VOLUME | PUBLISH_UNPUBLISH_VOLUME | CREATE_DELETE_SNAPSHOT | LIST_SNAPSHOTS
  | CLONE_VOLUME | EXPAND_VOLUME | LIST_VOLUMES | GET_CAPACITY | GET_VOLUME

datatype node_cap = STAGE_UNSTAGE_VOLUME | GET_VOLUME_STATS | NODE_EXPAND_VOLUME

datatype plugin_cap = CONTROLLER_SERVICE | VOLUME_EXPANSION_ONLINE

definition controllerCaps :: "controller_cap list" where
  "controllerCaps = [CREATE_DELETE_VOLUME, PUBLISH_UNPUBLISH_VOLUME, CREATE_DELETE_SNAPSHOT, LIST_SNAPSHOTS,
     CLONE_VOLUME, EXPAND_VOLUME, LIST_VOLUMES, GET_CAPACITY, GET_VOLUME]"

definition nodeCaps :: "node_cap list" where
  "nodeCaps = [STAGE_UNSTAGE_VOLUME, GET_VOLUME_STATS, NODE_EXPAND_VOLUME]"

definition pluginCaps :: "plugin_cap list" where
  "pluginCaps = [CONTROLLER_SERVICE, VOLUME_EXPANSION_ONLINE]"

definition volumeCaps :: "access_mode list" where
  "volumeCaps = [SINGLE_NODE_WRITER, SINGLE_NODE_READER_ONLY, SINGLE_NODE_SINGLE_WRITER,
     MULTI_NODE_READER_ONLY, MULTI_NODE_SINGLE_WRITER, MULTI_NODE_MULTI_WRITER]"

fun validateVolumeCapabilities :: "VolumeCapability list \<Rightarrow> goerr option" where
  "validateVolumeCapabilities [] = None"
| "validateVolumeCapabilities (c # caps) =
     (if \<not> cap_is_block c \<and> \<not> cap_is_mount c then
        Some (Errorf ''either block or mount volume capability is required'')
      else case cap_AccessMode c of
        None \<Rightarrow> Some (Errorf ''access mode is required'')
      | Some mode \<Rightarrow>
          if mode \<notin> set volumeCaps then Some (Errorf (''access mode '' @ mode_String mode @ '' not supported''))
          else validateVolumeCapabilities caps)"

section \<open>StorageClass parameters\<close>

definition minVolumeSize :: int where "minVolumeSize = 2 ^ 30"

definition ValidCompressionAlgorithms :: "string list" where
  "ValidCompressionAlgorithms = [''OFF'', ''LZ4'', ''GZIP'', ''GZIP-1'', ''GZIP-9'', ''ZSTD'', ''ZSTD-1'', ''ZSTD-3'',
     ''ZSTD-5'', ''ZSTD-7'', ''ZSTD-9'', ''ZLE'', ''LZJB'']"

definition ValidVolBlockSizes :: "string list" where
  "ValidVolBlockSizes = [''512'', ''1K'', ''2K'', ''4K'', ''8K'', ''16K'', ''32K'', ''64K'', ''128K'']"

definition ValidISCSIBlockSizes :: "int list" where
  "ValidISCSIBlockSizes = [512, 1024, 2048, 4096]"

definition validNVMeOFHashes :: "string list" where
  "validNVMeOFHashes = [''SHA-256'', ''SHA-384'', ''SHA-512'']"

definition validNVMeOFDHGroups :: "string list" where
  "validNVMeOFDHGroups = [''2048-BIT'', ''3072-BIT'', ''4096-BIT'', ''6144-BIT'', ''8192-BIT'']"

definition secretOrParam :: "smap \<Rightarrow> smap \<Rightarrow> string \<Rightarrow> string" where
  "secretOrParam secrets parameters key =
     (if get_str secrets key \<noteq> [] then get_str secrets key else get_str parameters key)"

definition validateNVMeOFParameters :: "smap \<Rightarrow> smap \<Rightarrow> goerr option" where
  "validateNVMeOFParameters parameters secrets =
     (let hostNQN = get_str parameters ''nvmeof.hostNQN'';
          key = secretOrParam secrets parameters ''nvmeof.dhchapKey'';
          ctrlKey = secretOrParam secrets parameters ''nvmeof.dhchapCtrlKey'';
          h = get_str parameters ''nvmeof.dhchapHash'';
          g = get_str parameters ''nvmeof.dhchapDHGroup'' in
      if key \<noteq> [] \<and> hostNQN = [] then
        Some (Errorf ''nvmeof.hostNQN is required when nvmeof.dhchapKey is set'')
      else if ctrlKey \<noteq> [] \<and> key = [] then
        Some (Errorf ''nvmeof.dhchapCtrlKey (mutual auth) requires nvmeof.dhchapKey'')
      else if h \<noteq> [] \<and> h \<notin> set validNVMeOFHashes then
        Some (Errorf (''invalid nvmeof.dhchapHash: '' @ h @ '' (valid: SHA-256, SHA-384, SHA-512)''))
      else if g \<noteq> [] \<and> g \<notin> set validNVMeOFDHGroups then
        Some (Errorf (''invalid nvmeof.dhchapDHGroup: '' @ g
          @ '' (valid: 2048-BIT, 3072-BIT, 4096-BIT, 6144-BIT, 8192-BIT)''))
      else None)"

text \<open>The checks of \<^verbatim>\<open>validateStorageClassParameters\<close>, in the order of the source; the pool is
  looked up on the appliance between the two pure groups.\<close>

definition check_param :: "smap \<Rightarrow> string \<Rightarrow> (string \<Rightarrow> bool) \<Rightarrow> (string \<Rightarrow> goerr) \<Rightarrow> goerr option" where
  "check_param parameters key ok err =
     (case lookup parameters key of None \<Rightarrow> None | Some val \<Rightarrow> if ok val then None else Some (err val))"

fun first_failure :: "goerr option list \<Rightarrow> goerr option" where
  "first_failure [] = None"
| "first_failure (Some e # rs) = Some e"
| "first_failure (None # rs) = first_failure rs"

definition params_before_pool :: "smap \<Rightarrow> smap \<Rightarrow> goerr option" where
  "params_before_pool parameters secrets = first_failure [
     check_param parameters ''compression'' (\<lambda>val. ToUpper val \<in> set ValidCompressionAlgorithms)
       (\<lambda>val. Errorf (''invalid compression algorithm: '' @ val @ '' (valid: OFF, LZ4, GZIP, ZSTD, ZLE, LZJB)'')),
     check_param parameters ''protocol''
       (\<lambda>val. ToLower val \<in> {ProtocolNFS, ProtocolISCSI, ProtocolNVMeOF})
       (\<lambda>val. Errorf (''invalid protocol: '' @ ToLower val @ '' (valid: nfs, iscsi, nvmeof)'')),
     validateNVMeOFParameters parameters secrets]"

definition iscsi_blocksize_ok :: "string \<Rightarrow> bool" where
  "iscsi_blocksize_ok val = (case Atoi val of None \<Rightarrow> False | Some bs \<Rightarrow> bs \<in> set ValidISCSIBlockSizes)"

definition retention_ok :: "string \<Rightarrow> bool" where
  "retention_ok val = (case Atoi val of None \<Rightarrow> False | Some days \<Rightarrow> 1 \<le> days \<and> days \<le> 365)"

definition template_failure :: "'w driver \<Rightarrow> smap \<Rightarrow> goerr option" where
  "template_failure d parameters =
     (case lookup parameters ''datasetDescription'' of
        None \<Rightarrow> None
      | Some val \<Rightarrow> map_option (Wrapf ''invalid datasetDescription template: '') (d_templateParse d val))"

definition params_after_pool :: "'w driver \<Rightarrow> smap \<Rightarrow> goerr option" where
  "params_after_pool d parameters = first_failure [
     check_param parameters ''volblocksize'' (\<lambda>val. ToUpper val \<in> set ValidVolBlockSizes)
       (\<lambda>val. Errorf (''invalid volblocksize: '' @ val @ '' (valid: 512, 1K, 2K, 4K, 8K, 16K, 32K, 64K, 128K)'')),
     check_param parameters ''iscsi.blocksize'' iscsi_blocksize_ok
       (\<lambda>val. Errorf (''invalid iscsi.blocksize: '' @ val @ '' (valid: 512, 1024, 2048, 4096)'')),
     check_param parameters ''sparse'' (\<lambda>val. ToLower val = ''true'' \<or> ToLower val = ''false'')
       (\<lambda>val. Errorf (''invalid sparse value: '' @ val @ '' (valid: true, false)'')),
     (case detachedBoolParameter parameters ''detachedVolumes'' of Inl e \<Rightarrow> Some e | Inr _ \<Rightarrow> None),
     template_failure d parameters,
     check_param parameters ''datasetPath''
       (\<lambda>val. val = [] \<or> \<not> (Contains val ''..'' \<or> HasPrefix val ''/'' \<or> HasSuffix val ''/''))
       (\<lambda>val. Errorf (''invalid datasetPath: '' @ val @ '' (must be a relative path with no '' @ [CHR 0x27]
          @ ''..'' @ [CHR 0x27] @ '' components)'')),
     check_param parameters ''snapshot.schedule'' (\<lambda>val. val = [] \<or> length (Fields val) = 5)
       (\<lambda>val. Errorf (''invalid snapshot.schedule: expected 5 fields (minute hour dom month dow), got ''
          @ Itoa (int (length (Fields val))))),
     check_param parameters ''snapshot.retention'' (\<lambda>val. val = [] \<or> retention_ok val)
       (\<lambda>val. Errorf (''invalid snapshot.retention: '' @ val @ '' (valid: 1-365 days)''))]"

definition validateStorageClassParameters :: "'w driver \<Rightarrow> smap \<Rightarrow> smap \<Rightarrow> ('w, goerr option) prog" where
  "validateStorageClassParameters d parameters secrets =
     (case params_before_pool parameters secrets of
        Some e \<Rightarrow> return (Some e)
      | None \<Rightarrow> (case lookup parameters ''pool'' of
          None \<Rightarrow> return (params_after_pool d parameters)
        | Some pool \<Rightarrow> do {
            r \<leftarrow> GetPool (d_client d) pool;
            return (case r of
                Inl _ \<Rightarrow> Some (Errorf (''pool '' @ pool @ '' does not exist or is not accessible''))
              | Inr _ \<Rightarrow> params_after_pool d parameters) }))"

section \<open>Names of iSCSI and NVMe objects\<close>

definition name_char :: "string \<Rightarrow> char \<Rightarrow> bool" where
  "name_char extra c \<longleftrightarrow> is_lower c \<or> is_digit c \<or> c \<in> set extra"

definition safe_name :: "string \<Rightarrow> string \<Rightarrow> string" where
  "safe_name extra s = map (\<lambda>c. if name_char extra c then c else CHR ''-'') s"

definition makeISCSITargetSuffix :: "string \<Rightarrow> string" where
  "makeISCSITargetSuffix volumeID =
     (let suffix = safe_name ''.-:'' (ToLower (''csi-'' @ volumeID)) in
      if length suffix > 120 then take 120 suffix else suffix)"

definition makeISCSIExtentName :: "string \<Rightarrow> string" where
  "makeISCSIExtentName volumeID = (if length volumeID > 64 then take 64 volumeID else volumeID)"

definition makeNVMeSubsysName :: "string \<Rightarrow> string" where
  "makeNVMeSubsysName volumeID =
     (let name = safe_name ''.-'' (ToLower (''csi-'' @ volumeID)) in
      if length name > 200 then take 200 name else name)"

definition isZVOLProtocol :: "string \<Rightarrow> bool" where
  "isZVOLProtocol protocol \<longleftrightarrow> protocol = ProtocolISCSI \<or> protocol = ProtocolNVMeOF"

section \<open>Dataset properties\<close>

text \<open>\<^verbatim>\<open>renderDatasetDescription\<close>: nothing configured, an error, or the rendered text.\<close>

definition renderDatasetDescription :: "'w driver \<Rightarrow> smap \<Rightarrow> goerr + string option" where
  "renderDatasetDescription d parameters =
     (case lookup parameters ''datasetDescription'' of
        None \<Rightarrow> Inr None
      | Some source \<Rightarrow> (case d_templateParse d source of
          Some e \<Rightarrow> Inl e
        | None \<Rightarrow> (case d_templateExecute d source parameters
              [(''name'', get_str parameters ''csi.storage.k8s.io/pvc/name''),
               (''namespace'', get_str parameters ''csi.storage.k8s.io/pvc/namespace'')]
              [(''name'', get_str parameters ''csi.storage.k8s.io/pv/name'')] of
            Inl e \<Rightarrow> Inl e
          | Inr rendered \<Rightarrow> Inr (Some rendered))))"

abbreviation datasetDescriptionProperty :: string where "datasetDescriptionProperty \<equiv> ''org.freenas:description''"

definition zfs_properties :: "smap \<Rightarrow> smap" where
  "zfs_properties parameters =
     List.map_filter (\<lambda>(key, v). map_option (\<lambda>propName. (propName, v)) (CutPrefix key ''zfs.'')) parameters"

definition datasetPropertiesFromParameters :: "'w driver \<Rightarrow> smap \<Rightarrow> goerr + smap" where
  "datasetPropertiesFromParameters d parameters =
     (case renderDatasetDescription d parameters of
        Inl e \<Rightarrow> Inl (Wrapf ''failed to render datasetDescription template: '' e)
      | Inr None \<Rightarrow> Inr (zfs_properties parameters)
      | Inr (Some description) \<Rightarrow> Inr (put datasetDescriptionProperty description (zfs_properties parameters)))"

definition datasetDescriptionUpdateOptions :: "'w driver \<Rightarrow> smap \<Rightarrow> goerr + DatasetUpdateOptions option" where
  "datasetDescriptionUpdateOptions d parameters =
     (case renderDatasetDescription d parameters of
        Inl e \<Rightarrow> Inl (Wrapf ''failed to render datasetDescription template: '' e)
      | Inr None \<Rightarrow> Inr None
      | Inr (Some description) \<Rightarrow>
          Inr (Some (zero_DatasetUpdateOptions\<lparr>duo_UserPropertiesUpdate :=
            [user_property datasetDescriptionProperty description]\<rparr>)))"

definition setDatasetDescription :: "'w driver \<Rightarrow> string \<Rightarrow> smap \<Rightarrow> ('w, goerr + unit) prog" where
  "setDatasetDescription d datasetPath parameters =
     (case datasetDescriptionUpdateOptions d parameters of
        Inl e \<Rightarrow> return (Inl e)
      | Inr None \<Rightarrow> return (Inr ())
      | Inr (Some options) \<Rightarrow> UpdateDataset (d_client d) datasetPath options)"

section \<open>Encryption\<close>

definition param_is :: "smap \<Rightarrow> string \<Rightarrow> string \<Rightarrow> bool" where
  "param_is parameters key v =
     (case lookup parameters key of None \<Rightarrow> False | Some val \<Rightarrow> EqualFold val v)"

definition param_or :: "smap \<Rightarrow> string \<Rightarrow> string \<Rightarrow> string" where
  "param_or parameters key dflt = (if get_str parameters key \<noteq> [] then get_str parameters key else dflt)"

definition non_empty :: "string \<Rightarrow> string option" where
  "non_empty s = (if s \<noteq> [] then Some s else None)"

definition parseEncryptionOptions :: "smap \<Rightarrow> smap \<Rightarrow> EncryptionOptions option" where
  "parseEncryptionOptions parameters secrets =
     (if \<not> param_is parameters ''encryption'' ''true'' then None
      else (let passphrase = non_empty (secretOrParam secrets parameters ''encryption.passphrase'');
                key = non_empty (secretOrParam secrets parameters ''encryption.key'');
                generate = param_is parameters ''encryption.generateKey'' ''true'' in
        Some \<lparr>eo_GenerateKey = (if passphrase = None \<and> key = None \<and> \<not> generate then True else generate),
              eo_Pbkdf2iters = (case Option.bind (lookup parameters ''encryption.pbkdf2iters'') Atoi of
                                  Some iters \<Rightarrow> if iters \<ge> 100000 then iters else 0
                                | None \<Rightarrow> 0),
              eo_Algorithm = ToUpper (param_or parameters ''encryption.algorithm'' ''AES-256-GCM''),
              eo_Passphrase = passphrase,
              eo_Key = key\<rparr>))"

text \<open>The encryption fields of a dataset creation.\<close>

definition with_encryption :: "smap \<Rightarrow> smap \<Rightarrow> DatasetCreateOptions \<Rightarrow> DatasetCreateOptions" where
  "with_encryption parameters secrets opts =
     (case parseEncryptionOptions parameters secrets of
        None \<Rightarrow> opts
      | Some encOpts \<Rightarrow> opts\<lparr>dco_Encryption := True, dco_EncryptionOptions := Some encOpts,
                           dco_InheritEncryption := Some False\<rparr>)"

definition compression_param :: "smap \<Rightarrow> string" where
  "compression_param parameters =
     (case lookup parameters ''compression'' of Some val \<Rightarrow> ToUpper val | None \<Rightarrow> ''LZ4'')"

definition has_param :: "smap \<Rightarrow> string \<Rightarrow> bool" where
  "has_param parameters key \<longleftrightarrow> lookup parameters key \<noteq> None"

definition buildZVOLCreateOptions :: "'w driver \<Rightarrow> string \<Rightarrow> int \<Rightarrow> smap \<Rightarrow> smap \<Rightarrow> goerr + DatasetCreateOptions" where
  "buildZVOLCreateOptions d datasetPath capacityBytes parameters secrets =
     (case datasetPropertiesFromParameters d parameters of
        Inl e \<Rightarrow> Inl e
      | Inr properties \<Rightarrow>
          Inr (with_encryption parameters secrets (zero_DatasetCreateOptions\<lparr>
            dco_Name := datasetPath,
            dco_Type := datasetTypeVolume,
            dco_Volsize := capacityBytes,
            dco_Volblocksize := (case lookup parameters ''volblocksize'' of Some val \<Rightarrow> val | None \<Rightarrow> ''16K''),
            dco_Compression := compression_param parameters,
            dco_Properties := properties,
            dco_CreateAncestors := has_param parameters ''datasetPath'',
            dco_Sparse := (if param_is parameters ''sparse'' ''true'' then Some True else None)\<rparr>)))"

text \<open>The options of the filesystem dataset that \<^verbatim>\<open>createNFSVolume\<close> builds inline.\<close>

definition nfs_dataset_options :: "'w driver \<Rightarrow> string \<Rightarrow> int \<Rightarrow> smap \<Rightarrow> smap \<Rightarrow> goerr + DatasetCreateOptions" where
  "nfs_dataset_options d datasetPath capacityBytes parameters secrets =
     (case datasetPropertiesFromParameters d parameters of
        Inl e \<Rightarrow> Inl e
      | Inr properties \<Rightarrow>
          Inr (with_encryption parameters secrets (zero_DatasetCreateOptions\<lparr>
            dco_Name := datasetPath,
            dco_Type := datasetTypeFilesystem,
            dco_RefQuota := capacityBytes,
            dco_Compression := compression_param parameters,
            dco_Sync := (case lookup parameters ''sync'' of Some val \<Rightarrow> ToUpper val | None \<Rightarrow> ''STANDARD''),
            dco_Properties := properties,
            dco_CreateAncestors := has_param parameters ''datasetPath''\<rparr>)))"

section \<open>NFS shares\<close>

definition new_share :: "string \<Rightarrow> string \<Rightarrow> NFSShareCreateOptions" where
  "new_share path comment =
     \<lparr>nco_Path = path, nco_Comment = comment, nco_Hosts = [], nco_ReadOnly = False, nco_MapRootUser = None,
      nco_MapRootGroup = None, nco_MapAllUser = None, nco_MapAllGroup = None, nco_Security = [],
      nco_Enabled = True, nco_Networks = [], nco_ExposeSnapshots = False\<rparr>"

definition applyNFSShareParameters :: "NFSShareCreateOptions \<Rightarrow> smap \<Rightarrow> NFSShareCreateOptions" where
  "applyNFSShareParameters opts parameters =
     (let opts = (if param_is parameters ''nfs.rootSquash'' ''false''
                  then opts\<lparr>nco_MapRootUser := Some ''root'', nco_MapRootGroup := Some ''wheel''\<rparr>
                  else opts\<lparr>nco_MapAllUser := Some (param_or parameters ''nfs.mapAllUser'' ''root''),
                            nco_MapAllGroup := Some (param_or parameters ''nfs.mapAllGroup'' ''wheel'')\<rparr>);
          opts = (case lookup parameters ''nfs.hosts'' of
                    Some hosts \<Rightarrow> opts\<lparr>nco_Hosts := split_char CHR '','' hosts\<rparr> | None \<Rightarrow> opts)
      in (case lookup parameters ''nfs.networks'' of
            Some networks \<Rightarrow> opts\<lparr>nco_Networks := split_char CHR '','' networks\<rparr> | None \<Rightarrow> opts))"

section \<open>iSCSI parameters\<close>

definition copyParameters :: "smap \<Rightarrow> smap" where
  "copyParameters m = fold (\<lambda>(k, v) out. put k v out) (rev m) []"

definition copyIfUnset :: "string \<Rightarrow> string \<Rightarrow> smap \<Rightarrow> smap" where
  "copyIfUnset dst src parameters =
     (if get_str parameters dst = [] \<and> get_str parameters src \<noteq> []
      then put dst (get_str parameters src) parameters else parameters)"

definition bridgeISCSICHAPParams :: "smap \<Rightarrow> smap" where
  "bridgeISCSICHAPParams parameters =
     copyIfUnset ''iscsi.chapPasswordIn'' ''iscsi.chapPeerSecret''
       (copyIfUnset ''iscsi.chapUsernameIn'' ''iscsi.chapPeerUser''
         (copyIfUnset ''iscsi.chapPassword'' ''iscsi.chapSecret''
           (copyIfUnset ''iscsi.chapUsername'' ''iscsi.chapUser'' parameters)))"

definition iscsi_blocksize :: "smap \<Rightarrow> int" where
  "iscsi_blocksize parameters =
     (case Option.bind (lookup parameters ''iscsi.blocksize'') Atoi of Some bs \<Rightarrow> bs | None \<Rightarrow> 512)"

section \<open>Snapshot tasks\<close>

definition retention_value :: "smap \<Rightarrow> int" where
  "retention_value parameters =
     (case Option.bind (lookup parameters ''snapshot.retention'') Atoi of
        Some parsed \<Rightarrow> if parsed > 0 then parsed else 2
      | None \<Rightarrow> 2)"

definition retention_unit :: "smap \<Rightarrow> string" where
  "retention_unit parameters =
     (case lookup parameters ''snapshot.retentionUnit'' of
        Some val \<Rightarrow> if ToUpper val \<in> {''HOUR'', ''DAY'', ''WEEK'', ''MONTH'', ''YEAR''} then ToUpper val else ''WEEK''
      | None \<Rightarrow> ''WEEK'')"

text \<open>\<open>None\<close>: no schedule is configured.\<close>

definition snapshot_task_options :: "string \<Rightarrow> smap \<Rightarrow> (goerr + SnapshotTaskCreateOptions) option" where
  "snapshot_task_options datasetPath parameters =
     (let schedule = get_str parameters ''snapshot.schedule'' in
      if schedule = [] then None
      else Some (case Fields schedule of
        minute # hour # dayOfMonth # month # dow # _ \<Rightarrow>
          Inr \<lparr>stco_Dataset = datasetPath,
               stco_Recursive = param_is parameters ''snapshot.recursive'' ''true'',
               stco_LifetimeValue = retention_value parameters,
               stco_LifetimeUnit = retention_unit parameters,
               stco_Enabled = True,
               stco_Exclude = [],
               stco_NamingSchema = param_or parameters ''snapshot.naming'' ''auto-%Y-%m-%d_%H-%M'',
               stco_AllowEmpty = True,
               stco_Schedule = Some \<lparr>sched_Minute = minute, sched_Hour = hour, sched_Dom = dayOfMonth,
                 sched_Month = month, sched_Dow = dow, sched_Begin = ''00:00'', sched_End = ''23:59''\<rparr>\<rparr>
      | _ \<Rightarrow> Inl (Errorf (''invalid snapshot schedule format: expected '' @ [CHR 0x27]
               @ ''minute hour dom month dow'' @ [CHR 0x27]))))"

definition createSnapshotTaskFromParameters :: "'w driver \<Rightarrow> string \<Rightarrow> smap \<Rightarrow> ('w, goerr + SnapshotTask option) prog" where
  "createSnapshotTaskFromParameters d datasetPath parameters =
     (case snapshot_task_options datasetPath parameters of
        None \<Rightarrow> return (Inr None)
      | Some (Inl e) \<Rightarrow> return (Inl e)
      | Some (Inr opts) \<Rightarrow> do {
          r \<leftarrow> CreateSnapshotTask (d_client d) opts;
          return (case r of
              Inl e \<Rightarrow> Inl (Wrapf ''failed to create snapshot task: '' e)
            | Inr task \<Rightarrow> Inr (Some task)) })"

definition deleteSnapshotTaskForDataset :: "'w driver \<Rightarrow> string \<Rightarrow> ('w, unit) prog" where
  "deleteSnapshotTaskForDataset d datasetPath = do {
     r \<leftarrow> GetSnapshotTaskByDataset (d_client d) datasetPath;
     case r of
       Inl _ \<Rightarrow> return ()
     | Inr task \<Rightarrow> do { DeleteSnapshotTask (d_client d) (task_ID task) None; return () } }"

section \<open>Lemmas on names\<close>

text \<open>What both name makers promise: a name is the safe form of the lower-cased, prefixed volume
  ID, cut to a limit. The lemmas are proved once for both.\<close>

locale name_maker =
  fixes make :: "string \<Rightarrow> string"
    and extra :: string
    and limit :: nat
  assumes make_eq: "make v = take limit (safe_name extra (ToLower (''csi-'' @ v)))"
    and dash: "CHR ''-'' \<in> set extra"
    and limit: "4 \<le> limit"
begin

lemma make_chars: "list_all (name_char extra) (make v)"
  using dash by (auto simp: make_eq safe_name_def name_char_def list_all_iff dest!: in_set_takeD)

lemma make_length: "length (make v) \<le> limit"
  by (simp add: make_eq)

lemma make_split: "make v = ''csi-'' @ take (limit - 4) (safe_name extra (ToLower v))"
proof -
  have "safe_name extra (ToLower ''csi-'') = ''csi-''"
    using dash by (simp add: safe_name_def name_char_def ToLower_def lower_char_def is_lower_def)
  then have "safe_name extra (ToLower (''csi-'' @ v)) = ''csi-'' @ safe_name extra (ToLower v)"
    unfolding ToLower_append by (simp add: safe_name_def)
  then show ?thesis using limit by (simp add: make_eq take_append eval_nat_numeral del: append.simps)
qed

lemma safe_id: "list_all (name_char extra) v \<Longrightarrow> list_all (\<lambda>c. \<not> is_upper c) v \<Longrightarrow> safe_name extra (ToLower v) = v"
  by (induction v) (auto simp: safe_name_def ToLower_def lower_char_id)

lemma make_inj:
  assumes "list_all (\<lambda>c. name_char extra c \<and> \<not> is_upper c) v" "list_all (\<lambda>c. name_char extra c \<and> \<not> is_upper c) w"
    and "length (p @ v) \<le> limit - 4" "length (p @ w) \<le> limit - 4" and "make (p @ v) = make (p @ w)"
  shows "v = w"
proof -
  have "safe_name extra (ToLower v) = v" "safe_name extra (ToLower w) = w"
    using assms(1,2) by (auto intro!: safe_id simp: list_all_iff)
  then have "safe_name extra (ToLower (p @ x)) = safe_name extra (ToLower p) @ x" if "x \<in> {v, w}" for x
    using that by (auto simp: ToLower_append safe_name_def)
  moreover have "length (safe_name extra (ToLower p)) = length p" by (simp add: safe_name_def ToLower_def)
  ultimately show ?thesis using assms(3-5) by (simp add: make_split)
qed

end

lemma take_if_longer: "(if length xs > n then take n xs else xs) = take n xs"
  by simp

interpretation target: name_maker makeISCSITargetSuffix "''.-:''" 120
  by unfold_locales (simp_all only: makeISCSITargetSuffix_def Let_def take_if_longer, simp_all)

interpretation subsys: name_maker makeNVMeSubsysName "''.-''" 200
  by unfold_locales (simp_all only: makeNVMeSubsysName_def Let_def take_if_longer, simp_all)

text \<open>C37. The iSCSI target name and the NVMe subsystem name of every volume satisfy what the
  appliance demands: lower-case letters, digits, dots and dashes (and colons for a target)
  only, at most 120 and 200 bytes, and the prefix by which the driver's objects are known.\<close>

theorem export_names_valid:
  "list_all (name_char ''.-:'') (makeISCSITargetSuffix v) \<and> length (makeISCSITargetSuffix v) \<le> 120
     \<and> prefix ''csi-'' (makeISCSITargetSuffix v)
   \<and> list_all (name_char ''.-'') (makeNVMeSubsysName v) \<and> length (makeNVMeSubsysName v) \<le> 200
     \<and> prefix ''csi-'' (makeNVMeSubsysName v)
   \<and> length (makeISCSIExtentName v) \<le> 64 \<and> prefix (makeISCSIExtentName v) v"
proof -
  have "prefix ''csi-'' (makeISCSITargetSuffix v)" "prefix ''csi-'' (makeNVMeSubsysName v)"
    unfolding target.make_split subsys.make_split by (rule prefixI, rule refl)+
  then show ?thesis
    using target.make_chars [of v] target.make_length [of v] subsys.make_chars [of v] subsys.make_length [of v]
    by (simp add: makeISCSIExtentName_def take_is_prefix)
qed

text \<open>C36. Two volumes of one pool whose names consist of the allowed characters never share a target name when pool
  and name have at most 115 bytes together; for subsystem names the bound is 195 bytes.\<close>

theorem export_names_injective:
  assumes "list_all (\<lambda>c. name_char ''.-'' c \<and> \<not> is_upper c) v" "list_all (\<lambda>c. name_char ''.-'' c \<and> \<not> is_upper c) w"
  shows "(length p + length v \<le> 115 \<and> length p + length w \<le> 115
      \<and> makeISCSITargetSuffix (p @ ''/'' @ v) = makeISCSITargetSuffix (p @ ''/'' @ w) \<longrightarrow> v = w)
    \<and> (length p + length v \<le> 195 \<and> length p + length w \<le> 195
      \<and> makeNVMeSubsysName (p @ ''/'' @ v) = makeNVMeSubsysName (p @ ''/'' @ w) \<longrightarrow> v = w)"
proof -
  have "list_all (\<lambda>c. name_char ''.-:'' c \<and> \<not> is_upper c) v" "list_all (\<lambda>c. name_char ''.-:'' c \<and> \<not> is_upper c) w"
    using assms by (auto simp: list_all_iff name_char_def)
  then show ?thesis
    using assms target.make_inj [of v w "p @ ''/''"] subsys.make_inj [of v w "p @ ''/''"] by simp
qed

theorem export_names_injective_witness:
  "makeISCSITargetSuffix ''tank/pvc-1'' \<noteq> makeISCSITargetSuffix ''tank/pvc-2''
   \<and> makeNVMeSubsysName ''tank/pvc-1'' \<noteq> makeNVMeSubsysName ''tank/pvc-2''"
  using export_names_injective [of "''pvc-1''" "''pvc-2''" "''tank''"]
  by (simp add: name_char_def is_lower_def is_digit_def is_upper_def)

text \<open>The names are not injective in general: a nested dataset and its dashed sibling get the
  same target name and the same subsystem name.\<close>

theorem export_names_collide:
  "makeISCSITargetSuffix ''tank/a/b'' = makeISCSITargetSuffix ''tank/a-b''
   \<and> makeNVMeSubsysName ''tank/a/b'' = makeNVMeSubsysName ''tank/a-b''"
  by code_simp

section \<open>Lemmas on parameters\<close>

lemma zfs_properties_simps:
  "zfs_properties [] = []"
  "zfs_properties ((''zfs.'' @ k, v) # m) = (k, v) # zfs_properties m"
  "\<not> prefix ''zfs.'' a \<Longrightarrow> zfs_properties ((a, v) # m) = zfs_properties m"
  by (simp_all add: zfs_properties_def map_filter_def CutPrefix_def HasPrefix_iff)

lemma map_of_map_filter_prefix:
  "lookup (zfs_properties m) k = lookup m (''zfs.'' @ k)"
proof (induction m)
  case Nil
  then show ?case by (simp add: zfs_properties_simps)
next
  case (Cons p m)
  obtain a b where p: "p = (a, b)" by (cases p)
  show ?case
  proof (cases "prefix ''zfs.'' a")
    case True
    then obtain r where "a = ''zfs.'' @ r" by (auto elim: prefixE)
    with Cons p show ?thesis by (simp add: zfs_properties_simps(2) [simplified])
  next
    case False
    then have "a \<noteq> ''zfs.'' @ k" by auto
    with False Cons p show ?thesis by (simp add: zfs_properties_simps(3))
  qed
qed

lemma parseEncryption_enabled:
  "parseEncryptionOptions ps ss \<noteq> None \<longleftrightarrow> param_is ps ''encryption'' ''true''"
  by (simp add: parseEncryptionOptions_def Let_def)

lemma parseEncryption_source:
  "parseEncryptionOptions ps ss = Some eo \<Longrightarrow>
     eo_GenerateKey eo \<or> eo_Passphrase eo \<noteq> None \<or> eo_Key eo \<noteq> None"
  by (auto simp: parseEncryptionOptions_def Let_def split: if_splits)

lemma parseEncryption_iters:
  "parseEncryptionOptions ps ss = Some eo \<Longrightarrow> eo_Pbkdf2iters eo = 0 \<or> 100000 \<le> eo_Pbkdf2iters eo"
  by (auto simp: parseEncryptionOptions_def Let_def split: if_splits option.splits)

lemma with_encryption_fields:
  "dco_Encryption (with_encryption ps ss opts) =
     (dco_Encryption opts \<or> param_is ps ''encryption'' ''true'')"
  by (auto simp: with_encryption_def parseEncryptionOptions_def Let_def split: option.splits)

text \<open>Encryption is requested exactly when the parameter \<^verbatim>\<open>encryption\<close> is true in any case of
  its letters; a request always names a source of the key, and a configured number of
  iterations below the appliance's minimum is never sent. A value in the secret wins over the
  StorageClass parameter.\<close>

theorem parseEncryptionOptions_complete:
  "(parseEncryptionOptions ps ss \<noteq> None \<longleftrightarrow> param_is ps ''encryption'' ''true'')
   \<and> (\<forall>eo. parseEncryptionOptions ps ss = Some eo \<longrightarrow>
        (eo_GenerateKey eo \<or> eo_Passphrase eo \<noteq> None \<or> eo_Key eo \<noteq> None)
        \<and> (eo_Pbkdf2iters eo = 0 \<or> 100000 \<le> eo_Pbkdf2iters eo)
        \<and> (get_str ss ''encryption.passphrase'' \<noteq> [] \<longrightarrow>
             eo_Passphrase eo = Some (get_str ss ''encryption.passphrase'')))"
  using parseEncryption_enabled parseEncryption_source parseEncryption_iters
  by (auto simp: parseEncryptionOptions_def Let_def secretOrParam_def non_empty_def split: if_splits option.splits)

theorem parseEncryptionOptions_complete_witness:
  "eo_Passphrase (the (parseEncryptionOptions [(''encryption'', ''TRUE''), (''encryption.passphrase'', ''inline'')]
       [(''encryption.passphrase'', ''sealed'')])) = Some ''sealed''"
proof -
  have "parseEncryptionOptions [(''encryption'', ''TRUE''), (''encryption.passphrase'', ''inline'')]
      [(''encryption.passphrase'', ''sealed'')] \<noteq> None"
    by code_simp
  then show ?thesis
    using parseEncryptionOptions_complete
      [of "[(''encryption'', ''TRUE''), (''encryption.passphrase'', ''inline'')]" "[(''encryption.passphrase'', ''sealed'')]"]
    by (auto simp: get_str_def)
qed

text \<open>An NFS share squashes all users or maps only root, never both: with root squashing
  disabled the mapall fields stay unset, otherwise the maproot fields do; and the path, the
  comment and the enabled flag of the share are left as they were.\<close>

theorem applyNFSShareParameters_exclusive:
  "let share = applyNFSShareParameters (new_share path comment) ps in
   (if param_is ps ''nfs.rootSquash'' ''false''
    then nco_MapAllUser share = None \<and> nco_MapAllGroup share = None
         \<and> nco_MapRootUser share = Some ''root'' \<and> nco_MapRootGroup share = Some ''wheel''
    else nco_MapRootUser share = None \<and> nco_MapRootGroup share = None
         \<and> nco_MapAllUser share = Some (param_or ps ''nfs.mapAllUser'' ''root'')
         \<and> nco_MapAllGroup share = Some (param_or ps ''nfs.mapAllGroup'' ''wheel''))
   \<and> nco_Path share = path \<and> nco_Comment share = comment \<and> nco_Enabled share"
  by (simp add: applyNFSShareParameters_def new_share_def Let_def split: option.splits)

text \<open>The templated description wins over a \<^verbatim>\<open>zfs.*\<close> parameter for the same property, and every
  other property is the value of its \<^verbatim>\<open>zfs.*\<close> parameter.\<close>

theorem datasetProperties_description_wins:
  assumes "datasetPropertiesFromParameters d ps = Inr props"
  shows "lookup props k =
    (case renderDatasetDescription d ps of
       Inr (Some description) \<Rightarrow> if k = datasetDescriptionProperty then Some description
                                 else lookup ps (''zfs.'' @ k)
     | _ \<Rightarrow> lookup ps (''zfs.'' @ k))"
  using assms map_of_map_filter_prefix
  by (auto simp: datasetPropertiesFromParameters_def split: sum.splits option.splits)

theorem datasetProperties_description_wins_witness:
  "lookup (projr (datasetPropertiesFromParameters (fixed_driver (\<lambda>_. Inl ErrNotFound))
      [(''zfs.org.freenas:description'', ''raw''), (''datasetDescription'', ''made'')])) datasetDescriptionProperty = Some ''made''"
proof -
  let ?ps = "[(''zfs.org.freenas:description'', ''raw''), (''datasetDescription'', ''made'')]"
  let ?d = "fixed_driver (\<lambda>_. Inl ErrNotFound)"
  have r: "renderDatasetDescription ?d ?ps = Inr (Some ''made'')"
    by (simp add: renderDatasetDescription_def fixed_driver_def)
  then have "datasetPropertiesFromParameters ?d ?ps = Inr (projr (datasetPropertiesFromParameters ?d ?ps))"
    by (simp add: datasetPropertiesFromParameters_def)
  from datasetProperties_description_wins [OF this, of datasetDescriptionProperty] show ?thesis
    by (simp add: r)
qed

section \<open>Lemmas on snapshot tasks\<close>

lemma first_failure_None: "first_failure rs = None \<longleftrightarrow> (\<forall>r \<in> set rs. r = None)"
  by (induction rs rule: first_failure.induct) auto

lemma check_param_None: "check_param ps k ok err = None \<longleftrightarrow> (\<forall>v. lookup ps k = Some v \<longrightarrow> ok v)"
  by (auto simp: check_param_def split: option.splits)

lemma params_after_pool_schedule:
  assumes "params_after_pool d ps = None"
  shows "get_str ps ''snapshot.schedule'' = [] \<or> length (Fields (get_str ps ''snapshot.schedule'')) = 5"
    and "get_str ps ''snapshot.retention'' = [] \<or> retention_ok (get_str ps ''snapshot.retention'')"
  using assms unfolding params_after_pool_def
  by (auto simp: first_failure_None check_param_None get_str_def split: option.splits)

lemma retention_value_range:
  assumes "get_str ps ''snapshot.retention'' = [] \<or> retention_ok (get_str ps ''snapshot.retention'')"
  shows "1 \<le> retention_value ps \<and> retention_value ps \<le> 365"
  using assms
  by (auto simp: retention_value_def retention_ok_def get_str_def Atoi_def Let_def split: option.splits if_splits)

lemma snapshot_task_fields:
  assumes "length (Fields (get_str ps ''snapshot.schedule'')) = 5" and "get_str ps ''snapshot.schedule'' \<noteq> []"
  shows "\<exists>opts sched. snapshot_task_options path ps = Some (Inr opts) \<and> stco_Schedule opts = Some sched
     \<and> [sched_Minute sched, sched_Hour sched, sched_Dom sched, sched_Month sched, sched_Dow sched]
        = Fields (get_str ps ''snapshot.schedule'')
     \<and> stco_Dataset opts = path \<and> stco_Enabled opts \<and> stco_LifetimeValue opts = retention_value ps"
proof -
  obtain a b c e f where "Fields (get_str ps ''snapshot.schedule'') = [a, b, c, e, f]"
    using assms(1) by (auto simp: length_Suc_conv eval_nat_numeral)
  then show ?thesis using assms(2) by (simp add: snapshot_task_options_def Let_def)
qed

text \<open>Parameters that pass validation never make the snapshot task fail on its schedule: with
  a schedule configured the task has the five fields of the schedule in order, covers the
  volume's dataset, is enabled, and keeps its snapshots for 1 to 365 units.\<close>

theorem validated_schedule_task:
  assumes "params_after_pool d ps = None" and "get_str ps ''snapshot.schedule'' \<noteq> []"
  shows "\<exists>opts sched. snapshot_task_options path ps = Some (Inr opts) \<and> stco_Schedule opts = Some sched
     \<and> [sched_Minute sched, sched_Hour sched, sched_Dom sched, sched_Month sched, sched_Dow sched]
        = Fields (get_str ps ''snapshot.schedule'')
     \<and> stco_Dataset opts = path \<and> stco_Enabled opts
     \<and> 1 \<le> stco_LifetimeValue opts \<and> stco_LifetimeValue opts \<le> 365"
  using snapshot_task_fields [of ps path] params_after_pool_schedule [OF assms(1)]
    retention_value_range [of ps] assms(2) by metis

theorem validated_schedule_task_witness:
  "\<exists>opts. snapshot_task_options ''tank/pvc-1'' [(''snapshot.schedule'', ''0 */6 * * *''), (''snapshot.retention'', ''14'')]
     = Some (Inr opts) \<and> stco_LifetimeValue opts \<le> 365"
proof -
  have "params_after_pool (fixed_driver (\<lambda>_. Inl ErrNotFound))
      [(''snapshot.schedule'', ''0 */6 * * *''), (''snapshot.retention'', ''14'')] = None"
    by code_simp
  moreover have "get_str [(''snapshot.schedule'', ''0 */6 * * *''), (''snapshot.retention'', ''14'')] ''snapshot.schedule'' \<noteq> []"
    by (simp add: get_str_def)
  ultimately show ?thesis
    using validated_schedule_task [of "fixed_driver (\<lambda>_. Inl ErrNotFound)" _ "''tank/pvc-1''"] by blast
qed

section \<open>Lemmas on CHAP parameters\<close>

lemma get_str_copyIfUnset:
  "get_str (copyIfUnset dst src m) k = (if k = dst \<and> get_str m k = [] then get_str m src else get_str m k)"
  by (auto simp: copyIfUnset_def)

lemma lookup_fold_put:
  "lookup (fold (\<lambda>(k, v) out. put k v out) xs acc) k = (case lookup (rev xs) k of None \<Rightarrow> lookup acc k | Some v \<Rightarrow> Some v)"
proof (induction xs arbitrary: acc)
  case Nil
  then show ?case by simp
next
  case (Cons p xs)
  then show ?case by (cases p) (auto simp: map_add_def split: option.splits)
qed

lemma lookup_copyParameters [simp]: "lookup (copyParameters m) k = lookup m k"
  by (simp add: copyParameters_def lookup_fold_put split: option.splits)

lemma get_str_copyParameters [simp]: "get_str (copyParameters m) k = get_str m k"
  by (simp add: get_str_def)

text \<open>Bridging the CHAP parameters fills each of the four node-side names from its
  controller-side name when it is empty, leaves an explicit node-side value alone, and changes
  no other parameter.\<close>

theorem bridgeISCSICHAPParams_spec:
  "get_str (bridgeISCSICHAPParams ps) k =
     (if k = ''iscsi.chapUsername'' \<and> get_str ps k = [] then get_str ps ''iscsi.chapUser''
      else if k = ''iscsi.chapPassword'' \<and> get_str ps k = [] then get_str ps ''iscsi.chapSecret''
      else if k = ''iscsi.chapUsernameIn'' \<and> get_str ps k = [] then get_str ps ''iscsi.chapPeerUser''
      else if k = ''iscsi.chapPasswordIn'' \<and> get_str ps k = [] then get_str ps ''iscsi.chapPeerSecret''
      else get_str ps k)"
  unfolding bridgeISCSICHAPParams_def get_str_copyIfUnset
  by (cases "k = ''iscsi.chapUsername''"; cases "k = ''iscsi.chapPassword''"; cases "k = ''iscsi.chapUsernameIn''";
      cases "k = ''iscsi.chapPasswordIn''") simp_all

end
