(* ===== verification/Controller_Create.thy ===== *)
theory Controller_Create
  imports Controller_Params
begin

text \<open>
  \<^verbatim>\<open>CreateVolume\<close> of \<^verbatim>\<open>pkg/driver/controller.go\<close> with everything it calls: the creation of NFS,
  iSCSI and NVMe-oF volumes with their clean-up on failure, the repair of interrupted
  creations, and the volumes made from a snapshot or from another volume.

  A Go map passed as \<^verbatim>\<open>parameters\<close> is shared: the volume context of a created volume is the
  same map, so what a step writes into the context appears in the response.
\<close>

section \<open>Shared steps\<close>

definition cleanup_dataset :: "'w driver \<Rightarrow> string \<Rightarrow> ('w, unit) prog" where
  "cleanup_dataset d datasetPath = do {
     DeleteDataset (d_client d) datasetPath \<lparr>ddo_Recursive = True, ddo_Force = True\<rparr>;
     return () }"

definition undo_auth :: "'w driver \<Rightarrow> int \<Rightarrow> ('w, unit) prog" where
  "undo_auth d authID = (if authID > 0 then do { DeleteISCSIAuth (d_client d) authID; return () } else return ())"

definition undo_initiator :: "'w driver \<Rightarrow> int \<Rightarrow> ('w, unit) prog" where
  "undo_initiator d initiatorID =
     (if initiatorID > 0 then do { DeleteISCSIInitiator (d_client d) initiatorID; return () } else return ())"

definition undo_target :: "'w driver \<Rightarrow> int \<Rightarrow> ('w, unit) prog" where
  "undo_target d targetID = do {
     DeleteISCSITarget (d_client d) targetID (Some \<lparr>tdo_Force = True, tdo_DeleteExtents = False\<rparr>);
     return () }"

definition undo_extent :: "'w driver \<Rightarrow> int \<Rightarrow> ('w, unit) prog" where
  "undo_extent d extentID = do {
     DeleteISCSIExtent (d_client d) extentID (Some \<lparr>edo_Remove = False, edo_Force = True\<rparr>);
     return () }"

definition undo_subsys :: "'w driver \<Rightarrow> int \<Rightarrow> ('w, unit) prog" where
  "undo_subsys d subsysID = do { DeleteNVMeSubsystem (d_client d) subsysID; return () }"

definition undo_namespace :: "'w driver \<Rightarrow> int \<Rightarrow> ('w, unit) prog" where
  "undo_namespace d nsID = do { DeleteNVMeNamespace (d_client d) nsID; return () }"

definition undo_port_link :: "'w driver \<Rightarrow> int \<Rightarrow> ('w, unit) prog" where
  "undo_port_link d linkID = do { DeleteNVMePortSubsys (d_client d) linkID; return () }"

section \<open>NFS volumes\<close>

definition nfs_context :: "'w driver \<Rightarrow> string \<Rightarrow> smap \<Rightarrow> smap" where
  "nfs_context d mountpoint parameters =
     put PublishContextNFSPath mountpoint
       (if d_nfsServer d \<noteq> [] then put PublishContextNFSServer (d_nfsServer d) parameters else parameters)"

definition createNFSVolume :: "'w driver \<Rightarrow> string \<Rightarrow> string \<Rightarrow> int \<Rightarrow> smap \<Rightarrow> smap \<Rightarrow> ('w, goerr + VolumeInfo) prog" where
  "createNFSVolume d volumeID datasetPath capacityBytes parameters secrets =
     (case nfs_dataset_options d datasetPath capacityBytes parameters secrets of
        Inl e \<Rightarrow> return (Inl e)
      | Inr datasetOpts \<Rightarrow>
          if_err (CreateDataset (d_client d) datasetOpts)
            (\<lambda>e. return (Inl (Wrapf ''failed to create dataset: '' e)))
            (\<lambda>dataset. let mountpoint = (if ds_Mountpoint dataset = [] then Join2 ''/mnt'' datasetPath
                                        else ds_Mountpoint dataset) in
              if_err (CreateNFSShare (d_client d)
                        (applyNFSShareParameters (new_share mountpoint (''CSI volume '' @ volumeID)) parameters))
                (\<lambda>e. do {
                   cleanup_dataset d datasetPath;
                   return (Inl (Wrapf ''failed to create NFS share: '' e)) })
                (\<lambda>share. do {
                   createSnapshotTaskFromParameters d datasetPath parameters;
                   return (Inr (zero_VolumeInfo\<lparr>
                     vi_ID := volumeID,
                     vi_Name := volumeID,
                     vi_CapacityBytes := capacityBytes,
                     vi_DatasetPath := datasetPath,
                     vi_PoolName := ExtractPoolFromPath datasetPath,
                     vi_Protocol := ProtocolNFS,
                     vi_NFSPath := mountpoint,
                     vi_NFSShareID := nfs_ID share,
                     vi_VolumeContext := nfs_context d mountpoint parameters\<rparr>)) })))"

section \<open>NVMe-oF volumes\<close>

definition ensureNVMeHost :: "'w driver \<Rightarrow> smap \<Rightarrow> smap \<Rightarrow> ('w, goerr + int) prog" where
  "ensureNVMeHost d parameters secrets =
     (let hostNQN = get_str parameters ''nvmeof.hostNQN'' in
      if hostNQN = [] then return (Inl (Errorf ''nvmeof.hostNQN is required for DH-CHAP''))
      else do {
        q \<leftarrow> GetNVMeHostByNQN (d_client d) hostNQN;
        case q of
          Inr host \<Rightarrow> return (Inr (host_ID host))
        | Inl qe \<Rightarrow>
            if \<not> IsNotFoundError qe then return (Inl (Wrapf ''failed to query NVMe-oF host: '' qe))
            else if_err (CreateNVMeHost (d_client d)
                \<lparr>hostco_HostNQN = hostNQN,
                 hostco_DHCHAPKey = secretOrParam secrets parameters ''nvmeof.dhchapKey'',
                 hostco_DHCHAPCtrlKey = secretOrParam secrets parameters ''nvmeof.dhchapCtrlKey'',
                 hostco_DHCHAPHash = get_str parameters ''nvmeof.dhchapHash'',
                 hostco_DHCHAPDHGroup = get_str parameters ''nvmeof.dhchapDHGroup''\<rparr>)
              (\<lambda>e. do {
                 r \<leftarrow> GetNVMeHostByNQN (d_client d) hostNQN;
                 return (case r of
                     Inr existing \<Rightarrow> Inr (host_ID existing)
                   | Inl _ \<Rightarrow> Inl (Wrapf ''failed to create NVMe-oF host: '' e)) })
              (\<lambda>host. return (Inr (host_ID host))) })"

text \<open>The volume a complete chain describes.\<close>

definition nvmeof_volume :: "string \<Rightarrow> string \<Rightarrow> int \<Rightarrow> smap \<Rightarrow> int \<Rightarrow> NVMeSubsystem \<Rightarrow> NVMeNamespace
    \<Rightarrow> int \<times> int \<Rightarrow> VolumeInfo" where
  "nvmeof_volume volumeID datasetPath capacityBytes parameters portID subsys ns host =
     zero_VolumeInfo\<lparr>
       vi_ID := volumeID,
       vi_Name := volumeID,
       vi_CapacityBytes := capacityBytes,
       vi_DatasetPath := datasetPath,
       vi_PoolName := ExtractPoolFromPath datasetPath,
       vi_Protocol := ProtocolNVMeOF,
       vi_NVMeSubNQN := sub_SubNQN subsys,
       vi_NVMeNamespaceUUID := ns_DeviceUUID ns,
       vi_NVMeSubsysID := sub_ID subsys,
       vi_NVMeNamespaceID := ns_ID ns,
       vi_NVMePortID := portID,
       vi_NVMeHostID := fst host,
       vi_NVMeHostSubsysID := snd host,
       vi_VolumeContext := parameters\<rparr>"

text \<open>The host authorization of a new subsystem; \<open>undo\<close> is the clean-up of both failure branches.\<close>

definition authorize_host :: "'w driver \<Rightarrow> smap \<Rightarrow> smap \<Rightarrow> int \<Rightarrow> ('w, unit) prog \<Rightarrow> (goerr \<Rightarrow> goerr)
    \<Rightarrow> ('w, goerr + int \<times> int) prog" where
  "authorize_host d parameters secrets subsysID undo wrap =
     (if get_str parameters ''nvmeof.hostNQN'' \<noteq> [] then
        if_err (ensureNVMeHost d parameters secrets)
          (\<lambda>e. do { undo; return (Inl e) })
          (\<lambda>hostID. if_err (CreateNVMeHostSubsys (d_client d) hostID subsysID)
             (\<lambda>e. do { undo; return (Inl (wrap e)) })
             (\<lambda>hs. return (Inr (hostID, hs_ID hs))))
      else return (Inr (0, 0)))"

definition createNVMeOFVolume :: "'w driver \<Rightarrow> string \<Rightarrow> string \<Rightarrow> int \<Rightarrow> smap \<Rightarrow> smap \<Rightarrow> ('w, goerr + VolumeInfo) prog" where
  "createNVMeOFVolume d volumeID datasetPath capacityBytes parameters secrets =
     if_err (NVMeOFPortID d)
       (\<lambda>e. return (Inl (Wrapf ''failed to resolve NVMe-oF port: '' e)))
       (\<lambda>portID. case buildZVOLCreateOptions d datasetPath capacityBytes parameters secrets of
          Inl e \<Rightarrow> return (Inl (Wrapf ''failed to prepare ZVOL properties: '' e))
        | Inr datasetOpts \<Rightarrow>
            if_err (CreateDataset (d_client d) datasetOpts)
              (\<lambda>e. return (Inl (Wrapf ''failed to create ZVOL: '' e)))
              (\<lambda>_. if_err (CreateNVMeSubsystem (d_client d) (makeNVMeSubsysName volumeID)
                            (get_str parameters ''nvmeof.hostNQN'' = []))
                (\<lambda>e. do {
                   cleanup_dataset d datasetPath;
                   return (Inl (Wrapf ''failed to create NVMe-oF subsystem: '' e)) })
                (\<lambda>subsys. if_err (CreateNVMeNamespace (d_client d) (sub_ID subsys) NVMeDeviceTypeZVOL
                                   (''zvol/'' @ datasetPath))
                  (\<lambda>e. do {
                     undo_subsys d (sub_ID subsys);
                     cleanup_dataset d datasetPath;
                     return (Inl (Wrapf ''failed to create NVMe-oF namespace: '' e)) })
                  (\<lambda>ns. if_err (CreateNVMePortSubsys (d_client d) portID (sub_ID subsys))
                    (\<lambda>e. do {
                       undo_namespace d (ns_ID ns);
                       undo_subsys d (sub_ID subsys);
                       cleanup_dataset d datasetPath;
                       return (Inl (Wrapf ''failed to link NVMe-oF port to subsystem: '' e)) })
                    (\<lambda>portSubsys. if_err (authorize_host d parameters secrets (sub_ID subsys)
                        (do { undo_port_link d (ps_ID portSubsys);
                              undo_namespace d (ns_ID ns);
                              undo_subsys d (sub_ID subsys);
                              cleanup_dataset d datasetPath })
                        (Wrapf ''failed to authorize host on NVMe-oF subsystem: ''))
                      (\<lambda>e. return (Inl e))
                      (\<lambda>host. do {
                         createSnapshotTaskFromParameters d datasetPath parameters;
                         return (Inr (nvmeof_volume volumeID datasetPath capacityBytes parameters portID
                           subsys ns host)) }))))))"

definition createNVMeOFTargetForClone :: "'w driver \<Rightarrow> string \<Rightarrow> string \<Rightarrow> int \<Rightarrow> smap \<Rightarrow> smap
    \<Rightarrow> ('w, goerr + VolumeInfo) prog" where
  "createNVMeOFTargetForClone d volumeID datasetPath capacityBytes parameters secrets =
     if_err (NVMeOFPortID d)
       (\<lambda>e. return (Inl (Wrapf ''failed to resolve NVMe-oF port: '' e)))
       (\<lambda>portID. if_err (CreateNVMeSubsystem (d_client d) (makeNVMeSubsysName volumeID)
                          (get_str parameters ''nvmeof.hostNQN'' = []))
         (\<lambda>e. return (Inl e))
         (\<lambda>subsys. if_err (CreateNVMeNamespace (d_client d) (sub_ID subsys) NVMeDeviceTypeZVOL
                            (''zvol/'' @ datasetPath))
           (\<lambda>e. do { undo_subsys d (sub_ID subsys); return (Inl e) })
           (\<lambda>ns. if_err (CreateNVMePortSubsys (d_client d) portID (sub_ID subsys))
             (\<lambda>e. do {
                undo_namespace d (ns_ID ns);
                undo_subsys d (sub_ID subsys);
                return (Inl e) })
             (\<lambda>portSubsys. if_err (authorize_host d parameters secrets (sub_ID subsys)
                 (do { undo_port_link d (ps_ID portSubsys);
                       undo_namespace d (ns_ID ns);
                       undo_subsys d (sub_ID subsys) })
                 (\<lambda>e. e))
               (\<lambda>e. return (Inl e))
               (\<lambda>host. return (Inr (nvmeof_volume volumeID datasetPath capacityBytes parameters portID
                  subsys ns host)))))))"

text \<open>\<^verbatim>\<open>links, _ := query\<close>: an error leaves the list empty.\<close>

definition or_empty :: "goerr + 'a list \<Rightarrow> 'a list" where
  "or_empty r = (case r of Inl _ \<Rightarrow> [] | Inr xs \<Rightarrow> xs)"

definition ensureNVMeOFChain :: "'w driver \<Rightarrow> string \<Rightarrow> string \<Rightarrow> smap \<Rightarrow> smap \<Rightarrow> ('w, goerr + smap) prog" where
  "ensureNVMeOFChain d volumeID datasetPath parameters secrets =
     (let zvolPath = ''zvol/'' @ datasetPath; c = d_client d;
          hostNQN = get_str parameters ''nvmeof.hostNQN''; subsysName = makeNVMeSubsysName volumeID in do {
      n \<leftarrow> GetNVMeNamespaceByDevice c zvolPath;
      case n of
        Inr _ \<Rightarrow> return (Inr parameters)
      | Inl ne \<Rightarrow>
          if \<not> IsNotFoundError ne then return (Inl (Wrapf ''failed to query NVMe-oF namespace: '' ne))
          else if_err (NVMeOFPortID d) (\<lambda>e. return (Inl e)) (\<lambda>portID. do {
            q \<leftarrow> GetNVMeSubsystemByName c subsysName;
            sub \<leftarrow> (case q of
                Inr subsys \<Rightarrow> return (Inr subsys)
              | Inl e \<Rightarrow>
                  if \<not> IsNotFoundError e then return (Inl (Wrapf ''failed to query NVMe-oF subsystem: '' e))
                  else do {
                    r \<leftarrow> CreateNVMeSubsystem c subsysName (hostNQN = []);
                    return (wrap_err ''failed to create NVMe-oF subsystem: '' r) });
            case sub of
              Inl e \<Rightarrow> return (Inl e)
            | Inr subsys \<Rightarrow>
                if_err (CreateNVMeNamespace c (sub_ID subsys) NVMeDeviceTypeZVOL zvolPath)
                  (\<lambda>e. return (Inl (Wrapf ''failed to create NVMe-oF namespace: '' e)))
                  (\<lambda>_. do {
                     l \<leftarrow> GetNVMePortSubsysBySubsystem c (sub_ID subsys);
                     p \<leftarrow> (if or_empty l = [] then do {
                              r \<leftarrow> CreateNVMePortSubsys c portID (sub_ID subsys);
                              return (case r of
                                  Inl e \<Rightarrow> Inl (Wrapf ''failed to link NVMe-oF port to subsystem: '' e)
                                | Inr _ \<Rightarrow> Inr ()) }
                            else return (Inr ()));
                     case p of
                       Inl e \<Rightarrow> return (Inl e)
                     | Inr _ \<Rightarrow>
                         if hostNQN \<noteq> [] then
                           if_err (ensureNVMeHost d parameters secrets) (\<lambda>e. return (Inl e)) (\<lambda>hostID. do {
                             h \<leftarrow> GetNVMeHostSubsysBySubsystem c (sub_ID subsys);
                             if list_ex (\<lambda>hl. has_host hostID (hs_Host hl)) (or_empty h)
                             then return (Inr parameters)
                             else do {
                               r \<leftarrow> CreateNVMeHostSubsys c hostID (sub_ID subsys);
                               return (case r of
                                   Inl e \<Rightarrow> Inl (Wrapf ''failed to authorize host on NVMe-oF subsystem: '' e)
                                 | Inr _ \<Rightarrow> Inr parameters) } })
                         else return (Inr parameters) }) }) })"

section \<open>iSCSI volumes\<close>

definition iscsi_context :: "'w driver \<Rightarrow> string \<Rightarrow> string \<Rightarrow> smap \<Rightarrow> smap" where
  "iscsi_context d fullIQN lun parameters =
     put PublishContextLUN lun (put PublishContextTargetIQN fullIQN
       (put PublishContextTargetPortal (d_iscsiPortal d) parameters))"

text \<open>Create the target of a repaired volume, or find the one of a partial creation.\<close>

definition create_or_find_target :: "'w driver \<Rightarrow> string \<Rightarrow> int \<Rightarrow> ('w, goerr + ISCSITarget) prog" where
  "create_or_find_target d volumeID portalID =
     if_err (CreateISCSITargetWithAuth (d_client d) (makeISCSITargetSuffix volumeID)
               (''CSI volume '' @ volumeID) portalID 0 0 False)
       (\<lambda>_. do {
          r \<leftarrow> GetISCSITargetByName (d_client d) (makeISCSITargetSuffix volumeID);
          return (wrap_err ''failed to create or find iSCSI target: '' r) })
       (\<lambda>target. return (Inr target))"

definition ensureISCSIChain :: "'w driver \<Rightarrow> string \<Rightarrow> string \<Rightarrow> smap \<Rightarrow> ('w, goerr + smap) prog" where
  "ensureISCSIChain d volumeID datasetPath parameters =
     (let zvolPath = ''zvol/'' @ datasetPath; c = d_client d in do {
      iqnBase \<leftarrow> ResolveISCSIIQNBase d parameters;
      if_err (ISCSIPortalID d) (\<lambda>e. return (Inl (Wrapf ''failed to resolve iSCSI portal ID: '' e))) (\<lambda>portalID. do {
        x \<leftarrow> GetISCSIExtentByDisk c zvolPath;
        case x of
          Inl _ \<Rightarrow>
            if_err (create_or_find_target d volumeID portalID) (\<lambda>e. return (Inl e)) (\<lambda>target.
            if_err (CreateISCSIExtent c (makeISCSIExtentName volumeID) zvolPath (iscsi_blocksize parameters))
              (\<lambda>e. return (Inl (Wrapf ''failed to create iSCSI extent: '' e))) (\<lambda>extent.
            if_err (CreateISCSITargetExtent c (tgt_ID target) (ext_ID extent) 0)
              (\<lambda>e. return (Inl (Wrapf ''failed to associate target and extent: '' e))) (\<lambda>_.
            return (Inr (iscsi_context d (iqnBase @ '':'' @ tgt_Name target) ''0'' (copyParameters parameters))))))
        | Inr extent \<Rightarrow> do {
            a \<leftarrow> GetISCSITargetExtentByExtent c (ext_ID extent);
            case a of
              Inl _ \<Rightarrow>
                if_err (create_or_find_target d volumeID portalID) (\<lambda>e. return (Inl e)) (\<lambda>target.
                if_err (CreateISCSITargetExtent c (tgt_ID target) (ext_ID extent) 0)
                  (\<lambda>e. return (Inl (Wrapf ''failed to associate target and extent: '' e))) (\<lambda>_.
                return (Inr (iscsi_context d (iqnBase @ '':'' @ tgt_Name target) ''0'' (copyParameters parameters)))))
            | Inr targetExtent \<Rightarrow>
                if_err (GetISCSITargetByID c (te_Target targetExtent))
                  (\<lambda>e. return (Inl (Wrapf ''failed to find iSCSI target: '' e))) (\<lambda>target.
                return (Inr (iscsi_context d (iqnBase @ '':'' @ tgt_Name target) (Itoa (te_LunID targetExtent))
                  (copyParameters parameters)))) } }) })"

record chap_setup =
  ch_authID :: int
  ch_authTag :: int
  ch_mutual :: bool
  ch_parameters :: smap

text \<open>The CHAP credentials of a new volume; the parameters are extended for the node.\<close>

definition setup_chap :: "'w driver \<Rightarrow> string \<Rightarrow> smap \<Rightarrow> smap \<Rightarrow> ('w, goerr + chap_setup) prog" where
  "setup_chap d datasetPath parameters secrets =
     (let chapUser = get_str parameters ''iscsi.chapUser'';
          chapSecret = secretOrParam secrets parameters ''iscsi.chapSecret'';
          peerUser = get_str parameters ''iscsi.chapPeerUser'' in
      if chapUser = [] then
        return (Inr \<lparr>ch_authID = 0, ch_authTag = 0, ch_mutual = False, ch_parameters = parameters\<rparr>)
      else if chapSecret = [] then do {
        cleanup_dataset d datasetPath;
        return (Inl (Errorf ''iscsi.chapSecret is required when iscsi.chapUser is specified'')) }
      else if_err (GetNextISCSIAuthTag (d_client d))
        (\<lambda>e. do {
           cleanup_dataset d datasetPath;
           return (Inl (Wrapf ''failed to get next auth tag: '' e)) })
        (\<lambda>nextTag. if_err (CreateISCSIAuth (d_client d)
             \<lparr>aco_Tag = nextTag, aco_User = chapUser, aco_Secret = chapSecret, aco_PeerUser = peerUser,
              aco_PeerSecret = (if peerUser \<noteq> [] then secretOrParam secrets parameters ''iscsi.chapPeerSecret'' else []),
              aco_DiscoveryAuth = []\<rparr>)
           (\<lambda>e. do {
              cleanup_dataset d datasetPath;
              return (Inl (Wrapf ''failed to create CHAP auth: '' e)) })
           (\<lambda>auth. return (Inr \<lparr>ch_authID = auth_ID auth, ch_authTag = auth_Tag auth, ch_mutual = (peerUser \<noteq> []),
              ch_parameters = bridgeISCSICHAPParams parameters\<rparr>))))"

definition setup_initiators :: "'w driver \<Rightarrow> string \<Rightarrow> string \<Rightarrow> int \<Rightarrow> smap \<Rightarrow> ('w, goerr + int) prog" where
  "setup_initiators d volumeID datasetPath authID parameters =
     (let initiators = get_str parameters ''iscsi.initiators'' in
      if initiators = [] then return (Inr 0)
      else if_err (CreateISCSIInitiator (d_client d)
            \<lparr>ico_Initiators = split_char CHR '','' initiators, ico_Comment = ''CSI volume '' @ volumeID\<rparr>)
        (\<lambda>e. do {
           undo_auth d authID;
           cleanup_dataset d datasetPath;
           return (Inl (Wrapf ''failed to create initiator group: '' e)) })
        (\<lambda>ini. return (Inr (ini_ID ini))))"

definition createISCSIVolume :: "'w driver \<Rightarrow> string \<Rightarrow> string \<Rightarrow> int \<Rightarrow> smap \<Rightarrow> smap \<Rightarrow> ('w, goerr + VolumeInfo) prog" where
  "createISCSIVolume d volumeID datasetPath capacityBytes parameters secrets =
     if_err (ISCSIPortalID d)
       (\<lambda>e. return (Inl (Wrapf ''failed to resolve iSCSI portal ID: '' e)))
       (\<lambda>portalID. case buildZVOLCreateOptions d datasetPath capacityBytes parameters secrets of
          Inl e \<Rightarrow> return (Inl (Wrapf ''failed to prepare ZVOL properties: '' e))
        | Inr datasetOpts \<Rightarrow>
          if_err (CreateDataset (d_client d) datasetOpts)
            (\<lambda>e. return (Inl (Wrapf ''failed to create ZVOL: '' e))) (\<lambda>_.
          if_err (setup_chap d datasetPath parameters secrets) (\<lambda>e. return (Inl e)) (\<lambda>chap.
          if_err (setup_initiators d volumeID datasetPath (ch_authID chap) (ch_parameters chap))
            (\<lambda>e. return (Inl e)) (\<lambda>initiatorID. do {
          iqnBase \<leftarrow> ResolveISCSIIQNBase d (ch_parameters chap);
          if_err (CreateISCSITargetWithAuth (d_client d) (makeISCSITargetSuffix volumeID)
                    (''CSI volume '' @ volumeID) portalID (ch_authTag chap) initiatorID (ch_mutual chap))
            (\<lambda>e. do {
               undo_initiator d initiatorID;
               undo_auth d (ch_authID chap);
               cleanup_dataset d datasetPath;
               return (Inl (Wrapf ''failed to create iSCSI target: '' e)) }) (\<lambda>target.
          if_err (CreateISCSIExtent (d_client d) (makeISCSIExtentName volumeID) (''zvol/'' @ datasetPath)
                    (iscsi_blocksize (ch_parameters chap)))
            (\<lambda>e. do {
               undo_target d (tgt_ID target);
               undo_initiator d initiatorID;
               undo_auth d (ch_authID chap);
               cleanup_dataset d datasetPath;
               return (Inl (Wrapf ''failed to create iSCSI extent: '' e)) }) (\<lambda>extent.
          if_err (CreateISCSITargetExtent (d_client d) (tgt_ID target) (ext_ID extent) 0)
            (\<lambda>e. do {
               undo_extent d (ext_ID extent);
               undo_target d (tgt_ID target);
               undo_initiator d initiatorID;
               undo_auth d (ch_authID chap);
               cleanup_dataset d datasetPath;
               return (Inl (Wrapf ''failed to associate target and extent: '' e)) }) (\<lambda>_. do {
          createSnapshotTaskFromParameters d datasetPath (ch_parameters chap);
          let fullIQN = iqnBase @ '':'' @ tgt_Name target;
          return (Inr (zero_VolumeInfo\<lparr>
            vi_ID := volumeID,
            vi_Name := volumeID,
            vi_CapacityBytes := capacityBytes,
            vi_DatasetPath := datasetPath,
            vi_PoolName := ExtractPoolFromPath datasetPath,
            vi_Protocol := ProtocolISCSI,
            vi_TargetIQN := fullIQN,
            vi_TargetPortal := d_iscsiPortal d,
            vi_LUN := 0,
            vi_ISCSITargetID := tgt_ID target,
            vi_ISCSIExtentID := ext_ID extent,
            vi_ISCSIAuthID := ch_authID chap,
            vi_ISCSIInitiatorID := initiatorID,
            vi_VolumeContext := iscsi_context d fullIQN ''0'' (ch_parameters chap)\<rparr>)) }))) }))))"

definition createISCSITargetForClone :: "'w driver \<Rightarrow> string \<Rightarrow> string \<Rightarrow> int \<Rightarrow> smap \<Rightarrow> ('w, goerr + VolumeInfo) prog" where
  "createISCSITargetForClone d volumeID datasetPath capacityBytes parameters =
     if_err (ISCSIPortalID d)
       (\<lambda>e. return (Inl (Wrapf ''failed to resolve iSCSI portal ID: '' e))) (\<lambda>portalID. do {
     iqnBase \<leftarrow> ResolveISCSIIQNBase d parameters;
     if_err (CreateISCSITarget (d_client d) (makeISCSITargetSuffix volumeID)
               (''CSI volume clone '' @ volumeID) portalID) (\<lambda>e. return (Inl e)) (\<lambda>target.
     if_err (CreateISCSIExtent (d_client d) (makeISCSIExtentName volumeID) (''zvol/'' @ datasetPath) 512)
       (\<lambda>e. do { undo_target d (tgt_ID target); return (Inl e) }) (\<lambda>extent.
     if_err (CreateISCSITargetExtent (d_client d) (tgt_ID target) (ext_ID extent) 0)
       (\<lambda>e. do {
          undo_extent d (ext_ID extent);
          undo_target d (tgt_ID target);
          return (Inl e) }) (\<lambda>_. let fullIQN = iqnBase @ '':'' @ tgt_Name target in
     return (Inr (zero_VolumeInfo\<lparr>
       vi_ID := volumeID,
       vi_Name := volumeID,
       vi_CapacityBytes := capacityBytes,
       vi_DatasetPath := datasetPath,
       vi_PoolName := ExtractPoolFromPath datasetPath,
       vi_Protocol := ProtocolISCSI,
       vi_TargetIQN := fullIQN,
       vi_TargetPortal := d_iscsiPortal d,
       vi_LUN := 0,
       vi_ISCSITargetID := tgt_ID target,
       vi_ISCSIExtentID := ext_ID extent,
       vi_VolumeContext := iscsi_context d fullIQN ''0'' parameters\<rparr>))))) })"

definition createNFSShareForClone :: "'w driver \<Rightarrow> string \<Rightarrow> string \<Rightarrow> Dataset \<Rightarrow> smap \<Rightarrow> ('w, goerr + VolumeInfo) prog" where
  "createNFSShareForClone d volumeID datasetPath dataset parameters =
     (let mountpoint = (if ds_Mountpoint dataset = [] then ''/mnt/'' @ datasetPath else ds_Mountpoint dataset) in
      if_err (CreateNFSShare (d_client d)
                (applyNFSShareParameters (new_share mountpoint (''CSI volume clone '' @ volumeID)) parameters))
        (\<lambda>e. return (Inl e))
        (\<lambda>share. return (Inr (zero_VolumeInfo\<lparr>
           vi_ID := volumeID,
           vi_Name := volumeID,
           vi_CapacityBytes := ds_RefQuota dataset,
           vi_DatasetPath := datasetPath,
           vi_PoolName := ExtractPoolFromPath datasetPath,
           vi_Protocol := ProtocolNFS,
           vi_NFSPath := mountpoint,
           vi_NFSShareID := nfs_ID share,
           vi_VolumeContext := nfs_context d mountpoint parameters\<rparr>))))"

section \<open>Volumes from a content source\<close>

abbreviation managedSnapshotProperty :: string where "managedSnapshotProperty \<equiv> ''ix-csi:managed''"
abbreviation managedSnapshotPropertyValue :: string where "managedSnapshotPropertyValue \<equiv> ''true''"
abbreviation volumeCloneSnapshotPrefix :: string where "volumeCloneSnapshotPrefix \<equiv> ''csi-clone-''"

text \<open>\<^verbatim>\<open>status.Errorf(code, "prefix%v", err)\<close>.\<close>

definition statusf :: "code \<Rightarrow> string \<Rightarrow> goerr \<Rightarrow> status" where
  "statusf c pre e = Status c (pre @ Error e)"

definition clamp_size :: "int \<Rightarrow> int" where
  "clamp_size n = (if n > 0 \<and> n < minVolumeSize then minVolumeSize else n)"

definition requested_bytes :: "CreateVolumeRequest \<Rightarrow> int" where
  "requested_bytes req = (case cvr_CapacityRange req of None \<Rightarrow> 0 | Some cr \<Rightarrow> cr_RequiredBytes cr)"

text \<open>The capacity of a clone is set to the requested one; a thick ZVOL keeps its reservation
  equal to its size.\<close>

definition resize_clone :: "'w driver \<Rightarrow> string \<Rightarrow> string \<Rightarrow> int \<Rightarrow> string \<Rightarrow> ('w, status + unit) prog" where
  "resize_clone d datasetPath protocol requiredBytes failure =
     (if requiredBytes > 0 then do {
        opts \<leftarrow> (if isZVOLProtocol protocol then do {
                r \<leftarrow> GetDataset (d_client d) datasetPath;
                return (case r of
                    Inl e \<Rightarrow> Inl (statusf Internal ''failed to query cloned dataset for sparse detection: '' e)
                  | Inr clonedDs \<Rightarrow> Inr (zero_DatasetUpdateOptions\<lparr>duo_Volsize := Some requiredBytes,
                      duo_RefReservation := (if ds_RefReservation clonedDs > 0 then Some requiredBytes else None)\<rparr>)) }
              else return (Inr (zero_DatasetUpdateOptions\<lparr>duo_RefQuota := Some requiredBytes\<rparr>)));
        case opts of
          Inl st \<Rightarrow> return (Inl st)
        | Inr updateOpts \<Rightarrow> do {
            u \<leftarrow> UpdateDataset (d_client d) datasetPath updateOpts;
            return (case u of Inl e \<Rightarrow> Inl (statusf Internal failure e) | Inr _ \<Rightarrow> Inr ()) } }
      else return (Inr ()))"

text \<open>What both kinds of source have in common once the dataset exists: its description, its
  capacity, and the protocol objects. A failure to describe or to export it removes it.\<close>

definition finish_clone :: "'w driver \<Rightarrow> CreateVolumeRequest \<Rightarrow> string \<Rightarrow> string \<Rightarrow> string \<Rightarrow> smap \<Rightarrow> smap
    \<Rightarrow> content_source \<Rightarrow> string \<Rightarrow> ('w, status + Volume) prog" where
  "finish_clone d req volumeID datasetPath protocol parameters secrets contentSource failure =
     if_err (setDatasetDescription d datasetPath parameters)
       (\<lambda>e. do {
          cleanup_dataset d datasetPath;
          return (Inl (statusf Internal ''failed to set cloned dataset description: '' e)) }) (\<lambda>_.
     let requiredBytes = clamp_size (requested_bytes req) in
     if_err (resize_clone d datasetPath protocol requiredBytes failure) (\<lambda>st. return (Inl st)) (\<lambda>_.
     if_err (GetDataset (d_client d) datasetPath)
       (\<lambda>e. return (Inl (statusf Internal ''failed to get cloned dataset: '' e))) (\<lambda>dataset.
     if_err (if protocol = ProtocolISCSI then
               createISCSITargetForClone d volumeID datasetPath requiredBytes parameters
             else if protocol = ProtocolNVMeOF then
               createNVMeOFTargetForClone d volumeID datasetPath requiredBytes parameters secrets
             else createNFSShareForClone d volumeID datasetPath dataset parameters)
       (\<lambda>e. do {
          cleanup_dataset d datasetPath;
          return (Inl (statusf Internal ''failed to create share for clone: '' e)) }) (\<lambda>volInfo.
     return (Inr \<lparr>vol_VolumeId = volumeID,
       vol_CapacityBytes = (if isZVOLProtocol protocol then requiredBytes else ds_RefQuota dataset),
       vol_VolumeContext = vi_VolumeContext volInfo,
       vol_ContentSource = Some contentSource\<rparr>)))))"

definition clone_from_snapshot :: "'w driver \<Rightarrow> string \<Rightarrow> string \<Rightarrow> smap \<Rightarrow> ('w, status + unit) prog" where
  "clone_from_snapshot d snapshotID datasetPath parameters =
     (case detachedBoolParameter parameters ''detachedVolumes'' of
        Inl e \<Rightarrow> return (Inl (statusf InvalidArgument ''invalid storage class parameters: '' e))
      | Inr detached \<Rightarrow> do {
          err \<leftarrow> (if detached then cloneDetachedSnapshot d snapshotID datasetPath
                  else do {
                    r \<leftarrow> CloneSnapshot (d_client d) snapshotID datasetPath;
                    return (case r of Inl e \<Rightarrow> Some e | Inr _ \<Rightarrow> None) });
          return (case err of
              None \<Rightarrow> Inr ()
            | Some e \<Rightarrow> (let msg = ToLower (Error e) in
                if IsNotFoundError e \<or> Contains msg ''not found'' then
                  Inl (Status NotFound (''source snapshot '' @ snapshotID @ '' not found''))
                else if detached \<and> Contains msg ''source snapshot'' then Inl (statusf NotFound [] e)
                else Inl (statusf Internal ''failed to clone snapshot: '' e))) })"

definition clone_snapshot_name :: "string \<Rightarrow> int \<Rightarrow> string" where
  "clone_snapshot_name volumeID time =
     volumeCloneSnapshotPrefix @ ReplaceAll1 CHR ''/'' CHR ''-'' volumeID @ ''-'' @ Itoa time"

definition clone_from_volume :: "'w driver \<Rightarrow> string \<Rightarrow> string \<Rightarrow> string \<Rightarrow> smap \<Rightarrow> ('w, status + unit) prog" where
  "clone_from_volume d sourceVolumeID volumeID datasetPath parameters =
     if_err (GetVolumeInfo d sourceVolumeID)
       (\<lambda>e. return (Inl (statusf NotFound ''source volume not found: '' e))) (\<lambda>sourceInfo.
     case detachedBoolParameter parameters ''detachedVolumes'' of
       Inl e \<Rightarrow> return (Inl (statusf InvalidArgument ''invalid storage class parameters: '' e))
     | Inr True \<Rightarrow> do {
         err \<leftarrow> cloneDetachedVolume d (vi_DatasetPath sourceInfo) datasetPath volumeID;
         return (case err of
             Some e \<Rightarrow> Inl (statusf Internal ''failed to clone volume independently: '' e)
           | None \<Rightarrow> Inr ()) }
     | Inr False \<Rightarrow> do {
         time \<leftarrow> gets (\<lambda>s. d_now d (world s));
         if_err (CreateSnapshotWithProperties (d_client d) (vi_DatasetPath sourceInfo)
                   (clone_snapshot_name volumeID time) False
                   [(managedSnapshotProperty, managedSnapshotPropertyValue)])
           (\<lambda>e. return (Inl (statusf Internal ''failed to create snapshot for clone: '' e))) (\<lambda>snapshot.
         if_err (CloneSnapshot (d_client d) (snap_ID snapshot) datasetPath)
           (\<lambda>e. do {
              DeleteSnapshot_client (d_client d) (snap_ID snapshot);
              return (Inl (statusf Internal ''failed to clone volume: '' e)) }) (\<lambda>_. do {
         DeleteSnapshot_client (d_client d) (snap_ID snapshot);
         return (Inr ()) })) })"

text \<open>The idempotency check at the head of \<^verbatim>\<open>createVolumeFromSource\<close>.\<close>

definition existing_clone :: "'w driver \<Rightarrow> string \<Rightarrow> string \<Rightarrow> string \<Rightarrow> smap \<Rightarrow> smap \<Rightarrow> content_source \<Rightarrow> Dataset
    \<Rightarrow> ('w, status + Volume) prog" where
  "existing_clone d volumeID datasetPath protocol parameters secrets contentSource dataset =
     (let capacityBytes = (if isZVOLProtocol protocol \<and> ds_Volsize dataset > 0 then ds_Volsize dataset
                           else ds_RefQuota dataset);
          volume = (\<lambda>ctx. \<lparr>vol_VolumeId = volumeID, vol_CapacityBytes = capacityBytes, vol_VolumeContext = ctx,
                         vol_ContentSource = Some contentSource\<rparr>) in
      if ds_Type dataset = datasetTypeVolume \<and> isZVOLProtocol protocol then
        if_err (if protocol = ProtocolNVMeOF then ensureNVMeOFChain d volumeID datasetPath parameters secrets
                else ensureISCSIChain d volumeID datasetPath parameters)
          (\<lambda>e. return (Inl (statusf Internal ''failed to ensure resources for existing clone: '' e)))
          (\<lambda>volCtx. return (Inr (volume volCtx)))
      else return (Inr (volume parameters)))"

definition createVolumeFromSource :: "'w driver \<Rightarrow> CreateVolumeRequest \<Rightarrow> content_source \<Rightarrow> string \<Rightarrow> string \<Rightarrow> string
    \<Rightarrow> smap \<Rightarrow> smap \<Rightarrow> ('w, status + Volume) prog" where
  "createVolumeFromSource d req contentSource volumeID datasetPath protocol parameters secrets = do {
     g \<leftarrow> GetDataset (d_client d) datasetPath;
     case g of
       Inr dataset \<Rightarrow> existing_clone d volumeID datasetPath protocol parameters secrets contentSource dataset
     | Inl _ \<Rightarrow> (case contentSource of
         SourceSnapshot snapshotID \<Rightarrow>
           if snapshotID = [] then return (Inl (Status InvalidArgument ''snapshot ID is required''))
           else if_err (clone_from_snapshot d snapshotID datasetPath parameters) (\<lambda>st. return (Inl st))
             (\<lambda>_. finish_clone d req volumeID datasetPath protocol parameters secrets contentSource
                ''failed to set capacity on restored volume: '')
       | SourceVolume sourceVolumeID \<Rightarrow>
           if sourceVolumeID = [] then return (Inl (Status InvalidArgument ''source volume ID is required''))
           else if_err (clone_from_volume d sourceVolumeID volumeID datasetPath parameters) (\<lambda>st. return (Inl st))
             (\<lambda>_. finish_clone d req volumeID datasetPath protocol parameters secrets contentSource
                ''failed to set capacity on cloned volume: '')
       | SourceUnset \<Rightarrow> return (Inl (Status InvalidArgument ''unsupported volume content source''))) }"

section \<open>CreateVolume\<close>

definition volume_dataset_path :: "'w driver \<Rightarrow> string \<Rightarrow> smap \<Rightarrow> string" where
  "volume_dataset_path d name parameters =
     (let pool = GetPoolFromParameters d parameters; volumeName = SanitizeVolumeName name;
          dsPath = get_str parameters ''datasetPath'' in
      if dsPath \<noteq> [] then pool @ ''/'' @ dsPath @ ''/'' @ volumeName else pool @ ''/'' @ volumeName)"

definition record_existing :: "string \<Rightarrow> string \<Rightarrow> string \<Rightarrow> int \<Rightarrow> ('w, unit) prog" where
  "record_existing volumeID pool protocol capacityBytes =
     RecordProvisionedVolume (zero_VolumeInfo\<lparr>vi_ID := volumeID, vi_PoolName := pool, vi_Protocol := protocol,
       vi_CapacityBytes := capacityBytes\<rparr>)"

text \<open>The dataset exists: the volume is answered, after the protocol objects have been checked.\<close>

definition existing_volume :: "'w driver \<Rightarrow> CreateVolumeRequest \<Rightarrow> string \<Rightarrow> string \<Rightarrow> string \<Rightarrow> string \<Rightarrow> int \<Rightarrow> Dataset
    \<Rightarrow> ('w, status + Volume) prog" where
  "existing_volume d req volumeID datasetPath pool protocol requiredBytes dataset =
     (let parameters = cvr_Parameters req;
          existingCapacity = (if ds_Type dataset = datasetTypeVolume then ds_Volsize dataset
                              else ds_RefQuota dataset);
          returnedCapacity = (if existingCapacity = 0 then requiredBytes else existingCapacity);
          answer = (\<lambda>volCtx. do {
            record_existing volumeID pool protocol returnedCapacity;
            return (Inr \<lparr>vol_VolumeId = volumeID, vol_CapacityBytes = returnedCapacity,
              vol_VolumeContext = volCtx, vol_ContentSource = cvr_VolumeContentSource req\<rparr>) }) in
      if requiredBytes > 0 \<and> existingCapacity > 0 \<and> existingCapacity < requiredBytes then
        return (Inl (Status AlreadyExists (''volume '' @ volumeID @ '' already exists with capacity ''
          @ Itoa existingCapacity @ '' bytes, but '' @ Itoa requiredBytes @ '' bytes requested'')))
      else if ds_Type dataset = datasetTypeVolume \<and> protocol = ProtocolISCSI then
        if_err (ensureISCSIChain d volumeID datasetPath parameters)
          (\<lambda>e. return (Inl (statusf Internal ''failed to ensure iSCSI resources for existing volume: '' e)))
          answer
      else if ds_Type dataset = datasetTypeVolume \<and> protocol = ProtocolNVMeOF then
        if_err (ensureNVMeOFChain d volumeID datasetPath parameters (cvr_Secrets req))
          (\<lambda>e. return (Inl (statusf Internal ''failed to ensure NVMe-oF resources for existing volume: '' e)))
          answer
      else answer parameters)"

definition new_volume :: "'w driver \<Rightarrow> CreateVolumeRequest \<Rightarrow> string \<Rightarrow> string \<Rightarrow> string \<Rightarrow> int
    \<Rightarrow> ('w, status + Volume) prog" where
  "new_volume d req volumeID datasetPath protocol requiredBytes =
     (let parameters = cvr_Parameters req; secrets = cvr_Secrets req in
      if_err (if protocol = ProtocolISCSI then
                createISCSIVolume d volumeID datasetPath requiredBytes parameters secrets
              else if protocol = ProtocolNVMeOF then
                createNVMeOFVolume d volumeID datasetPath requiredBytes parameters secrets
              else createNFSVolume d volumeID datasetPath requiredBytes parameters secrets)
        (\<lambda>e. return (Inl (statusf Internal ''failed to create volume: '' e)))
        (\<lambda>volInfo. do {
           RecordProvisionedVolume volInfo;
           return (Inr \<lparr>vol_VolumeId = vi_ID volInfo, vol_CapacityBytes = vi_CapacityBytes volInfo,
             vol_VolumeContext = vi_VolumeContext volInfo, vol_ContentSource = vi_ContentSource volInfo\<rparr>) }))"

text \<open>The body after the deferred metric has been set up.\<close>

definition create_volume_body :: "'w driver \<Rightarrow> CreateVolumeRequest \<Rightarrow> string \<Rightarrow> int \<Rightarrow> ('w, status + Volume) prog" where
  "create_volume_body d req protocol requiredBytes =
     (let parameters = cvr_Parameters req;
          pool = GetPoolFromParameters d parameters;
          datasetPath = volume_dataset_path d (cvr_Name req) parameters;
          volumeID = datasetPath in
      if list_ex cap_is_block (cvr_VolumeCapabilities req) \<and> protocol \<noteq> ProtocolISCSI \<and> protocol \<noteq> ProtocolNVMeOF then
        return (Inl (Status InvalidArgument ''block volume mode is not supported for NFS protocol''))
      else do {
        g \<leftarrow> GetDataset (d_client d) datasetPath;
        case g of
          Inr dataset \<Rightarrow> existing_volume d req volumeID datasetPath pool protocol requiredBytes dataset
        | Inl _ \<Rightarrow> (case cvr_VolumeContentSource req of
            Some contentSource \<Rightarrow> do {
              r \<leftarrow> createVolumeFromSource d req contentSource volumeID datasetPath protocol parameters (cvr_Secrets req);
              (case r of
                 Inr vol \<Rightarrow> record_existing (vol_VolumeId vol) pool protocol (vol_CapacityBytes vol)
               | Inl _ \<Rightarrow> return ());
              return r }
          | None \<Rightarrow> new_volume d req volumeID datasetPath protocol requiredBytes) })"

definition CreateVolume :: "'w driver \<Rightarrow> CreateVolumeRequest \<Rightarrow> ('w, status + Volume) prog" where
  "CreateVolume d req =
     (if cvr_Name req = [] then return (Inl (Status InvalidArgument ''volume name is required''))
      else if cvr_VolumeCapabilities req = [] then
        return (Inl (Status InvalidArgument ''volume capabilities are required''))
      else case validateVolumeCapabilities (cvr_VolumeCapabilities req) of
        Some e \<Rightarrow> return (Inl (statusf InvalidArgument ''invalid volume capabilities: '' e))
      | None \<Rightarrow>
          if requested_bytes req < 0 then
            return (Inl (Status InvalidArgument ''required bytes cannot be negative''))
          else do {
            v \<leftarrow> validateStorageClassParameters d (cvr_Parameters req) (cvr_Secrets req);
            case v of
              Some e \<Rightarrow> return (Inl (statusf InvalidArgument ''invalid storage class parameters: '' e))
            | None \<Rightarrow> (let protocol = GetProtocolFromParameters (cvr_Parameters req) in
                deferred_record protocol ''create''
                  (create_volume_body d req protocol (clamp_size (requested_bytes req)))) })"

end
