(* ===== verification/Controller_Delete.thy ===== *)
theory Controller_Delete
  imports Controller_Create
begin

text \<open>
  \<^verbatim>\<open>DeleteVolume\<close> of \<^verbatim>\<open>pkg/driver/controller.go\<close>: the check for dependent snapshots, the
  best-effort removal of the protocol objects, and the deletion of the dataset. The pause
  after the removal of an NFS share is time, which the model does not have.
\<close>

section \<open>Dependent snapshots\<close>

definition managed_value :: "Snapshot \<Rightarrow> string option" where
  "managed_value snapshot =
     (case lookup (snap_Properties snapshot) managedSnapshotProperty of
        Some (JObj values) \<Rightarrow> (case lookup values ''value'' of Some (JStr v) \<Rightarrow> Some v | _ \<Rightarrow> None)
      | _ \<Rightarrow> None)"

definition source_dependent :: "Snapshot \<Rightarrow> bool" where
  "source_dependent snapshot \<longleftrightarrow>
     HasPrefix (snap_Name snapshot) volumeCloneSnapshotPrefix
     \<or> Contains (snap_ID snapshot) (''@'' @ volumeCloneSnapshotPrefix)
     \<or> managed_value snapshot = Some managedSnapshotPropertyValue"

definition hasSourceDependentSnapshot :: "Snapshot list \<Rightarrow> bool" where
  "hasSourceDependentSnapshot snapshots = list_ex source_dependent snapshots"

section \<open>Protocol objects\<close>

text \<open>One host link: it is deleted, and its host with it when no link of the host remains.\<close>

definition delete_host_link :: "'w driver \<Rightarrow> NVMeHostSubsys \<Rightarrow> ('w, unit) prog" where
  "delete_host_link d hl =
     if_err (DeleteNVMeHostSubsys (d_client d) (hs_ID hl)) (\<lambda>_. return ()) (\<lambda>_.
     case hs_Host hl of
       None \<Rightarrow> return ()
     | Some host \<Rightarrow>
         if_err (GetNVMeHostSubsysByHost (d_client d) (host_ID host)) (\<lambda>_. return ()) (\<lambda>remaining.
         if remaining = [] then do { DeleteNVMeHost (d_client d) (host_ID host); return () }
         else return ()))"

definition deleteNVMeOFResources :: "'w driver \<Rightarrow> VolumeInfo \<Rightarrow> ('w, unit) prog" where
  "deleteNVMeOFResources d volInfo =
     (let subsysID = vi_NVMeSubsysID volInfo; c = d_client d in
      if subsysID = 0 then return ()
      else do {
        hostLinks \<leftarrow> GetNVMeHostSubsysBySubsystem c subsysID;
        for_each (delete_host_link d) (or_empty hostLinks);
        portLinks \<leftarrow> GetNVMePortSubsysBySubsystem c subsysID;
        for_each (\<lambda>pl. undo_port_link d (ps_ID pl)) (or_empty portLinks);
        namespaces \<leftarrow> GetNVMeNamespacesBySubsystem c subsysID;
        for_each (\<lambda>ns. undo_namespace d (ns_ID ns)) (or_empty namespaces);
        undo_subsys d subsysID })"

definition deleteISCSIResources :: "'w driver \<Rightarrow> VolumeInfo \<Rightarrow> ('w, unit) prog" where
  "deleteISCSIResources d volInfo =
     (let deleteOpts = GetISCSIDeleteOptionsFromParameters (vi_VolumeContext volInfo); c = d_client d in do {
      (if vi_ISCSITargetID volInfo > 0 then do {
         DeleteISCSITarget c (vi_ISCSITargetID volInfo)
           (Some \<lparr>tdo_Force = ido_ForceDelete deleteOpts,
                  tdo_DeleteExtents = ido_DeleteExtentsWithTarget deleteOpts\<rparr>);
         return () }
       else return ());
      (if vi_ISCSIExtentID volInfo > 0 \<and> \<not> ido_DeleteExtentsWithTarget deleteOpts then do {
         DeleteISCSIExtent c (vi_ISCSIExtentID volInfo)
           (Some \<lparr>edo_Remove = False, edo_Force = ido_ForceDelete deleteOpts\<rparr>);
         return () }
       else return ());
      undo_auth d (vi_ISCSIAuthID volInfo);
      undo_initiator d (vi_ISCSIInitiatorID volInfo) })"

definition delete_nfs_share :: "'w driver \<Rightarrow> string \<Rightarrow> ('w, unit) prog" where
  "delete_nfs_share d nfsPath =
     if_err (GetNFSShareByPath (d_client d) nfsPath) (\<lambda>_. return ())
       (\<lambda>share. do { DeleteNFSShare (d_client d) (nfs_ID share); return () })"

section \<open>DeleteVolume\<close>

text \<open>The part that tears the volume down; it starts once no dependent snapshot is left.\<close>

definition tear_down :: "'w driver \<Rightarrow> string \<Rightarrow> string \<Rightarrow> goerr + VolumeInfo \<Rightarrow> ('w, status + unit) prog" where
  "tear_down d volumeID datasetPath volInfo = do {
     (case volInfo of
        Inl _ \<Rightarrow> return ()
      | Inr v \<Rightarrow>
          if vi_Protocol v = ProtocolISCSI then deleteISCSIResources d v
          else if vi_Protocol v = ProtocolNVMeOF then deleteNVMeOFResources d v
          else return ());
     delete_nfs_share d (''/mnt/'' @ datasetPath);
     deleteSnapshotTaskForDataset d datasetPath;
     r \<leftarrow> DeleteDataset (d_client d) datasetPath \<lparr>ddo_Recursive = True, ddo_Force = True\<rparr>;
     let gone = (case r of Inr _ \<Rightarrow> None | Inl e \<Rightarrow> if \<not> IsNotFoundError e then Some e else None);
     case gone of
       Some e \<Rightarrow> return (Inl (statusf Internal ''failed to delete volume: '' e))
     | None \<Rightarrow> do {
         RemoveProvisionedVolume volumeID;
         return (Inr ()) } }"

text \<open>The result carries the protocol that the deferred metric records.\<close>

definition delete_volume_body :: "'w driver \<Rightarrow> string \<Rightarrow> ('w, string \<times> (status + unit)) prog" where
  "delete_volume_body d volumeID =
     (case ParseVolumeID volumeID of
        Inl _ \<Rightarrow> do {
          RemoveProvisionedVolume volumeID;
          return (''unknown'', Inr ()) }
      | Inr (pool, name) \<Rightarrow> (let datasetPath = pool @ ''/'' @ name in do {
          g \<leftarrow> GetDataset (d_client d) datasetPath;
          case g of
            Inl e \<Rightarrow>
              if IsNotFoundError e then do {
                RemoveProvisionedVolume volumeID;
                return (''unknown'', Inr ()) }
              else return (''unknown'', Inl (statusf Internal ''failed to find volume: '' e))
          | Inr _ \<Rightarrow> do {
              l \<leftarrow> ListSnapshots_client (d_client d) datasetPath;
              case l of
                Inl e \<Rightarrow> return (''unknown'', Inl (statusf Internal ''failed to list volume snapshots: '' e))
              | Inr snapshots \<Rightarrow>
                  if hasSourceDependentSnapshot snapshots then
                    return (''unknown'', Inl (Status FailedPrecondition (''cannot delete volume '' @ volumeID
                      @ '' while it has dependent Kubernetes VolumeSnapshots or non-detached volume clones'')))
                  else do {
                    volInfo \<leftarrow> GetVolumeInfo d volumeID;
                    r \<leftarrow> tear_down d volumeID datasetPath volInfo;
                    return (case volInfo of Inr v \<Rightarrow> vi_Protocol v | Inl _ \<Rightarrow> ''unknown'', r) } } }))"

definition DeleteVolume :: "'w driver \<Rightarrow> string \<Rightarrow> ('w, status + unit) prog" where
  "DeleteVolume d volumeID =
     (if volumeID = [] then return (Inl (Status InvalidArgument ''volume ID is required''))
      else do {
        pr \<leftarrow> delete_volume_body d volumeID;
        with_metrics (RecordVolumeOperation (fst pr) ''delete'' (snd pr));
        return (snd pr) })"

end
