(* ===== verification/Controller_Snapshot.thy ===== *)
theory Controller_Snapshot
  imports Controller_Delete
begin

text \<open>
  The snapshot operations of \<^verbatim>\<open>pkg/driver/controller.go\<close>: \<^verbatim>\<open>CreateSnapshot\<close>,
  \<^verbatim>\<open>DeleteSnapshot\<close> and \<^verbatim>\<open>ListSnapshots\<close>, for regular and for detached snapshots.
  \<^verbatim>\<open>timestamppb.Now()\<close> is the clock of the driver.
\<close>

record CreateSnapshotRequest =
  csr_SourceVolumeId :: string
  csr_Name :: string
  csr_Parameters :: smap

record csi_Snapshot =
  cs_SizeBytes :: int
  cs_SnapshotId :: string
  cs_SourceVolumeId :: string
  cs_CreationTime :: int
  cs_ReadyToUse :: bool

definition ready_snapshot :: "'w driver \<Rightarrow> string \<Rightarrow> string \<Rightarrow> int \<Rightarrow> ('w, csi_Snapshot) prog" where
  "ready_snapshot d snapshotID sourceVolumeID sizeBytes =
     gets (\<lambda>s. \<lparr>cs_SizeBytes = sizeBytes, cs_SnapshotId = snapshotID, cs_SourceVolumeId = sourceVolumeID,
                cs_CreationTime = d_now d (world s), cs_ReadyToUse = True\<rparr>)"

section \<open>CreateSnapshot\<close>

definition name_taken :: "string \<Rightarrow> string \<Rightarrow> status" where
  "name_taken name dataset =
     Status AlreadyExists (''snapshot name '' @ name
       @ '' already exists on a different source volume (existing: '' @ dataset @ '')'')"

definition create_detached :: "'w driver \<Rightarrow> CreateSnapshotRequest \<Rightarrow> VolumeInfo \<Rightarrow> string
    \<Rightarrow> ('w, status + csi_Snapshot) prog" where
  "create_detached d req volInfo snapshotName =
     if_err (FindSnapshotByName (d_client d) snapshotName)
       (\<lambda>e. return (Inl (statusf Internal ''failed to check snapshot name: '' e))) (\<lambda>found.
     case found of
       Some existing \<Rightarrow> return (Inl (name_taken (csr_Name req) (snap_Dataset existing)))
     | None \<Rightarrow>
         if_err (createDetachedSnapshot d (csr_SourceVolumeId req) snapshotName (vi_DatasetPath volInfo))
           (\<lambda>e. return (let msg = ToLower (Error e) in
              if Contains msg ''already exists'' then Inl (statusf AlreadyExists [] e)
              else if Contains msg ''requires'' \<or> Contains msg ''overlaps'' \<or> Contains msg ''invalid detached''
              then Inl (statusf FailedPrecondition [] e)
              else Inl (statusf Internal ''failed to create detached snapshot: '' e)))
           (\<lambda>detachedID. do {
              snap \<leftarrow> ready_snapshot d detachedID (csr_SourceVolumeId req) (vi_CapacityBytes volInfo);
              return (Inr snap) }))"

definition create_regular :: "'w driver \<Rightarrow> CreateSnapshotRequest \<Rightarrow> VolumeInfo \<Rightarrow> string
    \<Rightarrow> ('w, status + csi_Snapshot) prog" where
  "create_regular d req volInfo snapshotName =
     (let expectedSnapshotID = vi_DatasetPath volInfo @ ''@'' @ snapshotName in do {
      f \<leftarrow> FindSnapshotByName (d_client d) snapshotName;
      case (case f of Inl _ \<Rightarrow> None | Inr found \<Rightarrow> found) of
        Some existing \<Rightarrow>
          if snap_ID existing = expectedSnapshotID then do {
            snap \<leftarrow> ready_snapshot d (snap_ID existing) (csr_SourceVolumeId req) (vi_CapacityBytes volInfo);
            return (Inr snap) }
          else return (Inl (name_taken (csr_Name req) (snap_Dataset existing)))
      | None \<Rightarrow>
          if_err (CreateSnapshotWithProperties (d_client d) (vi_DatasetPath volInfo) snapshotName False
                    [(managedSnapshotProperty, managedSnapshotPropertyValue)])
            (\<lambda>e. return (
               if Contains (Error e) ''already exists'' then
                 Inl (Status AlreadyExists (''snapshot name '' @ csr_Name req
                   @ '' already exists on a different source volume''))
               else Inl (statusf Internal ''failed to create snapshot: '' e)))
            (\<lambda>snapshot. do {
               snap \<leftarrow> ready_snapshot d (snap_ID snapshot) (csr_SourceVolumeId req) (vi_CapacityBytes volInfo);
               return (Inr snap) }) })"

definition CreateSnapshot :: "'w driver \<Rightarrow> CreateSnapshotRequest \<Rightarrow> ('w, status + csi_Snapshot) prog" where
  "CreateSnapshot d req =
     (if csr_Name req = [] then return (Inl (Status InvalidArgument ''snapshot name is required''))
      else if csr_SourceVolumeId req = [] then return (Inl (Status InvalidArgument ''source volume ID is required''))
      else if_err (GetVolumeInfo d (csr_SourceVolumeId req))
        (\<lambda>e. return (Inl (statusf NotFound ''volume not found: '' e)))
        (\<lambda>volInfo. deferred_record (vi_Protocol volInfo) ''snapshot''
           (let snapshotName = SanitizeVolumeName (csr_Name req) in
            case detachedBoolParameter (csr_Parameters req) ''detachedSnapshots'' of
              Inl e \<Rightarrow> return (Inl (statusf InvalidArgument ''invalid snapshot parameters: '' e))
            | Inr True \<Rightarrow> create_detached d req volInfo snapshotName
            | Inr False \<Rightarrow> create_regular d req volInfo snapshotName)))"

section \<open>DeleteSnapshot\<close>

definition delete_detached :: "'w driver \<Rightarrow> string \<Rightarrow> ('w, status + unit) prog" where
  "delete_detached d snapshotID =
     (let parent = d_detachedSnapshotParentDataset d in
      if parent = [] then
        return (Inl (Status FailedPrecondition
          ''detached snapshot deletion requires TRUENAS_DETACHED_SNAPSHOT_PARENT_DATASET''))
      else case detachedSnapshotDataset parent snapshotID of
        Inl _ \<Rightarrow> return (Inr ())
      | Inr targetDataset \<Rightarrow> do {
          g \<leftarrow> GetDataset (d_client d) targetDataset;
          case g of
            Inl e \<Rightarrow>
              if IsNotFoundError e then return (Inr ())
              else return (Inl (statusf Internal ''failed to find detached snapshot: '' e))
          | Inr dataset \<Rightarrow>
              if \<not> isDetachedSnapshotDataset dataset then
                return (Inl (Status FailedPrecondition
                  (''dataset '' @ targetDataset @ '' is not a ix-csi detached snapshot'')))
              else do {
                r \<leftarrow> DeleteDataset (d_client d) targetDataset \<lparr>ddo_Recursive = True, ddo_Force = True\<rparr>;
                return (case r of
                    Inr _ \<Rightarrow> Inr ()
                  | Inl e \<Rightarrow> if \<not> IsNotFoundError e
                             then Inl (statusf Internal ''failed to delete detached snapshot: '' e)
                             else Inr ()) } })"

definition DeleteSnapshot :: "'w driver \<Rightarrow> string \<Rightarrow> ('w, status + unit) prog" where
  "DeleteSnapshot d snapshotID =
     (if snapshotID = [] then return (Inl (Status InvalidArgument ''snapshot ID is required''))
      else if \<not> Contains snapshotID ''@'' then delete_detached d snapshotID
      else do {
        r \<leftarrow> DeleteSnapshot_client (d_client d) snapshotID;
        return (case r of
            Inr _ \<Rightarrow> Inr ()
          | Inl e \<Rightarrow> if IsNotFoundError e then Inr ()
                     else Inl (statusf Internal ''failed to delete snapshot: '' e)) })"

section \<open>ListSnapshots\<close>

record ListSnapshotsRequest =
  lsr_MaxEntries :: int
  lsr_StartingToken :: string
  lsr_SourceVolumeId :: string
  lsr_SnapshotId :: string

record ListSnapshotsResponse =
  lss_Entries :: "csi_Snapshot list"
  lss_NextToken :: string

definition entries_only :: "csi_Snapshot list \<Rightarrow> ListSnapshotsResponse" where
  "entries_only es = \<lparr>lss_Entries = es, lss_NextToken = []\<rparr>"

definition detached_as_snapshot :: "detachedSnapshotInfo \<Rightarrow> Snapshot" where
  "detached_as_snapshot i =
     \<lparr>snap_ID = dsi_ID i, snap_Dataset = dsi_SourceVolumeID i, snap_Name = dsi_Name i, snap_CreateTime = [],
      snap_Used = 0, snap_Referenced = datasetCapacity (dsi_Dataset i), snap_Properties = []\<rparr>"

text \<open>The page at an offset, and the token of the next one.\<close>

definition paginate :: "int \<Rightarrow> int \<Rightarrow> 'a list \<Rightarrow> status + 'a list \<times> string" where
  "paginate startOffset maxEntries xs =
     (if startOffset > int (length xs) then
        Inl (Status Aborted ''invalid starting_token: offset exceeds total snapshots'')
      else (let page = drop (nat startOffset) xs in
        if maxEntries > 0 \<and> int (length page) > maxEntries then
          Inr (take (nat maxEntries) page, Itoa (startOffset + maxEntries))
        else Inr (page, [])))"

fun list_entries :: "'w driver \<Rightarrow> (Snapshot \<Rightarrow> string) \<Rightarrow> Snapshot list \<Rightarrow> ('w, csi_Snapshot list) prog" where
  "list_entries d source [] = return []"
| "list_entries d source (snap # snaps) = do {
     e \<leftarrow> ready_snapshot d (snap_ID snap) (source snap) 0;
     es \<leftarrow> list_entries d source snaps;
     return (e # es) }"

text \<open>The detached snapshots are appended when a parent is configured; then one page is cut.\<close>

definition list_page :: "'w driver \<Rightarrow> string \<Rightarrow> (Snapshot \<Rightarrow> string) \<Rightarrow> int \<Rightarrow> int \<Rightarrow> Snapshot list
    \<Rightarrow> ('w, status + ListSnapshotsResponse) prog" where
  "list_page d sourceVolumeID source startOffset maxEntries snapshots = do {
     a \<leftarrow> (if d_detachedSnapshotParentDataset d \<noteq> [] then do {
             r \<leftarrow> listDetachedSnapshots d sourceVolumeID;
             return (case r of
                 Inl e \<Rightarrow> Inl (statusf Internal ''failed to list detached snapshots: '' e)
               | Inr infos \<Rightarrow> Inr (snapshots @ map detached_as_snapshot infos)) }
           else return (Inr snapshots));
     case a of
       Inl st \<Rightarrow> return (Inl st)
     | Inr all \<Rightarrow> (case paginate startOffset maxEntries all of
         Inl st \<Rightarrow> return (Inl st)
       | Inr (page, nextToken) \<Rightarrow> do {
           es \<leftarrow> list_entries d source page;
           return (Inr \<lparr>lss_Entries = es, lss_NextToken = nextToken\<rparr>) }) }"

definition list_one_detached :: "'w driver \<Rightarrow> string \<Rightarrow> ('w, status + ListSnapshotsResponse) prog" where
  "list_one_detached d snapshotID =
     (let parent = d_detachedSnapshotParentDataset d in
      if parent = [] then return (Inr (entries_only []))
      else case detachedSnapshotParts snapshotID of
        Inl _ \<Rightarrow> return (Inr (entries_only []))
      | Inr (sourceVolumeID, _) \<Rightarrow> (case detachedSnapshotDataset parent snapshotID of
          Inl _ \<Rightarrow> return (Inr (entries_only []))
        | Inr datasetPath \<Rightarrow> do {
            g \<leftarrow> GetDataset (d_client d) datasetPath;
            case g of
              Inl e \<Rightarrow>
                if IsNotFoundError e then return (Inr (entries_only []))
                else return (Inl (statusf Internal ''failed to get detached snapshot: '' e))
            | Inr dataset \<Rightarrow>
                if \<not> isDetachedSnapshotDataset dataset then return (Inr (entries_only []))
                else do {
                  e \<leftarrow> ready_snapshot d snapshotID sourceVolumeID (datasetCapacity dataset);
                  return (Inr (entries_only [e])) } }))"

definition list_one_regular :: "'w driver \<Rightarrow> string \<Rightarrow> ('w, status + ListSnapshotsResponse) prog" where
  "list_one_regular d snapshotID =
     (case splitn2 CHR ''@'' snapshotID of
        [datasetPath, snapshotName] \<Rightarrow>
          if_err (ListSnapshots_client (d_client d) datasetPath) (\<lambda>_. return (Inr (entries_only []))) (\<lambda>snapshots.
          case find (\<lambda>snap. snap_ID snap = snapshotID \<or> snap_Name snap = snapshotName) snapshots of
            None \<Rightarrow> return (Inr (entries_only []))
          | Some snap \<Rightarrow> do {
              e \<leftarrow> ready_snapshot d (snap_ID snap) datasetPath 0;
              return (Inr (entries_only [e])) })
      | _ \<Rightarrow> return (Inr (entries_only [])))"

definition list_of_volume :: "'w driver \<Rightarrow> ListSnapshotsRequest \<Rightarrow> int \<Rightarrow> ('w, status + ListSnapshotsResponse) prog" where
  "list_of_volume d req startOffset = do {
     v \<leftarrow> GetVolumeInfo d (lsr_SourceVolumeId req);
     case (case v of
             Inr volInfo \<Rightarrow> Some (vi_DatasetPath volInfo)
           | Inl _ \<Rightarrow> (case ParseVolumeID (lsr_SourceVolumeId req) of
               Inl _ \<Rightarrow> None
             | Inr (pool, name) \<Rightarrow> Some (pool @ ''/'' @ name))) of
       None \<Rightarrow> return (Inr (entries_only []))
     | Some datasetPath \<Rightarrow>
         if_err (ListSnapshots_client (d_client d) datasetPath) (\<lambda>_. return (Inr (entries_only [])))
           (list_page d (lsr_SourceVolumeId req) (\<lambda>_. lsr_SourceVolumeId req) startOffset (lsr_MaxEntries req)) }"

definition list_everything :: "'w driver \<Rightarrow> ListSnapshotsRequest \<Rightarrow> int \<Rightarrow> ('w, status + ListSnapshotsResponse) prog" where
  "list_everything d req startOffset =
     if_err (ListAllSnapshots (d_client d)) (\<lambda>_. return (Inr (entries_only [])))
       (list_page d [] snap_Dataset startOffset (lsr_MaxEntries req))"

definition starting_offset :: "string \<Rightarrow> int option" where
  "starting_offset token =
     (if token = [] then Some 0
      else case Atoi token of None \<Rightarrow> None | Some n \<Rightarrow> if n < 0 then None else Some n)"

definition ListSnapshots :: "'w driver \<Rightarrow> ListSnapshotsRequest \<Rightarrow> ('w, status + ListSnapshotsResponse) prog" where
  "ListSnapshots d req =
     (case starting_offset (lsr_StartingToken req) of
        None \<Rightarrow> return (Inl (Status Aborted ''invalid starting_token''))
      | Some startOffset \<Rightarrow>
          if lsr_SnapshotId req \<noteq> [] then
            (if \<not> Contains (lsr_SnapshotId req) ''@'' then list_one_detached d (lsr_SnapshotId req)
             else list_one_regular d (lsr_SnapshotId req))
          else if lsr_SourceVolumeId req \<noteq> [] then list_of_volume d req startOffset
          else list_everything d req startOffset)"

end
