(* ===== verification/Controller_Query.thy ===== *)
theory Controller_Query
  imports Controller_Snapshot
begin

text \<open>
  The remaining operations of the controller service: publishing, capability validation,
  listing, capacity, expansion and the health of a volume; the identity service
  (\<^verbatim>\<open>pkg/driver/identity.go\<close>); and the interceptor of \<^verbatim>\<open>driver.go\<close> with the request redaction.
\<close>

section \<open>Publishing\<close>

definition iscsi_publish :: "VolumeInfo \<Rightarrow> smap" where
  "iscsi_publish v =
     [(PublishContextProtocol, vi_Protocol v), (PublishContextTargetPortal, vi_TargetPortal v),
      (PublishContextTargetIQN, vi_TargetIQN v), (PublishContextLUN, Itoa (vi_LUN v))]"

definition nvmeof_publish :: "'w driver \<Rightarrow> VolumeInfo \<Rightarrow> smap" where
  "nvmeof_publish d v =
     [(PublishContextProtocol, ProtocolNVMeOF), (PublishContextNVMeSubNQN, vi_NVMeSubNQN v),
      (PublishContextNVMePortAddr, NVMeOFPortAddr d), (PublishContextNVMePortSvcID, Itoa (NVMeOFPortSvcID d)),
      (PublishContextNVMeTransport, defaultNVMeOFTransport), (PublishContextNVMeNSUUID, vi_NVMeNamespaceUUID v)]"

definition nfs_publish :: "VolumeInfo \<Rightarrow> smap" where
  "nfs_publish v =
     [(PublishContextProtocol, vi_Protocol v),
      (PublishContextNFSServer, get_str (vi_VolumeContext v) PublishContextNFSServer),
      (PublishContextNFSPath, vi_NFSPath v)]"

text \<open>The reconstruction was incomplete: both kinds of export of a ZVOL are probed again.\<close>

definition probe_zvol :: "'w driver \<Rightarrow> string \<Rightarrow> ('w, smap) prog" where
  "probe_zvol d zvolPath =
     (let c = d_client d;
          portal = [(PublishContextProtocol, ProtocolISCSI), (PublishContextTargetPortal, d_iscsiPortal d)] in do {
      x \<leftarrow> GetISCSIExtentByDisk c zvolPath;
      case x of
        Inr extent \<Rightarrow>
          if_err (GetISCSITargetExtentByExtent c (ext_ID extent)) (\<lambda>_. return portal) (\<lambda>targetExtent.
          if_err (GetISCSITargetByID c (te_Target targetExtent)) (\<lambda>_. return portal) (\<lambda>target. do {
          base \<leftarrow> ResolveISCSIIQNBase d [];
          return (portal @ [(PublishContextTargetIQN, base @ '':'' @ tgt_Name target),
                            (PublishContextLUN, Itoa (te_LunID targetExtent))]) }))
      | Inl _ \<Rightarrow> do {
          n \<leftarrow> GetNVMeNamespaceByDevice c zvolPath;
          return (case n of
              Inr ns \<Rightarrow>
                [(PublishContextProtocol, ProtocolNVMeOF), (PublishContextNVMePortAddr, NVMeOFPortAddr d),
                 (PublishContextNVMePortSvcID, Itoa (NVMeOFPortSvcID d)),
                 (PublishContextNVMeTransport, defaultNVMeOFTransport), (PublishContextNVMeNSUUID, ns_DeviceUUID ns)]
                @ (case ns_Subsys ns of None \<Rightarrow> [] | Some sub \<Rightarrow> [(PublishContextNVMeSubNQN, sub_SubNQN sub)])
            | Inl _ \<Rightarrow> portal) } })"

record ControllerPublishVolumeRequest =
  cpv_VolumeId :: string
  cpv_NodeId :: string
  cpv_VolumeCapability :: "VolumeCapability option"

definition publish_fallback :: "'w driver \<Rightarrow> VolumeCapability \<Rightarrow> string \<Rightarrow> Dataset \<Rightarrow> ('w, status + smap) prog" where
  "publish_fallback d vcap datasetPath dataset =
     (if ds_Type dataset = datasetTypeVolume then do {
        ctx \<leftarrow> probe_zvol d (''zvol/'' @ datasetPath);
        return (Inr ctx) }
      else if cap_is_block vcap then
        return (Inl (Status InvalidArgument ''block volume capability only supported for iSCSI''))
      else return (Inr
        [(PublishContextProtocol, ProtocolNFS), (PublishContextNFSServer, d_nfsServer d),
         (PublishContextNFSPath,
            if ds_Mountpoint dataset = [] then Join2 ''/mnt'' datasetPath else ds_Mountpoint dataset)]))"

definition publish_context :: "'w driver \<Rightarrow> VolumeCapability \<Rightarrow> string \<Rightarrow> Dataset \<Rightarrow> goerr + VolumeInfo
    \<Rightarrow> ('w, status + smap) prog" where
  "publish_context d vcap datasetPath dataset volInfo =
     (case volInfo of
        Inr v \<Rightarrow>
          if vi_Protocol v = ProtocolISCSI \<and> vi_TargetIQN v \<noteq> [] then return (Inr (iscsi_publish v))
          else if vi_Protocol v = ProtocolNVMeOF \<and> vi_NVMeSubNQN v \<noteq> [] then return (Inr (nvmeof_publish d v))
          else if vi_Protocol v = ProtocolNFS \<and> vi_NFSPath v \<noteq> [] then return (Inr (nfs_publish v))
          else publish_fallback d vcap datasetPath dataset
      | Inl _ \<Rightarrow> publish_fallback d vcap datasetPath dataset)"

definition ControllerPublishVolume :: "'w driver \<Rightarrow> ControllerPublishVolumeRequest \<Rightarrow> ('w, status + smap) prog" where
  "ControllerPublishVolume d req =
     (if cpv_VolumeId req = [] then return (Inl (Status InvalidArgument ''volume ID is required''))
      else if cpv_NodeId req = [] then return (Inl (Status InvalidArgument ''node ID is required''))
      else case cpv_VolumeCapability req of
        None \<Rightarrow> return (Inl (Status InvalidArgument ''volume capability is required''))
      | Some vcap \<Rightarrow> do {
          known \<leftarrow> IsNodeRegistered (cpv_NodeId req);
          if \<not> known then return (Inl (Status NotFound (''node '' @ cpv_NodeId req @ '' not found'')))
          else case ParseVolumeID (cpv_VolumeId req) of
            Inl _ \<Rightarrow> return (Inl (Status NotFound ''volume not found: invalid volume ID format''))
          | Inr (pool, name) \<Rightarrow> (let datasetPath = pool @ ''/'' @ name in
              if_err (GetDataset (d_client d) datasetPath)
                (\<lambda>e. return (Inl (statusf NotFound (''volume '' @ cpv_VolumeId req @ '' not found: '') e)))
                (\<lambda>dataset.
                   if \<not> cap_is_block vcap \<and> \<not> cap_is_mount vcap then
                     return (Inl (Status InvalidArgument ''either block or mount volume capability is required''))
                   else do {
                     volInfo \<leftarrow> GetVolumeInfo d (cpv_VolumeId req);
                     publish_context d vcap datasetPath dataset volInfo })) })"

definition ControllerUnpublishVolume :: "string \<Rightarrow> ('w, status + unit) prog" where
  "ControllerUnpublishVolume volumeID =
     (if volumeID = [] then return (Inl (Status InvalidArgument ''volume ID is required''))
      else return (Inr ()))"

section \<open>Capabilities, listing, capacity\<close>

record ValidateVolumeCapabilitiesRequest =
  vvr_VolumeId :: string
  vvr_VolumeContext :: smap
  vvr_VolumeCapabilities :: "VolumeCapability list"
  vvr_Parameters :: smap

datatype validation = Confirmed smap "VolumeCapability list" smap | NotConfirmed string

definition ValidateVolumeCapabilities :: "'w driver \<Rightarrow> ValidateVolumeCapabilitiesRequest
    \<Rightarrow> ('w, status + validation) prog" where
  "ValidateVolumeCapabilities d req =
     (if vvr_VolumeId req = [] then return (Inl (Status InvalidArgument ''volume ID is required''))
      else if vvr_VolumeCapabilities req = [] then
        return (Inl (Status InvalidArgument ''volume capabilities are required''))
      else case ParseVolumeID (vvr_VolumeId req) of
        Inl _ \<Rightarrow> return (Inl (Status NotFound ''volume not found: invalid volume ID format''))
      | Inr (pool, name) \<Rightarrow>
          if_err (GetDataset (d_client d) (pool @ ''/'' @ name))
            (\<lambda>e. return (Inl (statusf NotFound ''volume not found: '' e)))
            (\<lambda>_. return (Inr (case validateVolumeCapabilities (vvr_VolumeCapabilities req) of
                Some e \<Rightarrow> NotConfirmed (Error e)
              | None \<Rightarrow> Confirmed (vvr_VolumeContext req) (vvr_VolumeCapabilities req) (vvr_Parameters req)))))"

definition volume_entry :: "string \<Rightarrow> Dataset \<Rightarrow> (string \<times> int) option" where
  "volume_entry pool dataset =
     (if ds_Name dataset = pool then None
      else if count_char (ds_Name dataset) CHR ''/'' \<noteq> 1 then None
      else Some (ds_Name dataset,
             if ds_Type dataset = datasetTypeVolume then ds_Volsize dataset else ds_RefQuota dataset))"

definition ListVolumes :: "'w driver \<Rightarrow> string \<Rightarrow> ('w, status + (string \<times> int) list) prog" where
  "ListVolumes d startingToken =
     (if startingToken \<noteq> [] then return (Inl (Status Aborted ''invalid starting_token''))
      else if_err (ListDatasets (d_client d) (d_defaultPool d))
        (\<lambda>e. return (Inl (statusf Internal ''failed to list volumes: '' e)))
        (\<lambda>datasets. return (Inr (List.map_filter (volume_entry (d_defaultPool d)) datasets))))"

definition GetCapacity :: "'w driver \<Rightarrow> smap \<Rightarrow> ('w, status + int) prog" where
  "GetCapacity d parameters =
     if_err (GetAvailableSpace (d_client d)
               (case lookup parameters ''pool'' of Some p \<Rightarrow> p | None \<Rightarrow> d_defaultPool d))
       (\<lambda>e. return (Inl (statusf Internal ''failed to get capacity: '' e)))
       (\<lambda>available. return (Inr available))"

definition ControllerGetCapabilities :: "('w, status + controller_cap list) prog" where
  "ControllerGetCapabilities = return (Inr controllerCaps)"

section \<open>Expansion and health\<close>

record ControllerExpandVolumeRequest =
  cer_VolumeId :: string
  cer_CapacityRange :: "CapacityRange option"

record ControllerExpandVolumeResponse =
  ces_CapacityBytes :: int
  ces_NodeExpansionRequired :: bool

definition expansion_updates :: "'w driver \<Rightarrow> VolumeInfo \<Rightarrow> int \<Rightarrow> ('w, status + DatasetUpdateOptions) prog" where
  "expansion_updates d volInfo newSize =
     (if isZVOLProtocol (vi_Protocol volInfo) then
        if_err (GetDataset (d_client d) (vi_DatasetPath volInfo))
          (\<lambda>e. return (Inl (statusf Internal ''failed to query dataset for sparse detection: '' e)))
          (\<lambda>dataset. return (Inr (zero_DatasetUpdateOptions\<lparr>duo_Volsize := Some newSize,
             duo_RefReservation := (if ds_RefReservation dataset > 0 then Some newSize else None)\<rparr>)))
      else return (Inr (zero_DatasetUpdateOptions\<lparr>duo_RefQuota := Some newSize\<rparr>)))"

definition expand_to :: "'w driver \<Rightarrow> VolumeInfo \<Rightarrow> int \<Rightarrow> ('w, status + ControllerExpandVolumeResponse) prog" where
  "expand_to d volInfo newSize =
     (if newSize \<le> vi_CapacityBytes volInfo then
        return (Inr \<lparr>ces_CapacityBytes = vi_CapacityBytes volInfo, ces_NodeExpansionRequired = False\<rparr>)
      else if_err (expansion_updates d volInfo newSize) (\<lambda>st. return (Inl st)) (\<lambda>updates.
        if_err (UpdateDataset (d_client d) (vi_DatasetPath volInfo) updates)
          (\<lambda>e. return (Inl (statusf Internal ''failed to expand volume: '' e)))
          (\<lambda>_. do {
             RecordProvisionedVolume (zero_VolumeInfo\<lparr>vi_ID := vi_ID volInfo, vi_PoolName := vi_PoolName volInfo,
               vi_Protocol := vi_Protocol volInfo, vi_CapacityBytes := newSize\<rparr>);
             return (Inr \<lparr>ces_CapacityBytes = newSize,
               ces_NodeExpansionRequired = isZVOLProtocol (vi_Protocol volInfo)\<rparr>) })))"

definition ControllerExpandVolume :: "'w driver \<Rightarrow> ControllerExpandVolumeRequest
    \<Rightarrow> ('w, status + ControllerExpandVolumeResponse) prog" where
  "ControllerExpandVolume d req =
     (if cer_VolumeId req = [] then return (Inl (Status InvalidArgument ''volume ID is required''))
      else let required = (case cer_CapacityRange req of None \<Rightarrow> 0 | Some cr \<Rightarrow> cr_RequiredBytes cr) in
        if required = 0 then return (Inl (Status InvalidArgument ''capacity range is required''))
        else if_err (GetVolumeInfo d (cer_VolumeId req))
          (\<lambda>e. return (Inl (statusf NotFound ''volume not found: '' e)))
          (\<lambda>volInfo. deferred_record (vi_Protocol volInfo) ''expand''
             (expand_to d volInfo (clamp_size required))))"

record ControllerGetVolumeResponse =
  cgv_Volume :: Volume
  cgv_Abnormal :: bool
  cgv_Message :: string

definition ControllerGetVolume :: "'w driver \<Rightarrow> string \<Rightarrow> ('w, status + ControllerGetVolumeResponse) prog" where
  "ControllerGetVolume d volumeID =
     (if volumeID = [] then return (Inl (Status InvalidArgument ''volume ID is required''))
      else if_err (GetVolumeInfo d volumeID)
        (\<lambda>e. return (Inl (statusf NotFound ''volume not found: '' e))) (\<lambda>volInfo.
        if_err (GetDataset (d_client d) (vi_DatasetPath volInfo))
          (\<lambda>e. return (Inl (statusf Internal ''failed to get volume info: '' e))) (\<lambda>dataset.
        let abnormal = ds_Used dataset > ds_Available dataset in
        return (Inr \<lparr>cgv_Volume = \<lparr>vol_VolumeId = vi_ID volInfo, vol_CapacityBytes = vi_CapacityBytes volInfo,
                       vol_VolumeContext = vi_VolumeContext volInfo, vol_ContentSource = None\<rparr>,
                     cgv_Abnormal = abnormal,
                     cgv_Message = (if abnormal then ''Volume is running out of space''
                                    else ''Volume is healthy'')\<rparr>))))"

definition ControllerModifyVolume :: "('w, status + unit) prog" where
  "ControllerModifyVolume = return (Inr ())"

section \<open>Identity service and interceptor\<close>

definition GetPluginInfo :: "'w driver \<Rightarrow> status + string \<times> string" where
  "GetPluginInfo d =
     (if d_name d = [] then Inl (Status Unavailable ''driver name not configured'')
      else if d_version d = [] then Inl (Status Unavailable ''driver version not configured'')
      else Inr (d_name d, d_version d))"

definition GetPluginCapabilities :: "status + plugin_cap list" where
  "GetPluginCapabilities = Inr pluginCaps"

text \<open>\<^verbatim>\<open>Probe\<close>, given the state of the client.\<close>

definition Probe :: "bool \<Rightarrow> bool \<Rightarrow> status + bool" where
  "Probe closed connected =
     (if closed then Inl (Status FailedPrecondition ''TrueNAS client closed'') else Inr connected)"

text \<open>The parameter names that \<^verbatim>\<open>sanitizeRequest\<close> lets into the log.\<close>

definition sensitive_key :: "string \<Rightarrow> bool" where
  "sensitive_key k \<longleftrightarrow>
     Contains (ToLower k) ''secret'' \<or> Contains (ToLower k) ''password'' \<or> Contains (ToLower k) ''key''"

record safe_request =
  safe_Name :: string
  safe_CapacityRange :: "CapacityRange option"
  safe_VolumeCapabilities :: nat
  safe_ParameterKeys :: "string list"
  safe_HasSecrets :: bool
  safe_HasVolumeSource :: bool

definition sanitizeRequest :: "CreateVolumeRequest \<Rightarrow> safe_request" where
  "sanitizeRequest r =
     \<lparr>safe_Name = cvr_Name r,
      safe_CapacityRange = cvr_CapacityRange r,
      safe_VolumeCapabilities = length (cvr_VolumeCapabilities r),
      safe_ParameterKeys = filter (\<lambda>k. \<not> sensitive_key k) (map fst (cvr_Parameters r)),
      safe_HasSecrets = (cvr_Secrets r \<noteq> []),
      safe_HasVolumeSource = (cvr_VolumeContentSource r \<noteq> None)\<rparr>"

definition unaryInterceptor :: "string \<Rightarrow> ('w, status + 'a) prog \<Rightarrow> ('w, status + 'a) prog" where
  "unaryInterceptor fullMethod handler = do {
     r \<leftarrow> handler;
     with_metrics (ObserveCSI fullMethod r);
     return r }"

end
