(* ===== verification/Driver_Traffic.thy ===== *)
theory Driver_Traffic
  imports Controller_Query
begin

text \<open>
  What the programs of the driver send and what they change. For every program of the driver
  there are two lemmas: \<open>uses\<close> names the methods of the appliance it may call (in the
  collection \<open>traffic\<close>), and \<open>keeps\<close> says that it preserves every property of the state
  that survives the calls of the client and the changes of the cached configuration (\<open>backend_kept\<close>); the
  handlers that account for volumes ask for \<open>service_kept\<close>, which the invariant
  \<open>service_inv\<close> of the running driver satisfies.
\<close>

named_theorems traffic "the methods a program of the driver calls"

section \<open>Invariants\<close>

text \<open>The contract of a property that every program of the driver preserves: it survives every call of the client and
  every change of the cached configuration; a handler may moreover change the metrics.\<close>

locale backend_kept = wire_kept c I for c :: "'w rpc" and I :: "'w sys \<Rightarrow> bool" +
  assumes portal_kept: "I s \<Longrightarrow> I (s\<lparr>iscsiPortalID := n\<rparr>)"
    and port_kept: "I s \<Longrightarrow> I (s\<lparr>nvmeofPortID := n\<rparr>)"
    and basename_kept: "I s \<Longrightarrow> I (s\<lparr>iscsiBasename := b\<rparr>)"

text \<open>The changes of the metrics.\<close>

definition metrics_step :: "(Metrics \<Rightarrow> Metrics) \<Rightarrow> bool" where
  "metrics_step f \<longleftrightarrow> (\<exists>i pool protocol n. f = SetProvisionedVolume i pool protocol n)
     \<or> (\<exists>i. f = RemoveProvisionedVolume_metrics i)
     \<or> (\<exists>protocol operation (r :: status + unit). f = RecordVolumeOperation protocol operation r)
     \<or> (\<exists>name (r :: status + unit). f = ObserveCSI name r)"

locale service_kept = backend_kept c I for c :: "'w rpc" and I :: "'w sys \<Rightarrow> bool" +
  assumes metrics_kept: "I s \<Longrightarrow> metrics_step f \<Longrightarrow> I (s\<lparr>metrics := f (metrics s)\<rparr>)"
    and nodes_kept: "I s \<Longrightarrow> I (s\<lparr>registeredNodes := List.insert n (registeredNodes s)\<rparr>)"

lemma backend_kept_wire_kept: "backend_kept c I \<Longrightarrow> wire_kept c I"
  by (simp add: backend_kept_def)

lemma service_kept_backend_kept: "service_kept c I \<Longrightarrow> backend_kept c I"
  by (simp add: service_kept_def)

lemmas kept_weaken = backend_kept_wire_kept service_kept_backend_kept
  backend_kept_wire_kept [OF service_kept_backend_kept]

lemma keeps_portal [keeps_intros]: "backend_kept c I \<Longrightarrow> keeps I (modify (\<lambda>s. s\<lparr>iscsiPortalID := n\<rparr>))"
  by (auto intro: keeps_modify backend_kept.portal_kept)

lemma keeps_port [keeps_intros]: "backend_kept c I \<Longrightarrow> keeps I (modify (\<lambda>s. s\<lparr>nvmeofPortID := n\<rparr>))"
  by (auto intro: keeps_modify backend_kept.port_kept)

lemma keeps_basename [keeps_intros]: "backend_kept c I \<Longrightarrow> keeps I (modify (\<lambda>s. s\<lparr>iscsiBasename := b\<rparr>))"
  by (auto intro: keeps_modify backend_kept.basename_kept)

text \<open>The invariant of the running driver: both gauges agree with the table of volumes, and no
  node is registered twice.\<close>

definition service_inv :: "'w sys \<Rightarrow> bool" where
  "service_inv s \<longleftrightarrow> metrics_balanced (metrics s) \<and> distinct (registeredNodes s)"

section \<open>Rules for the metrics and the branches\<close>

lemma emits_case_bool [emits_intros]:
  "emits P m \<Longrightarrow> emits P n \<Longrightarrow> emits P (case b of True \<Rightarrow> m | False \<Rightarrow> n)"
  by (cases b) simp_all

lemma keeps_case_bool [keeps_intros]:
  "keeps I m \<Longrightarrow> keeps I n \<Longrightarrow> keeps I (case b of True \<Rightarrow> m | False \<Rightarrow> n)"
  by (cases b) simp_all

lemma emits_case_source [emits_intros]:
  "(\<And>x. emits P (f x)) \<Longrightarrow> (\<And>x. emits P (g x)) \<Longrightarrow> emits P m \<Longrightarrow>
     emits P (case cs of SourceSnapshot x \<Rightarrow> f x | SourceVolume x \<Rightarrow> g x | SourceUnset \<Rightarrow> m)"
  by (cases cs) simp_all

lemma keeps_case_source [keeps_intros]:
  "(\<And>x. keeps I (f x)) \<Longrightarrow> (\<And>x. keeps I (g x)) \<Longrightarrow> keeps I m \<Longrightarrow>
     keeps I (case cs of SourceSnapshot x \<Rightarrow> f x | SourceVolume x \<Rightarrow> g x | SourceUnset \<Rightarrow> m)"
  by (cases cs) simp_all

lemma emits_with_metrics [emits_intros]: "emits P (with_metrics f)"
  unfolding with_metrics_def by (intro emits_intros) simp

lemma emits_record [emits_intros]:
  "emits P (RecordProvisionedVolume v)" "emits P (RemoveProvisionedVolume i)"
  "emits P (record_existing i pool protocol n)"
  by (simp_all add: RecordProvisionedVolume_def RemoveProvisionedVolume_def record_existing_def emits_with_metrics)

lemma emits_deferred [emits_intros]: "emits P m \<Longrightarrow> emits P (deferred_record protocol operation m)"
  unfolding deferred_record_def by (intro emits_intros)

lemma emits_interceptor [emits_intros]: "emits P m \<Longrightarrow> emits P (unaryInterceptor name m)"
  unfolding unaryInterceptor_def by (intro emits_intros)

lemma emits_ready_snapshot [emits_intros]: "emits P (ready_snapshot d sid source n)"
  unfolding ready_snapshot_def by (intro emits_intros)

lemma emits_list_entries [emits_intros]: "emits P (list_entries d source snaps)"
  by (induction snaps) (auto intro!: emits_intros)

lemma emits_IsNodeRegistered [emits_intros]: "emits P (IsNodeRegistered n)"
  unfolding IsNodeRegistered_def by (intro emits_intros)

lemma keeps_with_metrics [keeps_intros]: "service_kept c I \<Longrightarrow> metrics_step f \<Longrightarrow> keeps I (with_metrics f)"
  unfolding with_metrics_def by (rule keeps_modify) (rule service_kept.metrics_kept)

text \<open>The metrics look only at whether an operation failed, and how.\<close>

definition outcome :: "status + 'a \<Rightarrow> status + unit" where
  "outcome r = (case r of Inl e \<Rightarrow> Inl e | Inr _ \<Rightarrow> Inr ())"

lemma record_outcome:
  "RecordVolumeOperation protocol operation r = RecordVolumeOperation protocol operation (outcome r)"
  "ObserveCSI name r = ObserveCSI name (outcome r)"
  by (cases r; simp add: fun_eq_iff RecordVolumeOperation_def ObserveCSI_def outcome_def outcome_of_def)+

lemma metrics_steps:
  "metrics_step (SetProvisionedVolume i pool protocol n)" "metrics_step (RemoveProvisionedVolume_metrics i)"
  "metrics_step (RecordVolumeOperation protocol operation r)" "metrics_step (ObserveCSI name r)"
  unfolding metrics_step_def by (blast intro: record_outcome)+

lemma metrics_balanced_collect:
  "(\<And>n l. gauge_total n l cs = 0) \<Longrightarrow> metrics_balanced m \<Longrightarrow> metrics_balanced (collect cs m)"
  by (simp add: metrics_balanced_def cap.balanced_def cnt.balanced_def)

lemma metrics_balanced_operation: "metrics_balanced m \<Longrightarrow> metrics_balanced (RecordVolumeOperation p oper r m)"
  unfolding RecordVolumeOperation_def Let_def by (rule metrics_balanced_collect) simp_all

lemma metrics_balanced_observe: "metrics_balanced m \<Longrightarrow> metrics_balanced (ObserveCSI name r m)"
  unfolding ObserveCSI_def Let_def by (rule metrics_balanced_collect) simp_all

lemma metrics_balanced_step: "metrics_step f \<Longrightarrow> metrics_balanced m \<Longrightarrow> metrics_balanced (f m)"
  unfolding metrics_step_def
  by (auto intro: metrics_balanced_set metrics_balanced_remove metrics_balanced_operation metrics_balanced_observe)

interpretation service_inv: service_kept c service_inv for c
  by unfold_locales (auto simp: service_inv_def after_call_def metrics_balanced_step split: prod.splits)

lemma keeps_record [keeps_intros]:
  assumes "service_kept c I"
  shows "keeps I (RecordProvisionedVolume v)" "keeps I (RemoveProvisionedVolume i)"
    and "keeps I (record_existing i pool protocol n)"
  by (auto simp: RecordProvisionedVolume_def RemoveProvisionedVolume_def record_existing_def
      intro!: keeps_with_metrics [OF assms] metrics_steps)

lemma keeps_deferred [keeps_intros]:
  "service_kept c I \<Longrightarrow> keeps I m \<Longrightarrow> keeps I (deferred_record protocol operation m)"
  unfolding deferred_record_def by (intro keeps_intros metrics_steps)

lemma keeps_interceptor [keeps_intros]:
  "service_kept c I \<Longrightarrow> keeps I m \<Longrightarrow> keeps I (unaryInterceptor name m)"
  unfolding unaryInterceptor_def by (intro keeps_intros metrics_steps)

lemma keeps_ready_snapshot [keeps_intros]: "keeps I (ready_snapshot d sid source n)"
  unfolding ready_snapshot_def by (intro keeps_intros)

lemma keeps_list_entries [keeps_intros]: "keeps I (list_entries d source snaps)"
  by (induction snaps) (auto intro!: keeps_intros)

lemma keeps_IsNodeRegistered [keeps_intros]: "keeps I (IsNodeRegistered n)"
  unfolding IsNodeRegistered_def by (intro keeps_intros)

lemma keeps_RegisterNode [keeps_intros]: "service_kept c I \<Longrightarrow> keeps I (RegisterNode n)"
  unfolding RegisterNode_def by (rule keeps_modify) (rule service_kept.nodes_kept)


section \<open>Driver\<close>

lemma uses_ISCSIPortalID [traffic]:
  "uses [''iscsi.portal.query'']
     (ISCSIPortalID d)"
  by (rule usesI, unfold ISCSIPortalID_def Let_def, intro emits_intros traffic [THEN uses_emits_method]) simp_all

lemma keeps_ISCSIPortalID [keeps_intros]: "backend_kept (d_client d) I \<Longrightarrow> keeps I (ISCSIPortalID d)"
  unfolding ISCSIPortalID_def Let_def by (intro keeps_intros) (assumption | erule kept_weaken)+

lemma uses_resolveOrCreateNVMePort [traffic]:
  "uses [''nvmet.port.query'', ''nvmet.port.create'']
     (resolveOrCreateNVMePort c addr svcID)"
  by (rule usesI, unfold resolveOrCreateNVMePort_def Let_def, intro emits_intros traffic [THEN uses_emits_method]) simp_all

lemma keeps_resolveOrCreateNVMePort [keeps_intros]: "wire_kept c I \<Longrightarrow> keeps I (resolveOrCreateNVMePort c addr svcID)"
  unfolding resolveOrCreateNVMePort_def Let_def by (intro keeps_intros) (assumption | erule kept_weaken)+

lemma uses_NVMeOFPortID [traffic]:
  "uses [''nvmet.port.query'', ''nvmet.port.create'']
     (NVMeOFPortID d)"
  by (rule usesI, unfold NVMeOFPortID_def Let_def, intro emits_intros traffic [THEN uses_emits_method]) simp_all

lemma keeps_NVMeOFPortID [keeps_intros]: "backend_kept (d_client d) I \<Longrightarrow> keeps I (NVMeOFPortID d)"
  unfolding NVMeOFPortID_def Let_def by (intro keeps_intros) (assumption | erule kept_weaken)+

lemma uses_resolveISCSIBasename [traffic]:
  "uses [''iscsi.global.config'']
     (resolveISCSIBasename d)"
  by (rule usesI, unfold resolveISCSIBasename_def Let_def, intro emits_intros traffic [THEN uses_emits_method]) simp_all

lemma keeps_resolveISCSIBasename [keeps_intros]: "backend_kept (d_client d) I \<Longrightarrow> keeps I (resolveISCSIBasename d)"
  unfolding resolveISCSIBasename_def Let_def by (intro keeps_intros) (assumption | erule kept_weaken)+

lemma uses_ResolveISCSIIQNBase [traffic]:
  "uses [''iscsi.global.config'']
     (ResolveISCSIIQNBase d parameters)"
  by (rule usesI, unfold ResolveISCSIIQNBase_def Let_def, intro emits_intros traffic [THEN uses_emits_method]) simp_all

lemma keeps_ResolveISCSIIQNBase [keeps_intros]: "backend_kept (d_client d) I \<Longrightarrow> keeps I (ResolveISCSIIQNBase d parameters)"
  unfolding ResolveISCSIIQNBase_def Let_def by (intro keeps_intros) (assumption | erule kept_weaken)+

lemma uses_reconstruct_iscsi [traffic]:
  "uses [''iscsi.targetextent.query'', ''iscsi.target.query'', ''iscsi.global.config'']
     (reconstruct_iscsi d volInfo extent)"
  by (rule usesI, unfold reconstruct_iscsi_def Let_def, intro emits_intros traffic [THEN uses_emits_method]) simp_all

lemma keeps_reconstruct_iscsi [keeps_intros]: "backend_kept (d_client d) I \<Longrightarrow> keeps I (reconstruct_iscsi d volInfo extent)"
  unfolding reconstruct_iscsi_def Let_def by (intro keeps_intros) (assumption | erule kept_weaken)+

lemma uses_reconstruct_zvol [traffic]:
  "uses [''iscsi.extent.query'', ''iscsi.targetextent.query'', ''iscsi.target.query'',
     ''iscsi.global.config'', ''nvmet.namespace.query'']
     (reconstruct_zvol d volInfo zvolPath)"
  by (rule usesI, unfold reconstruct_zvol_def Let_def, intro emits_intros traffic [THEN uses_emits_method]) simp_all

lemma keeps_reconstruct_zvol [keeps_intros]: "backend_kept (d_client d) I \<Longrightarrow> keeps I (reconstruct_zvol d volInfo zvolPath)"
  unfolding reconstruct_zvol_def Let_def by (intro keeps_intros) (assumption | erule kept_weaken)+

lemma uses_reconstructVolumeFromTrueNAS [traffic]:
  "uses [''pool.dataset.get_instance'', ''iscsi.extent.query'', ''iscsi.targetextent.query'',
     ''iscsi.target.query'', ''iscsi.global.config'', ''nvmet.namespace.query'']
     (reconstructVolumeFromTrueNAS d volumeID)"
  by (rule usesI, unfold reconstructVolumeFromTrueNAS_def Let_def, intro emits_intros traffic [THEN uses_emits_method]) simp_all

lemma keeps_reconstructVolumeFromTrueNAS [keeps_intros]: "backend_kept (d_client d) I \<Longrightarrow> keeps I (reconstructVolumeFromTrueNAS d volumeID)"
  unfolding reconstructVolumeFromTrueNAS_def Let_def by (intro keeps_intros) (assumption | erule kept_weaken)+

lemma uses_GetVolumeInfo [traffic]:
  "uses [''pool.dataset.get_instance'', ''iscsi.extent.query'', ''iscsi.targetextent.query'',
     ''iscsi.target.query'', ''iscsi.global.config'', ''nvmet.namespace.query'']
     (GetVolumeInfo d volumeID)"
  by (rule usesI, unfold GetVolumeInfo_def Let_def, intro emits_intros traffic [THEN uses_emits_method]) simp_all

lemma keeps_GetVolumeInfo [keeps_intros]: "backend_kept (d_client d) I \<Longrightarrow> keeps I (GetVolumeInfo d volumeID)"
  unfolding GetVolumeInfo_def Let_def by (intro keeps_intros) (assumption | erule kept_weaken)+


section \<open>Detached snapshots\<close>

lemma uses_ensureDataset [traffic]:
  "uses [''pool.dataset.get_instance'', ''pool.dataset.create'']
     (ensureDataset d datasetPath)"
  by (rule usesI, unfold ensureDataset_def Let_def, intro emits_intros traffic [THEN uses_emits_method]) simp_all

lemma keeps_ensureDataset [keeps_intros]: "backend_kept (d_client d) I \<Longrightarrow> keeps I (ensureDataset d datasetPath)"
  unfolding ensureDataset_def Let_def by (intro keeps_intros) (assumption | erule kept_weaken)+

lemma uses_ensureTargetParent [traffic]:
  "uses [''pool.dataset.get_instance'', ''pool.dataset.create'']
     (ensureTargetParent d targetDataset)"
  by (rule usesI, unfold ensureTargetParent_def Let_def, intro emits_intros traffic [THEN uses_emits_method]) simp_all

lemma keeps_ensureTargetParent [keeps_intros]: "backend_kept (d_client d) I \<Longrightarrow> keeps I (ensureTargetParent d targetDataset)"
  unfolding ensureTargetParent_def Let_def by (intro keeps_intros) (assumption | erule kept_weaken)+

lemma uses_createTemporarySnapshot [traffic]:
  "uses [''pool.snapshot.create'']
     (createTemporarySnapshot d dataset name)"
  by (rule usesI, unfold createTemporarySnapshot_def Let_def, intro emits_intros traffic [THEN uses_emits_method]) simp_all

lemma keeps_createTemporarySnapshot [keeps_intros]: "backend_kept (d_client d) I \<Longrightarrow> keeps I (createTemporarySnapshot d dataset name)"
  unfolding createTemporarySnapshot_def Let_def by (intro keeps_intros) (assumption | erule kept_weaken)+

lemma uses_deleteSnapshotIfPresent [traffic]:
  "uses [''pool.snapshot.delete'']
     (deleteSnapshotIfPresent d snapshotID)"
  by (rule usesI, unfold deleteSnapshotIfPresent_def Let_def, intro emits_intros traffic [THEN uses_emits_method]) simp_all

lemma keeps_deleteSnapshotIfPresent [keeps_intros]: "backend_kept (d_client d) I \<Longrightarrow> keeps I (deleteSnapshotIfPresent d snapshotID)"
  unfolding deleteSnapshotIfPresent_def Let_def by (intro keeps_intros) (assumption | erule kept_weaken)+

lemma uses_replicate_snapshot [traffic]:
  "uses [''replication.run_onetime'', ''core.get_jobs'']
     (replicate_snapshot d sourceDataset targetDataset snapshotName)"
  by (rule usesI, unfold replicate_snapshot_def Let_def, intro emits_intros traffic [THEN uses_emits_method]) simp_all

lemma keeps_replicate_snapshot [keeps_intros]: "backend_kept (d_client d) I \<Longrightarrow> keeps I (replicate_snapshot d sourceDataset targetDataset snapshotName)"
  unfolding replicate_snapshot_def Let_def by (intro keeps_intros) (assumption | erule kept_weaken)+

lemma uses_transferDetachedSnapshot [traffic]:
  "uses [''pool.dataset.get_instance'', ''pool.dataset.create'', ''replication.run_onetime'',
     ''core.get_jobs'', ''pool.snapshot.delete'']
     (transferDetachedSnapshot d sourceSnapshotID targetDataset deleteSource)"
  by (rule usesI, unfold transferDetachedSnapshot_def Let_def, intro emits_intros traffic [THEN uses_emits_method]) simp_all

lemma keeps_transferDetachedSnapshot [keeps_intros]: "backend_kept (d_client d) I \<Longrightarrow> keeps I (transferDetachedSnapshot d sourceSnapshotID targetDataset deleteSource)"
  unfolding transferDetachedSnapshot_def Let_def by (intro keeps_intros) (assumption | erule kept_weaken)+

lemma uses_listDetachedSnapshots [traffic]:
  "uses [''pool.dataset.query'']
     (listDetachedSnapshots d sourceVolumeID)"
  by (rule usesI, unfold listDetachedSnapshots_def Let_def, intro emits_intros traffic [THEN uses_emits_method]) simp_all

lemma keeps_listDetachedSnapshots [keeps_intros]: "backend_kept (d_client d) I \<Longrightarrow> keeps I (listDetachedSnapshots d sourceVolumeID)"
  unfolding listDetachedSnapshots_def Let_def by (intro keeps_intros) (assumption | erule kept_weaken)+

lemma uses_findDetachedSnapshotByName [traffic]:
  "uses [''pool.dataset.query'']
     (findDetachedSnapshotByName d name)"
  by (rule usesI, unfold findDetachedSnapshotByName_def Let_def, intro emits_intros traffic [THEN uses_emits_method]) simp_all

lemma keeps_findDetachedSnapshotByName [keeps_intros]: "backend_kept (d_client d) I \<Longrightarrow> keeps I (findDetachedSnapshotByName d name)"
  unfolding findDetachedSnapshotByName_def Let_def by (intro keeps_intros) (assumption | erule kept_weaken)+

lemma uses_clone_detached_dataset [traffic]:
  "uses [''pool.dataset.get_instance'', ''pool.snapshot.create'', ''pool.dataset.create'',
     ''replication.run_onetime'', ''core.get_jobs'', ''pool.snapshot.delete'']
     (clone_detached_dataset d snapshotID sourceVolumeID sourceDataset targetDataset)"
  by (rule usesI, unfold clone_detached_dataset_def Let_def, intro emits_intros traffic [THEN uses_emits_method]) simp_all

lemma keeps_clone_detached_dataset [keeps_intros]: "backend_kept (d_client d) I \<Longrightarrow> keeps I (clone_detached_dataset d snapshotID sourceVolumeID sourceDataset targetDataset)"
  unfolding clone_detached_dataset_def Let_def by (intro keeps_intros) (assumption | erule kept_weaken)+

lemma uses_cloneDetachedSnapshot [traffic]:
  "uses [''pool.dataset.get_instance'', ''pool.dataset.create'', ''replication.run_onetime'',
     ''core.get_jobs'', ''pool.snapshot.delete'', ''pool.snapshot.create'']
     (cloneDetachedSnapshot d snapshotID targetDataset)"
  by (rule usesI, unfold cloneDetachedSnapshot_def Let_def, intro emits_intros traffic [THEN uses_emits_method]) simp_all

lemma keeps_cloneDetachedSnapshot [keeps_intros]: "backend_kept (d_client d) I \<Longrightarrow> keeps I (cloneDetachedSnapshot d snapshotID targetDataset)"
  unfolding cloneDetachedSnapshot_def Let_def by (intro keeps_intros) (assumption | erule kept_weaken)+

lemma uses_markDetachedSnapshot [traffic]:
  "uses [''pool.dataset.update'']
     (markDetachedSnapshot d datasetPath)"
  by (rule usesI, unfold markDetachedSnapshot_def Let_def, intro emits_intros traffic [THEN uses_emits_method]) simp_all

lemma keeps_markDetachedSnapshot [keeps_intros]: "backend_kept (d_client d) I \<Longrightarrow> keeps I (markDetachedSnapshot d datasetPath)"
  unfolding markDetachedSnapshot_def Let_def by (intro keeps_intros) (assumption | erule kept_weaken)+

lemma uses_make_detached_snapshot [traffic]:
  "uses [''pool.dataset.get_instance'', ''pool.dataset.create'', ''pool.snapshot.create'',
     ''replication.run_onetime'', ''core.get_jobs'', ''pool.snapshot.delete'', ''pool.dataset.update'']
     (make_detached_snapshot d parent sourceVolumeID snapshotName sourceDataset targetDataset detachedID)"
  by (rule usesI, unfold make_detached_snapshot_def Let_def, intro emits_intros traffic [THEN uses_emits_method]) simp_all

lemma keeps_make_detached_snapshot [keeps_intros]: "backend_kept (d_client d) I \<Longrightarrow> keeps I (make_detached_snapshot d parent sourceVolumeID snapshotName sourceDataset targetDataset detachedID)"
  unfolding make_detached_snapshot_def Let_def by (intro keeps_intros) (assumption | erule kept_weaken)+

lemma uses_createDetachedSnapshot [traffic]:
  "uses [''pool.dataset.query'', ''pool.dataset.get_instance'', ''pool.dataset.create'',
     ''pool.snapshot.create'', ''replication.run_onetime'', ''core.get_jobs'', ''pool.snapshot.delete'',
     ''pool.dataset.update'']
     (createDetachedSnapshot d sourceVolumeID snapshotName sourceDataset)"
  by (rule usesI, unfold createDetachedSnapshot_def Let_def, intro emits_intros traffic [THEN uses_emits_method]) simp_all

lemma keeps_createDetachedSnapshot [keeps_intros]: "backend_kept (d_client d) I \<Longrightarrow> keeps I (createDetachedSnapshot d sourceVolumeID snapshotName sourceDataset)"
  unfolding createDetachedSnapshot_def Let_def by (intro keeps_intros) (assumption | erule kept_weaken)+

lemma uses_cloneDetachedVolume [traffic]:
  "uses [''pool.snapshot.create'', ''pool.dataset.get_instance'', ''pool.dataset.create'',
     ''replication.run_onetime'', ''core.get_jobs'', ''pool.snapshot.delete'']
     (cloneDetachedVolume d sourceDataset targetDataset volumeID)"
  by (rule usesI, unfold cloneDetachedVolume_def Let_def, intro emits_intros traffic [THEN uses_emits_method]) simp_all

lemma keeps_cloneDetachedVolume [keeps_intros]: "backend_kept (d_client d) I \<Longrightarrow> keeps I (cloneDetachedVolume d sourceDataset targetDataset volumeID)"
  unfolding cloneDetachedVolume_def Let_def by (intro keeps_intros) (assumption | erule kept_weaken)+


section \<open>Parameters\<close>

lemma uses_validateStorageClassParameters [traffic]:
  "uses [''pool.query'']
     (validateStorageClassParameters d parameters secrets)"
  by (rule usesI, unfold validateStorageClassParameters_def Let_def, intro emits_intros traffic [THEN uses_emits_method]) simp_all

lemma keeps_validateStorageClassParameters [keeps_intros]: "backend_kept (d_client d) I \<Longrightarrow> keeps I (validateStorageClassParameters d parameters secrets)"
  unfolding validateStorageClassParameters_def Let_def by (intro keeps_intros) (assumption | erule kept_weaken)+

lemma uses_setDatasetDescription [traffic]:
  "uses [''pool.dataset.update'']
     (setDatasetDescription d datasetPath parameters)"
  by (rule usesI, unfold setDatasetDescription_def Let_def, intro emits_intros traffic [THEN uses_emits_method]) simp_all

lemma keeps_setDatasetDescription [keeps_intros]: "backend_kept (d_client d) I \<Longrightarrow> keeps I (setDatasetDescription d datasetPath parameters)"
  unfolding setDatasetDescription_def Let_def by (intro keeps_intros) (assumption | erule kept_weaken)+

lemma uses_createSnapshotTaskFromParameters [traffic]:
  "uses [''pool.snapshottask.create'']
     (createSnapshotTaskFromParameters d datasetPath parameters)"
  by (rule usesI, unfold createSnapshotTaskFromParameters_def Let_def, intro emits_intros traffic [THEN uses_emits_method]) simp_all

lemma keeps_createSnapshotTaskFromParameters [keeps_intros]: "backend_kept (d_client d) I \<Longrightarrow> keeps I (createSnapshotTaskFromParameters d datasetPath parameters)"
  unfolding createSnapshotTaskFromParameters_def Let_def by (intro keeps_intros) (assumption | erule kept_weaken)+

lemma uses_deleteSnapshotTaskForDataset [traffic]:
  "uses [''pool.snapshottask.query'', ''pool.snapshottask.delete'']
     (deleteSnapshotTaskForDataset d datasetPath)"
  by (rule usesI, unfold deleteSnapshotTaskForDataset_def Let_def, intro emits_intros traffic [THEN uses_emits_method]) simp_all

lemma keeps_deleteSnapshotTaskForDataset [keeps_intros]: "backend_kept (d_client d) I \<Longrightarrow> keeps I (deleteSnapshotTaskForDataset d datasetPath)"
  unfolding deleteSnapshotTaskForDataset_def Let_def by (intro keeps_intros) (assumption | erule kept_weaken)+


section \<open>CreateVolume\<close>

lemma uses_cleanup_dataset [traffic]:
  "uses [''pool.dataset.delete'']
     (cleanup_dataset d datasetPath)"
  by (rule usesI, unfold cleanup_dataset_def Let_def, intro emits_intros traffic [THEN uses_emits_method]) simp_all

lemma keeps_cleanup_dataset [keeps_intros]: "backend_kept (d_client d) I \<Longrightarrow> keeps I (cleanup_dataset d datasetPath)"
  unfolding cleanup_dataset_def Let_def by (intro keeps_intros) (assumption | erule kept_weaken)+

lemma uses_undo_auth [traffic]:
  "uses [''iscsi.auth.delete'']
     (undo_auth d authID)"
  by (rule usesI, unfold undo_auth_def Let_def, intro emits_intros traffic [THEN uses_emits_method]) simp_all

lemma keeps_undo_auth [keeps_intros]: "backend_kept (d_client d) I \<Longrightarrow> keeps I (undo_auth d authID)"
  unfolding undo_auth_def Let_def by (intro keeps_intros) (assumption | erule kept_weaken)+

lemma uses_undo_initiator [traffic]:
  "uses [''iscsi.initiator.delete'']
     (undo_initiator d initiatorID)"
  by (rule usesI, unfold undo_initiator_def Let_def, intro emits_intros traffic [THEN uses_emits_method]) simp_all

lemma keeps_undo_initiator [keeps_intros]: "backend_kept (d_client d) I \<Longrightarrow> keeps I (undo_initiator d initiatorID)"
  unfolding undo_initiator_def Let_def by (intro keeps_intros) (assumption | erule kept_weaken)+

lemma uses_undo_target [traffic]:
  "uses [''iscsi.targetextent.query'', ''iscsi.targetextent.delete'', ''iscsi.target.delete'']
     (undo_target d targetID)"
  by (rule usesI, unfold undo_target_def Let_def, intro emits_intros traffic [THEN uses_emits_method]) simp_all

lemma keeps_undo_target [keeps_intros]: "backend_kept (d_client d) I \<Longrightarrow> keeps I (undo_target d targetID)"
  unfolding undo_target_def Let_def by (intro keeps_intros) (assumption | erule kept_weaken)+

lemma uses_undo_extent [traffic]:
  "uses [''iscsi.extent.delete'']
     (undo_extent d extentID)"
  by (rule usesI, unfold undo_extent_def Let_def, intro emits_intros traffic [THEN uses_emits_method]) simp_all

lemma keeps_undo_extent [keeps_intros]: "backend_kept (d_client d) I \<Longrightarrow> keeps I (undo_extent d extentID)"
  unfolding undo_extent_def Let_def by (intro keeps_intros) (assumption | erule kept_weaken)+

lemma uses_undo_subsys [traffic]:
  "uses [''nvmet.subsys.delete'']
     (undo_subsys d subsysID)"
  by (rule usesI, unfold undo_subsys_def Let_def, intro emits_intros traffic [THEN uses_emits_method]) simp_all

lemma keeps_undo_subsys [keeps_intros]: "backend_kept (d_client d) I \<Longrightarrow> keeps I (undo_subsys d subsysID)"
  unfolding undo_subsys_def Let_def by (intro keeps_intros) (assumption | erule kept_weaken)+

lemma uses_undo_namespace [traffic]:
  "uses [''nvmet.namespace.delete'']
     (undo_namespace d nsID)"
  by (rule usesI, unfold undo_namespace_def Let_def, intro emits_intros traffic [THEN uses_emits_method]) simp_all

lemma keeps_undo_namespace [keeps_intros]: "backend_kept (d_client d) I \<Longrightarrow> keeps I (undo_namespace d nsID)"
  unfolding undo_namespace_def Let_def by (intro keeps_intros) (assumption | erule kept_weaken)+

lemma uses_undo_port_link [traffic]:
  "uses [''nvmet.port_subsys.delete'']
     (undo_port_link d linkID)"
  by (rule usesI, unfold undo_port_link_def Let_def, intro emits_intros traffic [THEN uses_emits_method]) simp_all

lemma keeps_undo_port_link [keeps_intros]: "backend_kept (d_client d) I \<Longrightarrow> keeps I (undo_port_link d linkID)"
  unfolding undo_port_link_def Let_def by (intro keeps_intros) (assumption | erule kept_weaken)+

lemma uses_createNFSVolume [traffic]:
  "uses [''pool.dataset.create'', ''sharing.nfs.create'', ''pool.dataset.delete'',
     ''pool.snapshottask.create'']
     (createNFSVolume d volumeID datasetPath capacityBytes parameters secrets)"
  by (rule usesI, unfold createNFSVolume_def Let_def, intro emits_intros traffic [THEN uses_emits_method]) simp_all

lemma keeps_createNFSVolume [keeps_intros]: "backend_kept (d_client d) I \<Longrightarrow> keeps I (createNFSVolume d volumeID datasetPath capacityBytes parameters secrets)"
  unfolding createNFSVolume_def Let_def by (intro keeps_intros) (assumption | erule kept_weaken)+

lemma uses_ensureNVMeHost [traffic]:
  "uses [''nvmet.host.query'', ''nvmet.host.create'']
     (ensureNVMeHost d parameters secrets)"
  by (rule usesI, unfold ensureNVMeHost_def Let_def, intro emits_intros traffic [THEN uses_emits_method]) simp_all

lemma keeps_ensureNVMeHost [keeps_intros]: "backend_kept (d_client d) I \<Longrightarrow> keeps I (ensureNVMeHost d parameters secrets)"
  unfolding ensureNVMeHost_def Let_def by (intro keeps_intros) (assumption | erule kept_weaken)+

lemma emits_authorize_host [emits_intros]:
  "emits P undo \<Longrightarrow> (\<And>ps r. P (Request ''nvmet.host.query'' ps, r)) \<Longrightarrow> (\<And>ps r. P (Request ''nvmet.host.create'' ps, r))
     \<Longrightarrow> (\<And>ps r. P (Request ''nvmet.host_subsys.create'' ps, r))
     \<Longrightarrow> emits P (authorize_host d parameters secrets subsysID undo wrap)"
  unfolding authorize_host_def by (intro emits_intros traffic [THEN uses_emits_method]) auto

lemma keeps_authorize_host [keeps_intros]:
  "keeps I undo \<Longrightarrow> backend_kept (d_client d) I \<Longrightarrow> keeps I (authorize_host d parameters secrets subsysID undo wrap)"
  unfolding authorize_host_def by (intro keeps_intros) (assumption | erule kept_weaken)+

lemma uses_createNVMeOFVolume [traffic]:
  "uses [''nvmet.port.query'', ''nvmet.port.create'', ''pool.dataset.create'', ''nvmet.subsys.create'',
     ''pool.dataset.delete'', ''nvmet.namespace.create'', ''nvmet.subsys.delete'',
     ''nvmet.port_subsys.create'', ''nvmet.namespace.delete'', ''nvmet.port_subsys.delete'',
     ''pool.snapshottask.create'', ''nvmet.host.query'', ''nvmet.host.create'',
     ''nvmet.host_subsys.create'']
     (createNVMeOFVolume d volumeID datasetPath capacityBytes parameters secrets)"
  by (rule usesI, unfold createNVMeOFVolume_def Let_def, intro emits_intros traffic [THEN uses_emits_method]) simp_all

lemma keeps_createNVMeOFVolume [keeps_intros]: "backend_kept (d_client d) I \<Longrightarrow> keeps I (createNVMeOFVolume d volumeID datasetPath capacityBytes parameters secrets)"
  unfolding createNVMeOFVolume_def Let_def by (intro keeps_intros) (assumption | erule kept_weaken)+

lemma uses_createNVMeOFTargetForClone [traffic]:
  "uses [''nvmet.port.query'', ''nvmet.port.create'', ''nvmet.subsys.create'', ''nvmet.namespace.create'',
     ''nvmet.subsys.delete'', ''nvmet.port_subsys.create'', ''nvmet.namespace.delete'',
     ''nvmet.port_subsys.delete'', ''nvmet.host.query'', ''nvmet.host.create'',
     ''nvmet.host_subsys.create'']
     (createNVMeOFTargetForClone d volumeID datasetPath capacityBytes parameters secrets)"
  by (rule usesI, unfold createNVMeOFTargetForClone_def Let_def, intro emits_intros traffic [THEN uses_emits_method]) simp_all

lemma keeps_createNVMeOFTargetForClone [keeps_intros]: "backend_kept (d_client d) I \<Longrightarrow> keeps I (createNVMeOFTargetForClone d volumeID datasetPath capacityBytes parameters secrets)"
  unfolding createNVMeOFTargetForClone_def Let_def by (intro keeps_intros) (assumption | erule kept_weaken)+

lemma uses_ensureNVMeOFChain [traffic]:
  "uses [''nvmet.namespace.query'', ''nvmet.port.query'', ''nvmet.port.create'', ''nvmet.subsys.query'',
     ''nvmet.subsys.create'', ''nvmet.namespace.create'', ''nvmet.port_subsys.query'',
     ''nvmet.port_subsys.create'', ''nvmet.host.query'', ''nvmet.host.create'',
     ''nvmet.host_subsys.query'', ''nvmet.host_subsys.create'']
     (ensureNVMeOFChain d volumeID datasetPath parameters secrets)"
  by (rule usesI, unfold ensureNVMeOFChain_def Let_def, intro emits_intros traffic [THEN uses_emits_method]) simp_all

lemma keeps_ensureNVMeOFChain [keeps_intros]: "backend_kept (d_client d) I \<Longrightarrow> keeps I (ensureNVMeOFChain d volumeID datasetPath parameters secrets)"
  unfolding ensureNVMeOFChain_def Let_def by (intro keeps_intros) (assumption | erule kept_weaken)+

lemma uses_create_or_find_target [traffic]:
  "uses [''iscsi.target.create'', ''iscsi.target.query'']
     (create_or_find_target d volumeID portalID)"
  by (rule usesI, unfold create_or_find_target_def Let_def, intro emits_intros traffic [THEN uses_emits_method]) simp_all

lemma keeps_create_or_find_target [keeps_intros]: "backend_kept (d_client d) I \<Longrightarrow> keeps I (create_or_find_target d volumeID portalID)"
  unfolding create_or_find_target_def Let_def by (intro keeps_intros) (assumption | erule kept_weaken)+

lemma uses_ensureISCSIChain [traffic]:
  "uses [''iscsi.global.config'', ''iscsi.portal.query'', ''iscsi.extent.query'', ''iscsi.target.create'',
     ''iscsi.target.query'', ''iscsi.extent.create'', ''iscsi.targetextent.create'',
     ''iscsi.targetextent.query'']
     (ensureISCSIChain d volumeID datasetPath parameters)"
  by (rule usesI, unfold ensureISCSIChain_def Let_def, intro emits_intros traffic [THEN uses_emits_method]) simp_all

lemma keeps_ensureISCSIChain [keeps_intros]: "backend_kept (d_client d) I \<Longrightarrow> keeps I (ensureISCSIChain d volumeID datasetPath parameters)"
  unfolding ensureISCSIChain_def Let_def by (intro keeps_intros) (assumption | erule kept_weaken)+

lemma uses_setup_chap [traffic]:
  "uses [''pool.dataset.delete'', ''iscsi.auth.query'', ''iscsi.auth.create'']
     (setup_chap d datasetPath parameters secrets)"
  by (rule usesI, unfold setup_chap_def Let_def, intro emits_intros traffic [THEN uses_emits_method]) simp_all

lemma keeps_setup_chap [keeps_intros]: "backend_kept (d_client d) I \<Longrightarrow> keeps I (setup_chap d datasetPath parameters secrets)"
  unfolding setup_chap_def Let_def by (intro keeps_intros) (assumption | erule kept_weaken)+

lemma uses_setup_initiators [traffic]:
  "uses [''iscsi.initiator.create'', ''iscsi.auth.delete'', ''pool.dataset.delete'']
     (setup_initiators d volumeID datasetPath authID parameters)"
  by (rule usesI, unfold setup_initiators_def Let_def, intro emits_intros traffic [THEN uses_emits_method]) simp_all

lemma keeps_setup_initiators [keeps_intros]: "backend_kept (d_client d) I \<Longrightarrow> keeps I (setup_initiators d volumeID datasetPath authID parameters)"
  unfolding setup_initiators_def Let_def by (intro keeps_intros) (assumption | erule kept_weaken)+

lemma uses_createISCSIVolume [traffic]:
  "uses [''iscsi.portal.query'', ''pool.dataset.create'', ''pool.dataset.delete'', ''iscsi.auth.query'',
     ''iscsi.auth.create'', ''iscsi.initiator.create'', ''iscsi.auth.delete'', ''iscsi.global.config'',
     ''iscsi.target.create'', ''iscsi.initiator.delete'', ''iscsi.extent.create'',
     ''iscsi.targetextent.query'', ''iscsi.targetextent.delete'', ''iscsi.target.delete'',
     ''iscsi.targetextent.create'', ''iscsi.extent.delete'', ''pool.snapshottask.create'']
     (createISCSIVolume d volumeID datasetPath capacityBytes parameters secrets)"
  by (rule usesI, unfold createISCSIVolume_def Let_def, intro emits_intros traffic [THEN uses_emits_method]) simp_all

lemma keeps_createISCSIVolume [keeps_intros]: "backend_kept (d_client d) I \<Longrightarrow> keeps I (createISCSIVolume d volumeID datasetPath capacityBytes parameters secrets)"
  unfolding createISCSIVolume_def Let_def by (intro keeps_intros) (assumption | erule kept_weaken)+

lemma uses_createISCSITargetForClone [traffic]:
  "uses [''iscsi.portal.query'', ''iscsi.global.config'', ''iscsi.target.create'', ''iscsi.extent.create'',
     ''iscsi.targetextent.query'', ''iscsi.targetextent.delete'', ''iscsi.target.delete'',
     ''iscsi.targetextent.create'', ''iscsi.extent.delete'']
     (createISCSITargetForClone d volumeID datasetPath capacityBytes parameters)"
  by (rule usesI, unfold createISCSITargetForClone_def Let_def, intro emits_intros traffic [THEN uses_emits_method]) simp_all

lemma keeps_createISCSITargetForClone [keeps_intros]: "backend_kept (d_client d) I \<Longrightarrow> keeps I (createISCSITargetForClone d volumeID datasetPath capacityBytes parameters)"
  unfolding createISCSITargetForClone_def Let_def by (intro keeps_intros) (assumption | erule kept_weaken)+

lemma uses_createNFSShareForClone [traffic]:
  "uses [''sharing.nfs.create'']
     (createNFSShareForClone d volumeID datasetPath dataset parameters)"
  by (rule usesI, unfold createNFSShareForClone_def Let_def, intro emits_intros traffic [THEN uses_emits_method]) simp_all

lemma keeps_createNFSShareForClone [keeps_intros]: "backend_kept (d_client d) I \<Longrightarrow> keeps I (createNFSShareForClone d volumeID datasetPath dataset parameters)"
  unfolding createNFSShareForClone_def Let_def by (intro keeps_intros) (assumption | erule kept_weaken)+

lemma uses_resize_clone [traffic]:
  "uses [''pool.dataset.get_instance'', ''pool.dataset.update'']
     (resize_clone d datasetPath protocol requiredBytes failure)"
  by (rule usesI, unfold resize_clone_def Let_def, intro emits_intros traffic [THEN uses_emits_method]) simp_all

lemma keeps_resize_clone [keeps_intros]: "backend_kept (d_client d) I \<Longrightarrow> keeps I (resize_clone d datasetPath protocol requiredBytes failure)"
  unfolding resize_clone_def Let_def by (intro keeps_intros) (assumption | erule kept_weaken)+

lemma uses_finish_clone [traffic]:
  "uses [''pool.dataset.update'', ''pool.dataset.delete'', ''pool.dataset.get_instance'',
     ''iscsi.portal.query'', ''iscsi.global.config'', ''iscsi.target.create'', ''iscsi.extent.create'',
     ''iscsi.targetextent.query'', ''iscsi.targetextent.delete'', ''iscsi.target.delete'',
     ''iscsi.targetextent.create'', ''iscsi.extent.delete'', ''nvmet.port.query'', ''nvmet.port.create'',
     ''nvmet.subsys.create'', ''nvmet.namespace.create'', ''nvmet.subsys.delete'',
     ''nvmet.port_subsys.create'', ''nvmet.namespace.delete'', ''nvmet.port_subsys.delete'',
     ''sharing.nfs.create'', ''nvmet.host.query'', ''nvmet.host.create'', ''nvmet.host_subsys.create'']
     (finish_clone d req volumeID datasetPath protocol parameters secrets contentSource failure)"
  by (rule usesI, unfold finish_clone_def Let_def, intro emits_intros traffic [THEN uses_emits_method]) simp_all

lemma keeps_finish_clone [keeps_intros]: "backend_kept (d_client d) I \<Longrightarrow> keeps I (finish_clone d req volumeID datasetPath protocol parameters secrets contentSource failure)"
  unfolding finish_clone_def Let_def by (intro keeps_intros) (assumption | erule kept_weaken)+

lemma uses_clone_from_snapshot [traffic]:
  "uses [''pool.dataset.get_instance'', ''pool.dataset.create'', ''replication.run_onetime'',
     ''core.get_jobs'', ''pool.snapshot.delete'', ''pool.snapshot.create'', ''pool.snapshot.clone'']
     (clone_from_snapshot d snapshotID datasetPath parameters)"
  by (rule usesI, unfold clone_from_snapshot_def Let_def, intro emits_intros traffic [THEN uses_emits_method]) simp_all

lemma keeps_clone_from_snapshot [keeps_intros]: "backend_kept (d_client d) I \<Longrightarrow> keeps I (clone_from_snapshot d snapshotID datasetPath parameters)"
  unfolding clone_from_snapshot_def Let_def by (intro keeps_intros) (assumption | erule kept_weaken)+

lemma uses_clone_from_volume [traffic]:
  "uses [''pool.dataset.get_instance'', ''iscsi.extent.query'', ''iscsi.targetextent.query'',
     ''iscsi.target.query'', ''iscsi.global.config'', ''nvmet.namespace.query'',
     ''pool.snapshot.create'', ''pool.dataset.create'', ''replication.run_onetime'', ''core.get_jobs'',
     ''pool.snapshot.delete'', ''pool.snapshot.clone'']
     (clone_from_volume d sourceVolumeID volumeID datasetPath parameters)"
  by (rule usesI, unfold clone_from_volume_def Let_def, intro emits_intros traffic [THEN uses_emits_method]) simp_all

lemma keeps_clone_from_volume [keeps_intros]: "backend_kept (d_client d) I \<Longrightarrow> keeps I (clone_from_volume d sourceVolumeID volumeID datasetPath parameters)"
  unfolding clone_from_volume_def Let_def by (intro keeps_intros) (assumption | erule kept_weaken)+

lemma uses_existing_clone [traffic]:
  "uses [''nvmet.namespace.query'', ''nvmet.port.query'', ''nvmet.port.create'', ''nvmet.subsys.query'',
     ''nvmet.subsys.create'', ''nvmet.namespace.create'', ''nvmet.port_subsys.query'',
     ''nvmet.port_subsys.create'', ''nvmet.host.query'', ''nvmet.host.create'',
     ''nvmet.host_subsys.query'', ''nvmet.host_subsys.create'', ''iscsi.global.config'',
     ''iscsi.portal.query'', ''iscsi.extent.query'', ''iscsi.target.create'', ''iscsi.target.query'',
     ''iscsi.extent.create'', ''iscsi.targetextent.create'', ''iscsi.targetextent.query'']
     (existing_clone d volumeID datasetPath protocol parameters secrets contentSource dataset)"
  by (rule usesI, unfold existing_clone_def Let_def, intro emits_intros traffic [THEN uses_emits_method]) simp_all

lemma keeps_existing_clone [keeps_intros]: "backend_kept (d_client d) I \<Longrightarrow> keeps I (existing_clone d volumeID datasetPath protocol parameters secrets contentSource dataset)"
  unfolding existing_clone_def Let_def by (intro keeps_intros) (assumption | erule kept_weaken)+

lemma uses_createVolumeFromSource [traffic]:
  "uses [''pool.dataset.get_instance'', ''nvmet.namespace.query'', ''nvmet.port.query'',
     ''nvmet.port.create'', ''nvmet.subsys.query'', ''nvmet.subsys.create'', ''nvmet.namespace.create'',
     ''nvmet.port_subsys.query'', ''nvmet.port_subsys.create'', ''nvmet.host.query'',
     ''nvmet.host.create'', ''nvmet.host_subsys.query'', ''nvmet.host_subsys.create'',
     ''iscsi.global.config'', ''iscsi.portal.query'', ''iscsi.extent.query'', ''iscsi.target.create'',
     ''iscsi.target.query'', ''iscsi.extent.create'', ''iscsi.targetextent.create'',
     ''iscsi.targetextent.query'', ''pool.dataset.create'', ''replication.run_onetime'',
     ''core.get_jobs'', ''pool.snapshot.delete'', ''pool.snapshot.create'', ''pool.snapshot.clone'',
     ''pool.dataset.update'', ''pool.dataset.delete'', ''iscsi.targetextent.delete'',
     ''iscsi.target.delete'', ''iscsi.extent.delete'', ''nvmet.subsys.delete'',
     ''nvmet.namespace.delete'', ''nvmet.port_subsys.delete'', ''sharing.nfs.create'']
     (createVolumeFromSource d req contentSource volumeID datasetPath protocol parameters secrets)"
  by (rule usesI, unfold createVolumeFromSource_def Let_def, intro emits_intros traffic [THEN uses_emits_method]) simp_all

lemma keeps_createVolumeFromSource [keeps_intros]: "backend_kept (d_client d) I \<Longrightarrow> keeps I (createVolumeFromSource d req contentSource volumeID datasetPath protocol parameters secrets)"
  unfolding createVolumeFromSource_def Let_def by (intro keeps_intros) (assumption | erule kept_weaken)+

lemma uses_existing_volume [traffic]:
  "uses [''iscsi.global.config'', ''iscsi.portal.query'', ''iscsi.extent.query'', ''iscsi.target.create'',
     ''iscsi.target.query'', ''iscsi.extent.create'', ''iscsi.targetextent.create'',
     ''iscsi.targetextent.query'', ''nvmet.namespace.query'', ''nvmet.port.query'',
     ''nvmet.port.create'', ''nvmet.subsys.query'', ''nvmet.subsys.create'', ''nvmet.namespace.create'',
     ''nvmet.port_subsys.query'', ''nvmet.port_subsys.create'', ''nvmet.host.query'',
     ''nvmet.host.create'', ''nvmet.host_subsys.query'', ''nvmet.host_subsys.create'']
     (existing_volume d req volumeID datasetPath pool protocol requiredBytes dataset)"
  by (rule usesI, unfold existing_volume_def Let_def, intro emits_intros traffic [THEN uses_emits_method]) simp_all

lemma keeps_existing_volume [keeps_intros]: "service_kept (d_client d) I \<Longrightarrow> keeps I (existing_volume d req volumeID datasetPath pool protocol requiredBytes dataset)"
  unfolding existing_volume_def Let_def by (intro keeps_intros metrics_steps) (assumption | erule kept_weaken)+

lemma uses_new_volume [traffic]:
  "uses [''iscsi.portal.query'', ''pool.dataset.create'', ''pool.dataset.delete'', ''iscsi.auth.query'',
     ''iscsi.auth.create'', ''iscsi.initiator.create'', ''iscsi.auth.delete'', ''iscsi.global.config'',
     ''iscsi.target.create'', ''iscsi.initiator.delete'', ''iscsi.extent.create'',
     ''iscsi.targetextent.query'', ''iscsi.targetextent.delete'', ''iscsi.target.delete'',
     ''iscsi.targetextent.create'', ''iscsi.extent.delete'', ''pool.snapshottask.create'',
     ''nvmet.port.query'', ''nvmet.port.create'', ''nvmet.subsys.create'', ''nvmet.namespace.create'',
     ''nvmet.subsys.delete'', ''nvmet.port_subsys.create'', ''nvmet.namespace.delete'',
     ''nvmet.port_subsys.delete'', ''sharing.nfs.create'', ''nvmet.host.query'', ''nvmet.host.create'',
     ''nvmet.host_subsys.create'']
     (new_volume d req volumeID datasetPath protocol requiredBytes)"
  by (rule usesI, unfold new_volume_def Let_def, intro emits_intros traffic [THEN uses_emits_method]) simp_all

lemma keeps_new_volume [keeps_intros]: "service_kept (d_client d) I \<Longrightarrow> keeps I (new_volume d req volumeID datasetPath protocol requiredBytes)"
  unfolding new_volume_def Let_def by (intro keeps_intros metrics_steps) (assumption | erule kept_weaken)+

lemma uses_create_volume_body [traffic]:
  "uses [''pool.dataset.get_instance'', ''iscsi.global.config'', ''iscsi.portal.query'',
     ''iscsi.extent.query'', ''iscsi.target.create'', ''iscsi.target.query'', ''iscsi.extent.create'',
     ''iscsi.targetextent.create'', ''iscsi.targetextent.query'', ''nvmet.namespace.query'',
     ''nvmet.port.query'', ''nvmet.port.create'', ''nvmet.subsys.query'', ''nvmet.subsys.create'',
     ''nvmet.namespace.create'', ''nvmet.port_subsys.query'', ''nvmet.port_subsys.create'',
     ''nvmet.host.query'', ''nvmet.host.create'', ''nvmet.host_subsys.query'',
     ''nvmet.host_subsys.create'', ''pool.dataset.create'', ''replication.run_onetime'',
     ''core.get_jobs'', ''pool.snapshot.delete'', ''pool.snapshot.create'', ''pool.snapshot.clone'',
     ''pool.dataset.update'', ''pool.dataset.delete'', ''iscsi.targetextent.delete'',
     ''iscsi.target.delete'', ''iscsi.extent.delete'', ''nvmet.subsys.delete'',
     ''nvmet.namespace.delete'', ''nvmet.port_subsys.delete'', ''sharing.nfs.create'',
     ''iscsi.auth.query'', ''iscsi.auth.create'', ''iscsi.initiator.create'', ''iscsi.auth.delete'',
     ''iscsi.initiator.delete'', ''pool.snapshottask.create'']
     (create_volume_body d req protocol requiredBytes)"
  by (rule usesI, unfold create_volume_body_def Let_def, intro emits_intros traffic [THEN uses_emits_method]) simp_all

lemma keeps_create_volume_body [keeps_intros]: "service_kept (d_client d) I \<Longrightarrow> keeps I (create_volume_body d req protocol requiredBytes)"
  unfolding create_volume_body_def Let_def by (intro keeps_intros metrics_steps) (assumption | erule kept_weaken)+

lemma uses_CreateVolume [traffic]:
  "uses [''pool.query'', ''pool.dataset.get_instance'', ''iscsi.global.config'', ''iscsi.portal.query'',
     ''iscsi.extent.query'', ''iscsi.target.create'', ''iscsi.target.query'', ''iscsi.extent.create'',
     ''iscsi.targetextent.create'', ''iscsi.targetextent.query'', ''nvmet.namespace.query'',
     ''nvmet.port.query'', ''nvmet.port.create'', ''nvmet.subsys.query'', ''nvmet.subsys.create'',
     ''nvmet.namespace.create'', ''nvmet.port_subsys.query'', ''nvmet.port_subsys.create'',
     ''nvmet.host.query'', ''nvmet.host.create'', ''nvmet.host_subsys.query'',
     ''nvmet.host_subsys.create'', ''pool.dataset.create'', ''replication.run_onetime'',
     ''core.get_jobs'', ''pool.snapshot.delete'', ''pool.snapshot.create'', ''pool.snapshot.clone'',
     ''pool.dataset.update'', ''pool.dataset.delete'', ''iscsi.targetextent.delete'',
     ''iscsi.target.delete'', ''iscsi.extent.delete'', ''nvmet.subsys.delete'',
     ''nvmet.namespace.delete'', ''nvmet.port_subsys.delete'', ''sharing.nfs.create'',
     ''iscsi.auth.query'', ''iscsi.auth.create'', ''iscsi.initiator.create'', ''iscsi.auth.delete'',
     ''iscsi.initiator.delete'', ''pool.snapshottask.create'']
     (CreateVolume d req)"
  by (rule usesI, unfold CreateVolume_def Let_def, intro emits_intros traffic [THEN uses_emits_method]) simp_all

lemma keeps_CreateVolume [keeps_intros]: "service_kept (d_client d) I \<Longrightarrow> keeps I (CreateVolume d req)"
  unfolding CreateVolume_def Let_def by (intro keeps_intros metrics_steps) (assumption | erule kept_weaken)+


section \<open>DeleteVolume\<close>

lemma uses_delete_host_link [traffic]:
  "uses [''nvmet.host_subsys.delete'', ''nvmet.host_subsys.query'', ''nvmet.host.delete'']
     (delete_host_link d hl)"
  by (rule usesI, unfold delete_host_link_def Let_def, intro emits_intros traffic [THEN uses_emits_method]) simp_all

lemma keeps_delete_host_link [keeps_intros]: "backend_kept (d_client d) I \<Longrightarrow> keeps I (delete_host_link d hl)"
  unfolding delete_host_link_def Let_def by (intro keeps_intros) (assumption | erule kept_weaken)+

lemma uses_deleteNVMeOFResources [traffic]:
  "uses [''nvmet.host_subsys.query'', ''nvmet.host_subsys.delete'', ''nvmet.host.delete'',
     ''nvmet.port_subsys.query'', ''nvmet.port_subsys.delete'', ''nvmet.namespace.query'',
     ''nvmet.namespace.delete'', ''nvmet.subsys.delete'']
     (deleteNVMeOFResources d volInfo)"
  by (rule usesI, unfold deleteNVMeOFResources_def Let_def, intro emits_intros traffic [THEN uses_emits_method]) simp_all

lemma keeps_deleteNVMeOFResources [keeps_intros]: "backend_kept (d_client d) I \<Longrightarrow> keeps I (deleteNVMeOFResources d volInfo)"
  unfolding deleteNVMeOFResources_def Let_def by (intro keeps_intros) (assumption | erule kept_weaken)+

lemma uses_deleteISCSIResources [traffic]:
  "uses [''iscsi.targetextent.query'', ''iscsi.targetextent.delete'', ''iscsi.target.delete'',
     ''iscsi.extent.delete'', ''iscsi.auth.delete'', ''iscsi.initiator.delete'']
     (deleteISCSIResources d volInfo)"
  by (rule usesI, unfold deleteISCSIResources_def Let_def, intro emits_intros traffic [THEN uses_emits_method]) simp_all

lemma keeps_deleteISCSIResources [keeps_intros]: "backend_kept (d_client d) I \<Longrightarrow> keeps I (deleteISCSIResources d volInfo)"
  unfolding deleteISCSIResources_def Let_def by (intro keeps_intros) (assumption | erule kept_weaken)+

lemma uses_delete_nfs_share [traffic]:
  "uses [''sharing.nfs.query'', ''sharing.nfs.delete'']
     (delete_nfs_share d nfsPath)"
  by (rule usesI, unfold delete_nfs_share_def Let_def, intro emits_intros traffic [THEN uses_emits_method]) simp_all

lemma keeps_delete_nfs_share [keeps_intros]: "backend_kept (d_client d) I \<Longrightarrow> keeps I (delete_nfs_share d nfsPath)"
  unfolding delete_nfs_share_def Let_def by (intro keeps_intros) (assumption | erule kept_weaken)+

lemma uses_tear_down [traffic]:
  "uses [''iscsi.targetextent.query'', ''iscsi.targetextent.delete'', ''iscsi.target.delete'',
     ''iscsi.extent.delete'', ''iscsi.auth.delete'', ''iscsi.initiator.delete'',
     ''nvmet.host_subsys.query'', ''nvmet.host_subsys.delete'', ''nvmet.host.delete'',
     ''nvmet.port_subsys.query'', ''nvmet.port_subsys.delete'', ''nvmet.namespace.query'',
     ''nvmet.namespace.delete'', ''nvmet.subsys.delete'', ''sharing.nfs.query'', ''sharing.nfs.delete'',
     ''pool.snapshottask.query'', ''pool.snapshottask.delete'', ''pool.dataset.delete'']
     (tear_down d volumeID datasetPath volInfo)"
  by (rule usesI, unfold tear_down_def Let_def, intro emits_intros traffic [THEN uses_emits_method]) simp_all

lemma keeps_tear_down [keeps_intros]: "service_kept (d_client d) I \<Longrightarrow> keeps I (tear_down d volumeID datasetPath volInfo)"
  unfolding tear_down_def Let_def by (intro keeps_intros metrics_steps) (assumption | erule kept_weaken)+

lemma uses_delete_volume_body [traffic]:
  "uses [''pool.dataset.get_instance'', ''pool.snapshot.query'', ''iscsi.extent.query'',
     ''iscsi.targetextent.query'', ''iscsi.target.query'', ''iscsi.global.config'',
     ''nvmet.namespace.query'', ''iscsi.targetextent.delete'', ''iscsi.target.delete'',
     ''iscsi.extent.delete'', ''iscsi.auth.delete'', ''iscsi.initiator.delete'',
     ''nvmet.host_subsys.query'', ''nvmet.host_subsys.delete'', ''nvmet.host.delete'',
     ''nvmet.port_subsys.query'', ''nvmet.port_subsys.delete'', ''nvmet.namespace.delete'',
     ''nvmet.subsys.delete'', ''sharing.nfs.query'', ''sharing.nfs.delete'', ''pool.snapshottask.query'',
     ''pool.snapshottask.delete'', ''pool.dataset.delete'']
     (delete_volume_body d volumeID)"
  by (rule usesI, unfold delete_volume_body_def Let_def, intro emits_intros traffic [THEN uses_emits_method]) simp_all

lemma keeps_delete_volume_body [keeps_intros]: "service_kept (d_client d) I \<Longrightarrow> keeps I (delete_volume_body d volumeID)"
  unfolding delete_volume_body_def Let_def by (intro keeps_intros metrics_steps) (assumption | erule kept_weaken)+

lemma uses_DeleteVolume [traffic]:
  "uses [''pool.dataset.get_instance'', ''pool.snapshot.query'', ''iscsi.extent.query'',
     ''iscsi.targetextent.query'', ''iscsi.target.query'', ''iscsi.global.config'',
     ''nvmet.namespace.query'', ''iscsi.targetextent.delete'', ''iscsi.target.delete'',
     ''iscsi.extent.delete'', ''iscsi.auth.delete'', ''iscsi.initiator.delete'',
     ''nvmet.host_subsys.query'', ''nvmet.host_subsys.delete'', ''nvmet.host.delete'',
     ''nvmet.port_subsys.query'', ''nvmet.port_subsys.delete'', ''nvmet.namespace.delete'',
     ''nvmet.subsys.delete'', ''sharing.nfs.query'', ''sharing.nfs.delete'', ''pool.snapshottask.query'',
     ''pool.snapshottask.delete'', ''pool.dataset.delete'']
     (DeleteVolume d volumeID)"
  by (rule usesI, unfold DeleteVolume_def Let_def, intro emits_intros traffic [THEN uses_emits_method]) simp_all

lemma keeps_DeleteVolume [keeps_intros]: "service_kept (d_client d) I \<Longrightarrow> keeps I (DeleteVolume d volumeID)"
  unfolding DeleteVolume_def Let_def by (intro keeps_intros metrics_steps) (assumption | erule kept_weaken)+


section \<open>Snapshots\<close>

lemma uses_create_detached [traffic]:
  "uses [''pool.snapshot.query'', ''pool.dataset.query'', ''pool.dataset.get_instance'',
     ''pool.dataset.create'', ''pool.snapshot.create'', ''replication.run_onetime'', ''core.get_jobs'',
     ''pool.snapshot.delete'', ''pool.dataset.update'']
     (create_detached d req volInfo snapshotName)"
  by (rule usesI, unfold create_detached_def Let_def, intro emits_intros traffic [THEN uses_emits_method]) simp_all

lemma keeps_create_detached [keeps_intros]: "backend_kept (d_client d) I \<Longrightarrow> keeps I (create_detached d req volInfo snapshotName)"
  unfolding create_detached_def Let_def by (intro keeps_intros) (assumption | erule kept_weaken)+

lemma uses_create_regular [traffic]:
  "uses [''pool.snapshot.query'', ''pool.snapshot.create'']
     (create_regular d req volInfo snapshotName)"
  by (rule usesI, unfold create_regular_def Let_def, intro emits_intros traffic [THEN uses_emits_method]) simp_all

lemma keeps_create_regular [keeps_intros]: "backend_kept (d_client d) I \<Longrightarrow> keeps I (create_regular d req volInfo snapshotName)"
  unfolding create_regular_def Let_def by (intro keeps_intros) (assumption | erule kept_weaken)+

lemma uses_CreateSnapshot [traffic]:
  "uses [''pool.dataset.get_instance'', ''iscsi.extent.query'', ''iscsi.targetextent.query'',
     ''iscsi.target.query'', ''iscsi.global.config'', ''nvmet.namespace.query'', ''pool.snapshot.query'',
     ''pool.dataset.query'', ''pool.dataset.create'', ''pool.snapshot.create'',
     ''replication.run_onetime'', ''core.get_jobs'', ''pool.snapshot.delete'', ''pool.dataset.update'']
     (CreateSnapshot d req)"
  by (rule usesI, unfold CreateSnapshot_def Let_def, intro emits_intros traffic [THEN uses_emits_method]) simp_all

lemma keeps_CreateSnapshot [keeps_intros]: "service_kept (d_client d) I \<Longrightarrow> keeps I (CreateSnapshot d req)"
  unfolding CreateSnapshot_def Let_def by (intro keeps_intros metrics_steps) (assumption | erule kept_weaken)+

lemma uses_delete_detached [traffic]:
  "uses [''pool.dataset.get_instance'', ''pool.dataset.delete'']
     (delete_detached d snapshotID)"
  by (rule usesI, unfold delete_detached_def Let_def, intro emits_intros traffic [THEN uses_emits_method]) simp_all

lemma keeps_delete_detached [keeps_intros]: "backend_kept (d_client d) I \<Longrightarrow> keeps I (delete_detached d snapshotID)"
  unfolding delete_detached_def Let_def by (intro keeps_intros) (assumption | erule kept_weaken)+

lemma uses_DeleteSnapshot [traffic]:
  "uses [''pool.dataset.get_instance'', ''pool.dataset.delete'', ''pool.snapshot.delete'']
     (DeleteSnapshot d snapshotID)"
  by (rule usesI, unfold DeleteSnapshot_def Let_def, intro emits_intros traffic [THEN uses_emits_method]) simp_all

lemma keeps_DeleteSnapshot [keeps_intros]: "backend_kept (d_client d) I \<Longrightarrow> keeps I (DeleteSnapshot d snapshotID)"
  unfolding DeleteSnapshot_def Let_def by (intro keeps_intros) (assumption | erule kept_weaken)+

lemma uses_list_page [traffic]:
  "uses [''pool.dataset.query'']
     (list_page d sourceVolumeID source startOffset maxEntries snapshots)"
  by (rule usesI, unfold list_page_def Let_def, intro emits_intros traffic [THEN uses_emits_method]) simp_all

lemma keeps_list_page [keeps_intros]: "backend_kept (d_client d) I \<Longrightarrow> keeps I (list_page d sourceVolumeID source startOffset maxEntries snapshots)"
  unfolding list_page_def Let_def by (intro keeps_intros) (assumption | erule kept_weaken)+

lemma uses_list_one_detached [traffic]:
  "uses [''pool.dataset.get_instance'']
     (list_one_detached d snapshotID)"
  by (rule usesI, unfold list_one_detached_def Let_def, intro emits_intros traffic [THEN uses_emits_method]) simp_all

lemma keeps_list_one_detached [keeps_intros]: "backend_kept (d_client d) I \<Longrightarrow> keeps I (list_one_detached d snapshotID)"
  unfolding list_one_detached_def Let_def by (intro keeps_intros) (assumption | erule kept_weaken)+

lemma uses_list_one_regular [traffic]:
  "uses [''pool.snapshot.query'']
     (list_one_regular d snapshotID)"
  by (rule usesI, unfold list_one_regular_def Let_def, intro emits_intros traffic [THEN uses_emits_method]) simp_all

lemma keeps_list_one_regular [keeps_intros]: "backend_kept (d_client d) I \<Longrightarrow> keeps I (list_one_regular d snapshotID)"
  unfolding list_one_regular_def Let_def by (intro keeps_intros) (assumption | erule kept_weaken)+

lemma uses_list_of_volume [traffic]:
  "uses [''pool.dataset.get_instance'', ''iscsi.extent.query'', ''iscsi.targetextent.query'',
     ''iscsi.target.query'', ''iscsi.global.config'', ''nvmet.namespace.query'', ''pool.snapshot.query'',
     ''pool.dataset.query'']
     (list_of_volume d req startOffset)"
  by (rule usesI, unfold list_of_volume_def Let_def, intro emits_intros traffic [THEN uses_emits_method]) simp_all

lemma keeps_list_of_volume [keeps_intros]: "backend_kept (d_client d) I \<Longrightarrow> keeps I (list_of_volume d req startOffset)"
  unfolding list_of_volume_def Let_def by (intro keeps_intros) (assumption | erule kept_weaken)+

lemma uses_list_everything [traffic]:
  "uses [''pool.snapshot.query'', ''pool.dataset.query'']
     (list_everything d req startOffset)"
  by (rule usesI, unfold list_everything_def Let_def, intro emits_intros traffic [THEN uses_emits_method]) simp_all

lemma keeps_list_everything [keeps_intros]: "backend_kept (d_client d) I \<Longrightarrow> keeps I (list_everything d req startOffset)"
  unfolding list_everything_def Let_def by (intro keeps_intros) (assumption | erule kept_weaken)+

lemma uses_ListSnapshots [traffic]:
  "uses [''pool.dataset.get_instance'', ''pool.snapshot.query'', ''iscsi.extent.query'',
     ''iscsi.targetextent.query'', ''iscsi.target.query'', ''iscsi.global.config'',
     ''nvmet.namespace.query'', ''pool.dataset.query'']
     (ListSnapshots d req)"
  by (rule usesI, unfold ListSnapshots_def Let_def, intro emits_intros traffic [THEN uses_emits_method]) simp_all

lemma keeps_ListSnapshots [keeps_intros]: "backend_kept (d_client d) I \<Longrightarrow> keeps I (ListSnapshots d req)"
  unfolding ListSnapshots_def Let_def by (intro keeps_intros) (assumption | erule kept_weaken)+


section \<open>The other handlers\<close>

lemma uses_probe_zvol [traffic]:
  "uses [''iscsi.extent.query'', ''iscsi.targetextent.query'', ''iscsi.target.query'',
     ''iscsi.global.config'', ''nvmet.namespace.query'']
     (probe_zvol d zvolPath)"
  by (rule usesI, unfold probe_zvol_def Let_def, intro emits_intros traffic [THEN uses_emits_method]) simp_all

lemma keeps_probe_zvol [keeps_intros]: "backend_kept (d_client d) I \<Longrightarrow> keeps I (probe_zvol d zvolPath)"
  unfolding probe_zvol_def Let_def by (intro keeps_intros) (assumption | erule kept_weaken)+

lemma uses_publish_fallback [traffic]:
  "uses [''iscsi.extent.query'', ''iscsi.targetextent.query'', ''iscsi.target.query'',
     ''iscsi.global.config'', ''nvmet.namespace.query'']
     (publish_fallback d vcap datasetPath dataset)"
  by (rule usesI, unfold publish_fallback_def Let_def, intro emits_intros traffic [THEN uses_emits_method]) simp_all

lemma keeps_publish_fallback [keeps_intros]: "backend_kept (d_client d) I \<Longrightarrow> keeps I (publish_fallback d vcap datasetPath dataset)"
  unfolding publish_fallback_def Let_def by (intro keeps_intros) (assumption | erule kept_weaken)+

lemma uses_publish_context [traffic]:
  "uses [''iscsi.extent.query'', ''iscsi.targetextent.query'', ''iscsi.target.query'',
     ''iscsi.global.config'', ''nvmet.namespace.query'']
     (publish_context d vcap datasetPath dataset volInfo)"
  by (rule usesI, unfold publish_context_def Let_def, intro emits_intros traffic [THEN uses_emits_method]) simp_all

lemma keeps_publish_context [keeps_intros]: "backend_kept (d_client d) I \<Longrightarrow> keeps I (publish_context d vcap datasetPath dataset volInfo)"
  unfolding publish_context_def Let_def by (intro keeps_intros) (assumption | erule kept_weaken)+

lemma uses_ControllerPublishVolume [traffic]:
  "uses [''pool.dataset.get_instance'', ''iscsi.extent.query'', ''iscsi.targetextent.query'',
     ''iscsi.target.query'', ''iscsi.global.config'', ''nvmet.namespace.query'']
     (ControllerPublishVolume d req)"
  by (rule usesI, unfold ControllerPublishVolume_def Let_def, intro emits_intros traffic [THEN uses_emits_method]) simp_all

lemma keeps_ControllerPublishVolume [keeps_intros]: "backend_kept (d_client d) I \<Longrightarrow> keeps I (ControllerPublishVolume d req)"
  unfolding ControllerPublishVolume_def Let_def by (intro keeps_intros) (assumption | erule kept_weaken)+

lemma uses_ValidateVolumeCapabilities [traffic]:
  "uses [''pool.dataset.get_instance'']
     (ValidateVolumeCapabilities d req)"
  by (rule usesI, unfold ValidateVolumeCapabilities_def Let_def, intro emits_intros traffic [THEN uses_emits_method]) simp_all

lemma keeps_ValidateVolumeCapabilities [keeps_intros]: "backend_kept (d_client d) I \<Longrightarrow> keeps I (ValidateVolumeCapabilities d req)"
  unfolding ValidateVolumeCapabilities_def Let_def by (intro keeps_intros) (assumption | erule kept_weaken)+

lemma uses_ListVolumes [traffic]:
  "uses [''pool.dataset.query'']
     (ListVolumes d startingToken)"
  by (rule usesI, unfold ListVolumes_def Let_def, intro emits_intros traffic [THEN uses_emits_method]) simp_all

lemma keeps_ListVolumes [keeps_intros]: "backend_kept (d_client d) I \<Longrightarrow> keeps I (ListVolumes d startingToken)"
  unfolding ListVolumes_def Let_def by (intro keeps_intros) (assumption | erule kept_weaken)+

lemma uses_GetCapacity [traffic]:
  "uses [''zfs.resource.query'']
     (GetCapacity d parameters)"
  by (rule usesI, unfold GetCapacity_def Let_def, intro emits_intros traffic [THEN uses_emits_method]) simp_all

lemma keeps_GetCapacity [keeps_intros]: "backend_kept (d_client d) I \<Longrightarrow> keeps I (GetCapacity d parameters)"
  unfolding GetCapacity_def Let_def by (intro keeps_intros) (assumption | erule kept_weaken)+

lemma uses_expansion_updates [traffic]:
  "uses [''pool.dataset.get_instance'']
     (expansion_updates d volInfo newSize)"
  by (rule usesI, unfold expansion_updates_def Let_def, intro emits_intros traffic [THEN uses_emits_method]) simp_all

lemma keeps_expansion_updates [keeps_intros]: "backend_kept (d_client d) I \<Longrightarrow> keeps I (expansion_updates d volInfo newSize)"
  unfolding expansion_updates_def Let_def by (intro keeps_intros) (assumption | erule kept_weaken)+

lemma uses_expand_to [traffic]:
  "uses [''pool.dataset.get_instance'', ''pool.dataset.update'']
     (expand_to d volInfo newSize)"
  by (rule usesI, unfold expand_to_def Let_def, intro emits_intros traffic [THEN uses_emits_method]) simp_all

lemma keeps_expand_to [keeps_intros]: "service_kept (d_client d) I \<Longrightarrow> keeps I (expand_to d volInfo newSize)"
  unfolding expand_to_def Let_def by (intro keeps_intros metrics_steps) (assumption | erule kept_weaken)+

lemma uses_ControllerExpandVolume [traffic]:
  "uses [''pool.dataset.get_instance'', ''iscsi.extent.query'', ''iscsi.targetextent.query'',
     ''iscsi.target.query'', ''iscsi.global.config'', ''nvmet.namespace.query'', ''pool.dataset.update'']
     (ControllerExpandVolume d req)"
  by (rule usesI, unfold ControllerExpandVolume_def Let_def, intro emits_intros traffic [THEN uses_emits_method]) simp_all

lemma keeps_ControllerExpandVolume [keeps_intros]: "service_kept (d_client d) I \<Longrightarrow> keeps I (ControllerExpandVolume d req)"
  unfolding ControllerExpandVolume_def Let_def by (intro keeps_intros metrics_steps) (assumption | erule kept_weaken)+

lemma uses_ControllerGetVolume [traffic]:
  "uses [''pool.dataset.get_instance'', ''iscsi.extent.query'', ''iscsi.targetextent.query'',
     ''iscsi.target.query'', ''iscsi.global.config'', ''nvmet.namespace.query'']
     (ControllerGetVolume d volumeID)"
  by (rule usesI, unfold ControllerGetVolume_def Let_def, intro emits_intros traffic [THEN uses_emits_method]) simp_all

lemma keeps_ControllerGetVolume [keeps_intros]: "backend_kept (d_client d) I \<Longrightarrow> keeps I (ControllerGetVolume d volumeID)"
  unfolding ControllerGetVolume_def Let_def by (intro keeps_intros) (assumption | erule kept_weaken)+

end
