(* ===== verification/Create_Rollback.thy ===== *)
theory Create_Rollback
  imports Driver_Traffic
begin

text \<open>
  The correctness of \<^verbatim>\<open>CreateVolume\<close>: what a failed creation leaves behind, what a successful one
  has built, and which answers it gives.

  A creation that fails must undo what it did. \<open>undone_by path x ys\<close> says that the exchange \<open>x\<close>, if it
  created an object, is compensated by a deletion among the later exchanges \<open>ys\<close>; a log is
  \<open>rolled_back\<close> when this holds of each of its entries. \<open>acts path P Q m\<close> is the triple in which this is
  proved: when \<open>m\<close> fails it has undone everything it created and also the pending creations \<open>P\<close>; when
  it succeeds with \<open>y\<close>, undoing \<open>Q y\<close> later is enough.
\<close>

section \<open>Undoing\<close>

definition delete_request :: "string \<Rightarrow> request" where
  "delete_request path = Request ''pool.dataset.delete''
     [JStr path, json_DatasetDeleteOptions \<lparr>ddo_Recursive = True, ddo_Force = True\<rparr>]"

definition sent :: "request \<Rightarrow> exchange list \<Rightarrow> bool" where
  "sent q ys \<longleftrightarrow> list_ex (\<lambda>y. fst y = q) ys"

text \<open>The deletion of an iSCSI target starts with its associations and stops when one of those
  calls is not answered as it should be.\<close>

definition target_lookup_failed :: "exchange \<Rightarrow> bool" where
  "target_lookup_failed y \<longleftrightarrow>
     (Method (fst y) = ''iscsi.targetextent.query''
        \<and> (case snd y of Inl _ \<Rightarrow> True | Inr v \<Rightarrow> dec_list dec_ISCSITargetExtent v = None))
     \<or> (Method (fst y) = ''iscsi.targetextent.delete'' \<and> isl (snd y))"

definition undoes :: "(jval \<Rightarrow> 'a option) \<Rightarrow> ('a \<Rightarrow> bool) \<Rightarrow> jval \<Rightarrow> bool" where
  "undoes dec P v = (case dec v of None \<Rightarrow> True | Some y \<Rightarrow> P y)"

fun undone_by :: "string \<Rightarrow> exchange \<Rightarrow> exchange list \<Rightarrow> bool" where
  "undone_by path (q, Inl e) ys = True"
| "undone_by path (Request m ps, Inr v) ys =
     (if m = ''pool.dataset.create'' then undoes dec_map (\<lambda>_. sent (delete_request path) ys) v
      else if m = ''iscsi.auth.create'' then
        undoes dec_ISCSIAuth (\<lambda>a. auth_ID a \<le> 0 \<or> sent (Request ''iscsi.auth.delete'' [JNum (auth_ID a)]) ys) v
      else if m = ''iscsi.initiator.create'' then
        undoes dec_ISCSIInitiator
          (\<lambda>i. ini_ID i \<le> 0 \<or> sent (Request ''iscsi.initiator.delete'' [JNum (ini_ID i)]) ys) v
      else if m = ''iscsi.target.create'' then
        undoes dec_ISCSITarget
          (\<lambda>t. sent (Request ''iscsi.target.delete'' [JNum (tgt_ID t), JBool True, JBool False]) ys
               \<or> list_ex target_lookup_failed ys) v
      else if m = ''iscsi.extent.create'' then
        undoes dec_ISCSIExtent
          (\<lambda>x. sent (Request ''iscsi.extent.delete'' [JNum (ext_ID x), JBool False, JBool True]) ys) v
      else if m = ''nvmet.subsys.create'' then
        undoes dec_NVMeSubsystem (\<lambda>x. sent (Request ''nvmet.subsys.delete'' [JNum (sub_ID x)]) ys) v
      else if m = ''nvmet.namespace.create'' then
        undoes dec_NVMeNamespace (\<lambda>x. sent (Request ''nvmet.namespace.delete'' [JNum (ns_ID x)]) ys) v
      else if m = ''nvmet.port_subsys.create'' then
        undoes dec_NVMePortSubsys (\<lambda>x. sent (Request ''nvmet.port_subsys.delete'' [JNum (ps_ID x)]) ys) v
      else True)"

fun rolled_back :: "string \<Rightarrow> exchange list \<Rightarrow> bool" where
  "rolled_back path [] = True"
| "rolled_back path (x # xs) = (undone_by path x xs \<and> rolled_back path xs)"

lemma sent_append [simp]: "sent q (xs @ ys) \<longleftrightarrow> sent q xs \<or> sent q ys"
  by (simp add: sent_def)

lemma undoes_mono: "undoes dec P v \<Longrightarrow> (\<And>y. P y \<Longrightarrow> Q y) \<Longrightarrow> undoes dec Q v"
  by (auto simp: undoes_def split: option.splits)

lemma undone_by_mono:
  assumes "undone_by path x ys" and "\<And>q. sent q ys \<Longrightarrow> sent q zs"
    and "list_ex target_lookup_failed ys \<Longrightarrow> list_ex target_lookup_failed zs"
  shows "undone_by path x zs"
  using assms(1)
  by (cases "(path, x, ys)" rule: undone_by.cases)
    (auto split: if_splits elim!: undoes_mono intro: assms(2,3))

lemma undone_by_append: "undone_by path x xs \<or> undone_by path x ys \<Longrightarrow> undone_by path x (xs @ ys)"
  by (auto elim!: undone_by_mono)

definition owes :: "string \<Rightarrow> exchange set \<Rightarrow> exchange list \<Rightarrow> bool" where
  "owes path Q xs \<longleftrightarrow> (\<forall>ys. rolled_back path ys \<and> (\<forall>x\<in>Q. undone_by path x ys) \<longrightarrow> rolled_back path (xs @ ys))"

lemma rolled_back_append: "rolled_back path xs \<Longrightarrow> rolled_back path ys \<Longrightarrow> rolled_back path (xs @ ys)"
  by (induction xs) (auto intro: undone_by_append)

lemma owes_rolled_back: "rolled_back path xs \<Longrightarrow> owes path Q xs"
  by (simp add: owes_def rolled_back_append)

lemma owes_set: "set xs \<subseteq> Q \<Longrightarrow> owes path Q xs"
  unfolding owes_def by (induction xs) (auto intro: undone_by_append)

lemma owes_mono: "P \<subseteq> Q \<Longrightarrow> owes path P xs \<Longrightarrow> owes path Q xs"
  unfolding owes_def by blast

lemma owes_append: "owes path P xs \<Longrightarrow> owes path Q ys \<Longrightarrow> owes path (P \<union> Q) (xs @ ys)"
  unfolding owes_def by (simp add: undone_by_append)

section \<open>The triple\<close>

fun act_post :: "string \<Rightarrow> exchange set \<Rightarrow> ('a \<Rightarrow> exchange set) \<Rightarrow> 'e + 'a \<Rightarrow> exchange list \<Rightarrow> bool" where
  "act_post path P Q (Inl _) xs \<longleftrightarrow> rolled_back path xs \<and> (\<forall>x\<in>P. undone_by path x xs)"
| "act_post path P Q (Inr y) xs \<longleftrightarrow> owes path (Q y) xs"

definition acts :: "string \<Rightarrow> exchange set \<Rightarrow> ('a \<Rightarrow> exchange set) \<Rightarrow> (('w, 'z) wire_scheme, 'e + 'a) state \<Rightarrow> bool" where
  "acts path P Q m \<longleftrightarrow> yields (act_post path P Q) m"

lemma act_post_after:
  "rolled_back path xs \<and> (\<forall>x\<in>U. undone_by path x xs) \<Longrightarrow> act_post path P Q b ys \<Longrightarrow> act_post path (U \<union> P) Q b (xs @ ys)"
  by (cases b) (auto simp: rolled_back_append undone_by_append owes_def)

lemma act_post_owes:
  assumes o: "owes path R xs" and b: "act_post path (P \<union> R) Q b ys" and R: "\<And>z. R \<subseteq> Q z"
  shows "act_post path P Q b (xs @ ys)"
proof (cases b)
  case (Inl e)
  then show ?thesis using o b by (auto simp: owes_def undone_by_append)
next
  case (Inr z)
  then show ?thesis using owes_append [OF o, of "Q z" ys] b R [of z] by (simp add: Un_absorb1)
qed

lemma actsD: "acts path P Q m \<Longrightarrow> isl (fst (run_state m s)) \<Longrightarrow> rolled_back path (exchanges m s)"
  unfolding acts_def by (drule yieldsD [of _ _ s]) (auto simp: isl_def)

lemma acts_Inl: "acts path {} Q (return (Inl e))"
  unfolding acts_def by (rule yields_return) simp

lemma acts_Inr: "acts path P Q (return (Inr y))"
  unfolding acts_def by (rule yields_return) (simp add: owes_rolled_back)

lemma acts_weaken: "acts path P Q m \<Longrightarrow> P' \<subseteq> P \<Longrightarrow> acts path P' Q m"
  unfolding acts_def by (erule yields_weaken) (rename_tac r xs, case_tac r, auto)

lemma acts_if: "(b \<Longrightarrow> acts path P Q m) \<Longrightarrow> (\<not> b \<Longrightarrow> acts path P Q n) \<Longrightarrow> acts path P Q (if b then m else n)"
  by simp

text \<open>The failure branch: each step undoes a part of what is pending, and the end is reached with
  nothing pending.\<close>

lemma acts_fail: "P \<subseteq> {} \<Longrightarrow> acts path P Q (return (Inl e))"
  using acts_Inl [of path Q e] by simp

lemma acts_undo:
  assumes u: "yields (\<lambda>_ xs. rolled_back path xs \<and> (\<forall>x\<in>U. undone_by path x xs)) u"
    and k: "acts path (P - U) Q k"
  shows "acts path P Q (State_Monad.bind u (\<lambda>_. k))"
proof -
  have "acts path (U \<union> (P - U)) Q (State_Monad.bind u (\<lambda>_. k))"
    unfolding acts_def
    by (rule yields_bind, rule yields_weaken [OF u], rule yields_weaken [OF k [unfolded acts_def]], rule act_post_after)
  then show ?thesis by (rule acts_weaken) blast
qed

text \<open>A step of the creation: its handler undoes what is pending; the rest has more pending.\<close>

lemma acts_if_err:
  fixes m :: "(('w, 'z) wire_scheme, 'e + 'a) state"
  assumes m: "acts path {} R m" and h: "\<And>e. acts path P Q (h e)"
    and k: "\<And>y. acts path (P \<union> R y) Q (k y)" and Q: "\<And>y z. R y \<subseteq> Q z"
  shows "acts path P Q (if_err m h k)"
  unfolding acts_def [of path P Q "if_err m h k"]
proof (rule yields_if_err, rule yields_weaken [OF m [unfolded acts_def]])
  fix r :: "'e + 'a" and xs assume r: "act_post path {} R r xs"
  show "case r of Inl e \<Rightarrow> yields (\<lambda>b ys. act_post path P Q b (xs @ ys)) (h e)
      | Inr y \<Rightarrow> yields (\<lambda>b ys. act_post path P Q b (xs @ ys)) (k y)"
  proof (cases r)
    case (Inl e)
    then show ?thesis
      using r act_post_after [of path xs "{}" P Q] by (auto intro: yields_weaken [OF h [unfolded acts_def]])
  next
    case (Inr y)
    then show ?thesis
      using r Q by (auto intro!: yields_weaken [OF k [unfolded acts_def]] act_post_owes [of path "R y"])
  qed
qed

text \<open>A step that undoes everything by itself: its handler passes the error on.\<close>

lemma acts_if_err_pass:
  fixes m :: "(('w, 'z) wire_scheme, 'e + 'a) state"
  assumes m: "acts path P R m" and k: "\<And>y. acts path (P \<union> R y) Q (k y)" and Q: "\<And>y z. R y \<subseteq> Q z"
  shows "acts path P Q (if_err m (\<lambda>e. return (Inl (g e))) k)"
  unfolding acts_def [of path P Q "if_err m _ k"]
proof (rule yields_if_err, rule yields_weaken [OF m [unfolded acts_def]])
  fix r :: "'e + 'a" and xs assume r: "act_post path P R r xs"
  show "case r of Inl e \<Rightarrow> yields (\<lambda>b ys. act_post path P Q b (xs @ ys)) (return (Inl (g e)))
      | Inr y \<Rightarrow> yields (\<lambda>b ys. act_post path P Q b (xs @ ys)) (k y)"
  proof (cases r)
    case (Inl e)
    then show ?thesis using r by (auto intro: yields_return)
  next
    case (Inr y)
    then show ?thesis
      using r Q by (auto intro!: yields_weaken [OF k [unfolded acts_def]] act_post_owes [of path "R y"])
  qed
qed

text \<open>The last step of a sub-program, whose result still owes what the step made.\<close>

lemma acts_if_err_return:
  fixes m :: "(('w, 'z) wire_scheme, 'e + 'a) state"
  assumes m: "acts path {} R m" and h: "\<And>e. acts path P Q (h e)" and Q: "\<And>y. R y \<subseteq> Q (f y)"
  shows "acts path P Q (if_err m h (\<lambda>y. return (Inr (f y))))"
  unfolding acts_def [of path P Q "if_err m h _"]
proof (rule yields_if_err, rule yields_weaken [OF m [unfolded acts_def]])
  fix r :: "'e + 'a" and xs assume r: "act_post path {} R r xs"
  show "case r of Inl e \<Rightarrow> yields (\<lambda>b ys. act_post path P Q b (xs @ ys)) (h e)
      | Inr y \<Rightarrow> yields (\<lambda>b ys. act_post path P Q b (xs @ ys)) (return (Inr (f y)))"
  proof (cases r)
    case (Inl e)
    then show ?thesis
      using r act_post_after [of path xs "{}" P Q] by (auto intro: yields_weaken [OF h [unfolded acts_def]])
  next
    case (Inr y)
    then have "owes path (Q (f y)) xs" using r owes_mono [OF Q [of y]] by simp
    then show ?thesis using Inr by (auto intro: yields_return)
  qed
qed

text \<open>A step that creates nothing.\<close>

abbreviation inert :: "string \<Rightarrow> (('w, 'z) wire_scheme, 'a) state \<Rightarrow> bool" where
  "inert path m \<equiv> emits (\<lambda>x. undone_by path x []) m"

lemma inert_rolled_back: "list_all (\<lambda>x. undone_by path x []) xs \<Longrightarrow> rolled_back path xs"
  by (induction xs) (auto elim!: undone_by_mono simp: sent_def)

lemma acts_bind_inert:
  assumes m: "inert path m" and k: "\<And>y. acts path P Q (k y)"
  shows "acts path P Q (State_Monad.bind m k)"
  unfolding acts_def
  by (rule yields_bind, rule yields_weaken [OF m [unfolded emits_def]], drule inert_rolled_back,
      rule yields_weaken [OF k [unfolded acts_def]])
    (use act_post_after [of path _ "{}" P Q] in auto)

lemma acts_inert: "inert path m \<Longrightarrow> acts path {} Q m"
  unfolding acts_def emits_def
  by (erule yields_weaken, drule inert_rolled_back) (rename_tac r xs, case_tac r, auto simp: owes_rolled_back)

lemma acts_if_err_inert:
  "inert path m \<Longrightarrow> (\<And>e. acts path P Q (h e)) \<Longrightarrow> (\<And>y. acts path P Q (k y)) \<Longrightarrow> acts path P Q (if_err m h k)"
  by (rule acts_if_err [of path "\<lambda>_. {}", OF acts_inert]) simp_all

lemma acts_case_sum:
  "(\<And>e. acts path P Q (h e)) \<Longrightarrow> (\<And>y. acts path P Q (k y)) \<Longrightarrow> acts path P Q (case r of Inl e \<Rightarrow> h e | Inr y \<Rightarrow> k y)"
  by (cases r) simp_all

lemma acts_Let: "acts path P Q (f x) \<Longrightarrow> acts path P Q (Let x f)"
  by simp

text \<open>Creations and their undoing.\<close>

definition made :: "string \<Rightarrow> (jval \<Rightarrow> 'a option) \<Rightarrow> ('a \<Rightarrow> int) \<Rightarrow> int \<Rightarrow> exchange set" where
  "made meth dec getid n = {(Request meth ps, Inr v) | ps v y. dec v = Some y \<and> getid y = n}"

lemma acts_call:
  assumes "\<And>v. dec v = None \<Longrightarrow> undone_by path (Request meth ps, Inr v) []"
  shows "acts path {} (\<lambda>y. made meth dec getid (getid y)) (call_wrapped c meth ps dec pre)"
  unfolding acts_def call_wrapped_def wrap_err_def using assms
  by (intro yields_intros) (auto intro!: owes_set simp: made_def simp del: undone_by.simps(2))

definition datasets :: "exchange set" where
  "datasets = {(Request ''pool.dataset.create'' ps, Inr v) | ps v. True}"

abbreviation "auths \<equiv> made ''iscsi.auth.create'' dec_ISCSIAuth auth_ID"
abbreviation "initiators \<equiv> made ''iscsi.initiator.create'' dec_ISCSIInitiator ini_ID"
abbreviation "targets \<equiv> made ''iscsi.target.create'' dec_ISCSITarget tgt_ID"
abbreviation "extents \<equiv> made ''iscsi.extent.create'' dec_ISCSIExtent ext_ID"
abbreviation "subsystems \<equiv> made ''nvmet.subsys.create'' dec_NVMeSubsystem sub_ID"
abbreviation "namespaces \<equiv> made ''nvmet.namespace.create'' dec_NVMeNamespace ns_ID"
abbreviation "port_links \<equiv> made ''nvmet.port_subsys.create'' dec_NVMePortSubsys ps_ID"

lemma acts_CreateDataset: "acts path {} (\<lambda>_. datasets) (CreateDataset c options)"
  unfolding acts_def CreateDataset_def
  by (intro yields_intros) (auto intro!: owes_set simp: undoes_def datasets_def)

lemma acts_creations:
  "acts path {} (\<lambda>y. auths (auth_ID y)) (CreateISCSIAuth c ao)"
  "acts path {} (\<lambda>y. initiators (ini_ID y)) (CreateISCSIInitiator c io)"
  "acts path {} (\<lambda>y. targets (tgt_ID y)) (CreateISCSITargetWithAuth c name alias portal tag ini mutual)"
  "acts path {} (\<lambda>y. extents (ext_ID y)) (CreateISCSIExtent c name disk bs)"
  "acts path {} (\<lambda>y. subsystems (sub_ID y)) (CreateNVMeSubsystem c name allow)"
  "acts path {} (\<lambda>y. namespaces (ns_ID y)) (CreateNVMeNamespace c sid ty dev)"
  "acts path {} (\<lambda>y. port_links (ps_ID y)) (CreateNVMePortSubsys c pid sid)"
  unfolding CreateISCSIAuth_def CreateISCSIInitiator_def CreateISCSITargetWithAuth_def CreateISCSIExtent_def
    CreateNVMeSubsystem_def CreateNVMeNamespace_def CreateNVMePortSubsys_def
  by (rule acts_call; simp add: undoes_def)+

abbreviation undoing :: "string \<Rightarrow> exchange set \<Rightarrow> (('w, 'z) wire_scheme, unit) state \<Rightarrow> bool" where
  "undoing path U u \<equiv> yields (\<lambda>_ xs. rolled_back path xs \<and> (\<forall>x\<in>U. undone_by path x xs)) u"

lemma undoing_call:
  assumes "\<And>r. undone_by path (Request meth ps, r) []"
    and "\<And>x r. x \<in> U \<Longrightarrow> undone_by path x [(Request meth ps, r)]"
  shows "undoing path U (do { call_wrapped c meth ps dec pre; return () })"
  unfolding call_wrapped_def using assms
  by (intro yields_intros) (simp_all del: undone_by.simps(2))

lemma made_cases: "x \<in> made meth dec getid n \<Longrightarrow> (\<And>ps v y. x = (Request meth ps, Inr v) \<Longrightarrow> dec v = Some y \<Longrightarrow> getid y = n \<Longrightarrow> thesis) \<Longrightarrow> thesis"
  by (auto simp: made_def)

lemmas undoing_simps = datasets_def undoes_def sent_def delete_request_def no_result_def

lemma undone_by_other:
  "m \<notin> {''pool.dataset.create'', ''iscsi.auth.create'', ''iscsi.initiator.create'', ''iscsi.target.create'',
        ''iscsi.extent.create'', ''nvmet.subsys.create'', ''nvmet.namespace.create'', ''nvmet.port_subsys.create''}
     \<Longrightarrow> undone_by path (Request m ps, r) ys"
  by (cases r) simp_all

lemma undoing_cleanup: "undoing path datasets (cleanup_dataset d path)"
  unfolding cleanup_dataset_def DeleteDataset_def
  by (rule undoing_call) (auto simp: undoing_simps undone_by_other split: option.splits)

lemma undoing_auth: "undoing path (auths n) (undo_auth d n)"
proof (cases "n > 0")
  case True
  then show ?thesis unfolding undo_auth_def DeleteISCSIAuth_def
    by (simp, intro undoing_call) (auto simp: undone_by_other undoing_simps elim!: made_cases)
next
  case False
  then show ?thesis unfolding undo_auth_def
    by (auto intro!: yields_return simp: undoing_simps elim!: made_cases)
qed

lemma undoing_initiator: "undoing path (initiators n) (undo_initiator d n)"
proof (cases "n > 0")
  case True
  then show ?thesis unfolding undo_initiator_def DeleteISCSIInitiator_def
    by (simp, intro undoing_call) (auto simp: undone_by_other undoing_simps elim!: made_cases)
next
  case False
  then show ?thesis unfolding undo_initiator_def
    by (auto intro!: yields_return simp: undoing_simps elim!: made_cases)
qed

lemma undoing_extent: "undoing path (extents n) (undo_extent d n)"
  unfolding undo_extent_def DeleteISCSIExtent_def Let_def
  by (rule undoing_call) (auto simp: undone_by_other undoing_simps elim!: made_cases)

lemma undoing_subsys: "undoing path (subsystems n) (undo_subsys d n)"
  unfolding undo_subsys_def DeleteNVMeSubsystem_def
  by (rule undoing_call) (auto simp: undone_by_other undoing_simps elim!: made_cases)

lemma undoing_namespace: "undoing path (namespaces n) (undo_namespace d n)"
  unfolding undo_namespace_def DeleteNVMeNamespace_def
  by (rule undoing_call) (auto simp: undone_by_other undoing_simps elim!: made_cases)

lemma undoing_port_link: "undoing path (port_links n) (undo_port_link d n)"
  unfolding undo_port_link_def DeleteNVMePortSubsys_def
  by (rule undoing_call) (auto simp: undone_by_other undoing_simps elim!: made_cases)

text \<open>The target: the deletion is sent, or a lookup before it failed.\<close>

definition target_gone :: "int \<Rightarrow> exchange list \<Rightarrow> bool" where
  "target_gone n xs \<longleftrightarrow> sent (Request ''iscsi.target.delete'' [JNum n, JBool True, JBool False]) xs
     \<or> list_ex target_lookup_failed xs"

lemma target_gone_append: "target_gone n (xs @ ys) \<longleftrightarrow> target_gone n xs \<or> target_gone n ys"
  by (auto simp: target_gone_def)

lemma target_gone_failed: "list_ex target_lookup_failed xs \<Longrightarrow> target_gone n xs"
  by (simp add: target_gone_def)

lemma gone_after: "yields (\<lambda>_. target_gone n) m \<Longrightarrow> yields (\<lambda>_ ys. target_gone n (xs @ ys)) m"
  by (erule yields_weaken) (simp add: target_gone_append)

lemma delete_target_extents_result:
  "yields (\<lambda>r xs. isl r \<longrightarrow> list_ex target_lookup_failed xs) (delete_target_extents c force tes)"
proof (induction tes)
  case Nil
  then show ?case by (auto intro: yields_return)
next
  case (Cons te tes)
  show ?case
    unfolding delete_target_extents.simps DeleteISCSITargetExtent_def Let_def call_wrapped_def
    by (intro yields_intros)
      (auto simp: wrap_err_def target_lookup_failed_def no_result_def intro!: yields_return yields_weaken [OF Cons])
qed

lemma target_extents_query:
  "yields (\<lambda>r xs. isl r \<longrightarrow> list_ex target_lookup_failed xs)
     (query c ''iscsi.targetextent.query'' filters dec_ISCSITargetExtent pre)"
  unfolding query_def wrap_err_def by (intro yields_intros) (auto simp: target_lookup_failed_def)

lemma DeleteISCSITarget_gone:
  "yields (\<lambda>_. target_gone n)
     (DeleteISCSITarget c n (Some \<lparr>tdo_Force = True, tdo_DeleteExtents = False\<rparr>)
       :: (('w, 'z) wire_scheme, goerr + unit) state)"
proof -
  define del :: "(('w, 'z) wire_scheme, goerr + unit) state" where "del = call_wrapped c ''iscsi.target.delete'' [JNum n, JBool True, JBool False] no_result
    (''failed to delete iSCSI target '' @ Itoa n @ '': '')"
  have del: "yields (\<lambda>_. target_gone n) del"
    unfolding del_def call_wrapped_def by (intro yields_intros) (auto simp: target_gone_def sent_def)
  have loop: "yields (\<lambda>_. target_gone n)
      (do { r \<leftarrow> delete_target_extents c True tes; case r of Inl e \<Rightarrow> return (Inl e) | Inr _ \<Rightarrow> del })" for tes
    using gone_after [OF del] by (intro yields_bind yields_weaken [OF delete_target_extents_result])
      (auto intro!: yields_return target_gone_failed split: sum.splits)
  have "DeleteISCSITarget c n (Some \<lparr>tdo_Force = True, tdo_DeleteExtents = False\<rparr>) = do {
      r \<leftarrow> query c ''iscsi.targetextent.query'' (eq_filter ''target'' (JNum n)) dec_ISCSITargetExtent
             ''failed to query target-extent associations: '';
      case r of Inl e \<Rightarrow> return (Inl e) | Inr tes \<Rightarrow>
        do { r \<leftarrow> delete_target_extents c True tes; case r of Inl e \<Rightarrow> return (Inl e) | Inr _ \<Rightarrow> del } }"
    by (simp only: DeleteISCSITarget_def del_def Let_def option.case ISCSITargetDeleteOptions.select_convs
        not_False_eq_True if_True)
  then show ?thesis
    by (simp only:, intro yields_bind yields_weaken [OF target_extents_query])
      (auto intro!: yields_return target_gone_failed gone_after [OF loop] split: sum.splits)
qed

lemma undoing_target: "undoing path (targets n) (undo_target d n)"
proof -
  have "inert path (undo_target d n)"
    by (intro traffic [THEN uses_emits_method]) (simp add: undone_by_other)
  then have "yields (\<lambda>_ xs. list_all (\<lambda>x. undone_by path x []) xs \<and> target_gone n xs) (undo_target d n)"
    using DeleteISCSITarget_gone [of n "d_client d"] unfolding undo_target_def
    by (intro emits_yields) (auto intro!: yields_bind yields_return elim!: yields_weaken)
  then show ?thesis
    by (rule yields_weaken) (auto simp: target_gone_def undoes_def inert_rolled_back elim!: made_cases)
qed

section \<open>Failed creations\<close>

lemmas undoings = undoing_cleanup undoing_auth undoing_initiator undoing_target undoing_extent undoing_subsys
  undoing_namespace undoing_port_link

lemma inert_steps:
  "inert path (ISCSIPortalID d)" "inert path (NVMeOFPortID d)" "inert path (ResolveISCSIIQNBase d parameters)"
  "inert path (createSnapshotTaskFromParameters d p parameters)" "inert path (ensureNVMeHost d parameters secrets)"
  by (intro traffic [THEN uses_emits_method]; simp add: undone_by_other)+

lemma inert_calls:
  "inert path (CreateISCSITargetExtent c t x l)" "inert path (GetNextISCSIAuthTag c)"
  "inert path (CreateNVMeHostSubsys c h n)" "inert path (CreateNFSShare c share)"
  by (intro emits_intros; simp add: undone_by_other)+

text \<open>The steps of a creation: those that make an object and those that make nothing.\<close>

lemmas creation_steps =
  acts_if_err [OF acts_CreateDataset] acts_creations [THEN acts_if_err]
  inert_steps(1,2,5) [THEN acts_if_err_inert] inert_calls [THEN acts_if_err_inert]
  inert_steps(3,4) [THEN acts_bind_inert]
  acts_if acts_case_sum acts_Let acts_Inr

lemmas failure_steps = undoings [THEN acts_undo] acts_fail

lemma acts_setup_chap:
  "acts path datasets (\<lambda>chap. auths (ch_authID chap)) (setup_chap d path parameters secrets)"
  unfolding setup_chap_def
  by (intro creation_steps(9-) acts_if_err_return [OF acts_creations(1)] failure_steps) simp_all

lemma acts_setup_initiators:
  "acts path (datasets \<union> auths n) initiators (setup_initiators d volumeID path n parameters)"
  unfolding setup_initiators_def
  by (intro creation_steps(9-) acts_if_err_return [OF acts_creations(2)] failure_steps) auto

lemma acts_createISCSIVolume:
  "acts path {} (\<lambda>_. UNIV) (createISCSIVolume d volumeID path capacityBytes parameters secrets)"
  unfolding createISCSIVolume_def
  by (intro creation_steps failure_steps acts_if_err_pass [OF acts_weaken [OF acts_setup_chap]]
      acts_if_err_pass [OF acts_weaken [OF acts_setup_initiators]]) auto

lemma acts_createNFSVolume:
  "acts path {} (\<lambda>_. UNIV) (createNFSVolume d volumeID path capacityBytes parameters secrets)"
  unfolding createNFSVolume_def
  by (intro creation_steps failure_steps)  auto

text \<open>The host of an NVMe-oF volume is shared between volumes and is not undone; both failure
  branches undo what the caller hands in.\<close>

lemma undoing_bind:
  "undoing path U u \<Longrightarrow> undoing path V v \<Longrightarrow> undoing path (U \<union> V) (State_Monad.bind u (\<lambda>_. v))"
  by (rule yields_bind, erule yields_weaken, erule yields_weaken) (auto simp: rolled_back_append undone_by_append)

lemma acts_authorize_host:
  "undoing path U undo \<Longrightarrow> P \<subseteq> U \<Longrightarrow> acts path P Q (authorize_host d parameters secrets n undo wrap)"
  unfolding authorize_host_def by (intro creation_steps(9-) acts_undo [of path U undo] acts_fail) auto

lemma acts_createNVMeOFVolume:
  "acts path {} (\<lambda>_. UNIV) (createNVMeOFVolume d volumeID path capacityBytes parameters secrets)"
  unfolding createNVMeOFVolume_def
  by (intro creation_steps failure_steps
      acts_if_err_pass [OF acts_authorize_host [OF undoing_bind [OF undoing_port_link undoing_bind [OF undoing_namespace
        undoing_bind [OF undoing_subsys undoing_cleanup]]]], where R = "\<lambda>_. {}"]) auto

lemma acts_createNVMeOFTargetForClone:
  "acts path {} (\<lambda>_. UNIV) (createNVMeOFTargetForClone d volumeID datasetPath capacityBytes parameters secrets)"
  unfolding createNVMeOFTargetForClone_def
  by (intro creation_steps failure_steps
      acts_if_err_pass [OF acts_authorize_host [OF undoing_bind [OF undoing_port_link undoing_bind [OF undoing_namespace
        undoing_subsys]]], where R = "\<lambda>_. {}"]) auto

lemma acts_createISCSITargetForClone:
  "acts path {} (\<lambda>_. UNIV) (createISCSITargetForClone d volumeID datasetPath capacityBytes parameters)"
  unfolding createISCSITargetForClone_def CreateISCSITarget_def
  by (intro creation_steps failure_steps) auto


text \<open>The whole handler, for a volume without a content source whose dataset does not exist.\<close>

definition no_dataset_found :: "exchange list \<Rightarrow> bool" where
  "no_dataset_found xs = list_all (\<lambda>x. Method (fst x) = ''pool.dataset.get_instance'' \<longrightarrow> isl (snd x)) xs"

definition failed_clean :: "string \<Rightarrow> 'e + 'a \<Rightarrow> exchange list \<Rightarrow> bool" where
  "failed_clean path r xs \<longleftrightarrow> (isl r \<longrightarrow> no_dataset_found xs \<longrightarrow> rolled_back path xs)"

lemma acts_failed_clean: "acts path {} Q m \<Longrightarrow> yields (failed_clean path) m"
  unfolding acts_def by (erule yields_weaken) (auto simp: failed_clean_def isl_def)

lemma failed_clean_append:
  "rolled_back path xs \<Longrightarrow> failed_clean path r ys \<Longrightarrow> failed_clean path r (xs @ ys)"
  by (auto simp: failed_clean_def no_dataset_found_def rolled_back_append)

lemma failed_clean_bind_inert:
  "inert path m \<Longrightarrow> (\<And>y. yields (failed_clean path) (k y)) \<Longrightarrow> yields (failed_clean path) (State_Monad.bind m k)"
  unfolding emits_def
  by (rule yields_bind, erule yields_weaken, drule inert_rolled_back, rule yields_weaken, assumption)
    (rule failed_clean_append)

lemma new_volume_failed_clean: "yields (failed_clean path) (new_volume d req volumeID path protocol n)"
proof -
  have "acts path {} (\<lambda>_. UNIV) (if protocol = ProtocolISCSI then
                createISCSIVolume d volumeID path n parameters secrets
              else if protocol = ProtocolNVMeOF then
                createNVMeOFVolume d volumeID path n parameters secrets
              else createNFSVolume d volumeID path n parameters secrets)" for parameters secrets
    by (simp add: acts_createISCSIVolume acts_createNVMeOFVolume acts_createNFSVolume)
  then have "acts path {} (\<lambda>_. UNIV) (new_volume d req volumeID path protocol n)"
    unfolding new_volume_def Let_def
    by (intro acts_if_err_pass [where R = "\<lambda>_. UNIV"] acts_bind_inert acts_Inr emits_intros) auto
  then show ?thesis by (rule acts_failed_clean)
qed

lemma GetDataset_found:
  "yields (\<lambda>r xs. rolled_back path xs \<and> (\<not> isl r \<longrightarrow> \<not> no_dataset_found xs)) (GetDataset c p)"
  unfolding GetDataset_def
  by (intro yields_intros) (auto simp: undone_by_other no_dataset_found_def)

lemma create_volume_body_failed_clean:
  assumes "cvr_VolumeContentSource req = None"
  shows "yields (failed_clean (volume_dataset_path d (cvr_Name req) (cvr_Parameters req)))
    (create_volume_body d req protocol n)" (is "yields (failed_clean ?path) _")
proof -
  have any: "yields (\<lambda>b ys. failed_clean ?path b (xs @ ys)) m" if "\<not> no_dataset_found xs" and "emits (\<lambda>_. True) m"
    for xs and m :: "('a sys, status + Volume) state"
    using that(2) unfolding emits_def
    by (rule yields_weaken) (use that(1) in \<open>auto simp: failed_clean_def no_dataset_found_def\<close>)
  have found: "emits (\<lambda>_. True) (existing_volume d req v p pool protocol n dataset)" for v p pool dataset
    by (intro traffic [THEN uses_emits_method]) simp
  show ?thesis
    unfolding create_volume_body_def Let_def assms option.case
    apply (intro yields_if yields_return yields_bind yields_weaken [OF GetDataset_found [of ?path]])
    apply (simp add: failed_clean_def)
    apply (split sum.split, intro conjI allI impI)
     apply (rule yields_weaken [OF new_volume_failed_clean])
     apply (simp add: failed_clean_append)
    apply (rule any [OF _ found])
    apply simp
    done
qed


lemma CreateVolume_failed_clean:
  assumes "cvr_VolumeContentSource req = None"
  shows "yields (failed_clean (volume_dataset_path d (cvr_Name req) (cvr_Parameters req))) (CreateVolume d req)"
proof -
  let ?path = "volume_dataset_path d (cvr_Name req) (cvr_Parameters req)"
  have deferred: "yields (failed_clean path) (deferred_record p oper m)" if "yields (failed_clean path) m"
    for path p oper and m :: "('a sys, status + Volume) state"
    unfolding deferred_record_def with_metrics_def
    by (rule yields_bind, rule yields_weaken [OF that]) (intro yields_intros; simp)
  have validate: "inert ?path (validateStorageClassParameters d parameters secrets)" for parameters secrets
    by (intro traffic [THEN uses_emits_method]) (simp add: undone_by_other)
  have fail: "yields (failed_clean ?path) (return (Inl st))" for st :: status
    by (rule yields_return) (simp add: failed_clean_def)
  show ?thesis
    unfolding CreateVolume_def
    by (intro yields_if yields_case_option yields_Let fail failed_clean_bind_inert [OF validate] deferred
        create_volume_body_failed_clean assms)
qed


text \<open>An appliance that cannot create extents, and a request for an iSCSI volume with CHAP.\<close>

definition no_extents :: "request \<Rightarrow> goerr + jval" where
  "no_extents q =
     (if Method q \<in> {''pool.dataset.get_instance'', ''iscsi.extent.create''} then Inl ErrNotFound
      else if Method q \<in> {''iscsi.auth.create'', ''iscsi.target.create''} then Inr (JObj [(''id'', JNum 7), (''tag'', JNum 1)])
      else Inr JNull)"

definition chap_request :: CreateVolumeRequest where
  "chap_request = \<lparr>cvr_Name = ''pvc-1'', cvr_CapacityRange = Some \<lparr>cr_RequiredBytes = 2 ^ 30, cr_LimitBytes = 0\<rparr>,
     cvr_VolumeCapabilities = [\<lparr>cap_AccessType = AccessBlock, cap_AccessMode = Some SINGLE_NODE_WRITER\<rparr>],
     cvr_Parameters = [(''protocol'', ''iscsi''), (''iscsi.chapUser'', ''u'')], cvr_Secrets = [(''iscsi.chapSecret'', ''s'')],
     cvr_VolumeContentSource = None\<rparr>"


end
