(* ===== verification/Node_Host.thy ===== *)
theory Node_Host
  imports Controller_Params Go_Path "HOL-Library.Word"
begin

text \<open>
  The host of the node service. The kernel, the file system, \<^verbatim>\<open>nvme-cli\<close>, \<^verbatim>\<open>k8s.io/mount-utils\<close> and
  \<^verbatim>\<open>csi-lib-iscsi\<close> are not part of the repository: they are the parameter \<open>host\<close>, a record with one
  function per operation the driver calls, each from an opaque world to a typed answer and a new
  world. Nothing is assumed of them, so a theorem without a hypothesis on the host holds whatever
  the kernel answers and whatever other processes do between two calls.

  The state of a node carries the world, the list \<open>host_log\<close> of the operations performed with the
  answers they got, and the per-volume locks of \<^verbatim>\<open>NodeServer\<close>. The predicate \<open>logs R m\<close> says that
  the program \<open>m\<close> adds operations related by \<open>R\<close> to its result and changes no lock; \<open>does P m\<close> says
  that every operation of \<open>m\<close> satisfies \<open>P\<close>. Their rules follow the shape of a program.
\<close>

named_theorems host_intros "rules that follow the shape of a program for does"
named_theorems host_ops "the operations of the host"

section \<open>Errors\<close>

text \<open>Errors of the host and of the functions above it. \<open>ExitErr\<close> is \<^verbatim>\<open>*exec.ExitError\<close> with exit code,
  text and captured standard error; \<open>HWrap p e q\<close> is \<^verbatim>\<open>fmt.Errorf("p%wq", e)\<close>.\<close>

datatype herr =
    NotExist string
  | ExitErr int string string
  | OsErr string
  | DeadlineExceeded
  | Canceled
  | HErr string
  | HWrap string herr string
  | HJoin "herr list"
  | Diverges  \<comment> \<open>no Go error: the call has not returned within the fuel of the model\<close>

fun herr_text :: "herr \<Rightarrow> string" where
  "herr_text (NotExist s) = s"
| "herr_text (ExitErr n s e) = s"
| "herr_text (OsErr s) = s"
| "herr_text DeadlineExceeded = ''context deadline exceeded''"
| "herr_text Canceled = ''context canceled''"
| "herr_text (HErr s) = s"
| "herr_text (HWrap p e q) = p @ herr_text e @ q"
| "herr_text Diverges = []"
| "herr_text (HJoin es) = join_char (CHR 0x0A) (map herr_text es)"

text \<open>\<^verbatim>\<open>os.IsNotExist\<close> looks at the error itself, not at what it wraps; \<^verbatim>\<open>errors.As\<close> walks the chain.\<close>

fun IsNotExist :: "herr \<Rightarrow> bool" where
  "IsNotExist (NotExist s) = True"
| "IsNotExist _ = False"

fun as_exit_error :: "herr \<Rightarrow> (int \<times> string) option" where
  "as_exit_error (ExitErr n s e) = Some (n, e)"
| "as_exit_error (HWrap p e q) = as_exit_error e"
| "as_exit_error (HJoin es) =
     (case filter (\<lambda>r. r \<noteq> None) (map as_exit_error es) of [] \<Rightarrow> None | r # _ \<Rightarrow> r)"
| "as_exit_error _ = None"

abbreviation hwrap :: "string \<Rightarrow> herr \<Rightarrow> herr" where
  "hwrap p e \<equiv> HWrap p e []"

section \<open>Operations\<close>

record MountPoint =
  mp_Device :: string
  mp_Path :: string
  mp_Type :: string

record DirEntry =
  de_Name :: string
  de_IsDir :: bool

text \<open>What the driver reads of an \<^verbatim>\<open>os.FileInfo\<close>.\<close>

record FileInfo =
  fi_IsDir :: bool
  fi_Device :: bool
  fi_CharDevice :: bool
  fi_Rdev :: "64 word option"  \<comment> \<open>\<^verbatim>\<open>None\<close> when \<^verbatim>\<open>Sys()\<close> is no \<^verbatim>\<open>*syscall.Stat_t\<close>\<close>

record Statfs_t =
  sf_Frsize :: int
  sf_Bsize :: int
  sf_Blocks :: int
  sf_Bfree :: int
  sf_Bavail :: int
  sf_Files :: int
  sf_Ffree :: int

text \<open>The connector of csi-lib-iscsi.\<close>

record Secrets =
  sec_SecretsType :: string
  sec_UserName :: string
  sec_Password :: string
  sec_UserNameIn :: string
  sec_PasswordIn :: string

record Connector =
  con_VolumeName :: string
  con_TargetIqn :: string
  con_TargetPortals :: "string list"
  con_Lun :: int
  con_AuthType :: string
  con_SessionSecrets :: Secrets
  con_DoDiscovery :: bool
  con_DoCHAPDiscovery :: bool
  con_RetryCount :: int
  con_CheckInterval :: int

type_synonym ('w, 'a) host_fun = "'w \<Rightarrow> 'a \<times> 'w"

record 'w host =
  h_List :: "('w, herr + MountPoint list) host_fun"
  h_IsLikelyNotMountPoint :: "string \<Rightarrow> ('w, bool \<times> herr option) host_fun"
  h_GetMountRefs :: "string \<Rightarrow> ('w, herr + string list) host_fun"
  h_Mount :: "string \<Rightarrow> string \<Rightarrow> string \<Rightarrow> string list \<Rightarrow> ('w, herr option) host_fun"
  h_Unmount :: "string \<Rightarrow> ('w, herr option) host_fun"
  h_CleanupMountPoint :: "string \<Rightarrow> ('w, herr option) host_fun"
  h_FormatAndMount :: "string \<Rightarrow> string \<Rightarrow> string \<Rightarrow> string list \<Rightarrow> ('w, herr option) host_fun"
  h_NeedResize :: "string \<Rightarrow> string \<Rightarrow> ('w, herr + bool) host_fun"
  h_Resize :: "string \<Rightarrow> string \<Rightarrow> ('w, herr + bool) host_fun"
  h_Stat :: "string \<Rightarrow> ('w, herr + FileInfo) host_fun"
  h_Statfs :: "string \<Rightarrow> ('w, herr + Statfs_t) host_fun"
  h_MkdirAll :: "string \<Rightarrow> ('w, herr option) host_fun"
  h_CreateFile :: "string \<Rightarrow> ('w, herr option) host_fun"
  h_CloseFile :: "string \<Rightarrow> ('w, herr option) host_fun"
  h_Remove :: "string \<Rightarrow> ('w, herr option) host_fun"
  h_ReadDir :: "string \<Rightarrow> ('w, herr + DirEntry list) host_fun"
  h_ReadFile :: "string \<Rightarrow> ('w, herr + string) host_fun"
  h_WriteFile :: "string \<Rightarrow> string \<Rightarrow> ('w, herr option) host_fun"
  h_EvalSymlinks :: "string \<Rightarrow> ('w, herr + string) host_fun"
  h_Command :: "string \<Rightarrow> string list \<Rightarrow> ('w, string \<times> herr option) host_fun"
  h_Connect :: "Connector \<Rightarrow> ('w, herr + string) host_fun"
  h_Logout :: "string \<Rightarrow> string \<Rightarrow> ('w, herr option) host_fun"
  h_DeleteDBEntry :: "string \<Rightarrow> ('w, herr option) host_fun"
  h_GetSessions :: "('w, herr + string) host_fun"
  h_ResizeMultipathDevice :: "string \<Rightarrow> ('w, herr option) host_fun"
  h_CtxErr :: "('w, herr option) host_fun"
  h_blockDevices :: nat  \<comment> \<open>how many block devices the host has: the fuel of recursive walks over them\<close>

text \<open>An operation performed, with its answer.\<close>

datatype host_op =
    List "herr + MountPoint list"
  | IsLikelyNotMountPoint string "bool \<times> herr option"
  | GetMountRefs string "herr + string list"
  | Mount string string string "string list" "herr option"
  | Unmount string "herr option"
  | CleanupMountPoint string "herr option"
  | FormatAndMount string string string "string list" "herr option"
  | NeedResize string string "herr + bool"
  | Resize string string "herr + bool"
  | Stat string "herr + FileInfo"
  | Statfs string "herr + Statfs_t"
  | MkdirAll string "herr option"
  | CreateFile string "herr option"
  | CloseFile string "herr option"
  | Remove string "herr option"
  | ReadDir string "herr + DirEntry list"
  | ReadFile string "herr + string"
  | WriteFile string string "herr option"
  | EvalSymlinks string "herr + string"
  | Command string "string list" "string \<times> herr option"
  | Connect Connector "herr + string"
  | Logout string string "herr option"
  | DeleteDBEntry string "herr option"
  | GetSessions "herr + string"
  | ResizeMultipathDevice string "herr option"
  | CtxErr "herr option"

record 'w node =
  host_world :: 'w
  host_log :: "host_op list"
  volumeLocks :: "string list"  \<comment> \<open>the keys whose mutex is locked\<close>

type_synonym ('w, 'a) nprog = "('w node, 'a) state"

definition perform :: "('w, 'a) host_fun \<Rightarrow> ('a \<Rightarrow> host_op) \<Rightarrow> ('w, 'a) nprog" where
  "perform f ev = State (\<lambda>s.
     let (a, w) = f (host_world s) in (a, s\<lparr>host_world := w, host_log := host_log s @ [ev a]\<rparr>))"

definition os_List :: "'w host \<Rightarrow> ('w, herr + MountPoint list) nprog" where
  [host_ops]: "os_List h = perform (h_List h) List"

definition os_IsLikelyNotMountPoint :: "'w host \<Rightarrow> string \<Rightarrow> ('w, bool \<times> herr option) nprog" where
  [host_ops]: "os_IsLikelyNotMountPoint h p = perform (h_IsLikelyNotMountPoint h p) (IsLikelyNotMountPoint p)"

definition os_GetMountRefs :: "'w host \<Rightarrow> string \<Rightarrow> ('w, herr + string list) nprog" where
  [host_ops]: "os_GetMountRefs h p = perform (h_GetMountRefs h p) (GetMountRefs p)"

definition os_Mount :: "'w host \<Rightarrow> string \<Rightarrow> string \<Rightarrow> string \<Rightarrow> string list \<Rightarrow> ('w, herr option) nprog" where
  [host_ops]: "os_Mount h src tgt fs opts = perform (h_Mount h src tgt fs opts) (Mount src tgt fs opts)"

definition os_Unmount :: "'w host \<Rightarrow> string \<Rightarrow> ('w, herr option) nprog" where
  [host_ops]: "os_Unmount h p = perform (h_Unmount h p) (Unmount p)"

definition os_CleanupMountPoint :: "'w host \<Rightarrow> string \<Rightarrow> ('w, herr option) nprog" where
  [host_ops]: "os_CleanupMountPoint h p = perform (h_CleanupMountPoint h p) (CleanupMountPoint p)"

definition os_FormatAndMount :: "'w host \<Rightarrow> string \<Rightarrow> string \<Rightarrow> string \<Rightarrow> string list \<Rightarrow> ('w, herr option) nprog" where
  [host_ops]: "os_FormatAndMount h dev tgt fs opts =
     perform (h_FormatAndMount h dev tgt fs opts) (FormatAndMount dev tgt fs opts)"

definition os_NeedResize :: "'w host \<Rightarrow> string \<Rightarrow> string \<Rightarrow> ('w, herr + bool) nprog" where
  [host_ops]: "os_NeedResize h dev p = perform (h_NeedResize h dev p) (NeedResize dev p)"

definition os_Resize :: "'w host \<Rightarrow> string \<Rightarrow> string \<Rightarrow> ('w, herr + bool) nprog" where
  [host_ops]: "os_Resize h dev p = perform (h_Resize h dev p) (Resize dev p)"

definition os_Stat :: "'w host \<Rightarrow> string \<Rightarrow> ('w, herr + FileInfo) nprog" where
  [host_ops]: "os_Stat h p = perform (h_Stat h p) (Stat p)"

definition os_Statfs :: "'w host \<Rightarrow> string \<Rightarrow> ('w, herr + Statfs_t) nprog" where
  [host_ops]: "os_Statfs h p = perform (h_Statfs h p) (Statfs p)"

definition os_MkdirAll :: "'w host \<Rightarrow> string \<Rightarrow> ('w, herr option) nprog" where
  [host_ops]: "os_MkdirAll h p = perform (h_MkdirAll h p) (MkdirAll p)"

definition os_CreateFile :: "'w host \<Rightarrow> string \<Rightarrow> ('w, herr option) nprog" where
  [host_ops]: "os_CreateFile h p = perform (h_CreateFile h p) (CreateFile p)"

definition os_CloseFile :: "'w host \<Rightarrow> string \<Rightarrow> ('w, herr option) nprog" where
  [host_ops]: "os_CloseFile h p = perform (h_CloseFile h p) (CloseFile p)"

definition os_Remove :: "'w host \<Rightarrow> string \<Rightarrow> ('w, herr option) nprog" where
  [host_ops]: "os_Remove h p = perform (h_Remove h p) (Remove p)"

definition os_ReadDir :: "'w host \<Rightarrow> string \<Rightarrow> ('w, herr + DirEntry list) nprog" where
  [host_ops]: "os_ReadDir h p = perform (h_ReadDir h p) (ReadDir p)"

definition os_ReadFile :: "'w host \<Rightarrow> string \<Rightarrow> ('w, herr + string) nprog" where
  [host_ops]: "os_ReadFile h p = perform (h_ReadFile h p) (ReadFile p)"

definition os_WriteFile :: "'w host \<Rightarrow> string \<Rightarrow> string \<Rightarrow> ('w, herr option) nprog" where
  [host_ops]: "os_WriteFile h p d = perform (h_WriteFile h p d) (WriteFile p d)"

definition os_EvalSymlinks :: "'w host \<Rightarrow> string \<Rightarrow> ('w, herr + string) nprog" where
  [host_ops]: "os_EvalSymlinks h p = perform (h_EvalSymlinks h p) (EvalSymlinks p)"

definition os_Command :: "'w host \<Rightarrow> string \<Rightarrow> string list \<Rightarrow> ('w, string \<times> herr option) nprog" where
  [host_ops]: "os_Command h name args = perform (h_Command h name args) (Command name args)"

definition os_Connect :: "'w host \<Rightarrow> Connector \<Rightarrow> ('w, herr + string) nprog" where
  [host_ops]: "os_Connect h c = perform (h_Connect h c) (Connect c)"

definition os_Logout :: "'w host \<Rightarrow> string \<Rightarrow> string \<Rightarrow> ('w, herr option) nprog" where
  [host_ops]: "os_Logout h iqn portal = perform (h_Logout h iqn portal) (Logout iqn portal)"

definition os_DeleteDBEntry :: "'w host \<Rightarrow> string \<Rightarrow> ('w, herr option) nprog" where
  [host_ops]: "os_DeleteDBEntry h iqn = perform (h_DeleteDBEntry h iqn) (DeleteDBEntry iqn)"

definition os_GetSessions :: "'w host \<Rightarrow> ('w, herr + string) nprog" where
  [host_ops]: "os_GetSessions h = perform (h_GetSessions h) GetSessions"

definition os_ResizeMultipathDevice :: "'w host \<Rightarrow> string \<Rightarrow> ('w, herr option) nprog" where
  [host_ops]: "os_ResizeMultipathDevice h dev = perform (h_ResizeMultipathDevice h dev) (ResizeMultipathDevice dev)"

definition os_CtxErr :: "'w host \<Rightarrow> ('w, herr option) nprog" where
  [host_ops]: "os_CtxErr h = perform (h_CtxErr h) CtxErr"

text \<open>The operations that only look.\<close>

fun inspects :: "host_op \<Rightarrow> bool" where
  "inspects (List r) = True"
| "inspects (IsLikelyNotMountPoint p r) = True"
| "inspects (GetMountRefs p r) = True"
| "inspects (NeedResize d p r) = True"
| "inspects (Stat p r) = True"
| "inspects (Statfs p r) = True"
| "inspects (ReadDir p r) = True"
| "inspects (ReadFile p r) = True"
| "inspects (EvalSymlinks p r) = True"
| "inspects (GetSessions r) = True"
| "inspects (CtxErr r) = True"
| "inspects _ = False"

section \<open>Control flow\<close>

text \<open>A \<^verbatim>\<open>range\<close> loop with an accumulator that returns at the first error.\<close>

fun loop_err :: "('a \<Rightarrow> 'b \<Rightarrow> ('s, 'e + 'b) state) \<Rightarrow> 'a list \<Rightarrow> 'b \<Rightarrow> ('s, 'e + 'b) state" where
  "loop_err f [] b = return (Inr b)"
| "loop_err f (x # xs) b = if_err (f x b) (\<lambda>e. return (Inl e)) (loop_err f xs)"

text \<open>\<^verbatim>\<open>if err := m; err != nil { h }; k\<close> for a call that returns an error only.\<close>

definition if_fail :: "('s, 'e option) state \<Rightarrow> ('e \<Rightarrow> ('s, 'r) state) \<Rightarrow> ('s, 'r) state \<Rightarrow> ('s, 'r) state" where
  "if_fail m h k = do { r \<leftarrow> m; case r of Some e \<Rightarrow> h e | None \<Rightarrow> k }"

section \<open>What a program does\<close>

definition ops :: "('w, 'a) nprog \<Rightarrow> 'w node \<Rightarrow> host_op list" where
  "ops m s = drop (length (host_log s)) (host_log (snd (run_state m s)))"

definition logs :: "('a \<Rightarrow> host_op list \<Rightarrow> bool) \<Rightarrow> ('w, 'a) nprog \<Rightarrow> bool" where
  "logs R m \<longleftrightarrow>
     (\<forall>s. \<exists>xs. host_log (snd (run_state m s)) = host_log s @ xs
        \<and> volumeLocks (snd (run_state m s)) = volumeLocks s \<and> R (fst (run_state m s)) xs)"

definition does :: "(host_op \<Rightarrow> bool) \<Rightarrow> ('w, 'a) nprog \<Rightarrow> bool" where
  "does P m \<longleftrightarrow> logs (\<lambda>_. list_all P) m"

lemma run_state_perform [simp]:
  "run_state (perform f ev) s =
     (let (a, w) = f (host_world s) in (a, s\<lparr>host_world := w, host_log := host_log s @ [ev a]\<rparr>))"
  by (simp add: perform_def)

lemma logs_ops:
  assumes "logs R m"
  shows "R (fst (run_state m s)) (ops m s)"
    and "host_log (snd (run_state m s)) = host_log s @ ops m s"
    and "volumeLocks (snd (run_state m s)) = volumeLocks s"
  using assms unfolding logs_def ops_def by (metis append_eq_conv_conj)+

lemma logs_weaken: "logs Q m \<Longrightarrow> (\<And>a xs. Q a xs \<Longrightarrow> R a xs) \<Longrightarrow> logs R m"
  unfolding logs_def by blast

lemma logs_conj: "logs Q m \<Longrightarrow> logs R m \<Longrightarrow> logs (\<lambda>a xs. Q a xs \<and> R a xs) m"
  unfolding logs_def by (metis same_append_eq)

lemma logs_return: "R a [] \<Longrightarrow> logs R (return a)"
  by (simp add: logs_def)

lemma logs_perform: "(\<And>a. R a [ev a]) \<Longrightarrow> logs R (perform f ev)"
  by (simp add: logs_def Let_def split: prod.splits)

lemma logs_bind:
  assumes "logs (\<lambda>a xs. logs (\<lambda>b ys. R b (xs @ ys)) (f a)) m"
  shows "logs R (State_Monad.bind m f)"
  unfolding logs_def
proof
  fix s
  obtain a t where m: "run_state m s = (a, t)" by fastforce
  from assms obtain xs where xs: "host_log t = host_log s @ xs" "volumeLocks t = volumeLocks s"
    and f: "logs (\<lambda>b ys. R b (xs @ ys)) (f a)"
    unfolding logs_def [of _ m] by (metis m fst_conv snd_conv)
  obtain b u where b: "run_state (f a) t = (b, u)" by fastforce
  from f obtain ys where "host_log u = host_log t @ ys" "volumeLocks u = volumeLocks t" and "R b (xs @ ys)"
    unfolding logs_def by (metis b fst_conv snd_conv)
  then show "\<exists>zs. host_log (snd (run_state (State_Monad.bind m f) s)) = host_log s @ zs
      \<and> volumeLocks (snd (run_state (State_Monad.bind m f) s)) = volumeLocks s
      \<and> R (fst (run_state (State_Monad.bind m f) s)) zs"
    using m b xs by (intro exI [of _ "xs @ ys"]) simp
qed

text \<open>A program known to do only \<open>P\<close> in front of a continuation: what is known of its result and
  operations is kept as a premise.\<close>

lemma logs_after:
  assumes "logs Q m" and "\<And>a xs. Q a xs \<Longrightarrow> logs (\<lambda>b ys. R b (xs @ ys)) (f a)"
  shows "logs R (State_Monad.bind m f)"
  by (rule logs_bind, rule logs_weaken [OF assms(1)]) (rule assms(2))

lemma logs_if: "(b \<Longrightarrow> logs R m) \<Longrightarrow> (\<not> b \<Longrightarrow> logs R n) \<Longrightarrow> logs R (if b then m else n)"
  by simp

lemma doesD: "does P m \<Longrightarrow> list_all P (ops m s)"
  unfolding does_def by (drule logs_ops(1))

lemma does_weaken: "does Q m \<Longrightarrow> (\<And>x. Q x \<Longrightarrow> P x) \<Longrightarrow> does P m"
  unfolding does_def by (erule logs_weaken) (auto simp: list_all_iff)

lemma does_return [host_intros]: "does P (return a)"
  by (simp add: does_def logs_return)

lemma does_perform [host_intros]: "(\<And>a. P (ev a)) \<Longrightarrow> does P (perform f ev)"
  by (simp add: does_def logs_perform)

lemma does_bind [host_intros]:
  "does P m \<Longrightarrow> (\<And>a. does P (f a)) \<Longrightarrow> does P (State_Monad.bind m f)"
  unfolding does_def by (erule logs_after) (auto elim!: logs_weaken)

lemma does_bind_result:
  "logs (\<lambda>a xs. list_all P xs \<and> Q a) m \<Longrightarrow> (\<And>a. Q a \<Longrightarrow> does P (f a)) \<Longrightarrow> does P (State_Monad.bind m f)"
  unfolding does_def by (erule logs_after) (auto elim!: logs_weaken)

lemma does_if [host_intros]:
  "(b \<Longrightarrow> does P m) \<Longrightarrow> (\<not> b \<Longrightarrow> does P n) \<Longrightarrow> does P (if b then m else n)"
  by simp

lemma does_case_sum [host_intros]:
  "(\<And>e. r = Inl e \<Longrightarrow> does P (f e)) \<Longrightarrow> (\<And>x. r = Inr x \<Longrightarrow> does P (g x)) \<Longrightarrow>
     does P (case r of Inl e \<Rightarrow> f e | Inr x \<Rightarrow> g x)"
  by (cases r) simp_all

lemma does_case_option [host_intros]:
  "(r = None \<Longrightarrow> does P m) \<Longrightarrow> (\<And>x. r = Some x \<Longrightarrow> does P (g x)) \<Longrightarrow>
     does P (case r of None \<Rightarrow> m | Some x \<Rightarrow> g x)"
  by (cases r) simp_all

lemma does_case_prod [host_intros]:
  "(\<And>a b. r = (a, b) \<Longrightarrow> does P (g a b)) \<Longrightarrow> does P (case r of (a, b) \<Rightarrow> g a b)"
  by (cases r) simp_all

lemma does_case_list [host_intros]:
  "(r = [] \<Longrightarrow> does P m) \<Longrightarrow> (\<And>x xs. r = x # xs \<Longrightarrow> does P (g x xs)) \<Longrightarrow>
     does P (case r of [] \<Rightarrow> m | x # xs \<Rightarrow> g x xs)"
  by (cases r) simp_all

lemma does_Let [host_intros]: "does P (f x) \<Longrightarrow> does P (Let x f)"
  by (simp add: Let_def)

lemma does_if_err [host_intros]:
  "does P m \<Longrightarrow> (\<And>e. does P (h e)) \<Longrightarrow> (\<And>x. does P (k x)) \<Longrightarrow> does P (if_err m h k)"
  unfolding if_err_def by (intro host_intros)

lemma does_if_fail [host_intros]:
  "does P m \<Longrightarrow> (\<And>e. does P (h e)) \<Longrightarrow> does P k \<Longrightarrow> does P (if_fail m h k)"
  unfolding if_fail_def by (intro host_intros)

lemma does_loop_err [host_intros]:
  "(\<And>x b. x \<in> set xs \<Longrightarrow> does P (f x b)) \<Longrightarrow> does P (loop_err f xs b)"
proof (induction xs arbitrary: b)
  case (Cons x xs)
  then show ?case
    unfolding loop_err.simps by (intro does_if_err does_return) auto
qed (simp add: does_return)

end
