(* ===== verification/Node_Discovery.thy ===== *)
theory Node_Discovery
  imports Node_Host
begin

text \<open>
  \<^verbatim>\<open>pkg/driver/node_discovery.go\<close> and \<^verbatim>\<open>block_device_linux.go\<close>: how a node finds out, from the mount
  table, sysfs and the live iSCSI sessions, which attachment a path belongs to. The state of the
  node is not cached anywhere: every operation starts from what the host reports.
\<close>

unbundle bit_operations_syntax

section \<open>State\<close>

record ISCSIConnection =
  ic_TargetIQN :: string
  ic_Portals :: "string list"

record volumeState =
  vs_Protocol :: string
  vs_MountPath :: string
  vs_DevicePath :: string
  vs_BlockDevices :: "string list"
  vs_ISCSI :: "ISCSIConnection option"
  vs_NVMeSubNQN :: string
  vs_NVMeControllers :: "string list"

definition zero_volumeState :: volumeState where
  "zero_volumeState = \<lparr>vs_Protocol = [], vs_MountPath = [], vs_DevicePath = [], vs_BlockDevices = [],
     vs_ISCSI = None, vs_NVMeSubNQN = [], vs_NVMeControllers = []\<rparr>"

record iscsiSession =
  ses_ID :: int
  ses_Portal :: string
  ses_IQN :: string

record nvmeController =
  nc_Name :: string
  nc_SubNQN :: string
  nc_Transport :: string

abbreviation rawBlockStagingFilename :: string where "rawBlockStagingFilename \<equiv> ''block_device''"
abbreviation sysClassBlockDir :: string where "sysClassBlockDir \<equiv> ''/sys/class/block''"
abbreviation sysClassNVMeDir :: string where "sysClassNVMeDir \<equiv> ''/sys/class/nvme''"
abbreviation sysClassISCSISessionDir :: string where "sysClassISCSISessionDir \<equiv> ''/sys/class/iscsi_session''"
abbreviation sysDevBlockDir :: string where "sysDevBlockDir \<equiv> ''/sys/dev/block''"
abbreviation iscsiNodeDBDir :: string where "iscsiNodeDBDir \<equiv> ''/var/lib/iscsi/nodes''"
abbreviation deviceDir :: string where "deviceDir \<equiv> ''/dev''"
abbreviation mountOptionBind :: string where "mountOptionBind \<equiv> ''bind''"
abbreviation mountOptionReadOnly :: string where "mountOptionReadOnly \<equiv> ''ro''"
abbreviation fsTypeNFS :: string where "fsTypeNFS \<equiv> ''nfs''"
abbreviation iscsiadmExitNoObjsFound :: int where "iscsiadmExitNoObjsFound \<equiv> 21"

section \<open>Paths and strings\<close>

definition rawBlockStagingPath :: "string \<Rightarrow> string" where
  "rawBlockStagingPath stagingPath = Join [stagingPath, rawBlockStagingFilename]"

definition pathWithin :: "string \<Rightarrow> string \<Rightarrow> bool" where
  "pathWithin root path =
     (if \<not> IsAbs path then False
      else (case Rel root path of
              None \<Rightarrow> False
            | Some rel \<Rightarrow> rel \<noteq> ''.'' \<and> rel \<noteq> ''..'' \<and> \<not> HasPrefix rel ''../'' \<and> \<not> IsAbs rel))"

definition containsCleanPath :: "string list \<Rightarrow> string \<Rightarrow> bool" where
  "containsCleanPath paths target = list_ex (\<lambda>p. Clean p = Clean target) paths"

fun compact_from :: "string \<Rightarrow> string list \<Rightarrow> string list" where
  "compact_from prev [] = []"
| "compact_from prev (v # vs) = (if v \<noteq> prev then v # compact_from v vs else compact_from prev vs)"

definition compactStrings :: "string list \<Rightarrow> string list" where
  "compactStrings values = (case values of [] \<Rightarrow> [] | v # vs \<Rightarrow> v # compact_from v vs)"

definition isAllDigits :: "string \<Rightarrow> bool" where
  "isAllDigits s \<longleftrightarrow> s \<noteq> [] \<and> list_all is_digit s"

section \<open>The mount table\<close>

definition effectiveMount :: "MountPoint list \<Rightarrow> string \<Rightarrow> MountPoint option" where
  "effectiveMount mounts path =
     (if path = [] then None
      else fold (\<lambda>m found. if Clean (mp_Path m) = Clean path then Some m else found) mounts None)"

definition canonicalHostMountPath :: "string \<Rightarrow> string" where
  "canonicalHostMountPath path =
     (let cleanPath = Clean path in
      if \<not> pathWithin ''/host'' cleanPath then cleanPath
      else (case Rel ''/host'' cleanPath of
              None \<Rightarrow> cleanPath
            | Some relative \<Rightarrow> Join [''/'', relative]))"

definition effectiveCanonicalMount :: "MountPoint list \<Rightarrow> string \<Rightarrow> MountPoint option" where
  "effectiveCanonicalMount mounts path =
     fold (\<lambda>m found. if canonicalHostMountPath (mp_Path m) = canonicalHostMountPath path then Some m else found)
       mounts None"

fun external_refs :: "string \<Rightarrow> string list \<Rightarrow> string list \<Rightarrow> string list" where
  "external_refs mountPath seen [] = []"
| "external_refs mountPath seen (r # rs) =
     (let ref = canonicalHostMountPath r in
      if ref = mountPath \<or> ref \<in> set seen then external_refs mountPath seen rs
      else ref # external_refs mountPath (ref # seen) rs)"

definition externalMountReferences :: "string \<Rightarrow> string list \<Rightarrow> string list" where
  "externalMountReferences mountPath refs =
     sort_Strings (external_refs (canonicalHostMountPath mountPath) [] refs)"

lemma effectiveMount_path: "effectiveMount mounts path = Some m \<Longrightarrow> m \<in> set mounts \<and> Clean (mp_Path m) = Clean path"
proof -
  have "fold (\<lambda>m found. if Clean (mp_Path m) = Clean path then Some m else found) mounts acc = Some m \<Longrightarrow>
      acc = Some m \<or> (m \<in> set mounts \<and> Clean (mp_Path m) = Clean path)" for acc
    by (induction mounts arbitrary: acc) (auto split: if_splits)
  from this [of None] show "effectiveMount mounts path = Some m \<Longrightarrow> ?thesis"
    by (simp add: effectiveMount_def split: if_splits)
qed

text \<open>The loop of \<^verbatim>\<open>resolveMountSource\<close>: follow bind mounts to their source. Every round visits
  another mount point of the table, so the loop ends.\<close>

function resolve_source :: "MountPoint list \<Rightarrow> string \<Rightarrow> string \<Rightarrow> string list \<Rightarrow> herr + string \<times> string" where
  "resolve_source mounts source fsType seen =
     (if \<not> IsAbs source then Inr (source, fsType)
      else (let cleanSource = Clean source in
            if cleanSource \<in> set seen then Inl (HErr (''mount source cycle at '' @ cleanSource))
            else (case effectiveMount mounts cleanSource of
                    None \<Rightarrow> Inr (source, fsType)
                  | Some parent \<Rightarrow>
                      resolve_source mounts (mp_Device parent)
                        (if mp_Type parent \<noteq> [] then mp_Type parent else fsType) (cleanSource # seen))))"
  by auto
termination
proof (relation "measure (\<lambda>(mounts, source, fsType, seen). card (Clean ` mp_Path ` set mounts - set seen))", simp)
  fix mounts source fsType seen c parent
  assume "c = Clean source" "c \<notin> set seen" "effectiveMount mounts c = Some parent"
  then have "c \<in> Clean ` mp_Path ` set mounts"
    using effectiveMount_path by (metis Clean_idem imageI)
  then have "card (Clean ` mp_Path ` set mounts - set (c # seen)) < card (Clean ` mp_Path ` set mounts - set seen)"
    using \<open>c \<notin> set seen\<close> by (intro psubset_card_mono) auto
  then show "((mounts, mp_Device parent, if mp_Type parent \<noteq> [] then mp_Type parent else fsType, c # seen),
      (mounts, source, fsType, seen)) \<in> measure (\<lambda>(mounts, source, fsType, seen).
        card (Clean ` mp_Path ` set mounts - set seen))"
    by simp
qed

declare resolve_source.simps [simp del]

definition resolveMountSource :: "MountPoint list \<Rightarrow> MountPoint option \<Rightarrow> herr + string \<times> string" where
  "resolveMountSource mounts entry =
     (case entry of
        None \<Rightarrow> Inl (HErr ''mount entry is nil'')
      | Some e \<Rightarrow> resolve_source mounts (mp_Device e) (mp_Type e) [Clean (mp_Path e)])"

section \<open>Block devices\<close>

text \<open>\<^verbatim>\<open>block_device_linux.go\<close>: the device behind a bind-mounted block special file.\<close>

definition dev_major :: "64 word \<Rightarrow> 64 word" where
  "dev_major dev = ((drop_bit 8 dev AND 0xfff) OR (drop_bit 32 dev AND 0xfffff000))"

definition dev_minor :: "64 word \<Rightarrow> 64 word" where
  "dev_minor dev = ((dev AND 0xff) OR (drop_bit 12 dev AND 0xffffff00))"

definition mountedBlockDevicePath :: "'w host \<Rightarrow> string \<Rightarrow> ('w, herr + string) nprog" where
  "mountedBlockDevicePath h path =
     if_err (os_Stat h path) (\<lambda>err. return (Inl err)) (\<lambda>info.
       if \<not> fi_Device info \<or> fi_CharDevice info then
         return (Inl (HErr (path @ '' is not a block device'')))
       else (case fi_Rdev info of
               None \<Rightarrow> return (Inl (HErr (''cannot read device number for '' @ path)))
             | Some dev \<Rightarrow>
                 (let num = Itoa (uint (dev_major dev)) @ '':'' @ Itoa (uint (dev_minor dev)) in
                  if_err (os_EvalSymlinks h (Join [sysDevBlockDir, num]))
                    (\<lambda>err. return (Inl (hwrap (''failed to resolve device number '' @ num @ '': '') err)))
                    (\<lambda>resolved. return (Inr (Join [deviceDir, Base resolved]))))))"

text \<open>The recursive closure \<^verbatim>\<open>walk\<close> of \<^verbatim>\<open>resolveBlockDevices\<close>: \<open>visiting\<close> are the names on the current
  path. The names come from sysfs, so the depth is not bounded by the arguments; the first
  argument is fuel. The names on a path are distinct, so two more than the number of block
  devices is enough.\<close>

fun walk :: "nat \<Rightarrow> 'w host \<Rightarrow> string list \<Rightarrow> string \<Rightarrow> string list \<Rightarrow> ('w, herr + string list) nprog" where
  "walk 0 h visiting blockName leaves = return (Inl Diverges)"
| "walk (Suc n) h visiting blockName leaves =
     (if blockName \<in> set visiting then
        return (Inl (HErr (''block-device slave cycle at '' @ blockName)))
      else
        if_err (os_ReadDir h (Join [sysClassBlockDir, blockName, ''slaves'']))
          (\<lambda>err. return (Inl (hwrap (''failed to inspect slaves for '' @ blockName @ '': '') err)))
          (\<lambda>entries.
             if entries = [] then return (Inr (leaves @ [Join [deviceDir, blockName]]))
             else loop_err (\<lambda>slave leaves. walk n h (blockName # visiting) (de_Name slave) leaves) entries leaves))"

definition resolveBlockDevices :: "'w host \<Rightarrow> string \<Rightarrow> ('w, herr + string \<times> string list) nprog" where
  "resolveBlockDevices h devicePath =
     if_err (os_EvalSymlinks h devicePath)
       (\<lambda>err. return (Inl (hwrap (''failed to resolve block device '' @ devicePath @ '': '') err)))
       (\<lambda>resolved.
          let rel = Rel deviceDir resolved in
          if rel = None \<or> the rel = ''.'' \<or> HasPrefix (the rel) ''../'' \<or> IsAbs (the rel) then
            return (Inl (HErr (''mount source '' @ devicePath @ '' does not resolve beneath '' @ deviceDir)))
          else (let name = Base resolved in
            if name = ''.'' \<or> name = ''/'' \<or> name = [] then
              return (Inl (HErr (''invalid block device path '' @ resolved)))
            else
              if_err (walk (h_blockDevices h + 2) h [] name []) (\<lambda>err. return (Inl err))
                (\<lambda>leaves. return (Inr (resolved, compactStrings (sort_Strings leaves))))))"

section \<open>iSCSI sessions\<close>

definition isNoISCSIObjectsFound :: "herr \<Rightarrow> bool" where
  "isNoISCSIObjectsFound err =
     (case as_exit_error err of None \<Rightarrow> False | Some (code, _) \<Rightarrow> code = iscsiadmExitNoObjsFound)"

definition withCommandOutput :: "herr \<Rightarrow> herr" where
  "withCommandOutput err =
     (case as_exit_error err of
        None \<Rightarrow> err
      | Some (_, stderr) \<Rightarrow> if stderr \<noteq> [] then HWrap [] err ('': '' @ TrimSpace stderr) else err)"

definition parse_session_line :: "string \<Rightarrow> herr + iscsiSession" where
  "parse_session_line line =
     (let fields = Fields line in
      if length fields < 4 then Inl (HErr (''cannot parse iscsiadm session line '' @ Quote line))
      else (case Atoi (Trim (fields ! 1) ''[]'') of
              None \<Rightarrow> Inl (hwrap (''cannot parse iSCSI session ID '' @ Quote (fields ! 1) @ '': '') (OsErr (''strconv.Atoi: parsing '' @ Quote (Trim (fields ! 1) ''[]'') @ '': invalid syntax'')))
            | Some sid \<Rightarrow>
                (let portal = fields ! 2; comma = LastIndexByte portal CHR '','';
                     portal = (if comma \<ge> 0 then take (nat comma) portal else portal) in
                 if portal = [] \<or> fields ! 3 = [] then
                   Inl (HErr (''incomplete iscsiadm session line '' @ Quote line))
                 else Inr \<lparr>ses_ID = sid, ses_Portal = portal, ses_IQN = fields ! 3\<rparr>)))"

fun parse_session_lines :: "string list \<Rightarrow> herr + iscsiSession list" where
  "parse_session_lines [] = Inr []"
| "parse_session_lines (l # ls) =
     (case parse_session_line l of
        Inl err \<Rightarrow> Inl err
      | Inr s \<Rightarrow> (case parse_session_lines ls of Inl err \<Rightarrow> Inl err | Inr ss \<Rightarrow> Inr (s # ss)))"

definition parseISCSISessions :: "string \<Rightarrow> herr + iscsiSession list" where
  "parseISCSISessions output =
     (let output = TrimSpace output in
      if output = [] then Inr [] else parse_session_lines (split_char (CHR 0x0A) output))"

definition currentISCSISessions :: "'w host \<Rightarrow> ('w, herr + iscsiSession list) nprog" where
  "currentISCSISessions h =
     if_err (os_GetSessions h)
       (\<lambda>err. if isNoISCSIObjectsFound err then return (Inr [])
              else return (Inl (hwrap ''failed to list iSCSI sessions: '' (withCommandOutput err))))
       (\<lambda>output. return (parseISCSISessions output))"

fun session_component :: "string list \<Rightarrow> int option" where
  "session_component [] = None"
| "session_component (c # cs) =
     (if \<not> HasPrefix c ''session'' then session_component cs
      else (case Atoi (TrimPrefix c ''session'') of None \<Rightarrow> session_component cs | Some sid \<Rightarrow> Some sid))"

definition iscsiSessionIDForBlockDevice :: "'w host \<Rightarrow> string \<Rightarrow> ('w, herr + int option) nprog" where
  "iscsiSessionIDForBlockDevice h devicePath =
     if_err (os_EvalSymlinks h (Join [sysClassBlockDir, Base devicePath, ''device'']))
       (\<lambda>err. return (Inl (hwrap (''failed to inspect transport for '' @ devicePath @ '': '') err)))
       (\<lambda>target. return (Inr (session_component (split_char CHR ''/'' target))))"

text \<open>The session identifiers of the devices; \<open>None\<close> as soon as one has none.\<close>

fun session_ids :: "'w host \<Rightarrow> string list \<Rightarrow> int list \<Rightarrow> ('w, herr + int list option) nprog" where
  "session_ids h [] ids = return (Inr (Some ids))"
| "session_ids h (d # ds) ids =
     if_err (iscsiSessionIDForBlockDevice h d) (\<lambda>err. return (Inl err))
       (\<lambda>found. case found of
                  None \<Rightarrow> return (Inr None)
                | Some sid \<Rightarrow> session_ids h ds (List.insert sid ids))"

text \<open>The loop over the sessions: target, portals and the identifiers found.\<close>

fun match_sessions :: "string \<Rightarrow> int list \<Rightarrow> iscsiSession list \<Rightarrow> string \<times> string list \<times> int list
    \<Rightarrow> herr + string \<times> string list \<times> int list" where
  "match_sessions volumeID ids [] acc = Inr acc"
| "match_sessions volumeID ids (s # ss) (targetIQN, portals, found) =
     (if ses_ID s \<notin> set ids then match_sessions volumeID ids ss (targetIQN, portals, found)
      else if \<not> HasSuffix (ses_IQN s) ('':'' @ makeISCSITargetSuffix volumeID) then
        Inl (HErr (''iSCSI target '' @ Quote (ses_IQN s) @ '' for mounted device does not belong to volume '' @ Quote volumeID))
      else if targetIQN \<noteq> [] \<and> targetIQN \<noteq> ses_IQN s then
        Inl (HErr (''mounted devices map to multiple iSCSI targets: '' @ Quote targetIQN @ '' and '' @ Quote (ses_IQN s)))
      else match_sessions volumeID ids ss (ses_IQN s, portals @ [ses_Portal s], List.insert (ses_ID s) found))"

definition iscsiConnectionForDevices :: "'w host \<Rightarrow> string \<Rightarrow> string list
    \<Rightarrow> ('w, herr + ISCSIConnection option) nprog" where
  "iscsiConnectionForDevices h volumeID devices =
     if_err (session_ids h devices []) (\<lambda>err. return (Inl err)) (\<lambda>sessionIDs.
       case sessionIDs of
         None \<Rightarrow> return (Inr None)
       | Some ids \<Rightarrow>
           if ids = [] then return (Inr None)
           else if_err (currentISCSISessions h) (\<lambda>err. return (Inl err)) (\<lambda>sessions.
             case match_sessions volumeID ids sessions ([], [], []) of
               Inl err \<Rightarrow> return (Inl err)
             | Inr (targetIQN, portals, found) \<Rightarrow>
                 if length found \<noteq> length ids then
                   return (Inl (HErr ''could not map every mounted iSCSI device to a live session''))
                 else return (Inr (Some \<lparr>ic_TargetIQN = targetIQN,
                                          ic_Portals = compactStrings (sort_Strings portals)\<rparr>))))"

definition findISCSINodeRecordByVolumeID :: "'w host \<Rightarrow> string \<Rightarrow> ('w, herr + ISCSIConnection option) nprog" where
  "findISCSINodeRecordByVolumeID h volumeID =
     if_err (os_ReadDir h iscsiNodeDBDir)
       (\<lambda>err. if IsNotExist err then return (Inr None)
              else return (Inl (hwrap ''failed to inspect iSCSI node database: '' err)))
       (\<lambda>entries.
          let matches = map de_Name (filter (\<lambda>e. de_IsDir e
                \<and> HasSuffix (de_Name e) ('':'' @ makeISCSITargetSuffix volumeID)) entries) in
          if matches = [] then return (Inr None)
          else if length matches > 1 then
            return (Inl (HErr (''multiple iSCSI node records match volume '' @ Quote volumeID)))
          else return (Inr (Some \<lparr>ic_TargetIQN = hd matches, ic_Portals = []\<rparr>)))"

text \<open>\<^verbatim>\<open>byTarget[iqn] = append(byTarget[iqn], portal)\<close> over the sessions of the volume.\<close>

definition by_target :: "string \<Rightarrow> iscsiSession list \<Rightarrow> (string \<times> string list) list" where
  "by_target volumeID sessions =
     fold (\<lambda>s m. if HasSuffix (ses_IQN s) ('':'' @ makeISCSITargetSuffix volumeID)
                 then put (ses_IQN s) ((case lookup m (ses_IQN s) of None \<Rightarrow> [] | Some ps \<Rightarrow> ps) @ [ses_Portal s]) m
                 else m) sessions []"

definition findISCSIConnectionByVolumeID :: "'w host \<Rightarrow> string \<Rightarrow> ('w, herr + ISCSIConnection option) nprog" where
  "findISCSIConnectionByVolumeID h volumeID =
     if_err (currentISCSISessions h) (\<lambda>err. return (Inl err)) (\<lambda>sessions.
       case by_target volumeID sessions of
         [] \<Rightarrow> findISCSINodeRecordByVolumeID h volumeID
       | (iqn, portals) # rest \<Rightarrow>
           if rest \<noteq> [] then
             return (Inl (HErr (''multiple iSCSI targets match volume '' @ Quote volumeID)))
           else return (Inr (Some \<lparr>ic_TargetIQN = iqn, ic_Portals = compactStrings (sort_Strings portals)\<rparr>)))"

definition pathMissing :: "'w host \<Rightarrow> string \<Rightarrow> ('w, bool) nprog" where
  "pathMissing h path = do {
     r \<leftarrow> os_Stat h path;
     return (case r of Inl err \<Rightarrow> IsNotExist err | Inr _ \<Rightarrow> False) }"

definition sysfs_target :: "'w host \<Rightarrow> DirEntry \<Rightarrow> string list \<Rightarrow> ('w, herr + string list) nprog" where
  "sysfs_target h entry targets =
     (let name = de_Name entry; sessionID = TrimPrefix name ''session'' in
      if sessionID = name \<or> \<not> isAllDigits sessionID then return (Inr targets)
      else (let base = Join [sysClassISCSISessionDir, name] in
        do {
          r \<leftarrow> os_ReadFile h (Join [base, ''targetname'']);
          case r of
            Inl err \<Rightarrow> do {
              gone \<leftarrow> (if IsNotExist err then pathMissing h base else return False);
              if gone then return (Inr targets)
              else return (Inl (hwrap (''failed to read target name for iSCSI '' @ name @ '': '') err)) }
          | Inr targetData \<Rightarrow>
              (let targetIQN = TrimSpace targetData in
               if targetIQN = [] then return (Inl (HErr (''empty target name for iSCSI '' @ name)))
               else return (Inr (targets @ [targetIQN])))
        }))"

definition currentISCSITargetsInSysfs :: "'w host \<Rightarrow> ('w, herr + string list) nprog" where
  "currentISCSITargetsInSysfs h =
     if_err (os_ReadDir h sysClassISCSISessionDir)
       (\<lambda>err. if IsNotExist err then return (Inr [])
              else return (Inl (hwrap ''failed to inspect iSCSI session sysfs: '' err)))
       (\<lambda>entries. if_err (loop_err (sysfs_target h) entries []) (\<lambda>err. return (Inl err))
          (\<lambda>targets. return (Inr (compactStrings (sort_Strings targets)))))"

definition iscsiTargetPresentInSysfs :: "'w host \<Rightarrow> string \<Rightarrow> ('w, herr + bool) nprog" where
  "iscsiTargetPresentInSysfs h targetIQN =
     if_err (currentISCSITargetsInSysfs h) (\<lambda>err. return (Inl err))
       (\<lambda>targets. return (Inr (targetIQN \<in> set targets)))"

definition findISCSIEvidenceTargetByVolumeID :: "'w host \<Rightarrow> string \<Rightarrow> ('w, herr + string) nprog" where
  "findISCSIEvidenceTargetByVolumeID h volumeID =
     if_err (findISCSINodeRecordByVolumeID h volumeID) (\<lambda>err. return (Inl err)) (\<lambda>nodeRecord.
     if_err (currentISCSITargetsInSysfs h) (\<lambda>err. return (Inl err)) (\<lambda>targets.
       let matching = fold List.insert
             (filter (\<lambda>t. HasSuffix t ('':'' @ makeISCSITargetSuffix volumeID)) targets)
             (case nodeRecord of None \<Rightarrow> [] | Some r \<Rightarrow> [ic_TargetIQN r]) in
       if matching = [] then return (Inr [])
       else if length matching > 1 then
         return (Inl (HErr (''multiple iSCSI evidence targets match volume '' @ Quote volumeID)))
       else return (Inr (hd matching))))"

definition iscsiTargetConnected :: "'w host \<Rightarrow> string \<Rightarrow> ('w, herr + bool) nprog" where
  "iscsiTargetConnected h targetIQN =
     if_err (currentISCSISessions h) (\<lambda>err. return (Inl err)) (\<lambda>sessions.
       if list_ex (\<lambda>s. ses_IQN s = targetIQN) sessions then return (Inr True)
       else iscsiTargetPresentInSysfs h targetIQN)"

section \<open>NVMe controllers\<close>

definition nvmeSubNQNForBlockDevice :: "'w host \<Rightarrow> string \<Rightarrow> ('w, herr + string option) nprog" where
  "nvmeSubNQNForBlockDevice h devicePath =
     (let name = Base devicePath in
      if_err (os_ReadFile h (Join [sysClassBlockDir, name, ''device'', ''subsysnqn'']))
        (\<lambda>err. if IsNotExist err \<and> \<not> HasPrefix name ''nvme'' then return (Inr None)
               else return (Inl (hwrap (''failed to read subsystem NQN for '' @ devicePath @ '': '') err)))
        (\<lambda>data. let nqn = TrimSpace data in
           if nqn = [] then return (Inl (HErr (''empty subsystem NQN for '' @ devicePath)))
           else return (Inr (Some nqn))))"

definition isNVMeControllerName :: "string \<Rightarrow> bool" where
  "isNVMeControllerName name \<longleftrightarrow> HasPrefix name ''nvme'' \<and> isAllDigits (TrimPrefix name ''nvme'')"

text \<open>A file of a controller directory: \<open>None\<close> when the controller has disappeared meanwhile.\<close>

definition read_controller_file :: "'w host \<Rightarrow> string \<Rightarrow> string \<Rightarrow> string \<Rightarrow> ('w, herr + string option) nprog" where
  "read_controller_file h name file what = do {
     r \<leftarrow> os_ReadFile h (Join [Join [sysClassNVMeDir, name], file]);
     case r of
       Inl err \<Rightarrow> do {
         gone \<leftarrow> (if IsNotExist err then pathMissing h (Join [sysClassNVMeDir, name]) else return False);
         if gone then return (Inr None)
         else return (Inl (hwrap (''failed to read '' @ what @ '' for controller '' @ name @ '': '') err)) }
     | Inr d \<Rightarrow> return (Inr (Some d)) }"

definition scan_controller :: "'w host \<Rightarrow> DirEntry \<Rightarrow> nvmeController list \<Rightarrow> ('w, herr + nvmeController list) nprog" where
  "scan_controller h entry controllers =
     (let name = de_Name entry in
      if \<not> isNVMeControllerName name then return (Inr controllers)
      else
        if_err (read_controller_file h name ''subsysnqn'' ''subsystem NQN'') (\<lambda>err. return (Inl err)) (\<lambda>nqnData.
          case nqnData of
            None \<Rightarrow> return (Inr controllers)
          | Some nd \<Rightarrow>
              if_err (read_controller_file h name ''transport'' ''transport'') (\<lambda>err. return (Inl err)) (\<lambda>transportData.
                case transportData of
                  None \<Rightarrow> return (Inr controllers)
                | Some td \<Rightarrow>
                    (let nqn = TrimSpace nd; transport = TrimSpace td in
                     if nqn = [] \<or> transport = [] then
                       return (Inl (HErr (''controller '' @ name @ '' has incomplete NVMe identity'')))
                     else return (Inr (controllers @ [\<lparr>nc_Name = name, nc_SubNQN = nqn, nc_Transport = transport\<rparr>]))))))"

definition scanNVMeControllers :: "'w host \<Rightarrow> ('w, herr + nvmeController list) nprog" where
  "scanNVMeControllers h =
     if_err (os_ReadDir h sysClassNVMeDir)
       (\<lambda>err. if IsNotExist err then return (Inr [])
              else return (Inl (hwrap ''failed to list NVMe controllers: '' err)))
       (\<lambda>entries. if_err (loop_err (scan_controller h) entries []) (\<lambda>err. return (Inl err))
          (\<lambda>controllers. return (Inr (sort_key nc_Name controllers))))"

abbreviation fabric_transports :: "string list" where
  "fabric_transports \<equiv> [''tcp'', ''rdma'', ''fc'', ''loop'']"

definition unsupported_transport :: "nvmeController \<Rightarrow> herr" where
  "unsupported_transport c =
     HErr (''controller '' @ nc_Name c @ '' has unsupported NVMe transport '' @ Quote (nc_Transport c))"

fun remote_controllers :: "string \<Rightarrow> nvmeController list \<Rightarrow> string list \<times> bool \<Rightarrow> herr + string list \<times> bool" where
  "remote_controllers subnqn [] acc = Inr acc"
| "remote_controllers subnqn (c # cs) (remote, hasLocal) =
     (if nc_SubNQN c \<noteq> subnqn then remote_controllers subnqn cs (remote, hasLocal)
      else if nc_Transport c = ''pcie'' then remote_controllers subnqn cs (remote, True)
      else if nc_Transport c \<in> set fabric_transports then
        remote_controllers subnqn cs (remote @ [Join [deviceDir, nc_Name c]], hasLocal)
      else Inl (unsupported_transport c))"

definition remoteNVMeControllersForNQN :: "'w host \<Rightarrow> string \<Rightarrow> ('w, herr + string list \<times> bool) nprog" where
  "remoteNVMeControllersForNQN h subnqn =
     if_err (scanNVMeControllers h) (\<lambda>err. return (Inl err)) (\<lambda>controllers.
       case remote_controllers subnqn controllers ([], False) of
         Inl err \<Rightarrow> return (Inl err)
       | Inr (remote, hasLocal) \<Rightarrow>
           if hasLocal \<and> remote \<noteq> [] then
             return (Inl (HErr (''NVMe subsystem '' @ Quote subnqn @ '' has both local and fabrics controllers'')))
           else return (Inr (remote, hasLocal)))"

text \<open>The loop over the devices of a mount: the common NQN and how many devices are NVMe.\<close>

definition nvme_device :: "'w host \<Rightarrow> string \<Rightarrow> string \<times> nat \<Rightarrow> ('w, herr + string \<times> nat) nprog" where
  "nvme_device h device acc = (case acc of (subnqn, foundCount) \<Rightarrow>
     if_err (nvmeSubNQNForBlockDevice h device) (\<lambda>err. return (Inl err)) (\<lambda>found.
       case found of
         None \<Rightarrow> return (Inr (subnqn, foundCount))
       | Some nqn \<Rightarrow>
           if subnqn \<noteq> [] \<and> subnqn \<noteq> nqn then
             return (Inl (HErr (''mounted devices map to multiple NVMe subsystems: '' @ Quote subnqn @ '' and '' @ Quote nqn)))
           else return (Inr (nqn, Suc foundCount))))"

definition nvmeConnectionForDevices :: "'w host \<Rightarrow> string \<Rightarrow> string list
    \<Rightarrow> ('w, herr + (string \<times> string list) option) nprog" where
  "nvmeConnectionForDevices h volumeID devices =
     if_err (loop_err (nvme_device h) devices ([], 0)) (\<lambda>err. return (Inl err)) (\<lambda>(subnqn, foundCount).
       if foundCount = 0 then return (Inr None)
       else if foundCount \<noteq> length devices then
         return (Inl (HErr ''mounted device mixes NVMe and non-NVMe paths''))
       else if \<not> HasSuffix subnqn ('':'' @ makeNVMeSubsysName volumeID) then
         return (Inl (HErr (''NVMe subsystem '' @ Quote subnqn @ '' for mounted device does not belong to volume '' @ Quote volumeID)))
       else
         if_err (remoteNVMeControllersForNQN h subnqn) (\<lambda>err. return (Inl err)) (\<lambda>(controllers, hasLocal).
           if hasLocal then
             return (Inl (HErr (''mounted namespace for '' @ Quote volumeID @ '' is local PCIe NVMe, not NVMe-oF'')))
           else if controllers = [] then
             return (Inl (HErr (''no fabrics controller found for mounted NVMe subsystem '' @ Quote subnqn)))
           else return (Inr (Some (subnqn, controllers)))))"

fun matching_controllers :: "string \<Rightarrow> nvmeController list \<Rightarrow> (string \<times> string list) list \<times> string list
    \<Rightarrow> herr + (string \<times> string list) list \<times> string list" where
  "matching_controllers volumeID [] acc = Inr acc"
| "matching_controllers volumeID (c # cs) (matching, local) =
     (if \<not> HasSuffix (nc_SubNQN c) ('':'' @ makeNVMeSubsysName volumeID) then
        matching_controllers volumeID cs (matching, local)
      else if nc_Transport c = ''pcie'' then matching_controllers volumeID cs (matching, nc_SubNQN c # local)
      else if nc_Transport c \<in> set fabric_transports then
        matching_controllers volumeID cs
          (put (nc_SubNQN c)
             ((case lookup matching (nc_SubNQN c) of None \<Rightarrow> [] | Some ps \<Rightarrow> ps) @ [Join [deviceDir, nc_Name c]])
             matching, local)
      else Inl (unsupported_transport c))"

definition findNVMeConnectionByVolumeID :: "'w host \<Rightarrow> string \<Rightarrow> ('w, herr + string \<times> string list) nprog" where
  "findNVMeConnectionByVolumeID h volumeID =
     if_err (scanNVMeControllers h) (\<lambda>err. return (Inl err)) (\<lambda>controllers.
       case matching_controllers volumeID controllers ([], []) of
         Inl err \<Rightarrow> return (Inl err)
       | Inr (matching, local) \<Rightarrow>
           (case filter (\<lambda>(nqn, _). nqn \<in> set local) matching of
              (nqn, _) # _ \<Rightarrow>
                return (Inl (HErr (''NVMe subsystem '' @ Quote nqn @ '' has both local and fabrics controllers'')))
            | [] \<Rightarrow>
                (case matching of
                   [] \<Rightarrow> return (Inr ([], []))
                 | (nqn, paths) # rest \<Rightarrow>
                     if rest \<noteq> [] then
                       return (Inl (HErr (''multiple NVMe-oF subsystems match volume '' @ Quote volumeID)))
                     else return (Inr (nqn, compactStrings (sort_Strings paths))))))"

definition nvmeSubsystemConnected :: "'w host \<Rightarrow> string \<Rightarrow> ('w, herr + bool) nprog" where
  "nvmeSubsystemConnected h subnqn =
     if_err (remoteNVMeControllersForNQN h subnqn) (\<lambda>err. return (Inl err))
       (\<lambda>(controllers, _). return (Inr (controllers \<noteq> [])))"

section \<open>Which attachment a path belongs to\<close>

definition discover_block :: "'w host \<Rightarrow> string \<Rightarrow> volumeState \<Rightarrow> string \<Rightarrow> string \<Rightarrow> ('w, herr + volumeState) nprog" where
  "discover_block h volumeID state source deviceSource =
     if_err (resolveBlockDevices h deviceSource) (\<lambda>err. return (Inl err)) (\<lambda>(devicePath, blockDevices).
       let state = state\<lparr>vs_DevicePath := devicePath, vs_BlockDevices := blockDevices\<rparr> in
       if_err (nvmeConnectionForDevices h volumeID blockDevices) (\<lambda>err. return (Inl err)) (\<lambda>foundNVMe.
         case foundNVMe of
           Some (nqn, controllers) \<Rightarrow>
             return (Inr (state\<lparr>vs_Protocol := ProtocolNVMeOF, vs_NVMeSubNQN := nqn, vs_NVMeControllers := controllers\<rparr>))
         | None \<Rightarrow>
             if_err (iscsiConnectionForDevices h volumeID blockDevices) (\<lambda>err. return (Inl err)) (\<lambda>foundISCSI.
               case foundISCSI of
                 Some connection \<Rightarrow>
                   return (Inr (state\<lparr>vs_Protocol := ProtocolISCSI, vs_ISCSI := Some connection\<rparr>))
               | None \<Rightarrow>
                   return (Inl (HErr (''mounted block device '' @ source
                     @ '' is neither this volume's iSCSI nor NVMe-oF attachment''))))))"

definition discoverMountedVolume :: "'w host \<Rightarrow> string \<Rightarrow> MountPoint list \<Rightarrow> MountPoint \<Rightarrow> ('w, herr + volumeState) nprog" where
  "discoverMountedVolume h volumeID mounts entry =
     (case resolveMountSource mounts (Some entry) of
        Inl err \<Rightarrow> return (Inl err)
      | Inr (source, fsType) \<Rightarrow>
          (let state = zero_volumeState\<lparr>vs_MountPath := mp_Path entry\<rparr> in
           if HasPrefix fsType fsTypeNFS then return (Inr (state\<lparr>vs_Protocol := ProtocolNFS\<rparr>))
           else if pathWithin deviceDir source then discover_block h volumeID state source source
           else
             if_err (mountedBlockDevicePath h (mp_Path entry))
               (\<lambda>err. return (Inl (hwrap (''unrecognized mount source '' @ Quote source @ '' at '' @ mp_Path entry @ '': '') err)))
               (discover_block h volumeID state source)))"

definition discoverDetachedVolume :: "'w host \<Rightarrow> string \<Rightarrow> ('w, herr + volumeState) nprog" where
  "discoverDetachedVolume h volumeID =
     if_err (findNVMeConnectionByVolumeID h volumeID) (\<lambda>err. return (Inl err)) (\<lambda>(nqn, controllers).
     if_err (findISCSIEvidenceTargetByVolumeID h volumeID) (\<lambda>err. return (Inl err)) (\<lambda>iscsiEvidenceTarget.
       if iscsiEvidenceTarget = [] then
         (if nqn \<noteq> [] then
            return (Inr (zero_volumeState\<lparr>vs_Protocol := ProtocolNVMeOF, vs_NVMeSubNQN := nqn,
                                           vs_NVMeControllers := controllers\<rparr>))
          else return (Inr zero_volumeState))
       else
         if_err (findISCSIConnectionByVolumeID h volumeID) (\<lambda>err. return (Inl err)) (\<lambda>iscsiConnection.
           case iscsiConnection of
             None \<Rightarrow>
               return (Inl (HErr (''iSCSI evidence remains for volume '' @ Quote volumeID
                 @ '' but its connection could not be resolved'')))
           | Some connection \<Rightarrow>
               if ic_TargetIQN connection \<noteq> iscsiEvidenceTarget then
                 return (Inl (HErr (''iSCSI evidence target '' @ Quote iscsiEvidenceTarget @ '' for volume ''
                   @ Quote volumeID @ '' disagrees with resolved connection '' @ Quote (ic_TargetIQN connection))))
               else if nqn \<noteq> [] then
                 return (Inl (HErr (''both iSCSI and NVMe-oF connections match volume '' @ Quote volumeID)))
               else return (Inr (zero_volumeState\<lparr>vs_Protocol := ProtocolISCSI, vs_ISCSI := Some connection\<rparr>)))))"

definition discoverUnstageState :: "'w host \<Rightarrow> string \<Rightarrow> string \<Rightarrow> ('w, herr + volumeState) nprog" where
  "discoverUnstageState h volumeID stagingPath =
     if_err (os_List h) (\<lambda>err. return (Inl (hwrap ''failed to list mounts: '' err))) (\<lambda>mounts.
       let blockPath = rawBlockStagingPath stagingPath;
           filesystemMount = effectiveMount mounts stagingPath;
           blockMount = effectiveMount mounts blockPath;
           mirror = effectiveCanonicalMount mounts stagingPath;
           blockMirror = effectiveCanonicalMount mounts blockPath in
       if filesystemMount = None \<and> mirror \<noteq> None then
         return (Inl (HErr (''staging mount '' @ stagingPath @ '' remains only through host mirror '' @ mp_Path (the mirror))))
       else if blockMount = None \<and> blockMirror \<noteq> None then
         return (Inl (HErr (''block staging mount '' @ blockPath @ '' remains only through host mirror ''
           @ mp_Path (the blockMirror))))
       else
         (case (filesystemMount, blockMount) of
            (Some _, Some _) \<Rightarrow>
              return (Inl (HErr (''both filesystem and raw-block staging mounts exist for volume '' @ Quote volumeID)))
          | (Some entry, None) \<Rightarrow> discoverMountedVolume h volumeID mounts entry
          | (None, Some entry) \<Rightarrow> discoverMountedVolume h volumeID mounts entry
          | (None, None) \<Rightarrow> discoverDetachedVolume h volumeID))"

text \<open>The first candidate path that is mounted.\<close>

fun first_mount :: "MountPoint list \<Rightarrow> string list \<Rightarrow> string list \<Rightarrow> MountPoint option" where
  "first_mount mounts seen [] = None"
| "first_mount mounts seen (c # cs) =
     (if c = [] then first_mount mounts seen cs
      else (let candidate = Clean c in
            if candidate \<in> set seen then first_mount mounts seen cs
            else (case effectiveMount mounts candidate of
                    Some entry \<Rightarrow> Some entry
                  | None \<Rightarrow> first_mount mounts (candidate # seen) cs)))"

definition discoverExpandState :: "'w host \<Rightarrow> string \<Rightarrow> string \<Rightarrow> string \<Rightarrow> ('w, herr + volumeState) nprog" where
  "discoverExpandState h volumeID stagingPath volumePath =
     if_err (os_List h) (\<lambda>err. return (Inl (hwrap ''failed to list mounts: '' err))) (\<lambda>mounts.
       let candidates = (if stagingPath \<noteq> [] then [rawBlockStagingPath stagingPath, stagingPath] else []) @ [volumePath] in
       case first_mount mounts [] candidates of
         Some entry \<Rightarrow> discoverMountedVolume h volumeID mounts entry
       | None \<Rightarrow> discoverDetachedVolume h volumeID)"

section \<open>Raw block devices\<close>

definition create_and_close :: "'w host \<Rightarrow> string \<Rightarrow> string \<Rightarrow> ('w, herr option) nprog \<Rightarrow> ('w, herr option) nprog" where
  "create_and_close h path what k =
     if_fail (os_CreateFile h path) (\<lambda>err. return (Some (hwrap (''failed to create '' @ what @ '' file: '') err)))
     (if_fail (os_CloseFile h path) (\<lambda>err. return (Some (hwrap (''failed to close '' @ what @ '' file: '') err))) k)"

definition stageBlockDevice :: "'w host \<Rightarrow> string \<Rightarrow> string \<Rightarrow> ('w, herr option) nprog" where
  "stageBlockDevice h devicePath stagingPath =
     (if devicePath = [] then return (Some (HErr ''block device path is empty''))
      else if stagingPath = [] then return (Some (HErr ''staging path is empty''))
      else
        if_fail (os_MkdirAll h stagingPath)
          (\<lambda>err. return (Some (hwrap ''failed to create block staging directory: '' err)))
        (let anchor = rawBlockStagingPath stagingPath in
         create_and_close h anchor ''block staging'' (do {
           (notMounted, err) \<leftarrow> os_IsLikelyNotMountPoint h anchor;
           if err \<noteq> None \<and> \<not> IsNotExist (the err) then
             return (Some (hwrap ''failed to inspect block staging file: '' (the err)))
           else if \<not> notMounted then return None
           else
             if_fail (os_Mount h devicePath anchor [] [mountOptionBind])
               (\<lambda>err. do { os_Remove h anchor;
                           return (Some (hwrap ''failed to bind mount block device at staging path: '' err)) })
               (return None) })))"

definition publishBlockDevice :: "'w host \<Rightarrow> string \<Rightarrow> string \<Rightarrow> bool \<Rightarrow> ('w, herr option) nprog" where
  "publishBlockDevice h stagingPath targetPath readOnly =
     (let anchor = rawBlockStagingPath stagingPath in
      do {
        (notMounted, err) \<leftarrow> os_IsLikelyNotMountPoint h anchor;
        if err \<noteq> None \<or> notMounted then
          return (Some (HErr (''block volume is not staged at '' @ anchor)))
        else
          if_fail (os_MkdirAll h (Dir targetPath))
            (\<lambda>err. return (Some (hwrap ''failed to create target directory: '' err)))
          (create_and_close h targetPath ''target''
            (if_fail (os_Mount h anchor targetPath [] ([mountOptionBind] @ (if readOnly then [mountOptionReadOnly] else [])))
              (\<lambda>err. do { os_Remove h targetPath;
                          return (Some (hwrap ''failed to bind mount staged block device: '' err)) })
              (return None)))
      })"

end
