(* ===== verification/Node_Handlers.thy ===== *)
theory Node_Handlers
  imports Node_Discovery
begin

text \<open>
  The protocol handlers of the node service: \<^verbatim>\<open>pkg/driver/nfs.go\<close>, \<^verbatim>\<open>iscsi.go\<close> and \<^verbatim>\<open>nvmeof.go\<close>, with
  the request types of \<^verbatim>\<open>driver.go\<close>. A handler is a record of the operations of the Go interface
  \<^verbatim>\<open>ProtocolHandler\<close>; the three values \<open>nfsHandler\<close>, \<open>iscsiHandler\<close> and \<open>nvmeofHandler\<close> are its
  implementations.
\<close>

section \<open>Requests\<close>

record StageRequest =
  sr_VolumeID :: string
  sr_StagingPath :: string
  sr_FSType :: string
  sr_MountFlags :: "string list"
  sr_PublishContext :: smap
  sr_VolumeContext :: smap
  sr_Secrets :: smap
  sr_IsBlockVolume :: bool

record UnstageRequest =
  ur_VolumeID :: string
  ur_StagingPath :: string
  ur_MountPath :: string
  ur_DevicePath :: string
  ur_ISCSI :: "ISCSIConnection option"
  ur_NVMeSubNQN :: string

record PublishRequest =
  pr_VolumeID :: string
  pr_StagingPath :: string
  pr_TargetPath :: string
  pr_FSType :: string
  pr_MountFlags :: "string list"
  pr_ReadOnly :: bool
  pr_PublishContext :: smap
  pr_VolumeContext :: smap
  pr_IsBlockVolume :: bool

record UnpublishRequest =
  up_VolumeID :: string
  up_TargetPath :: string

record ExpandRequest =
  er_VolumeID :: string
  er_VolumePath :: string
  er_DevicePath :: string
  er_BlockDevices :: "string list"
  er_NVMeControllers :: "string list"
  er_CapacityBytes :: int
  er_IsBlockVolume :: bool

record 'w ProtocolHandler =
  ph_Protocol :: string
  ph_Stage :: "StageRequest \<Rightarrow> ('w, herr + string) nprog"  \<comment> \<open>the device path of \<^verbatim>\<open>StageResult\<close>\<close>
  ph_Unstage :: "UnstageRequest \<Rightarrow> ('w, herr option) nprog"
  ph_Publish :: "PublishRequest \<Rightarrow> ('w, herr option) nprog"
  ph_Unpublish :: "UnpublishRequest \<Rightarrow> ('w, herr option) nprog"
  ph_Expand :: "ExpandRequest \<Rightarrow> ('w, herr + int) nprog"  \<comment> \<open>the capacity of \<^verbatim>\<open>ExpandResult\<close>\<close>

abbreviation DefaultFSType :: string where "DefaultFSType \<equiv> ''ext4''"
abbreviation fsTypeXFS :: string where "fsTypeXFS \<equiv> ''xfs''"
abbreviation mountOptionNouuid :: string where "mountOptionNouuid \<equiv> ''nouuid''"
abbreviation mountOptionHard :: string where "mountOptionHard \<equiv> ''hard''"
abbreviation iscsiAuthTypeCHAP :: string where "iscsiAuthTypeCHAP \<equiv> ''chap''"

section \<open>NFS\<close>

record NFSConfig =
  nfs_Server :: string
  nfs_Path :: string
  nfs_MountOptions :: "string list"

definition parseNFSConfig :: "smap \<Rightarrow> smap \<Rightarrow> NFSConfig" where
  "parseNFSConfig publishContext volumeContext =
     (let server = get_str publishContext PublishContextNFSServer;
          path = get_str publishContext PublishContextNFSPath in
      \<lparr>nfs_Server = (if server = [] then get_str volumeContext PublishContextNFSServer else server),
       nfs_Path = (if path = [] then get_str volumeContext PublishContextNFSPath else path),
       nfs_MountOptions =
         (let val = get_str volumeContext ''nfs.mountOptions'' in
          if val \<noteq> [] then filter (\<lambda>opt. opt \<noteq> []) (map TrimSpace (split_char CHR '','' val)) else [])\<rparr>)"

definition getMountOptions :: "NFSConfig \<Rightarrow> bool \<Rightarrow> string list" where
  "getMountOptions config readonly =
     (if nfs_MountOptions config \<noteq> [] then nfs_MountOptions config else [mountOptionHard])
     @ (if readonly then [mountOptionReadOnly] else [])"

definition isIPv6Address :: "string \<Rightarrow> bool" where
  "isIPv6Address addr =
     (if CHR '':'' \<notin> set addr then False
      else (case ParseIP addr of None \<Rightarrow> False | Some ip \<Rightarrow> \<not> To4 ip))"

definition formatNFSSource :: "string \<Rightarrow> string \<Rightarrow> string" where
  "formatNFSSource server path =
     (if HasPrefix server ''['' then server @ '':'' @ path
      else if isIPv6Address server then ''['' @ server @ '']:'' @ path
      else server @ '':'' @ path)"

text \<open>\<^verbatim>\<open>mountWithTimeout\<close>: the mount runs in a goroutine; what the context reports decides whether its
  result is awaited.\<close>

definition mountWithTimeout :: "'w host \<Rightarrow> string \<Rightarrow> string \<Rightarrow> string \<Rightarrow> string list \<Rightarrow> ('w, herr option) nprog" where
  "mountWithTimeout h source target fsType options = do {
     err \<leftarrow> os_Mount h source target fsType options;
     ctx \<leftarrow> os_CtxErr h;
     return (case ctx of
         Some e \<Rightarrow> if e = DeadlineExceeded then Some (HErr ''mount timed out after 1m50s'') else Some e
       | None \<Rightarrow> map_option (hwrap ''mount failed: '') err) }"

definition nfs_Stage :: "'w host \<Rightarrow> StageRequest \<Rightarrow> ('w, herr + string) nprog" where
  "nfs_Stage h req =
     (if sr_IsBlockVolume req then return (Inl (HErr ''NFS does not support raw block volumes''))
      else return (Inr []))"

definition nfs_Unstage :: "'w host \<Rightarrow> UnstageRequest \<Rightarrow> ('w, herr option) nprog" where
  "nfs_Unstage h req = return None"

definition nfs_mount :: "'w host \<Rightarrow> PublishRequest \<Rightarrow> NFSConfig \<Rightarrow> ('w, herr option) nprog" where
  "nfs_mount h req config =
     (let source = formatNFSSource (nfs_Server config) (nfs_Path config);
          flags = pr_MountFlags req;
          mountOptions =
            (if flags \<noteq> [] then
               flags @ (if pr_ReadOnly req \<and> mountOptionReadOnly \<notin> set flags then [mountOptionReadOnly] else [])
             else getMountOptions config (pr_ReadOnly req)) in
      if_fail (mountWithTimeout h source (pr_TargetPath req) fsTypeNFS mountOptions)
        (\<lambda>err. return (Some (hwrap (''failed to mount NFS volume '' @ source @ '': '') err))) (return None))"

definition nfs_Publish :: "'w host \<Rightarrow> PublishRequest \<Rightarrow> ('w, herr option) nprog" where
  "nfs_Publish h req =
     (let config = parseNFSConfig (pr_PublishContext req) (pr_VolumeContext req) in
      if nfs_Server config = [] \<or> nfs_Path config = [] then
        return (Some (HErr ''NFS server and path are required''))
      else do {
        (notMounted, err) \<leftarrow> os_IsLikelyNotMountPoint h (pr_TargetPath req);
        case err of
          Some e \<Rightarrow>
            if IsNotExist e then
              if_fail (os_MkdirAll h (pr_TargetPath req))
                (\<lambda>e. return (Some (hwrap ''failed to create target directory: '' e)))
                (nfs_mount h req config)
            else return (Some (hwrap ''failed to check mount point: '' e))
        | None \<Rightarrow> if \<not> notMounted then return None else nfs_mount h req config
      })"

definition nfs_Unpublish :: "'w host \<Rightarrow> UnpublishRequest \<Rightarrow> ('w, herr option) nprog" where
  "nfs_Unpublish h req =
     if_fail (os_CleanupMountPoint h (up_TargetPath req))
       (\<lambda>err. return (Some (hwrap ''failed to unmount: '' err))) (return None)"

definition nfs_Expand :: "'w host \<Rightarrow> ExpandRequest \<Rightarrow> ('w, herr + int) nprog" where
  "nfs_Expand h req = return (Inr (er_CapacityBytes req))"

definition nfsHandler :: "'w host \<Rightarrow> 'w ProtocolHandler" where
  "nfsHandler h = \<lparr>ph_Protocol = ProtocolNFS, ph_Stage = nfs_Stage h, ph_Unstage = nfs_Unstage h,
     ph_Publish = nfs_Publish h, ph_Unpublish = nfs_Unpublish h, ph_Expand = nfs_Expand h\<rparr>"

section \<open>iSCSI\<close>

record ISCSIConfig =
  isc_TargetPortal :: string
  isc_TargetIQN :: string
  isc_LUN :: int
  isc_CHAPUsername :: string
  isc_CHAPPassword :: string
  isc_CHAPUsernameIn :: string
  isc_CHAPPasswordIn :: string
  isc_MultipathEnabled :: bool
  isc_PersistentSessions :: bool

definition parseISCSIConfig :: "smap \<Rightarrow> smap \<Rightarrow> smap \<Rightarrow> herr + ISCSIConfig" where
  "parseISCSIConfig publishContext volumeContext secrets =
     (let lunStr = get_str publishContext PublishContextLUN;
          lun = (if lunStr \<noteq> [] then ParseInt32 lunStr else Some 0) in
      case lun of
        None \<Rightarrow> Inl (HErr (''invalid LUN value: strconv.ParseInt: parsing '' @ Quote lunStr @ '': invalid syntax''))
      | Some n \<Rightarrow> Inr
         \<lparr>isc_TargetPortal = get_str publishContext PublishContextTargetPortal,
          isc_TargetIQN = get_str publishContext PublishContextTargetIQN,
          isc_LUN = n,
          isc_CHAPUsername = secretOrParam secrets volumeContext ''iscsi.chapUsername'',
          isc_CHAPPassword = secretOrParam secrets volumeContext ''iscsi.chapPassword'',
          isc_CHAPUsernameIn = secretOrParam secrets volumeContext ''iscsi.chapUsernameIn'',
          isc_CHAPPasswordIn = secretOrParam secrets volumeContext ''iscsi.chapPasswordIn'',
          isc_MultipathEnabled = EqualFold (get_str volumeContext ''iscsi.multipathEnabled'') ''true'',
          isc_PersistentSessions = EqualFold (get_str volumeContext ''iscsi.persistentSessions'') ''true''\<rparr>)"

definition buildConnector :: "string \<Rightarrow> ISCSIConfig \<Rightarrow> Connector" where
  "buildConnector volumeID config =
     (let chap = isc_CHAPUsername config \<noteq> [] \<and> isc_CHAPPassword config \<noteq> [] in
      \<lparr>con_VolumeName = volumeID,
       con_TargetIqn = isc_TargetIQN config,
       con_TargetPortals = [isc_TargetPortal config],
       con_Lun = isc_LUN config,
       con_AuthType = (if chap then iscsiAuthTypeCHAP else []),
       con_SessionSecrets =
         (if chap then
            \<lparr>sec_SecretsType = iscsiAuthTypeCHAP, sec_UserName = isc_CHAPUsername config,
             sec_Password = isc_CHAPPassword config, sec_UserNameIn = isc_CHAPUsernameIn config,
             sec_PasswordIn = isc_CHAPPasswordIn config\<rparr>
          else \<lparr>sec_SecretsType = [], sec_UserName = [], sec_Password = [], sec_UserNameIn = [], sec_PasswordIn = []\<rparr>),
       con_DoDiscovery = (\<not> chap),
       con_DoCHAPDiscovery = chap,
       con_RetryCount = 10,
       con_CheckInterval = 1\<rparr>)"

definition ensureIPv4Portal :: "string \<Rightarrow> herr option" where
  "ensureIPv4Portal portal =
     (let host = Trim (portal_host portal) ''[]'' in
      case ParseIP host of
        None \<Rightarrow> None
      | Some ip \<Rightarrow>
          if \<not> To4 ip then
            Some (HErr (''iSCSI portal '' @ Quote portal
              @ '' is IPv6, which is not supported (csi-lib-iscsi mis-parses IPv6 portals) '' @ em_dash
              @ '' use an IPv4 portal, or NFS on IPv6-only clusters''))
          else None)"

text \<open>The part of \<^verbatim>\<open>Stage\<close> after the device is known.\<close>

definition iscsi_stage_device :: "'w host \<Rightarrow> StageRequest \<Rightarrow> string \<Rightarrow> ('w, herr + string) nprog" where
  "iscsi_stage_device h req devicePath =
     (if sr_IsBlockVolume req then
        if_fail (stageBlockDevice h devicePath (sr_StagingPath req)) (\<lambda>err. return (Inl err))
          (return (Inr devicePath))
      else
        (let fsType = (if sr_FSType req = [] then DefaultFSType else sr_FSType req);
             mountFlags = sr_MountFlags req
               @ (if fsType = fsTypeXFS \<and> mountOptionNouuid \<notin> set (sr_MountFlags req)
                  then [mountOptionNouuid] else []) in
         if_fail (os_MkdirAll h (sr_StagingPath req))
           (\<lambda>err. return (Inl (hwrap ''failed to create staging directory: '' err)))
         (if_fail (os_FormatAndMount h devicePath (sr_StagingPath req) fsType mountFlags)
           (\<lambda>err. return (Inl (hwrap ''failed to format and mount device: '' err)))
         (do {
           needs \<leftarrow> os_NeedResize h devicePath (sr_StagingPath req);
           if needs = Inr True then
             if_err (os_Resize h devicePath (sr_StagingPath req))
               (\<lambda>err. return (Inl (hwrap ''failed to resize filesystem after mount: '' err)))
               (\<lambda>_. return (Inr devicePath))
           else return (Inr devicePath) }))))"

definition iscsi_Stage :: "'w host \<Rightarrow> StageRequest \<Rightarrow> ('w, herr + string) nprog" where
  "iscsi_Stage h req =
     (case parseISCSIConfig (sr_PublishContext req) (sr_VolumeContext req) (sr_Secrets req) of
        Inl err \<Rightarrow>
          return (Inl (HWrap ''failed to parse iSCSI config: '' err '' (check publish context from controller)''))
      | Inr config \<Rightarrow>
          if isc_TargetPortal config = [] \<or> isc_TargetIQN config = [] then
            return (Inl (HErr ''iSCSI target portal and IQN are required (check StorageClass parameters and controller publish context)''))
          else (case ensureIPv4Portal (isc_TargetPortal config) of
                  Some err \<Rightarrow> return (Inl err)
                | None \<Rightarrow>
                    if_err (os_Connect h (buildConnector (sr_VolumeID req) config))
                      (\<lambda>err. return (Inl (hwrap (''failed to connect to iSCSI target '' @ isc_TargetIQN config @ '' at ''
                          @ isc_TargetPortal config @ '': '') (withCommandOutput err))))
                      (iscsi_stage_device h req)))"

definition logout_portal :: "'w host \<Rightarrow> string \<Rightarrow> string \<Rightarrow> unit \<Rightarrow> ('w, herr + unit) nprog" where
  "logout_portal h targetIQN portal u = do {
     r \<leftarrow> os_Logout h targetIQN portal;
     return (case r of
         Some err \<Rightarrow> if \<not> isNoISCSIObjectsFound err
                     then Inl (hwrap (''logout from portal '' @ portal @ '' failed: '') err) else Inr ()
       | None \<Rightarrow> Inr ()) }"

definition logoutISCSITargetImpl :: "'w host \<Rightarrow> string \<Rightarrow> string list \<Rightarrow> ('w, herr option) nprog" where
  "logoutISCSITargetImpl h targetIQN portals =
     if_err (loop_err (logout_portal h targetIQN) portals ()) (\<lambda>err. return (Some err)) (\<lambda>_. do {
       r \<leftarrow> os_DeleteDBEntry h targetIQN;
       return (case r of
           Some err \<Rightarrow> if \<not> isNoISCSIObjectsFound err
                       then Some (hwrap ''removing the node database entry failed: '' err) else None
         | None \<Rightarrow> None) })"

definition iscsi_Unstage :: "'w host \<Rightarrow> UnstageRequest \<Rightarrow> ('w, herr option) nprog" where
  "iscsi_Unstage h req =
     (case ur_ISCSI req of
        None \<Rightarrow> return (Some (HErr (''missing live iSCSI connection identity for volume '' @ ur_VolumeID req)))
      | Some connection \<Rightarrow>
          (let iqn = ic_TargetIQN connection in
           if iqn = [] then
             return (Some (HErr (''missing live iSCSI connection identity for volume '' @ ur_VolumeID req)))
           else
             if_fail (logoutISCSITargetImpl h iqn (ic_Portals connection))
               (\<lambda>err. return (Some (hwrap (''failed to log out of iSCSI target '' @ iqn @ '': '') err)))
             (if_err (iscsiTargetConnected h iqn)
               (\<lambda>err. return (Some (hwrap (''failed to verify iSCSI logout for '' @ iqn @ '': '') err)))
             (\<lambda>connected.
                if connected then
                  return (Some (HErr (''iSCSI target '' @ iqn @ '' remains connected after logout'')))
                else
                  if_err (findISCSIEvidenceTargetByVolumeID h (ur_VolumeID req))
                    (\<lambda>err. return (Some (hwrap (''failed to verify iSCSI cleanup for '' @ ur_VolumeID req @ '': '') err)))
                    (\<lambda>evidenceTarget.
                       if evidenceTarget \<noteq> [] then
                         return (Some (HErr (''iSCSI target '' @ evidenceTarget @ '' remains for volume ''
                           @ ur_VolumeID req @ '' after logout'')))
                       else return None)))))"

definition iscsi_Publish :: "'w host \<Rightarrow> PublishRequest \<Rightarrow> ('w, herr option) nprog" where
  "iscsi_Publish h req =
     (if pr_IsBlockVolume req then
        publishBlockDevice h (pr_StagingPath req) (pr_TargetPath req) (pr_ReadOnly req)
      else if pr_StagingPath req = [] then
        return (Some (HErr ''staging path is required for iSCSI mount volumes''))
      else do {
        (notMounted, err) \<leftarrow> os_IsLikelyNotMountPoint h (pr_StagingPath req);
        if err \<noteq> None \<or> notMounted then
          return (Some (HErr (''volume not staged at '' @ pr_StagingPath req)))
        else
          if_fail (os_MkdirAll h (pr_TargetPath req))
            (\<lambda>err. return (Some (hwrap ''failed to create target directory: '' err)))
          (if_fail (os_Mount h (pr_StagingPath req) (pr_TargetPath req) []
               ([mountOptionBind] @ (if pr_ReadOnly req then [mountOptionReadOnly] else [])))
            (\<lambda>err. return (Some (hwrap ''failed to bind mount: '' err))) (return None))
      })"

definition iscsi_Unpublish :: "'w host \<Rightarrow> UnpublishRequest \<Rightarrow> ('w, herr option) nprog" where
  "iscsi_Unpublish h req = do {
     (notMounted, err) \<leftarrow> os_IsLikelyNotMountPoint h (up_TargetPath req);
     case err of
       Some e \<Rightarrow> if IsNotExist e then return None
                 else return (Some (hwrap ''failed to check mount point: '' e))
     | None \<Rightarrow>
         if notMounted then return None
         else
           if_fail (os_Unmount h (up_TargetPath req))
             (\<lambda>err. return (Some (hwrap ''failed to unmount: '' err)))
             (do { os_Remove h (up_TargetPath req); return None }) }"

definition rescanSCSIHosts :: "'w host \<Rightarrow> ('w, unit) nprog" where
  "rescanSCSIHosts h = do {
     r \<leftarrow> os_ReadDir h ''/sys/class/scsi_host'';
     case r of
       Inl err \<Rightarrow> return ()
     | Inr entries \<Rightarrow>
         for_each (\<lambda>e. do { os_WriteFile h (Join [''/sys/class/scsi_host'', de_Name e, ''scan'']) ''- - -''; return () })
           entries }"

definition rescan_device :: "'w host \<Rightarrow> string \<Rightarrow> herr list \<Rightarrow> ('w, herr + herr list) nprog" where
  "rescan_device h blockDevice errs = do {
     r \<leftarrow> os_WriteFile h (Join [sysClassBlockDir, Base blockDevice, ''device'', ''rescan'']) (''1'' @ [CHR 0x0A]);
     return (Inr (errs @ (case r of Some err \<Rightarrow> [hwrap (''failed to rescan '' @ blockDevice @ '': '') err] | None \<Rightarrow> []))) }"

definition rescanExpandDevice :: "'w host \<Rightarrow> string \<Rightarrow> string list \<Rightarrow> ('w, herr option) nprog" where
  "rescanExpandDevice h devicePath blockDevices = do {
     rescanSCSIHosts h;
     if_err (loop_err (rescan_device h) blockDevices []) (\<lambda>err. return (Some err)) (\<lambda>errs. do {
       errs \<leftarrow> (if HasPrefix (Base devicePath) ''dm-'' then do {
                  r \<leftarrow> os_ResizeMultipathDevice h (Base devicePath);
                  return (errs @ (case r of Some err \<Rightarrow> [hwrap (''failed to resize multipath device '' @ devicePath @ '': '') err]
                                          | None \<Rightarrow> [])) }
                else return errs);
       return (if errs = [] then None else Some (HJoin errs)) }) }"

definition iscsi_Expand :: "'w host \<Rightarrow> ExpandRequest \<Rightarrow> ('w, herr + int) nprog" where
  "iscsi_Expand h req =
     (if er_DevicePath req = [] \<or> er_BlockDevices req = [] then
        return (Inl (HErr (''no live iSCSI device found for volume '' @ er_VolumeID req)))
      else
        if_fail (rescanExpandDevice h (er_DevicePath req) (er_BlockDevices req)) (\<lambda>err. return (Inl err))
        (if er_IsBlockVolume req then return (Inr (er_CapacityBytes req))
         else
           if_err (os_Resize h (er_DevicePath req) (er_VolumePath req))
             (\<lambda>err. return (Inl (hwrap ''failed to resize filesystem: '' err)))
             (\<lambda>_. return (Inr (er_CapacityBytes req)))))"

definition iscsiHandler :: "'w host \<Rightarrow> 'w ProtocolHandler" where
  "iscsiHandler h = \<lparr>ph_Protocol = ProtocolISCSI, ph_Stage = iscsi_Stage h, ph_Unstage = iscsi_Unstage h,
     ph_Publish = iscsi_Publish h, ph_Unpublish = iscsi_Unpublish h, ph_Expand = iscsi_Expand h\<rparr>"

section \<open>NVMe-oF\<close>

record NVMeOFConfig =
  nvc_SubNQN :: string
  nvc_PortAddr :: string
  nvc_PortSvcID :: string
  nvc_Transport :: string
  nvc_NamespaceUUID :: string
  nvc_HostNQN :: string
  nvc_DHCHAPKey :: string
  nvc_DHCHAPCtrlKey :: string

abbreviation nvmeCtrlLossTmo :: string where "nvmeCtrlLossTmo \<equiv> ''1800''"
abbreviation nvmeByIDPrefix :: string where "nvmeByIDPrefix \<equiv> ''/dev/disk/by-id/nvme-uuid.''"
abbreviation nvmeDeviceWaitAttempts :: nat where "nvmeDeviceWaitAttempts \<equiv> 30"

definition parseNVMeOFConfig :: "smap \<Rightarrow> smap \<Rightarrow> smap \<Rightarrow> NVMeOFConfig" where
  "parseNVMeOFConfig publishContext volumeContext secrets =
     (let transport = get_str publishContext PublishContextNVMeTransport in
      \<lparr>nvc_SubNQN = get_str publishContext PublishContextNVMeSubNQN,
       nvc_PortAddr = get_str publishContext PublishContextNVMePortAddr,
       nvc_PortSvcID = get_str publishContext PublishContextNVMePortSvcID,
       nvc_Transport = (if transport = [] then defaultNVMeOFTransport else transport),
       nvc_NamespaceUUID = get_str publishContext PublishContextNVMeNSUUID,
       nvc_HostNQN = get_str volumeContext ''nvmeof.hostNQN'',
       nvc_DHCHAPKey = secretOrParam secrets volumeContext ''nvmeof.dhchapKey'',
       nvc_DHCHAPCtrlKey = secretOrParam secrets volumeContext ''nvmeof.dhchapCtrlKey''\<rparr>)"

definition output_err :: "string \<Rightarrow> string \<Rightarrow> herr \<Rightarrow> herr" where
  "output_err pre out err = HWrap pre err ('' (output: '' @ TrimSpace out @ '')'')"

definition nvme_connect_args :: "NVMeOFConfig \<Rightarrow> string list" where
  "nvme_connect_args config =
     [''connect'', ''-t'', nvc_Transport config, ''-n'', nvc_SubNQN config, ''-a'', nvc_PortAddr config,
      ''-s'', nvc_PortSvcID config, ''-l'', nvmeCtrlLossTmo]
     @ (if nvc_HostNQN config \<noteq> [] then [''--hostnqn'', nvc_HostNQN config] else [])
     @ (if nvc_DHCHAPKey config \<noteq> [] then [''--dhchap-secret'', nvc_DHCHAPKey config] else [])
     @ (if nvc_DHCHAPCtrlKey config \<noteq> [] then [''--dhchap-ctrl-secret'', nvc_DHCHAPCtrlKey config] else [])"

definition nvmeConnect :: "'w host \<Rightarrow> NVMeOFConfig \<Rightarrow> ('w, herr option) nprog" where
  "nvmeConnect h config = do {
     (out, err) \<leftarrow> os_Command h ''nvme'' (nvme_connect_args config);
     return (map_option (output_err ''nvme connect failed: '' out) err) }"

definition nvmeDisconnect :: "'w host \<Rightarrow> string \<Rightarrow> ('w, herr option) nprog" where
  "nvmeDisconnect h subnqn = do {
     (out, err) \<leftarrow> os_Command h ''nvme'' [''disconnect'', ''-n'', subnqn];
     return (map_option (output_err ''nvme disconnect failed: '' out) err) }"

definition rescan_controller :: "'w host \<Rightarrow> string \<Rightarrow> unit \<Rightarrow> ('w, herr + unit) nprog" where
  "rescan_controller h controller u = do {
     (out, err) \<leftarrow> os_Command h ''nvme'' [''ns-rescan'', controller];
     return (case err of
         Some e \<Rightarrow> Inl (output_err (''nvme ns-rescan '' @ controller @ '' failed: '') out e)
       | None \<Rightarrow> Inr ()) }"

definition nvmeRescanControllers :: "'w host \<Rightarrow> string list \<Rightarrow> ('w, herr option) nprog" where
  "nvmeRescanControllers h controllers =
     if_err (loop_err (rescan_controller h) controllers ()) (\<lambda>err. return (Some err)) (\<lambda>_. return None)"

definition nvmeControllerForDevice :: "string \<Rightarrow> string" where
  "nvmeControllerForDevice devicePath =
     (if \<not> HasPrefix devicePath ''/dev/nvme'' then []
      else (let rest = drop (length ''/dev/nvme'') devicePath; sep = IndexByte rest CHR ''n'' in
            if sep \<le> 0 then []
            else (let ctrlNum = take (nat sep) rest; nsNum = drop (nat sep + 1) rest in
                  if \<not> isAllDigits ctrlNum \<or> \<not> isAllDigits nsNum then []
                  else ''/dev/nvme'' @ ctrlNum)))"

definition nvmeRescanNamespace :: "'w host \<Rightarrow> string \<Rightarrow> ('w, herr option) nprog" where
  "nvmeRescanNamespace h devicePath =
     (let ctrl = nvmeControllerForDevice devicePath in
      if ctrl = [] then return (Some (HErr (''could not derive controller device from '' @ devicePath)))
      else nvmeRescanControllers h [ctrl])"

definition load_module :: "'w host \<Rightarrow> string \<Rightarrow> herr option \<Rightarrow> ('w, herr + herr option) nprog" where
  "load_module h name firstErr = do {
     (out, err) \<leftarrow> os_Command h ''modprobe'' [name];
     return (Inr (if firstErr = None then err else firstErr)) }"

definition loadKernelModules :: "'w host \<Rightarrow> ('w, herr + herr option) nprog" where
  "loadKernelModules h = loop_err (load_module h) [''nvme_tcp'', ''nvme_fabrics''] None"

definition nvmeByIDCandidates :: "string \<Rightarrow> string list" where
  "nvmeByIDCandidates uuid =
     [nvmeByIDPrefix @ uuid] @ (if ToLower uuid \<noteq> uuid then [nvmeByIDPrefix @ ToLower uuid] else [])"

fun first_symlink :: "'w host \<Rightarrow> string list \<Rightarrow> ('w, string option) nprog" where
  "first_symlink h [] = return None"
| "first_symlink h (cand # cs) = do {
     r \<leftarrow> os_EvalSymlinks h cand;
     case r of Inr resolved \<Rightarrow> return (Some resolved) | Inl _ \<Rightarrow> first_symlink h cs }"

fun first_namespace :: "'w host \<Rightarrow> string \<Rightarrow> DirEntry list \<Rightarrow> ('w, string option) nprog" where
  "first_namespace h ctrl [] = return None"
| "first_namespace h ctrl (ns # nss) =
     (if HasPrefix (de_Name ns) (ctrl @ ''n'') then do {
        r \<leftarrow> os_Stat h (''/dev/'' @ de_Name ns);
        case r of Inr _ \<Rightarrow> return (Some (''/dev/'' @ de_Name ns)) | Inl _ \<Rightarrow> first_namespace h ctrl nss }
      else first_namespace h ctrl nss)"

fun scan_subsystems :: "'w host \<Rightarrow> string \<Rightarrow> DirEntry list \<Rightarrow> ('w, string) nprog" where
  "scan_subsystems h subnqn [] = return []"
| "scan_subsystems h subnqn (e # es) = do {
     data \<leftarrow> os_ReadFile h (Join [sysClassNVMeDir, de_Name e, ''subsysnqn'']);
     case data of
       Inl _ \<Rightarrow> scan_subsystems h subnqn es
     | Inr d \<Rightarrow>
         if TrimSpace d \<noteq> subnqn then scan_subsystems h subnqn es
         else do {
           nsEntries \<leftarrow> os_ReadDir h (Join [sysClassNVMeDir, de_Name e]);
           case nsEntries of
             Inl _ \<Rightarrow> scan_subsystems h subnqn es
           | Inr nss \<Rightarrow> do {
               dev \<leftarrow> first_namespace h (de_Name e) nss;
               case dev of Some p \<Rightarrow> return p | None \<Rightarrow> scan_subsystems h subnqn es } } }"

definition nvmeDeviceBySubsysNQN :: "'w host \<Rightarrow> string \<Rightarrow> ('w, string) nprog" where
  "nvmeDeviceBySubsysNQN h subnqn =
     (if subnqn = [] then return []
      else do {
        entries \<leftarrow> os_ReadDir h sysClassNVMeDir;
        case entries of Inl _ \<Rightarrow> return [] | Inr es \<Rightarrow> scan_subsystems h subnqn es })"

definition findDevice :: "'w host \<Rightarrow> NVMeOFConfig \<Rightarrow> ('w, string) nprog" where
  "findDevice h config = do {
     linked \<leftarrow> (if nvc_NamespaceUUID config \<noteq> []
                then first_symlink h (nvmeByIDCandidates (nvc_NamespaceUUID config)) else return None);
     case linked of
       Some resolved \<Rightarrow> return resolved
     | None \<Rightarrow> nvmeDeviceBySubsysNQN h (nvc_SubNQN config) }"

fun wait_for_device :: "nat \<Rightarrow> 'w host \<Rightarrow> NVMeOFConfig \<Rightarrow> ('w, string) nprog" where
  "wait_for_device 0 h config = return []"
| "wait_for_device (Suc n) h config = do {
     dev \<leftarrow> findDevice h config;
     if dev \<noteq> [] then return dev
     else do {
       ctx \<leftarrow> os_CtxErr h;
       if ctx \<noteq> None then return [] else wait_for_device n h config } }"

definition waitForDevice :: "'w host \<Rightarrow> NVMeOFConfig \<Rightarrow> ('w, string) nprog" where
  "waitForDevice h config = wait_for_device nvmeDeviceWaitAttempts h config"

definition connectAndDiscover :: "'w host \<Rightarrow> NVMeOFConfig \<Rightarrow> ('w, herr + string) nprog" where
  "connectAndDiscover h config = do {
     dev \<leftarrow> findDevice h config;
     if dev \<noteq> [] then return (Inr dev)
     else do {
       r \<leftarrow> nvmeConnect h config;
       case r of
         Some err \<Rightarrow> do {
           dev \<leftarrow> waitForDevice h config;
           if dev \<noteq> [] then return (Inr dev)
           else return (Inl (hwrap (''failed to connect to NVMe-oF subsystem '' @ nvc_SubNQN config @ '' at ''
                  @ nvc_PortAddr config @ '':'' @ nvc_PortSvcID config @ '': '') err)) }
       | None \<Rightarrow> do {
           dev \<leftarrow> waitForDevice h config;
           if dev = [] then do {
             nvmeDisconnect h (nvc_SubNQN config);
             return (Inl (HErr (''NVMe-oF device for '' @ nvc_SubNQN config @ '' did not appear after connect''))) }
           else return (Inr dev) } } }"

text \<open>The part of \<^verbatim>\<open>Stage\<close> after the device is known.\<close>

definition nvmeof_stage_device :: "'w host \<Rightarrow> StageRequest \<Rightarrow> string \<Rightarrow> ('w, herr + string) nprog" where
  "nvmeof_stage_device h req devicePath =
     (if sr_IsBlockVolume req then
        if_fail (stageBlockDevice h devicePath (sr_StagingPath req)) (\<lambda>err. return (Inl err))
          (return (Inr devicePath))
      else
        (let fsType = (if sr_FSType req = [] then DefaultFSType else sr_FSType req);
             mountFlags = sr_MountFlags req
               @ (if fsType = fsTypeXFS \<and> mountOptionNouuid \<notin> set (sr_MountFlags req)
                  then [mountOptionNouuid] else []) in
         if_fail (os_MkdirAll h (sr_StagingPath req))
           (\<lambda>err. return (Inl (hwrap ''failed to create staging directory: '' err)))
         (if_fail (os_FormatAndMount h devicePath (sr_StagingPath req) fsType mountFlags)
           (\<lambda>err. return (Inl (hwrap ''failed to format and mount device: '' err)))
         (do {
           needs \<leftarrow> os_NeedResize h devicePath (sr_StagingPath req);
           if needs = Inr True then
             if_err (os_Resize h devicePath (sr_StagingPath req))
               (\<lambda>err. return (Inl (hwrap ''failed to resize filesystem after mount: '' err)))
               (\<lambda>_. return (Inr devicePath))
           else return (Inr devicePath) }))))"

definition nvmeof_Stage :: "'w host \<Rightarrow> StageRequest \<Rightarrow> ('w, herr + string) nprog" where
  "nvmeof_Stage h req =
     (let config = parseNVMeOFConfig (sr_PublishContext req) (sr_VolumeContext req) (sr_Secrets req) in
      if nvc_SubNQN config = [] \<or> nvc_PortAddr config = [] \<or> nvc_PortSvcID config = [] then
        return (Inl (HErr ''NVMe-oF subsystem NQN and portal are required (check controller publish context)''))
      else do {
        loadKernelModules h;
        if_err (connectAndDiscover h config) (\<lambda>err. return (Inl err)) (nvmeof_stage_device h req) })"

definition nvmeof_Unstage :: "'w host \<Rightarrow> UnstageRequest \<Rightarrow> ('w, herr option) nprog" where
  "nvmeof_Unstage h req =
     (let nqn = ur_NVMeSubNQN req;
          verify = if_err (nvmeSubsystemConnected h nqn)
            (\<lambda>err. return (Some (hwrap (''failed to verify NVMe-oF disconnect for '' @ nqn @ '': '') err)))
            (\<lambda>connected.
               if connected then return (Some (HErr (''NVMe-oF subsystem '' @ nqn @ '' remains connected after disconnect'')))
               else return None) in
      if nqn = [] then
        return (Some (HErr (''missing live NVMe-oF subsystem identity for volume '' @ ur_VolumeID req)))
      else
        if_err (nvmeSubsystemConnected h nqn)
          (\<lambda>err. return (Some (hwrap (''failed to inspect NVMe-oF subsystem '' @ nqn @ '': '') err)))
          (\<lambda>connected.
             if connected then
               if_fail (nvmeDisconnect h nqn)
                 (\<lambda>err. return (Some (hwrap (''failed to disconnect NVMe-oF subsystem '' @ nqn @ '': '') err))) verify
             else verify))"

definition nvmeof_Publish :: "'w host \<Rightarrow> PublishRequest \<Rightarrow> ('w, herr option) nprog" where
  "nvmeof_Publish h req =
     (if pr_IsBlockVolume req then
        publishBlockDevice h (pr_StagingPath req) (pr_TargetPath req) (pr_ReadOnly req)
      else if pr_StagingPath req = [] then
        return (Some (HErr ''staging path is required for NVMe-oF mount volumes''))
      else do {
        (notMounted, err) \<leftarrow> os_IsLikelyNotMountPoint h (pr_StagingPath req);
        if err \<noteq> None \<or> notMounted then
          return (Some (HErr (''volume not staged at '' @ pr_StagingPath req)))
        else
          if_fail (os_MkdirAll h (pr_TargetPath req))
            (\<lambda>err. return (Some (hwrap ''failed to create target directory: '' err)))
          (if_fail (os_Mount h (pr_StagingPath req) (pr_TargetPath req) []
               ([mountOptionBind] @ (if pr_ReadOnly req then [mountOptionReadOnly] else [])))
            (\<lambda>err. return (Some (hwrap ''failed to bind mount: '' err))) (return None))
      })"

definition nvmeof_Unpublish :: "'w host \<Rightarrow> UnpublishRequest \<Rightarrow> ('w, herr option) nprog" where
  "nvmeof_Unpublish h req = do {
     (notMounted, err) \<leftarrow> os_IsLikelyNotMountPoint h (up_TargetPath req);
     case err of
       Some e \<Rightarrow> if IsNotExist e then return None
                 else return (Some (hwrap ''failed to check mount point: '' e))
     | None \<Rightarrow>
         if notMounted then return None
         else
           if_fail (os_Unmount h (up_TargetPath req))
             (\<lambda>err. return (Some (hwrap ''failed to unmount: '' err)))
             (do { os_Remove h (up_TargetPath req); return None }) }"

definition nvmeof_Expand :: "'w host \<Rightarrow> ExpandRequest \<Rightarrow> ('w, herr + int) nprog" where
  "nvmeof_Expand h req =
     (if er_DevicePath req = [] \<or> er_NVMeControllers req = [] then
        return (Inl (HErr (''no live NVMe-oF device found for volume '' @ er_VolumeID req)))
      else
        if_fail (nvmeRescanControllers h (er_NVMeControllers req)) (\<lambda>err. return (Inl err))
        (if er_IsBlockVolume req then return (Inr (er_CapacityBytes req))
         else
           if_err (os_Resize h (er_DevicePath req) (er_VolumePath req))
             (\<lambda>err. return (Inl (hwrap ''failed to resize filesystem: '' err)))
             (\<lambda>_. return (Inr (er_CapacityBytes req)))))"

definition nvmeofHandler :: "'w host \<Rightarrow> 'w ProtocolHandler" where
  "nvmeofHandler h = \<lparr>ph_Protocol = ProtocolNVMeOF, ph_Stage = nvmeof_Stage h, ph_Unstage = nvmeof_Unstage h,
     ph_Publish = nvmeof_Publish h, ph_Unpublish = nvmeof_Unpublish h, ph_Expand = nvmeof_Expand h\<rparr>"

end
