(* ===== verification/Node_Server.thy ===== *)
theory Node_Server
  imports Node_Handlers
begin

text \<open>
  \<^verbatim>\<open>pkg/driver/node.go\<close>: the CSI node service. Every operation validates its request, takes the lock of
  its volume, discovers from the host what is there, and hands over to a protocol handler.
\<close>

section \<open>Requests\<close>

record NodeStageVolumeRequest =
  nsv_VolumeId :: string
  nsv_PublishContext :: smap
  nsv_StagingTargetPath :: string
  nsv_VolumeCapability :: "VolumeCapability option"
  nsv_Secrets :: smap
  nsv_VolumeContext :: smap

record NodeUnstageVolumeRequest =
  nuv_VolumeId :: string
  nuv_StagingTargetPath :: string

record NodePublishVolumeRequest =
  npv_VolumeId :: string
  npv_PublishContext :: smap
  npv_StagingTargetPath :: string
  npv_TargetPath :: string
  npv_VolumeCapability :: "VolumeCapability option"
  npv_Readonly :: bool
  npv_VolumeContext :: smap

record NodeUnpublishVolumeRequest =
  nup_VolumeId :: string
  nup_TargetPath :: string

record NodeGetVolumeStatsRequest =
  ngs_VolumeId :: string
  ngs_VolumePath :: string

record NodeExpandVolumeRequest =
  nev_VolumeId :: string
  nev_VolumePath :: string
  nev_CapacityRange :: "CapacityRange option"
  nev_StagingTargetPath :: string
  nev_VolumeCapability :: "VolumeCapability option"

section \<open>Locks\<close>

definition TryAcquireLock :: "string \<Rightarrow> ('w, bool) nprog" where
  "TryAcquireLock key = State (\<lambda>s.
     if key \<in> set (volumeLocks s) then (False, s) else (True, s\<lparr>volumeLocks := key # volumeLocks s\<rparr>))"

definition ReleaseLock :: "string \<Rightarrow> ('w, unit) nprog" where
  "ReleaseLock key = State (\<lambda>s. ((), s\<lparr>volumeLocks := remove1 key (volumeLocks s)\<rparr>))"

text \<open>\<^verbatim>\<open>if !s.TryAcquireLock(id) { return Aborted }; defer s.ReleaseLock(id)\<close> around the rest of a handler.\<close>

definition with_lock :: "string \<Rightarrow> ('w, status + 'a) nprog \<Rightarrow> ('w, status + 'a) nprog" where
  "with_lock volumeId body = do {
     ok \<leftarrow> TryAcquireLock volumeId;
     if \<not> ok then return (Inl (Status Aborted (''operation already in progress for volume '' @ volumeId)))
     else do { r \<leftarrow> body; ReleaseLock volumeId; return r } }"

section \<open>Helpers\<close>

definition getHandler :: "'w host \<Rightarrow> smap \<Rightarrow> herr + 'w ProtocolHandler" where
  "getHandler h publishContext =
     (let p = get_str publishContext PublishContextProtocol in
      if p = ProtocolISCSI then Inr (iscsiHandler h)
      else if p = ProtocolNVMeOF then Inr (nvmeofHandler h)
      else if p = ProtocolNFS then Inr (nfsHandler h)
      else Inl (HErr (''unknown or missing protocol in publish context: '' @ Quote p)))"

text \<open>The \<^verbatim>\<open>switch state.Protocol\<close> of unstage and expand; \<open>Inr None\<close> is the empty protocol.\<close>

definition discovered_handler :: "'w host \<Rightarrow> string \<Rightarrow> status + 'w ProtocolHandler option" where
  "discovered_handler h p =
     (if p = ProtocolISCSI then Inr (Some (iscsiHandler h))
      else if p = ProtocolNVMeOF then Inr (Some (nvmeofHandler h))
      else if p = ProtocolNFS then Inr (Some (nfsHandler h))
      else if p = [] then Inr None
      else Inl (Status Internal (''unsupported discovered protocol '' @ Quote p)))"

definition validateVolumeCapability :: "VolumeCapability option \<Rightarrow> herr option" where
  "validateVolumeCapability vcap =
     (case vcap of
        None \<Rightarrow> Some (HErr ''volume capability is nil'')
      | Some c \<Rightarrow>
          if \<not> cap_is_block c \<and> \<not> cap_is_mount c then
            Some (HErr ''either block or mount volume capability is required'')
          else (case cap_AccessMode c of
                  None \<Rightarrow> Some (HErr ''access mode is required'')
                | Some mode \<Rightarrow>
                    if mode \<in> set volumeCaps then None
                    else Some (HErr (''access mode '' @ mode_String mode @ '' not supported''))))"

abbreviation internal :: "string \<Rightarrow> herr \<Rightarrow> status" where
  "internal pre err \<equiv> Status Internal (pre @ herr_text err)"

definition mount_FsType :: "VolumeCapability \<Rightarrow> string" where
  "mount_FsType c = (case cap_AccessType c of AccessMount fs _ \<Rightarrow> fs | _ \<Rightarrow> [])"

definition mount_Flags :: "VolumeCapability \<Rightarrow> string list" where
  "mount_Flags c = (case cap_AccessType c of AccessMount _ flags \<Rightarrow> flags | _ \<Rightarrow> [])"

section \<open>NodeStageVolume\<close>

text \<open>Once neither staging path is in the mount table.\<close>

definition stage_new :: "'w host \<Rightarrow> NodeStageVolumeRequest \<Rightarrow> VolumeCapability \<Rightarrow> 'w ProtocolHandler \<Rightarrow> string
    \<Rightarrow> ('w, status + unit) nprog" where
  "stage_new h req vcap handler stagedPath = do {
     (notMounted, err) \<leftarrow> os_IsLikelyNotMountPoint h stagedPath;
     if err \<noteq> None \<and> \<not> IsNotExist (the err) then
       return (Inl (internal ''failed to check staging path: '' (the err)))
     else if \<not> notMounted then
       return (Inl (Status Internal (''staging path '' @ stagedPath @ '' is mounted but absent from the mount table'')))
     else
       if_err (ph_Stage handler
           \<lparr>sr_VolumeID = nsv_VolumeId req, sr_StagingPath = nsv_StagingTargetPath req,
            sr_FSType = (if mount_FsType vcap \<noteq> [] then mount_FsType vcap else DefaultFSType),
            sr_MountFlags = mount_Flags vcap, sr_PublishContext = nsv_PublishContext req,
            sr_VolumeContext = nsv_VolumeContext req, sr_Secrets = nsv_Secrets req,
            sr_IsBlockVolume = cap_is_block vcap\<rparr>)
         (\<lambda>err. return (Inl (internal ''failed to stage volume: '' err)))
         (\<lambda>_. return (Inr ())) }"

definition stage_body :: "'w host \<Rightarrow> NodeStageVolumeRequest \<Rightarrow> VolumeCapability \<Rightarrow> ('w, status + unit) nprog" where
  "stage_body h req vcap =
     (case getHandler h (nsv_PublishContext req) of
        Inl err \<Rightarrow> return (Inl (Status InvalidArgument (''failed to determine protocol: '' @ herr_text err)))
      | Inr handler \<Rightarrow>
          (let isBlock = cap_is_block vcap;
               staging = nsv_StagingTargetPath req;
               stagedPath = (if isBlock then rawBlockStagingPath staging else staging) in
           if_err (os_List h) (\<lambda>err. return (Inl (internal ''failed to inspect staging mounts: '' err))) (\<lambda>mounts.
             let filesystemMount = effectiveMount mounts staging;
                 blockMount = effectiveMount mounts (rawBlockStagingPath staging) in
             if filesystemMount \<noteq> None \<and> blockMount \<noteq> None then
               return (Inl (Status FailedPrecondition
                 (''both filesystem and raw-block staging mounts exist for volume '' @ nsv_VolumeId req)))
             else if (isBlock \<and> filesystemMount \<noteq> None) \<or> (\<not> isBlock \<and> blockMount \<noteq> None) then
               return (Inl (Status FailedPrecondition
                 (''existing staging mount has the wrong access type for volume '' @ nsv_VolumeId req)))
             else
               (case (if isBlock then blockMount else filesystemMount) of
                  Some entry \<Rightarrow>
                    if_err (discoverMountedVolume h (nsv_VolumeId req) mounts entry)
                      (\<lambda>err. return (Inl (internal ''failed to validate existing staging mount: '' err)))
                      (\<lambda>state.
                         if vs_Protocol state \<noteq> ph_Protocol handler then
                           return (Inl (Status FailedPrecondition (''staging path '' @ stagedPath @ '' contains ''
                             @ vs_Protocol state @ '' storage, expected '' @ ph_Protocol handler)))
                         else return (Inr ()))
                | None \<Rightarrow> stage_new h req vcap handler stagedPath))))"

definition NodeStageVolume :: "'w host \<Rightarrow> NodeStageVolumeRequest \<Rightarrow> ('w, status + unit) nprog" where
  "NodeStageVolume h req =
     (if nsv_VolumeId req = [] then return (Inl (Status InvalidArgument ''volume ID is required''))
      else if nsv_StagingTargetPath req = [] then
        return (Inl (Status InvalidArgument ''staging target path is required''))
      else (case nsv_VolumeCapability req of
              None \<Rightarrow> return (Inl (Status InvalidArgument ''volume capability is required''))
            | Some vcap \<Rightarrow>
                (case validateVolumeCapability (Some vcap) of
                   Some err \<Rightarrow>
                     return (Inl (Status InvalidArgument (''unsupported volume capability: '' @ herr_text err)))
                 | None \<Rightarrow> with_lock (nsv_VolumeId req) (stage_body h req vcap))))"

section \<open>NodeUnstageVolume\<close>

text \<open>The printed form of a \<^verbatim>\<open>[]string\<close> under \<^verbatim>\<open>%v\<close>.\<close>

definition fmt_strings :: "string list \<Rightarrow> string" where
  "fmt_strings xs = ''['' @ join_char CHR '' '' xs @ '']''"

text \<open>Unmounting the staging mount: only without publish references, and verified afterwards.\<close>

definition unmount_staging :: "'w host \<Rightarrow> string \<Rightarrow> string \<Rightarrow> ('w, status + unit) nprog" where
  "unmount_staging h volumeId mountPath =
     (if mountPath = [] then return (Inr ())
      else
        if_err (os_GetMountRefs h mountPath)
          (\<lambda>err. return (Inl (internal ''failed to inspect publish references: '' err))) (\<lambda>refs.
          let refs = externalMountReferences mountPath refs in
          if refs \<noteq> [] then
            return (Inl (Status FailedPrecondition
              (''volume '' @ volumeId @ '' is still published at '' @ fmt_strings refs)))
          else
            if_fail (os_Unmount h mountPath)
              (\<lambda>err. return (Inl (internal (''failed to unmount staging path '' @ mountPath @ '': '') err)))
            (if_err (os_List h) (\<lambda>err. return (Inl (internal ''failed to verify staging unmount: '' err))) (\<lambda>mounts.
               case effectiveCanonicalMount mounts mountPath of
                 Some remaining \<Rightarrow>
                   return (Inl (Status Internal (''staging mount '' @ mountPath @ '' remains after unmount at '' @ mp_Path remaining)))
               | None \<Rightarrow> return (Inr ())))))"

definition unstage_cleanup :: "'w host \<Rightarrow> NodeUnstageVolumeRequest \<Rightarrow> ('w, status + unit) nprog" where
  "unstage_cleanup h req =
     (let staging = nuv_StagingTargetPath req in do {
        os_Remove h (rawBlockStagingPath staging);
        os_Remove h staging;
        if_err (os_List h) (\<lambda>err. return (Inl (internal ''failed to verify volume cleanup: '' err))) (\<lambda>mounts.
          if effectiveCanonicalMount mounts staging \<noteq> None
             \<or> effectiveCanonicalMount mounts (rawBlockStagingPath staging) \<noteq> None then
            return (Inl (Status Internal (''staging mount remains for volume '' @ nuv_VolumeId req)))
          else return (Inr ())) })"

definition unstage_body :: "'w host \<Rightarrow> NodeUnstageVolumeRequest \<Rightarrow> ('w, status + unit) nprog" where
  "unstage_body h req =
     if_err (discoverUnstageState h (nuv_VolumeId req) (nuv_StagingTargetPath req))
       (\<lambda>err. return (Inl (internal ''failed to discover staged volume: '' err))) (\<lambda>state.
     if_err (unmount_staging h (nuv_VolumeId req) (vs_MountPath state)) (\<lambda>st. return (Inl st)) (\<lambda>_.
       case discovered_handler h (vs_Protocol state) of
         Inl st \<Rightarrow> return (Inl st)
       | Inr None \<Rightarrow> unstage_cleanup h req
       | Inr (Some handler) \<Rightarrow>
           if_fail (ph_Unstage handler
               \<lparr>ur_VolumeID = nuv_VolumeId req, ur_StagingPath = nuv_StagingTargetPath req,
                ur_MountPath = vs_MountPath state, ur_DevicePath = vs_DevicePath state,
                ur_ISCSI = vs_ISCSI state, ur_NVMeSubNQN = vs_NVMeSubNQN state\<rparr>)
             (\<lambda>err. return (Inl (internal ''failed to unstage volume: '' err)))
             (unstage_cleanup h req)))"

definition NodeUnstageVolume :: "'w host \<Rightarrow> NodeUnstageVolumeRequest \<Rightarrow> ('w, status + unit) nprog" where
  "NodeUnstageVolume h req =
     (if nuv_VolumeId req = [] then return (Inl (Status InvalidArgument ''volume ID is required''))
      else if nuv_StagingTargetPath req = [] then
        return (Inl (Status InvalidArgument ''staging target path is required''))
      else with_lock (nuv_VolumeId req) (unstage_body h req))"

section \<open>NodePublishVolume\<close>

text \<open>The target is already a mount point: success only if it is this volume's publication.\<close>

definition existing_publication :: "'w host \<Rightarrow> NodePublishVolumeRequest \<Rightarrow> bool \<Rightarrow> 'w ProtocolHandler
    \<Rightarrow> ('w, status + unit) nprog" where
  "existing_publication h req isBlock handler =
     (let target = npv_TargetPath req in
      if_err (os_List h) (\<lambda>err. return (Inl (internal ''failed to inspect existing publication: '' err))) (\<lambda>mounts.
        case effectiveMount mounts target of
          None \<Rightarrow>
            return (Inl (Status Internal (''target path '' @ target @ '' is mounted but absent from the mount table'')))
        | Some entry \<Rightarrow>
            if_err (discoverMountedVolume h (npv_VolumeId req) mounts entry)
              (\<lambda>err. return (Inl (internal ''failed to validate existing publication: '' err))) (\<lambda>state.
              if vs_Protocol state \<noteq> ph_Protocol handler then
                return (Inl (Status FailedPrecondition (''target path '' @ target @ '' contains '' @ vs_Protocol state
                  @ '' storage, expected '' @ ph_Protocol handler)))
              else if vs_Protocol state = ProtocolNFS then
                (let config = parseNFSConfig (npv_PublishContext req) (npv_VolumeContext req) in
                 case resolveMountSource mounts (Some entry) of
                   Inl err \<Rightarrow> return (Inl (internal ''failed to inspect existing NFS publication: '' err))
                 | Inr (source, _) \<Rightarrow>
                     if source \<noteq> formatNFSSource (nfs_Server config) (nfs_Path config) then
                       return (Inl (Status FailedPrecondition (''target path '' @ target @ '' contains NFS source ''
                         @ source @ '' for another volume'')))
                     else return (Inr ()))
              else
                (let stagedSource = (if isBlock then rawBlockStagingPath (npv_StagingTargetPath req)
                                     else npv_StagingTargetPath req) in
                 if_err (os_GetMountRefs h stagedSource)
                   (\<lambda>err. return (Inl (internal ''failed to inspect staging references: '' err))) (\<lambda>refs.
                   if \<not> containsCleanPath refs target then
                     return (Inl (Status FailedPrecondition (''target path '' @ target
                       @ '' is not published from staging path '' @ stagedSource)))
                   else return (Inr ()))))))"

definition publish_body :: "'w host \<Rightarrow> NodePublishVolumeRequest \<Rightarrow> VolumeCapability \<Rightarrow> ('w, status + unit) nprog" where
  "publish_body h req vcap =
     (case getHandler h (npv_PublishContext req) of
        Inl err \<Rightarrow> return (Inl (Status InvalidArgument (''failed to determine protocol: '' @ herr_text err)))
      | Inr handler \<Rightarrow> do {
          (notMounted, err) \<leftarrow> os_IsLikelyNotMountPoint h (npv_TargetPath req);
          if err \<noteq> None \<and> \<not> IsNotExist (the err) then
            return (Inl (internal ''failed to check mount point: '' (the err)))
          else if \<not> notMounted then existing_publication h req (cap_is_block vcap) handler
          else
            if_fail (ph_Publish handler
                \<lparr>pr_VolumeID = npv_VolumeId req, pr_StagingPath = npv_StagingTargetPath req,
                 pr_TargetPath = npv_TargetPath req, pr_FSType = mount_FsType vcap,
                 pr_MountFlags = mount_Flags vcap, pr_ReadOnly = npv_Readonly req,
                 pr_PublishContext = npv_PublishContext req, pr_VolumeContext = npv_VolumeContext req,
                 pr_IsBlockVolume = cap_is_block vcap\<rparr>)
              (\<lambda>err. return (Inl (internal ''failed to publish volume: '' err)))
              (return (Inr ())) })"

definition NodePublishVolume :: "'w host \<Rightarrow> NodePublishVolumeRequest \<Rightarrow> ('w, status + unit) nprog" where
  "NodePublishVolume h req =
     (if npv_VolumeId req = [] then return (Inl (Status InvalidArgument ''volume ID is required''))
      else if npv_TargetPath req = [] then return (Inl (Status InvalidArgument ''target path is required''))
      else (case npv_VolumeCapability req of
              None \<Rightarrow> return (Inl (Status InvalidArgument ''volume capability is required''))
            | Some vcap \<Rightarrow>
                (case validateVolumeCapability (Some vcap) of
                   Some err \<Rightarrow>
                     return (Inl (Status InvalidArgument (''unsupported volume capability: '' @ herr_text err)))
                 | None \<Rightarrow> with_lock (npv_VolumeId req) (publish_body h req vcap))))"

section \<open>NodeUnpublishVolume\<close>

definition NodeUnpublishVolume :: "'w host \<Rightarrow> NodeUnpublishVolumeRequest \<Rightarrow> ('w, status + unit) nprog" where
  "NodeUnpublishVolume h req =
     (if nup_VolumeId req = [] then return (Inl (Status InvalidArgument ''volume ID is required''))
      else if nup_TargetPath req = [] then return (Inl (Status InvalidArgument ''target path is required''))
      else with_lock (nup_VolumeId req)
        (if_fail (os_CleanupMountPoint h (nup_TargetPath req))
          (\<lambda>err. return (Inl (internal ''failed to cleanup mount point: '' err))) (return (Inr ()))))"

section \<open>Information\<close>

definition NodeGetInfo :: "'v driver \<Rightarrow> ('w, status + string) nprog" where
  "NodeGetInfo d = return (Inr (d_nodeID d))"

definition NodeGetCapabilities :: "('w, status + node_cap list) nprog" where
  "NodeGetCapabilities = return (Inr nodeCaps)"

record fsStats =
  fs_totalBytes :: int
  fs_availableBytes :: int
  fs_usedBytes :: int
  fs_totalInodes :: int
  fs_availableInodes :: int
  fs_usedInodes :: int

text \<open>Products and differences of \<^verbatim>\<open>int64\<close> wrap around; \<^verbatim>\<open>int64(x)\<close> of a \<^verbatim>\<open>uint64\<close> too.\<close>

definition fs_stats :: "Statfs_t \<Rightarrow> fsStats" where
  "fs_stats stat =
     (let blockSize = (if sf_Frsize stat = 0 then sf_Bsize stat else sf_Frsize stat);
          totalBytes = wrap64 (wrap64 (sf_Blocks stat) * blockSize);
          availableBytes = wrap64 (wrap64 (sf_Bavail stat) * blockSize);
          freeBytes = wrap64 (wrap64 (sf_Bfree stat) * blockSize);
          totalInodes = wrap64 (sf_Files stat);
          availableInodes = wrap64 (sf_Ffree stat) in
      \<lparr>fs_totalBytes = totalBytes, fs_availableBytes = availableBytes, fs_usedBytes = wrap64 (totalBytes - freeBytes),
       fs_totalInodes = totalInodes, fs_availableInodes = availableInodes,
       fs_usedInodes = wrap64 (totalInodes - availableInodes)\<rparr>)"

definition getFSStats :: "'w host \<Rightarrow> string \<Rightarrow> ('w, herr + fsStats) nprog" where
  "getFSStats h path =
     if_err (os_Statfs h path) (\<lambda>err. return (Inl (HErr (''statfs failed: '' @ herr_text err))))
       (\<lambda>stat. return (Inr (fs_stats stat)))"

datatype usage_unit = BYTES | INODES

record VolumeUsage =
  vu_Unit :: usage_unit
  vu_Available :: int
  vu_Total :: int
  vu_Used :: int

definition NodeGetVolumeStats :: "'w host \<Rightarrow> NodeGetVolumeStatsRequest \<Rightarrow> ('w, status + VolumeUsage list) nprog" where
  "NodeGetVolumeStats h req =
     (if ngs_VolumeId req = [] then return (Inl (Status InvalidArgument ''volume ID is required''))
      else if ngs_VolumePath req = [] then return (Inl (Status InvalidArgument ''volume path is required''))
      else
        if_err (os_Stat h (ngs_VolumePath req))
          (\<lambda>err. if IsNotExist err then
                    return (Inl (Status NotFound (''volume path '' @ ngs_VolumePath req @ '' does not exist'')))
                  else return (Inl (internal ''failed to stat volume path: '' err)))
          (\<lambda>_. if_err (getFSStats h (ngs_VolumePath req))
                  (\<lambda>err. return (Inl (internal ''failed to get filesystem stats: '' err)))
                  (\<lambda>stats. return (Inr
                     [\<lparr>vu_Unit = BYTES, vu_Available = fs_availableBytes stats, vu_Total = fs_totalBytes stats,
                       vu_Used = fs_usedBytes stats\<rparr>,
                      \<lparr>vu_Unit = INODES, vu_Available = fs_availableInodes stats, vu_Total = fs_totalInodes stats,
                       vu_Used = fs_usedInodes stats\<rparr>]))))"

section \<open>NodeExpandVolume\<close>

definition isBlockVolumeExpansion :: "'w host \<Rightarrow> VolumeCapability option \<Rightarrow> string \<Rightarrow> ('w, bool) nprog" where
  "isBlockVolumeExpansion h capability path =
     (if (case capability of None \<Rightarrow> False | Some c \<Rightarrow> cap_is_block c) then return True
      else do {
        r \<leftarrow> os_Stat h path;
        return (case r of Inl _ \<Rightarrow> False | Inr info \<Rightarrow> \<not> fi_IsDir info) })"

definition expand_body :: "'w host \<Rightarrow> NodeExpandVolumeRequest \<Rightarrow> ('w, status + int) nprog" where
  "expand_body h req =
     (let capacityBytes = (case nev_CapacityRange req of None \<Rightarrow> 0 | Some r \<Rightarrow> cr_RequiredBytes r) in
      if_err (discoverExpandState h (nev_VolumeId req) (nev_StagingTargetPath req) (nev_VolumePath req))
        (\<lambda>err. return (Inl (internal ''failed to discover volume device: '' err))) (\<lambda>state.
        case discovered_handler h (vs_Protocol state) of
          Inl st \<Rightarrow> return (Inl st)
        | Inr None \<Rightarrow>
            return (Inl (Status NotFound (''no live mount or transport connection found for volume '' @ nev_VolumeId req)))
        | Inr (Some handler) \<Rightarrow> do {
            isBlock \<leftarrow> isBlockVolumeExpansion h (nev_VolumeCapability req) (nev_VolumePath req);
            if_err (ph_Expand handler
                \<lparr>er_VolumeID = nev_VolumeId req, er_VolumePath = nev_VolumePath req,
                 er_DevicePath = vs_DevicePath state, er_BlockDevices = vs_BlockDevices state,
                 er_NVMeControllers = vs_NVMeControllers state, er_CapacityBytes = capacityBytes,
                 er_IsBlockVolume = isBlock\<rparr>)
              (\<lambda>err. return (Inl (internal ''failed to expand volume: '' err)))
              (\<lambda>n. return (Inr n)) }))"

definition NodeExpandVolume :: "'w host \<Rightarrow> NodeExpandVolumeRequest \<Rightarrow> ('w, status + int) nprog" where
  "NodeExpandVolume h req =
     (if nev_VolumeId req = [] then return (Inl (Status InvalidArgument ''volume ID is required''))
      else if nev_VolumePath req = [] then return (Inl (Status InvalidArgument ''volume path is required''))
      else do {
        r \<leftarrow> os_Stat h (nev_VolumePath req);
        case r of
          Inl err \<Rightarrow>
            if IsNotExist err then
              return (Inl (Status NotFound (''volume path '' @ nev_VolumePath req @ '' does not exist'')))
            else with_lock (nev_VolumeId req) (expand_body h req)
        | Inr _ \<Rightarrow> with_lock (nev_VolumeId req) (expand_body h req) })"

end
