(* ===== verification/Node_Traffic.thy ===== *)
theory Node_Traffic
  imports Node_Server
begin

text \<open>
  What the components of the node service do to the host. The discovery of \<^verbatim>\<open>node_discovery.go\<close> only
  reads. The Go interface \<^verbatim>\<open>ProtocolHandler\<close> is the locale \<open>protocol_handler\<close>: its laws say which
  operations each method of a handler may perform, as predicates on the request, and it is
  interpreted for the three handlers of the driver.
\<close>

named_theorems discovery "discovery programs only read"

section \<open>Discovery only reads\<close>

lemma does_for_each [host_intros]: "(\<And>x. does P (f x)) \<Longrightarrow> does P (for_each f xs)"
  by (induction xs) (auto intro!: host_intros)

lemma reads_mountedBlockDevicePath [discovery]: "does inspects (mountedBlockDevicePath h p)"
  unfolding mountedBlockDevicePath_def host_ops by (intro host_intros) simp_all

lemma reads_walk [discovery]: "does inspects (walk n h visiting name leaves)"
  by (induction n arbitrary: visiting name leaves) (auto simp: host_ops intro!: host_intros)

lemma reads_resolveBlockDevices [discovery]: "does inspects (resolveBlockDevices h p)"
  unfolding resolveBlockDevices_def host_ops by (intro host_intros discovery) simp_all

lemma reads_currentISCSISessions [discovery]: "does inspects (currentISCSISessions h)"
  unfolding currentISCSISessions_def host_ops by (intro host_intros) simp_all

lemma reads_session_ids [discovery]: "does inspects (session_ids h ds ids)"
  by (induction ds arbitrary: ids)
    (auto simp: iscsiSessionIDForBlockDevice_def host_ops intro!: host_intros)

lemma reads_iscsiConnectionForDevices [discovery]: "does inspects (iscsiConnectionForDevices h v ds)"
  unfolding iscsiConnectionForDevices_def by (intro host_intros discovery)

lemma reads_findISCSINodeRecordByVolumeID [discovery]: "does inspects (findISCSINodeRecordByVolumeID h v)"
  unfolding findISCSINodeRecordByVolumeID_def host_ops by (intro host_intros) simp_all

lemma reads_findISCSIConnectionByVolumeID [discovery]: "does inspects (findISCSIConnectionByVolumeID h v)"
  unfolding findISCSIConnectionByVolumeID_def by (intro host_intros discovery)

lemma reads_pathMissing [discovery]: "does inspects (pathMissing h p)"
  unfolding pathMissing_def host_ops by (intro host_intros) simp

lemma reads_sysfs_target [discovery]: "does inspects (sysfs_target h e ts)"
  unfolding sysfs_target_def host_ops by (intro host_intros discovery) simp_all

lemma reads_currentISCSITargetsInSysfs [discovery]: "does inspects (currentISCSITargetsInSysfs h)"
  unfolding currentISCSITargetsInSysfs_def host_ops by (intro host_intros discovery) simp_all

lemma reads_findISCSIEvidenceTargetByVolumeID [discovery]: "does inspects (findISCSIEvidenceTargetByVolumeID h v)"
  unfolding findISCSIEvidenceTargetByVolumeID_def by (intro host_intros discovery)

lemma reads_iscsiTargetConnected [discovery]: "does inspects (iscsiTargetConnected h iqn)"
  unfolding iscsiTargetConnected_def iscsiTargetPresentInSysfs_def by (intro host_intros discovery)

lemma reads_nvmeSubNQNForBlockDevice [discovery]: "does inspects (nvmeSubNQNForBlockDevice h d)"
  unfolding nvmeSubNQNForBlockDevice_def host_ops by (intro host_intros) simp_all

lemma reads_read_controller_file [discovery]: "does inspects (read_controller_file h n f w)"
  unfolding read_controller_file_def host_ops by (intro host_intros discovery) simp_all

lemma reads_scan_controller [discovery]: "does inspects (scan_controller h e cs)"
  unfolding scan_controller_def by (intro host_intros discovery)

lemma reads_scanNVMeControllers [discovery]: "does inspects (scanNVMeControllers h)"
  unfolding scanNVMeControllers_def host_ops by (intro host_intros discovery) simp_all

lemma reads_remoteNVMeControllersForNQN [discovery]: "does inspects (remoteNVMeControllersForNQN h nqn)"
  unfolding remoteNVMeControllersForNQN_def by (intro host_intros discovery)

lemma reads_nvmeConnectionForDevices [discovery]: "does inspects (nvmeConnectionForDevices h v ds)"
  unfolding nvmeConnectionForDevices_def nvme_device_def by (intro host_intros discovery)

lemma reads_findNVMeConnectionByVolumeID [discovery]: "does inspects (findNVMeConnectionByVolumeID h v)"
  unfolding findNVMeConnectionByVolumeID_def by (intro host_intros discovery)

lemma reads_nvmeSubsystemConnected [discovery]: "does inspects (nvmeSubsystemConnected h nqn)"
  unfolding nvmeSubsystemConnected_def by (intro host_intros discovery)

lemma reads_discover_block [discovery]: "does inspects (discover_block h v st src dev)"
  unfolding discover_block_def by (intro host_intros discovery)

lemma reads_discoverMountedVolume [discovery]: "does inspects (discoverMountedVolume h v ms e)"
  unfolding discoverMountedVolume_def by (intro host_intros discovery)

lemma reads_discoverDetachedVolume [discovery]: "does inspects (discoverDetachedVolume h v)"
  unfolding discoverDetachedVolume_def by (intro host_intros discovery)

lemma reads_discoverUnstageState [discovery]: "does inspects (discoverUnstageState h v p)"
  unfolding discoverUnstageState_def host_ops by (intro host_intros discovery) simp_all

lemma reads_discoverExpandState [discovery]: "does inspects (discoverExpandState h v p q)"
  unfolding discoverExpandState_def host_ops by (intro host_intros discovery) simp_all

lemma reads_first_symlink [discovery]: "does inspects (first_symlink h cs)"
  by (induction cs) (auto simp: host_ops intro!: host_intros)

lemma reads_first_namespace [discovery]: "does inspects (first_namespace h c ns)"
  by (induction ns) (auto simp: host_ops intro!: host_intros)

lemma reads_scan_subsystems [discovery]: "does inspects (scan_subsystems h nqn es)"
  by (induction es) (auto simp: host_ops intro!: host_intros discovery)

lemma reads_findDevice [discovery]: "does inspects (findDevice h config)"
  unfolding findDevice_def nvmeDeviceBySubsysNQN_def host_ops by (intro host_intros discovery) simp_all

lemma reads_wait_for_device [discovery]: "does inspects (wait_for_device n h config)"
  by (induction n) (auto simp: host_ops intro!: host_intros discovery)

section \<open>The interface ProtocolHandler\<close>

fun nvme_command :: "string list \<Rightarrow> string \<Rightarrow> string list \<Rightarrow> bool" where
  "nvme_command verbs name args \<longleftrightarrow> name = ''nvme'' \<and> (case args of [] \<Rightarrow> False | v # _ \<Rightarrow> v \<in> set verbs)"

text \<open>What \<^verbatim>\<open>Stage\<close> may do: connect, roll the connection back, and prepare the staging path of the request. A file
  system is made or grown only for a mount volume and only at the staging path.\<close>

fun stage_effect :: "StageRequest \<Rightarrow> host_op \<Rightarrow> bool" where
  "stage_effect req (MkdirAll p _) = (p = sr_StagingPath req)"
| "stage_effect req (CreateFile p _) = (sr_IsBlockVolume req \<and> p = rawBlockStagingPath (sr_StagingPath req))"
| "stage_effect req (CloseFile p _) = (sr_IsBlockVolume req \<and> p = rawBlockStagingPath (sr_StagingPath req))"
| "stage_effect req (Remove p _) = (sr_IsBlockVolume req \<and> p = rawBlockStagingPath (sr_StagingPath req))"
| "stage_effect req (Mount src p fs opts _) =
     (sr_IsBlockVolume req \<and> p = rawBlockStagingPath (sr_StagingPath req) \<and> opts = [mountOptionBind])"
| "stage_effect req (FormatAndMount dev p fs flags _) = (\<not> sr_IsBlockVolume req \<and> p = sr_StagingPath req)"
| "stage_effect req (Resize dev p _) = (\<not> sr_IsBlockVolume req \<and> p = sr_StagingPath req)"
| "stage_effect req (Connect c _) =
     (con_VolumeName c = sr_VolumeID req
      \<and> con_TargetIqn c = get_str (sr_PublishContext req) PublishContextTargetIQN)"
| "stage_effect req (Command name args _) =
     (name = ''modprobe'' \<or> nvme_command [''connect''] name args
      \<or> nvme_command [''disconnect''] name args
        \<and> args = [''disconnect'', ''-n'', get_str (sr_PublishContext req) PublishContextNVMeSubNQN])"
| "stage_effect req other = inspects other"

text \<open>What \<^verbatim>\<open>Unstage\<close> may do: disconnect exactly the transport the request names.\<close>

fun unstage_effect :: "UnstageRequest \<Rightarrow> host_op \<Rightarrow> bool" where
  "unstage_effect req (Logout iqn portal _) =
     (case ur_ISCSI req of None \<Rightarrow> False
      | Some c \<Rightarrow> iqn = ic_TargetIQN c \<and> iqn \<noteq> [] \<and> portal \<in> set (ic_Portals c))"
| "unstage_effect req (DeleteDBEntry iqn _) =
     (case ur_ISCSI req of None \<Rightarrow> False | Some c \<Rightarrow> iqn = ic_TargetIQN c \<and> iqn \<noteq> [])"
| "unstage_effect req (Command name args _) =
     (name = ''nvme'' \<and> ur_NVMeSubNQN req \<noteq> [] \<and> args = [''disconnect'', ''-n'', ur_NVMeSubNQN req])"
| "unstage_effect req other = inspects other"

text \<open>What \<^verbatim>\<open>Publish\<close> may do: create the target and mount on it, read-only when asked to.\<close>

fun publish_effect :: "PublishRequest \<Rightarrow> host_op \<Rightarrow> bool" where
  "publish_effect req (MkdirAll p _) = (p = pr_TargetPath req \<or> p = Dir (pr_TargetPath req))"
| "publish_effect req (CreateFile p _) = (p = pr_TargetPath req)"
| "publish_effect req (CloseFile p _) = (p = pr_TargetPath req)"
| "publish_effect req (Remove p _) = (p = pr_TargetPath req)"
| "publish_effect req (Mount src p fs opts _) =
     (p = pr_TargetPath req \<and> (pr_ReadOnly req \<longrightarrow> mountOptionReadOnly \<in> set opts))"
| "publish_effect req other = inspects other"

fun unpublish_effect :: "UnpublishRequest \<Rightarrow> host_op \<Rightarrow> bool" where
  "unpublish_effect req (Unmount p _) = (p = up_TargetPath req)"
| "unpublish_effect req (CleanupMountPoint p _) = (p = up_TargetPath req)"
| "unpublish_effect req (Remove p _) = (p = up_TargetPath req)"
| "unpublish_effect req other = inspects other"

text \<open>What \<^verbatim>\<open>Expand\<close> may do: rescan, and grow the file system of a mount volume at its path.\<close>

fun expand_effect :: "ExpandRequest \<Rightarrow> host_op \<Rightarrow> bool" where
  "expand_effect req (WriteFile p d _) = (d = ''- - -'' \<or> d = ''1'' @ [CHR 0x0A])"
| "expand_effect req (ResizeMultipathDevice d _) = (d = Base (er_DevicePath req))"
| "expand_effect req (Command name args _) = nvme_command [''ns-rescan''] name args"
| "expand_effect req (Resize dev p _) =
     (\<not> er_IsBlockVolume req \<and> dev = er_DevicePath req \<and> p = er_VolumePath req)"
| "expand_effect req other = inspects other"

lemma reads_effects:
  "inspects op \<Longrightarrow> stage_effect sr op" "inspects op \<Longrightarrow> unstage_effect ur op" "inspects op \<Longrightarrow> publish_effect pr op"
  "inspects op \<Longrightarrow> unpublish_effect up op" "inspects op \<Longrightarrow> expand_effect er op"
  by (cases op; simp)+

locale protocol_handler =
  fixes handler :: "'w ProtocolHandler"
  assumes stage: "does (stage_effect sr) (ph_Stage handler sr)"
    and unstage: "does (unstage_effect ur) (ph_Unstage handler ur)"
    and publish: "does (publish_effect pr) (ph_Publish handler pr)"
    and unpublish: "does (unpublish_effect up) (ph_Unpublish handler up)"
    and expand: "does (expand_effect er) (ph_Expand handler er)"
    and protocol: "ph_Protocol handler \<in> {ProtocolISCSI, ProtocolNVMeOF, ProtocolNFS}"

lemmas discovery_within = discovery [THEN does_weaken]

lemma handler_simps:
  "ph_Stage (nfsHandler h) = nfs_Stage h" "ph_Unstage (nfsHandler h) = nfs_Unstage h"
  "ph_Publish (nfsHandler h) = nfs_Publish h" "ph_Unpublish (nfsHandler h) = nfs_Unpublish h"
  "ph_Expand (nfsHandler h) = nfs_Expand h" "ph_Protocol (nfsHandler h) = ProtocolNFS"
  "ph_Stage (iscsiHandler h) = iscsi_Stage h" "ph_Unstage (iscsiHandler h) = iscsi_Unstage h"
  "ph_Publish (iscsiHandler h) = iscsi_Publish h" "ph_Unpublish (iscsiHandler h) = iscsi_Unpublish h"
  "ph_Expand (iscsiHandler h) = iscsi_Expand h" "ph_Protocol (iscsiHandler h) = ProtocolISCSI"
  "ph_Stage (nvmeofHandler h) = nvmeof_Stage h" "ph_Unstage (nvmeofHandler h) = nvmeof_Unstage h"
  "ph_Publish (nvmeofHandler h) = nvmeof_Publish h" "ph_Unpublish (nvmeofHandler h) = nvmeof_Unpublish h"
  "ph_Expand (nvmeofHandler h) = nvmeof_Expand h" "ph_Protocol (nvmeofHandler h) = ProtocolNVMeOF"
  by (simp_all add: nfsHandler_def iscsiHandler_def nvmeofHandler_def)

subsection \<open>NFS\<close>

interpretation nfs: protocol_handler "nfsHandler h" for h :: "'w host"
proof
  show "does (stage_effect sr) (ph_Stage (nfsHandler h) sr)" for sr
    unfolding handler_simps nfs_Stage_def by (intro host_intros)
  show "does (unstage_effect ur) (ph_Unstage (nfsHandler h) ur)" for ur
    unfolding handler_simps nfs_Unstage_def by (intro host_intros)
  show "does (publish_effect pr) (ph_Publish (nfsHandler h) pr)" for pr
    unfolding handler_simps nfs_Publish_def nfs_mount_def mountWithTimeout_def host_ops
    by (intro host_intros) (auto simp: getMountOptions_def)
  show "does (unpublish_effect up) (ph_Unpublish (nfsHandler h) up)" for up
    unfolding handler_simps nfs_Unpublish_def host_ops by (intro host_intros) simp
  show "does (expand_effect er) (ph_Expand (nfsHandler h) er)" for er
    unfolding handler_simps nfs_Expand_def by (intro host_intros)
  show "ph_Protocol (nfsHandler h) \<in> {ProtocolISCSI, ProtocolNVMeOF, ProtocolNFS}"
    by (simp add: handler_simps)
qed

subsection \<open>iSCSI\<close>

lemma does_stageBlockDevice:
  "sr_IsBlockVolume req \<Longrightarrow> does (stage_effect req) (stageBlockDevice h dev (sr_StagingPath req))"
  unfolding stageBlockDevice_def create_and_close_def host_ops by (intro host_intros) simp_all

lemma does_publishBlockDevice:
  "does (publish_effect req) (publishBlockDevice h st (pr_TargetPath req) (pr_ReadOnly req))"
  unfolding publishBlockDevice_def create_and_close_def host_ops by (intro host_intros) simp_all

lemma does_stage_device: "does (stage_effect req) (iscsi_stage_device h req dev)"
  unfolding iscsi_stage_device_def host_ops by (intro host_intros does_stageBlockDevice) simp_all

lemma connector_of_request:
  "parseISCSIConfig pc vc sec = Inr config \<Longrightarrow>
     con_VolumeName (buildConnector v config) = v
     \<and> con_TargetIqn (buildConnector v config) = get_str pc PublishContextTargetIQN"
  by (auto simp: parseISCSIConfig_def buildConnector_def Let_def split: option.splits)

lemma does_logout:
  assumes "ur_ISCSI req = Some c" "ic_TargetIQN c \<noteq> []"
  shows "does (unstage_effect req) (logoutISCSITargetImpl h (ic_TargetIQN c) (ic_Portals c))"
  unfolding logoutISCSITargetImpl_def logout_portal_def host_ops
  using assms by (intro host_intros) simp_all

interpretation iscsi: protocol_handler "iscsiHandler h" for h :: "'w host"
proof
  show "does (stage_effect sr) (ph_Stage (iscsiHandler h) sr)" for sr
    unfolding handler_simps iscsi_Stage_def host_ops
    by (intro host_intros does_stage_device) (simp add: connector_of_request)
  show "does (unstage_effect ur) (ph_Unstage (iscsiHandler h) ur)" for ur
    unfolding handler_simps iscsi_Unstage_def Let_def
    by (intro host_intros discovery_within does_logout) (simp_all add: reads_effects)
  show "does (publish_effect pr) (ph_Publish (iscsiHandler h) pr)" for pr
    unfolding handler_simps iscsi_Publish_def host_ops
    by (intro host_intros does_publishBlockDevice) simp_all
  show "does (unpublish_effect up) (ph_Unpublish (iscsiHandler h) up)" for up
    unfolding handler_simps iscsi_Unpublish_def host_ops by (intro host_intros) simp_all
  show "does (expand_effect er) (ph_Expand (iscsiHandler h) er)" for er
    unfolding handler_simps iscsi_Expand_def rescanExpandDevice_def rescanSCSIHosts_def rescan_device_def host_ops
    by (intro host_intros) simp_all
  show "ph_Protocol (iscsiHandler h) \<in> {ProtocolISCSI, ProtocolNVMeOF, ProtocolNFS}"
    by (simp add: handler_simps)
qed

subsection \<open>NVMe-oF\<close>

lemma nvmeof_stage_device_eq: "nvmeof_stage_device h req dev = iscsi_stage_device h req dev"
  by (simp add: nvmeof_stage_device_def iscsi_stage_device_def)

lemma does_connectAndDiscover:
  "nvc_SubNQN config = get_str (sr_PublishContext req) PublishContextNVMeSubNQN \<Longrightarrow>
     does (stage_effect req) (connectAndDiscover h config)"
  unfolding connectAndDiscover_def nvmeConnect_def nvmeDisconnect_def waitForDevice_def nvme_connect_args_def host_ops
  by (intro host_intros discovery_within) (simp_all add: reads_effects)

interpretation nvmeof: protocol_handler "nvmeofHandler h" for h :: "'w host"
proof
  show "does (stage_effect sr) (ph_Stage (nvmeofHandler h) sr)" for sr
    unfolding handler_simps nvmeof_Stage_def loadKernelModules_def load_module_def host_ops nvmeof_stage_device_eq Let_def
    by (intro host_intros does_stage_device does_connectAndDiscover) (simp_all add: parseNVMeOFConfig_def Let_def)
  show "does (unstage_effect ur) (ph_Unstage (nvmeofHandler h) ur)" for ur
    unfolding handler_simps nvmeof_Unstage_def nvmeDisconnect_def host_ops Let_def
    by (intro host_intros discovery_within) (simp_all add: reads_effects)
  show "does (publish_effect pr) (ph_Publish (nvmeofHandler h) pr)" for pr
    unfolding handler_simps nvmeof_Publish_def host_ops
    by (intro host_intros does_publishBlockDevice) simp_all
  show "does (unpublish_effect up) (ph_Unpublish (nvmeofHandler h) up)" for up
    unfolding handler_simps nvmeof_Unpublish_def host_ops by (intro host_intros) simp_all
  show "does (expand_effect er) (ph_Expand (nvmeofHandler h) er)" for er
    unfolding handler_simps nvmeof_Expand_def nvmeRescanControllers_def rescan_controller_def host_ops
    by (intro host_intros) simp_all
  show "ph_Protocol (nvmeofHandler h) \<in> {ProtocolISCSI, ProtocolNVMeOF, ProtocolNFS}"
    by (simp add: handler_simps)
qed

text \<open>The handlers that the node service dispatches to implement the interface.\<close>

lemma getHandler_handler: "getHandler h pc = Inr p \<Longrightarrow> protocol_handler p"
  by (auto simp: getHandler_def Let_def split: if_splits
      intro: nfs.protocol_handler_axioms iscsi.protocol_handler_axioms nvmeof.protocol_handler_axioms)

lemma discovered_handler_handler: "discovered_handler h name = Inr (Some p) \<Longrightarrow> protocol_handler p"
  by (auto simp: discovered_handler_def split: if_splits
      intro: nfs.protocol_handler_axioms iscsi.protocol_handler_axioms nvmeof.protocol_handler_axioms)

end
