(* ===== verification/Node_Correct.thy ===== *)
theory Node_Correct
  imports Node_Traffic
begin

text \<open>
  What the node service guarantees of a host. \<open>guarded G pre m\<close> says that every operation \<open>m\<close> performs
  satisfies \<open>G\<close> with the operations before it: the ones in \<open>pre\<close> and those of \<open>m\<close> so far. The theorems
  state the checks that come before a destructive operation (formatting, unmounting, logging out,
  growing a file system) as facts about the operations that precede it, for every host.
\<close>

section \<open>Operations in order\<close>

fun all_guarded :: "(host_op list \<Rightarrow> host_op \<Rightarrow> bool) \<Rightarrow> host_op list \<Rightarrow> host_op list \<Rightarrow> bool" where
  "all_guarded G pre [] = True"
| "all_guarded G pre (x # xs) = (G pre x \<and> all_guarded G (pre @ [x]) xs)"

definition guarded :: "(host_op list \<Rightarrow> host_op \<Rightarrow> bool) \<Rightarrow> host_op list \<Rightarrow> ('w, 'a) nprog \<Rightarrow> bool" where
  "guarded G pre m \<longleftrightarrow> logs (\<lambda>_ xs. all_guarded G pre xs) m"

lemma all_guarded_append:
  "all_guarded G pre (xs @ ys) \<longleftrightarrow> all_guarded G pre xs \<and> all_guarded G (pre @ xs) ys"
  by (induction xs arbitrary: pre) auto

lemma guardedD: "guarded G [] m \<Longrightarrow> ops m s = us @ x # vs \<Longrightarrow> G us x"
  unfolding guarded_def by (drule logs_ops(1) [of _ _ s]) (simp add: all_guarded_append)

lemma guarded_return: "guarded G pre (return a)"
  by (simp add: guarded_def logs_return)

lemma guarded_bind:
  assumes "logs (\<lambda>a xs. all_guarded G pre xs \<and> guarded G (pre @ xs) (f a)) m"
  shows "guarded G pre (State_Monad.bind m f)"
  unfolding guarded_def
  by (rule logs_bind, rule logs_weaken [OF assms])
    (auto simp: guarded_def all_guarded_append elim!: logs_weaken)

text \<open>Reading steps: \<open>G\<close> says nothing of them, and what they answered stays in front.\<close>

lemma all_guarded_all: "(\<And>us x. P x \<Longrightarrow> G (pre @ us) x) \<Longrightarrow> list_all P xs \<Longrightarrow> all_guarded G pre xs"
proof (induction xs rule: rev_induct)
  case (snoc x xs)
  then show ?case by (simp add: all_guarded_append)
qed simp

lemma guarded_does: "does P m \<Longrightarrow> (\<And>us x. P x \<Longrightarrow> G (pre @ us) x) \<Longrightarrow> guarded G pre m"
  unfolding guarded_def does_def by (erule logs_weaken) (rule all_guarded_all)

lemma guarded_if_err:
  assumes "does P m" and "\<And>us x. P x \<Longrightarrow> G (pre @ us) x"
    and "\<And>xs e. list_all P xs \<Longrightarrow> guarded G (pre @ xs) (h e)"
    and "\<And>xs a. list_all P xs \<Longrightarrow> guarded G (pre @ xs) (k a)"
  shows "guarded G pre (if_err m h k)"
  unfolding if_err_def
proof (rule guarded_bind, rule logs_weaken [OF assms(1) [unfolded does_def]])
  fix a xs assume "list_all P xs"
  then show "all_guarded G pre xs \<and> guarded G (pre @ xs) (case a of Inl e \<Rightarrow> h e | Inr x \<Rightarrow> k x)"
    using assms(2-4) by (auto split: sum.splits intro: all_guarded_all)
qed

lemma guarded_op: "\<lbrakk>\<And>a. G pre (ev a); \<And>a. guarded G (pre @ [ev a]) (f a)\<rbrakk> \<Longrightarrow>
    guarded G pre (State_Monad.bind (perform g ev) f)"
  by (rule guarded_bind, rule logs_perform) simp

lemma guarded_if_err_op:
  "\<lbrakk>\<And>a. G pre (ev a); \<And>e. guarded G (pre @ [ev (Inl e)]) (h e); \<And>x. guarded G (pre @ [ev (Inr x)]) (k x)\<rbrakk> \<Longrightarrow>
    guarded G pre (if_err (perform g ev) h k)"
  unfolding if_err_def by (rule guarded_op) (auto split: sum.splits)

lemma guarded_if_fail_op:
  "\<lbrakk>\<And>a. G pre (ev a); \<And>e. guarded G (pre @ [ev (Some e)]) (h e); guarded G (pre @ [ev None]) k\<rbrakk> \<Longrightarrow>
    guarded G pre (if_fail (perform g ev) h k)"
  unfolding if_fail_def by (rule guarded_op) (auto split: option.splits)

lemma guarded_if: "(b \<Longrightarrow> guarded G pre m) \<Longrightarrow> (\<not> b \<Longrightarrow> guarded G pre n) \<Longrightarrow> guarded G pre (if b then m else n)"
  by simp

lemma guarded_case_sum:
  "(\<And>e. r = Inl e \<Longrightarrow> guarded G pre (f e)) \<Longrightarrow> (\<And>x. r = Inr x \<Longrightarrow> guarded G pre (g x)) \<Longrightarrow>
     guarded G pre (case r of Inl e \<Rightarrow> f e | Inr x \<Rightarrow> g x)"
  by (cases r) simp_all

lemma guarded_case_option:
  "(r = None \<Longrightarrow> guarded G pre m) \<Longrightarrow> (\<And>x. r = Some x \<Longrightarrow> guarded G pre (g x)) \<Longrightarrow>
     guarded G pre (case r of None \<Rightarrow> m | Some x \<Rightarrow> g x)"
  by (cases r) simp_all

lemma guarded_case_prod:
  "(\<And>a b. r = (a, b) \<Longrightarrow> guarded G pre (g a b)) \<Longrightarrow> guarded G pre (case r of (a, b) \<Rightarrow> g a b)"
  by (cases r) simp_all

lemmas guarded_intros = guarded_return guarded_if_err_op guarded_if_fail_op guarded_op guarded_if
  guarded_case_sum guarded_case_option guarded_case_prod

section \<open>Locks\<close>

text \<open>A handler under the lock of its volume: refused while the lock is held, and the lock is free
  again afterwards, whatever the body does.\<close>

lemma run_with_lock:
  assumes "logs R body"
  shows "volumeLocks (snd (run_state (with_lock v body) s)) = volumeLocks s"
    and "v \<in> set (volumeLocks s) \<Longrightarrow>
           run_state (with_lock v body) s
             = (Inl (Status Aborted (''operation already in progress for volume '' @ v)), s)"
    and "\<exists>xs. host_log (snd (run_state (with_lock v body) s)) = host_log s @ xs
           \<and> (xs \<noteq> [] \<or> v \<notin> set (volumeLocks s) \<longrightarrow> R (fst (run_state (with_lock v body) s)) xs)"
proof -
  let ?t = "s\<lparr>volumeLocks := v # volumeLocks s\<rparr>"
  note body = logs_ops [OF assms, of ?t]
  have held: "run_state (with_lock v body) s
      = (Inl (Status Aborted (''operation already in progress for volume '' @ v)), s)"
    if "v \<in> set (volumeLocks s)"
    using that by (simp add: with_lock_def TryAcquireLock_def)
  have free: "run_state (with_lock v body) s
      = (fst (run_state body ?t), (snd (run_state body ?t))\<lparr>volumeLocks := volumeLocks s\<rparr>)"
    if "v \<notin> set (volumeLocks s)"
    using that body(3) by (auto simp: with_lock_def TryAcquireLock_def ReleaseLock_def split: prod.splits)
  show "volumeLocks (snd (run_state (with_lock v body) s)) = volumeLocks s"
    using held free by (cases "v \<in> set (volumeLocks s)") simp_all
  show "v \<in> set (volumeLocks s) \<Longrightarrow>
      run_state (with_lock v body) s
        = (Inl (Status Aborted (''operation already in progress for volume '' @ v)), s)"
    by (rule held)
  show "\<exists>xs. host_log (snd (run_state (with_lock v body) s)) = host_log s @ xs
      \<and> (xs \<noteq> [] \<or> v \<notin> set (volumeLocks s) \<longrightarrow> R (fst (run_state (with_lock v body) s)) xs)"
    using held free body(1,2) by (cases "v \<in> set (volumeLocks s)") auto
qed

lemma logs_with_lock:
  assumes "logs R body" and "\<And>st. R (Inl st) []"
  shows "logs R (with_lock v body)"
  unfolding logs_def
proof
  fix s
  obtain xs where xs: "host_log (snd (run_state (with_lock v body) s)) = host_log s @ xs"
      "xs \<noteq> [] \<or> v \<notin> set (volumeLocks s) \<longrightarrow> R (fst (run_state (with_lock v body) s)) xs"
    using run_with_lock(3) [OF assms(1)] by blast
  have "R (fst (run_state (with_lock v body) s)) xs"
    using xs(2) assms(2) run_with_lock(2) [OF assms(1), of v s] by (cases "xs \<noteq> [] \<or> v \<notin> set (volumeLocks s)") auto
  then show "\<exists>xs. host_log (snd (run_state (with_lock v body) s)) = host_log s @ xs
      \<and> volumeLocks (snd (run_state (with_lock v body) s)) = volumeLocks s
      \<and> R (fst (run_state (with_lock v body) s)) xs"
    using xs(1) run_with_lock(1) [OF assms(1)] by blast
qed

lemma guarded_with_lock: "guarded G pre body \<Longrightarrow> guarded G pre (with_lock v body)"
  unfolding guarded_def by (erule logs_with_lock) simp

lemma does_with_lock: "does P body \<Longrightarrow> does P (with_lock v body)"
  unfolding does_def by (erule logs_with_lock) simp

section \<open>Staging\<close>

text \<open>A file system is made only at the staging path of a mount volume, after the mount table showed
  neither form of staging mount and the path itself was seen not to be a mount point.\<close>

definition unstaged :: "string \<Rightarrow> host_op list \<Rightarrow> bool" where
  "unstaged path pre \<longleftrightarrow>
     (\<exists>mounts e. List (Inr mounts) \<in> set pre \<and> effectiveMount mounts path = None
        \<and> effectiveMount mounts (rawBlockStagingPath path) = None
        \<and> IsLikelyNotMountPoint path (True, e) \<in> set pre)"

fun format_guard :: "string \<Rightarrow> bool \<Rightarrow> host_op list \<Rightarrow> host_op \<Rightarrow> bool" where
  "format_guard staging isBlock pre (FormatAndMount dev path fs flags r) =
     (\<not> isBlock \<and> path = staging \<and> unstaged path pre)"
| "format_guard staging isBlock pre _ = True"

lemma reads_format_guard: "inspects x \<Longrightarrow> format_guard st b pre x"
  by (cases x) simp_all

lemma guarded_discovery:
  assumes "does inspects m" and "\<And>us x. inspects x \<Longrightarrow> G (pre @ us) x"
    and "\<And>xs e. guarded G (pre @ xs) (h e)" and "\<And>xs a. guarded G (pre @ xs) (k a)"
  shows "guarded G pre (if_err m h k)"
  by (rule guarded_if_err [OF assms(1)]) (use assms in auto)

context protocol_handler
begin

lemma guarded_stage_new:
  assumes "List (Inr mounts) \<in> set pre"
    and "effectiveMount mounts (nsv_StagingTargetPath req) = None"
    and "effectiveMount mounts (rawBlockStagingPath (nsv_StagingTargetPath req)) = None"
    and p: "p = (if cap_is_block vcap then rawBlockStagingPath (nsv_StagingTargetPath req)
                 else nsv_StagingTargetPath req)"
  shows "guarded (format_guard (nsv_StagingTargetPath req) (cap_is_block vcap)) pre
    (stage_new h req vcap handler p)"
proof -
  let ?G = "format_guard (nsv_StagingTargetPath req) (cap_is_block vcap)"
  have step: "?G (pre @ IsLikelyNotMountPoint p (True, e) # us) x"
    if "stage_effect sr x" "sr_StagingPath sr = nsv_StagingTargetPath req"
      "sr_IsBlockVolume sr = cap_is_block vcap" for sr x e us
    using that assms by (cases x) (auto simp: unstaged_def)
  show ?thesis
    unfolding stage_new_def host_ops
    by (intro guarded_intros guarded_if_err [OF stage])
      (auto intro!: guarded_return intro: step)
qed

end

lemma guarded_stage_body:
  "guarded (format_guard (nsv_StagingTargetPath req) (cap_is_block vcap)) [] (stage_body h req vcap)"
  unfolding stage_body_def Let_def host_ops
  by (intro guarded_intros guarded_discovery discovery
      protocol_handler.guarded_stage_new [OF getHandler_handler]) (auto simp: reads_format_guard)

lemma guarded_NodeStageVolume:
  "guarded (\<lambda>pre x. \<forall>vcap. nsv_VolumeCapability req = Some vcap \<longrightarrow>
      format_guard (nsv_StagingTargetPath req) (cap_is_block vcap) pre x) [] (NodeStageVolume h req)"
proof (cases "nsv_VolumeCapability req")
  case (Some vcap)
  then show ?thesis
    unfolding NodeStageVolume_def
    by (auto intro!: guarded_intros guarded_with_lock guarded_stage_body split: option.splits)
qed (auto simp: NodeStageVolume_def intro!: guarded_intros)

subsection \<open>A host for examples\<close>

text \<open>A host where every operation succeeds and nothing is mounted or connected.\<close>

definition empty_host :: "bool host" where
  "empty_host =
     \<lparr>h_List = (\<lambda>w. (Inr [], w)), h_IsLikelyNotMountPoint = (\<lambda>p w. ((True, None), w)),
      h_GetMountRefs = (\<lambda>p w. (Inr [], w)), h_Mount = (\<lambda>src tgt fs opts w. (None, w)),
      h_Unmount = (\<lambda>p w. (None, w)), h_CleanupMountPoint = (\<lambda>p w. (None, w)),
      h_FormatAndMount = (\<lambda>dev p fs flags w. (None, w)), h_NeedResize = (\<lambda>dev p w. (Inr False, w)),
      h_Resize = (\<lambda>dev p w. (Inr True, w)),
      h_Stat = (\<lambda>p w. (Inr \<lparr>fi_IsDir = True, fi_Device = False, fi_CharDevice = False, fi_Rdev = None\<rparr>, w)),
      h_Statfs = (\<lambda>p w. (Inr \<lparr>sf_Frsize = 4096, sf_Bsize = 4096, sf_Blocks = 1000, sf_Bfree = 600, sf_Bavail = 500,
                                sf_Files = 100, sf_Ffree = 90\<rparr>, w)),
      h_MkdirAll = (\<lambda>p w. (None, w)), h_CreateFile = (\<lambda>p w. (None, w)), h_CloseFile = (\<lambda>p w. (None, w)),
      h_Remove = (\<lambda>p w. (None, w)), h_ReadDir = (\<lambda>p w. (Inr [], w)), h_ReadFile = (\<lambda>p w. (Inl (NotExist p), w)),
      h_WriteFile = (\<lambda>p d w. (None, w)), h_EvalSymlinks = (\<lambda>p w. (Inr p, w)),
      h_Command = (\<lambda>name args w. (([], None), w)), h_Connect = (\<lambda>c w. (Inr ''/dev/sda'', w)),
      h_Logout = (\<lambda>iqn portal w. (None, w)), h_DeleteDBEntry = (\<lambda>iqn w. (None, w)),
      h_GetSessions = (\<lambda>w. (Inr [], w)), h_ResizeMultipathDevice = (\<lambda>dev w. (None, w)),
      h_CtxErr = (\<lambda>w. (None, w)), h_blockDevices = 8\<rparr>"

definition fresh_node :: "bool \<Rightarrow> bool node" where
  "fresh_node w = \<lparr>host_world = w, host_log = [], volumeLocks = []\<rparr>"

definition mount_capability :: VolumeCapability where
  "mount_capability = \<lparr>cap_AccessType = AccessMount [] [], cap_AccessMode = Some SINGLE_NODE_WRITER\<rparr>"

definition stage_request :: NodeStageVolumeRequest where
  "stage_request = \<lparr>nsv_VolumeId = ''tank/v1'',
     nsv_PublishContext = [(PublishContextProtocol, ProtocolISCSI), (PublishContextTargetPortal, ''10.0.0.1:3260''),
                           (PublishContextTargetIQN, ''iqn.2005-10.org.x:csi-tank-v1''), (PublishContextLUN, ''0'')],
     nsv_StagingTargetPath = ''/stage'', nsv_VolumeCapability = Some mount_capability,
     nsv_Secrets = [], nsv_VolumeContext = []\<rparr>"

subsection \<open>The theorem\<close>

text \<open>C3. Staging never formats over something: whenever \<^verbatim>\<open>NodeStageVolume\<close> formats and mounts a device,
  on any host, the path is the staging path of the request, the requested access type is a mount,
  and before that the mount table was read and showed neither a filesystem nor a raw-block staging
  mount, and the path was found not to be a mount point.\<close>

theorem NodeStageVolume_formats_unstaged:
  assumes "ops (NodeStageVolume h req) s = pre @ FormatAndMount dev path fs flags r # post"
    and "nsv_VolumeCapability req = Some vcap"
  shows "path = nsv_StagingTargetPath req \<and> \<not> cap_is_block vcap \<and> unstaged path pre"
  using guardedD [OF guarded_NodeStageVolume assms(1)] assms(2) by auto

theorem NodeStageVolume_formats_unstaged_witness:
  "''/stage'' = nsv_StagingTargetPath stage_request \<and> \<not> cap_is_block mount_capability
   \<and> unstaged ''/stage'' (take 4 (ops (NodeStageVolume empty_host stage_request) (fresh_node False)))"
proof (rule NodeStageVolume_formats_unstaged)
  show "ops (NodeStageVolume empty_host stage_request) (fresh_node False)
      = take 4 (ops (NodeStageVolume empty_host stage_request) (fresh_node False))
        @ FormatAndMount ''/dev/sda'' ''/stage'' ''ext4'' [] None
        # drop 5 (ops (NodeStageVolume empty_host stage_request) (fresh_node False))"
    by code_simp
  show "nsv_VolumeCapability stage_request = Some mount_capability"
    by code_simp
qed

section \<open>Unstaging\<close>

text \<open>What a program returns, apart from what it does.\<close>

definition answers :: "('a \<Rightarrow> bool) \<Rightarrow> ('s, 'a) state \<Rightarrow> bool" where
  "answers Q m \<longleftrightarrow> (\<forall>s. Q (fst (run_state m s)))"

named_theorems answer_intros "rules that follow the shape of a program for answers"

lemma answers_return [answer_intros]: "Q a \<Longrightarrow> answers Q (return a)"
  by (simp add: answers_def)

lemma answers_bind [answer_intros]: "(\<And>a. answers Q (f a)) \<Longrightarrow> answers Q (State_Monad.bind m f)"
  by (simp add: answers_def split: prod.splits)

lemma answers_after: "answers P m \<Longrightarrow> (\<And>a. P a \<Longrightarrow> answers Q (f a)) \<Longrightarrow> answers Q (State_Monad.bind m f)"
  unfolding answers_def by (simp split: prod.splits) (metis fst_conv)

lemma answers_if_err [answer_intros]:
  "(\<And>e. answers Q (h e)) \<Longrightarrow> (\<And>x. answers Q (k x)) \<Longrightarrow> answers Q (if_err m h k)"
  unfolding if_err_def by (rule answers_bind) (auto split: sum.splits)

lemma answers_if_err_after:
  "answers P m \<Longrightarrow> (\<And>e. answers Q (h e)) \<Longrightarrow> (\<And>x. P (Inr x) \<Longrightarrow> answers Q (k x)) \<Longrightarrow> answers Q (if_err m h k)"
  unfolding if_err_def by (erule answers_after) (auto split: sum.splits)

lemma answers_if [answer_intros]:
  "(b \<Longrightarrow> answers Q m) \<Longrightarrow> (\<not> b \<Longrightarrow> answers Q n) \<Longrightarrow> answers Q (if b then m else n)"
  by simp

lemma answers_case_sum [answer_intros]:
  "(\<And>e. r = Inl e \<Longrightarrow> answers Q (f e)) \<Longrightarrow> (\<And>x. r = Inr x \<Longrightarrow> answers Q (g x)) \<Longrightarrow>
     answers Q (case r of Inl e \<Rightarrow> f e | Inr x \<Rightarrow> g x)"
  by (cases r) simp_all

lemma answers_case_option [answer_intros]:
  "(r = None \<Longrightarrow> answers Q m) \<Longrightarrow> (\<And>x. r = Some x \<Longrightarrow> answers Q (g x)) \<Longrightarrow>
     answers Q (case r of None \<Rightarrow> m | Some x \<Rightarrow> g x)"
  by (cases r) simp_all

lemma answers_case_prod [answer_intros]:
  "(\<And>a b. r = (a, b) \<Longrightarrow> answers Q (g a b)) \<Longrightarrow> answers Q (case r of (a, b) \<Rightarrow> g a b)"
  by (cases r) simp_all

lemma answers_case_list [answer_intros]:
  "(r = [] \<Longrightarrow> answers Q m) \<Longrightarrow> (\<And>x xs. r = x # xs \<Longrightarrow> answers Q (g x xs)) \<Longrightarrow>
     answers Q (case r of [] \<Rightarrow> m | x # xs \<Rightarrow> g x xs)"
  by (cases r) simp_all

lemma answers_Let [answer_intros]: "answers Q (f x) \<Longrightarrow> answers Q (Let x f)"
  by (simp add: Let_def)

lemma does_answers: "does P m \<Longrightarrow> answers Q m \<Longrightarrow> logs (\<lambda>a xs. list_all P xs \<and> Q a) m"
  unfolding does_def logs_def answers_def by blast

subsection \<open>The transport found belongs to the volume\<close>

definition own_target :: "string \<Rightarrow> string \<Rightarrow> bool" where
  "own_target v iqn \<longleftrightarrow> HasSuffix iqn ('':'' @ makeISCSITargetSuffix v)"

definition own_subsystem :: "string \<Rightarrow> string \<Rightarrow> bool" where
  "own_subsystem v nqn \<longleftrightarrow> HasSuffix nqn ('':'' @ makeNVMeSubsysName v)"

definition own_state :: "string \<Rightarrow> volumeState \<Rightarrow> bool" where
  "own_state v st \<longleftrightarrow>
     (case vs_ISCSI st of None \<Rightarrow> True | Some c \<Rightarrow> ic_TargetIQN c \<noteq> [] \<longrightarrow> own_target v (ic_TargetIQN c))
     \<and> (vs_NVMeSubNQN st \<noteq> [] \<longrightarrow> own_subsystem v (vs_NVMeSubNQN st))"

abbreviation on_success :: "('a \<Rightarrow> bool) \<Rightarrow> 'e + 'a \<Rightarrow> bool" where
  "on_success Q r \<equiv> (case r of Inl _ \<Rightarrow> True | Inr x \<Rightarrow> Q x)"

lemma own_match_sessions:
  "match_sessions v ids ss (iqn, ps, found) = Inr (iqn', ps', found') \<Longrightarrow> iqn \<noteq> [] \<longrightarrow> own_target v iqn \<Longrightarrow>
     iqn' \<noteq> [] \<longrightarrow> own_target v iqn'"
  by (induction ss arbitrary: iqn ps found) (auto simp: own_target_def split: if_splits)

lemma own_iscsiConnectionForDevices:
  "answers (on_success (\<lambda>r. case r of None \<Rightarrow> True | Some c \<Rightarrow> ic_TargetIQN c \<noteq> [] \<longrightarrow> own_target v (ic_TargetIQN c)))
     (iscsiConnectionForDevices h v ds)"
  unfolding iscsiConnectionForDevices_def
  by (intro answer_intros) (auto dest: own_match_sessions)

lemma own_nvmeConnectionForDevices:
  "answers (on_success (\<lambda>r. case r of None \<Rightarrow> True | Some (nqn, _) \<Rightarrow> own_subsystem v nqn))
     (nvmeConnectionForDevices h v ds)"
  unfolding nvmeConnectionForDevices_def by (intro answer_intros) (auto simp: own_subsystem_def)

lemma own_nodeRecord:
  "answers (on_success (\<lambda>r. case r of None \<Rightarrow> True | Some c \<Rightarrow> own_target v (ic_TargetIQN c)))
     (findISCSINodeRecordByVolumeID h v)"
proof -
  have "own_target v (hd (map de_Name (filter (\<lambda>e. de_IsDir e \<and> HasSuffix (de_Name e) ('':'' @ makeISCSITargetSuffix v)) es)))"
    if "filter (\<lambda>e. de_IsDir e \<and> HasSuffix (de_Name e) ('':'' @ makeISCSITargetSuffix v)) es \<noteq> []" for es
    using hd_in_set [OF that] unfolding hd_map [OF that] by (auto simp: own_target_def)
  then show ?thesis
    unfolding findISCSINodeRecordByVolumeID_def by (intro answer_intros) (auto simp: Let_def)
qed

lemma own_by_target: "fst ` set (by_target v ss) \<subseteq> Collect (own_target v)"
proof -
  have "fst ` set (fold (\<lambda>s m. if HasSuffix (ses_IQN s) ('':'' @ makeISCSITargetSuffix v)
            then put (ses_IQN s) ((case lookup m (ses_IQN s) of None \<Rightarrow> [] | Some ps \<Rightarrow> ps) @ [ses_Portal s]) m
            else m) ss acc) \<subseteq> Collect (own_target v)"
    if "fst ` set acc \<subseteq> Collect (own_target v)" for acc
    using that by (induction ss arbitrary: acc) (auto simp: own_target_def dom_update)
  from this [of "[]"] show ?thesis
    by (simp add: by_target_def)
qed

lemma own_findISCSIConnection:
  "answers (on_success (\<lambda>r. case r of None \<Rightarrow> True | Some c \<Rightarrow> own_target v (ic_TargetIQN c)))
     (findISCSIConnectionByVolumeID h v)"
proof -
  have "by_target v ss = (iqn, ps) # rest \<Longrightarrow> own_target v iqn" for ss iqn ps rest
    using own_by_target [of v ss] by simp
  then show ?thesis
    unfolding findISCSIConnectionByVolumeID_def by (intro answer_intros own_nodeRecord) auto
qed

lemma own_matching_controllers:
  "matching_controllers v cs (m, l) = Inr (m', l') \<Longrightarrow> fst ` set m \<subseteq> Collect (own_subsystem v) \<Longrightarrow>
     fst ` set m' \<subseteq> Collect (own_subsystem v)"
  by (induction cs arbitrary: m l) (auto simp: own_subsystem_def dom_update split: if_splits)

lemma own_findNVMe:
  "answers (on_success (\<lambda>(nqn, _). nqn \<noteq> [] \<longrightarrow> own_subsystem v nqn)) (findNVMeConnectionByVolumeID h v)"
  unfolding findNVMeConnectionByVolumeID_def
  by (intro answer_intros) (auto dest!: own_matching_controllers)

lemma own_discover_block:
  "own_state v st \<Longrightarrow> vs_ISCSI st = None \<Longrightarrow> vs_NVMeSubNQN st = [] \<Longrightarrow>
     answers (on_success (own_state v)) (discover_block h v st src dev)"
  unfolding discover_block_def
  by (intro answer_intros answers_if_err_after [OF own_nvmeConnectionForDevices]
      answers_if_err_after [OF own_iscsiConnectionForDevices]) (auto simp: own_state_def split: option.splits)

lemma own_discoverMountedVolume: "answers (on_success (own_state v)) (discoverMountedVolume h v ms e)"
  unfolding discoverMountedVolume_def
  by (intro answer_intros own_discover_block) (auto simp: own_state_def zero_volumeState_def)

lemma own_discoverDetachedVolume: "answers (on_success (own_state v)) (discoverDetachedVolume h v)"
  unfolding discoverDetachedVolume_def
  by (intro answers_if_err_after [OF own_findNVMe] answers_if_err_after [OF own_findISCSIConnection] answer_intros)
    (auto simp: own_state_def zero_volumeState_def)

lemma own_discoverUnstageState: "answers (on_success (own_state v)) (discoverUnstageState h v p)"
  unfolding discoverUnstageState_def
  by (intro answer_intros own_discoverMountedVolume own_discoverDetachedVolume) auto

subsection \<open>What unstaging does, in order\<close>

text \<open>A mount is removed only after its references were read and none was external; a session is
  logged out and a subsystem disconnected only if its name carries the volume.\<close>

fun unstage_guard :: "string \<Rightarrow> host_op list \<Rightarrow> host_op \<Rightarrow> bool" where
  "unstage_guard v pre (Unmount p _) =
     (\<exists>refs. GetMountRefs p (Inr refs) \<in> set pre \<and> externalMountReferences p refs = [])"
| "unstage_guard v pre (Logout iqn portal _) = own_target v iqn"
| "unstage_guard v pre (DeleteDBEntry iqn _) = own_target v iqn"
| "unstage_guard v pre (Command name args _) =
     (\<exists>nqn. name = ''nvme'' \<and> args = [''disconnect'', ''-n'', nqn] \<and> own_subsystem v nqn)"
| "unstage_guard v pre (Remove p _) = True"
| "unstage_guard v pre x = inspects x"

lemma reads_unstage_guard: "inspects x \<Longrightarrow> unstage_guard v pre x"
  by (cases x) simp_all

lemma unstage_effect_guard:
  "unstage_effect ur x \<Longrightarrow> ur_ISCSI ur = vs_ISCSI st \<Longrightarrow> ur_NVMeSubNQN ur = vs_NVMeSubNQN st \<Longrightarrow> own_state v st \<Longrightarrow>
     unstage_guard v pre x"
  by (cases x) (auto simp: own_state_def split: option.splits)

lemma guarded_unmount_staging: "guarded (unstage_guard v) pre (unmount_staging h w p)"
  unfolding unmount_staging_def Let_def host_ops by (intro guarded_intros) auto

lemma guarded_unstage_cleanup: "guarded (unstage_guard v) pre (unstage_cleanup h req)"
  unfolding unstage_cleanup_def Let_def host_ops by (intro guarded_intros) auto

lemma guarded_if_err_logs:
  assumes "logs Q m" and "\<And>a xs. Q a xs \<Longrightarrow> all_guarded G pre xs"
    and "\<And>xs e. Q (Inl e) xs \<Longrightarrow> guarded G (pre @ xs) (h e)"
    and "\<And>xs a. Q (Inr a) xs \<Longrightarrow> guarded G (pre @ xs) (k a)"
  shows "guarded G pre (if_err m h k)"
  unfolding if_err_def
  by (rule guarded_bind, rule logs_weaken [OF assms(1)]) (use assms(2-4) in \<open>auto split: sum.splits\<close>)

lemma guarded_if_err_part:
  assumes "guarded G pre m" and "\<And>xs e. guarded G (pre @ xs) (h e)" and "\<And>xs a. guarded G (pre @ xs) (k a)"
  shows "guarded G pre (if_err m h k)"
  by (rule guarded_if_err_logs [OF assms(1) [unfolded guarded_def]]) (use assms(2,3) in auto)

lemma guarded_if_fail_part:
  assumes "guarded G pre m" and "\<And>xs e. guarded G (pre @ xs) (h e)" and "\<And>xs. guarded G (pre @ xs) k"
  shows "guarded G pre (if_fail m h k)"
  unfolding if_fail_def
  by (rule guarded_bind, rule logs_weaken [OF assms(1) [unfolded guarded_def]])
    (use assms(2,3) in \<open>auto split: option.splits\<close>)

lemma guarded_unstage_body: "guarded (unstage_guard (nuv_VolumeId req)) [] (unstage_body h req)"
  unfolding unstage_body_def
proof (rule guarded_if_err_logs [OF does_answers [OF reads_discoverUnstageState own_discoverUnstageState]])
  fix a xs
  assume "list_all inspects xs \<and> on_success (own_state (nuv_VolumeId req)) (Inr a)"
  then have own: "own_state (nuv_VolumeId req) a" by simp
  show "guarded (unstage_guard (nuv_VolumeId req)) ([] @ xs)
     (if_err (unmount_staging h (nuv_VolumeId req) (vs_MountPath a)) (\<lambda>st. return (Inl st))
       (\<lambda>_. case discovered_handler h (vs_Protocol a) of Inl st \<Rightarrow> return (Inl st)
         | Inr None \<Rightarrow> unstage_cleanup h req
         | Inr (Some handler) \<Rightarrow>
             if_fail (ph_Unstage handler
                 \<lparr>ur_VolumeID = nuv_VolumeId req, ur_StagingPath = nuv_StagingTargetPath req,
                  ur_MountPath = vs_MountPath a, ur_DevicePath = vs_DevicePath a,
                  ur_ISCSI = vs_ISCSI a, ur_NVMeSubNQN = vs_NVMeSubNQN a\<rparr>)
               (\<lambda>err. return (Inl (internal ''failed to unstage volume: '' err))) (unstage_cleanup h req)))"
    by (intro guarded_if_err_part guarded_unmount_staging guarded_intros guarded_if_fail_part guarded_unstage_cleanup
        guarded_does [OF protocol_handler.unstage [OF discovered_handler_handler]])
      (auto intro: unstage_effect_guard [OF _ _ _ own])
qed (auto intro: all_guarded_all reads_unstage_guard guarded_return)

lemma guarded_NodeUnstageVolume:
  "guarded (unstage_guard (nuv_VolumeId req)) [] (NodeUnstageVolume h req)"
  unfolding NodeUnstageVolume_def by (intro guarded_intros guarded_with_lock guarded_unstage_body)

subsection \<open>Success\<close>

text \<open>A successful run ends with an operation that satisfies \<open>Q\<close>.\<close>

definition ends_with :: "(host_op \<Rightarrow> bool) \<Rightarrow> ('w, 'e + 'a) nprog \<Rightarrow> bool" where
  "ends_with Q m \<longleftrightarrow> logs (\<lambda>r xs. \<not> isl r \<longrightarrow> (\<exists>us x. xs = us @ [x] \<and> Q x)) m"

lemma ends_with_Inl: "ends_with Q (return (Inl e))"
  by (simp add: ends_with_def logs_return)

lemma ends_with_after:
  assumes "does P m" and "\<And>a. ends_with Q (f a)"
  shows "ends_with Q (State_Monad.bind m f)"
  unfolding ends_with_def
  by (rule logs_after [OF assms(1) [unfolded does_def]], rule logs_weaken [OF assms(2) [unfolded ends_with_def]])
    (metis append_assoc)

lemma ends_with_if_err:
  "does P m \<Longrightarrow> (\<And>e. ends_with Q (h e)) \<Longrightarrow> (\<And>a. ends_with Q (k a)) \<Longrightarrow> ends_with Q (if_err m h k)"
  unfolding if_err_def by (erule ends_with_after) (auto split: sum.splits)

lemma ends_with_if_fail:
  "does P m \<Longrightarrow> (\<And>e. ends_with Q (h e)) \<Longrightarrow> ends_with Q k \<Longrightarrow> ends_with Q (if_fail m h k)"
  unfolding if_fail_def by (erule ends_with_after) (auto split: option.splits)

lemma does_anything: "does P m \<Longrightarrow> does (\<lambda>_. True) m"
  by (erule does_weaken) simp

fun shows_unstaged :: "string \<Rightarrow> host_op \<Rightarrow> bool" where
  "shows_unstaged staging (List (Inr mounts)) =
     (effectiveCanonicalMount mounts staging = None
      \<and> effectiveCanonicalMount mounts (rawBlockStagingPath staging) = None)"
| "shows_unstaged staging _ = False"

lemma ends_unstage_cleanup: "ends_with (shows_unstaged (nuv_StagingTargetPath req)) (unstage_cleanup h req)"
proof -
  have "ends_with (shows_unstaged p) (if_err (perform g List) (\<lambda>err. return (Inl (f err))) (\<lambda>mounts.
      if effectiveCanonicalMount mounts p \<noteq> None \<or> effectiveCanonicalMount mounts (rawBlockStagingPath p) \<noteq> None
      then return (Inl st) else return (Inr ())))" for p g f and st :: status
    unfolding ends_with_def if_err_def
    by (rule logs_after [OF logs_perform [of "\<lambda>a xs. xs = [List a]"]]) (auto simp: logs_return split: sum.splits)
  then show ?thesis
    unfolding unstage_cleanup_def Let_def host_ops
    by (intro ends_with_after [where P = "\<lambda>_. True"] does_perform) auto
qed

lemma ends_unstage_body: "ends_with (shows_unstaged (nuv_StagingTargetPath req)) (unstage_body h req)"
  unfolding unstage_body_def
proof (rule ends_with_if_err [OF reads_discoverUnstageState ends_with_Inl])
  have unmount: "does (\<lambda>_. True) (unmount_staging h v p)" for v p
    unfolding unmount_staging_def host_ops Let_def by (intro host_intros) simp_all
  show "ends_with (shows_unstaged (nuv_StagingTargetPath req))
     (if_err (unmount_staging h (nuv_VolumeId req) (vs_MountPath a)) (\<lambda>st. return (Inl st))
       (\<lambda>_. case discovered_handler h (vs_Protocol a) of Inl st \<Rightarrow> return (Inl st)
         | Inr None \<Rightarrow> unstage_cleanup h req
         | Inr (Some handler) \<Rightarrow>
             if_fail (ph_Unstage handler
                 \<lparr>ur_VolumeID = nuv_VolumeId req, ur_StagingPath = nuv_StagingTargetPath req,
                  ur_MountPath = vs_MountPath a, ur_DevicePath = vs_DevicePath a,
                  ur_ISCSI = vs_ISCSI a, ur_NVMeSubNQN = vs_NVMeSubNQN a\<rparr>)
               (\<lambda>err. return (Inl (internal ''failed to unstage volume: '' err))) (unstage_cleanup h req)))" for a
    by (auto intro!: ends_with_if_err [OF unmount] ends_with_Inl ends_unstage_cleanup
          ends_with_if_fail [OF protocol_handler.unstage [OF discovered_handler_handler]]
        split: sum.splits option.splits)
qed

lemma ends_NodeUnstageVolume:
  "ends_with (shows_unstaged (nuv_StagingTargetPath req)) (NodeUnstageVolume h req)"
  unfolding NodeUnstageVolume_def
  by (auto intro!: ends_with_Inl logs_with_lock [OF ends_unstage_body [unfolded ends_with_def], folded ends_with_def])

text \<open>A host with one iSCSI volume staged at \<^verbatim>\<open>/stage\<close>; the world says whether it still is.\<close>

definition staged_host :: "bool host" where
  "staged_host = empty_host
     \<lparr>h_List := (\<lambda>w. (Inr (if w then [\<lparr>mp_Device = ''/dev/sda'', mp_Path = ''/stage'', mp_Type = ''ext4''\<rparr>] else []), w)),
      h_Unmount := (\<lambda>p w. (None, False)),
      h_EvalSymlinks := (\<lambda>p w. (Inr (if p = ''/sys/class/block/sda/device'' then ''/sys/devices/host3/session1/target3'' else p), w)),
      h_GetSessions := (\<lambda>w. (Inr (if w then ''tcp: [1] 10.0.0.1:3260,1 iqn.2005-10.org.x:csi-tank-v1 (non-flash)'' else []), w))\<rparr>"

definition unstage_request :: NodeUnstageVolumeRequest where
  "unstage_request = \<lparr>nuv_VolumeId = ''tank/v1'', nuv_StagingTargetPath = ''/stage''\<rparr>"

text \<open>C4. Unstaging is guarded: every operation of \<^verbatim>\<open>NodeUnstageVolume\<close> is a read, the removal of the staging
  path, or one of these: an unmount of a path whose mount references were read before and had no
  external one, so a volume that is still published is never unmounted; a logout from, or the
  removal of the record of, an iSCSI target whose IQN carries the name of this volume; or an
  \<^verbatim>\<open>nvme disconnect\<close> of a subsystem whose NQN does.\<close>

theorem NodeUnstageVolume_guarded:
  assumes "ops (NodeUnstageVolume h req) s = pre @ x # post"
  shows "unstage_guard (nuv_VolumeId req) pre x"
  by (rule guardedD [OF guarded_NodeUnstageVolume assms])

theorem NodeUnstageVolume_guarded_witness:
  "unstage_guard (nuv_VolumeId unstage_request)
     (take 7 (ops (NodeUnstageVolume staged_host unstage_request) (fresh_node True))) (Unmount ''/stage'' None)"
proof (rule NodeUnstageVolume_guarded)
  show "ops (NodeUnstageVolume staged_host unstage_request) (fresh_node True)
      = take 7 (ops (NodeUnstageVolume staged_host unstage_request) (fresh_node True)) @ Unmount ''/stage'' None
        # drop 8 (ops (NodeUnstageVolume staged_host unstage_request) (fresh_node True))"
    by code_simp
qed

text \<open>C11. A successful \<^verbatim>\<open>NodeUnstageVolume\<close> is verified: its last operation is a reading of the mount
  table in which neither the staging path nor its raw-block file is mounted, also not through the
  \<^verbatim>\<open>/host\<close> mirror.\<close>

theorem NodeUnstageVolume_success_unstaged:
  assumes "fst (run_state (NodeUnstageVolume h req) s) = Inr ()"
  shows "\<exists>pre mounts. ops (NodeUnstageVolume h req) s = pre @ [List (Inr mounts)]
    \<and> effectiveCanonicalMount mounts (nuv_StagingTargetPath req) = None
    \<and> effectiveCanonicalMount mounts (rawBlockStagingPath (nuv_StagingTargetPath req)) = None"
proof -
  obtain us x where us: "ops (NodeUnstageVolume h req) s = us @ [x]" "shows_unstaged (nuv_StagingTargetPath req) x"
    using logs_ops(1) [OF ends_NodeUnstageVolume [unfolded ends_with_def], of h req s] assms by auto
  then show ?thesis
    by (cases "(nuv_StagingTargetPath req, x)" rule: shows_unstaged.cases) auto
qed

theorem NodeUnstageVolume_success_unstaged_witness:
  "\<exists>pre mounts. ops (NodeUnstageVolume staged_host unstage_request) (fresh_node True) = pre @ [List (Inr mounts)]
    \<and> effectiveCanonicalMount mounts (nuv_StagingTargetPath unstage_request) = None
    \<and> effectiveCanonicalMount mounts (rawBlockStagingPath (nuv_StagingTargetPath unstage_request)) = None"
proof (rule NodeUnstageVolume_success_unstaged)
  show "fst (run_state (NodeUnstageVolume staged_host unstage_request) (fresh_node True)) = Inr ()"
    by code_simp
qed

end
