(* ===== verification/Node_Guards.thy ===== *)
theory Node_Guards
  imports Node_Correct "HOL-Library.Multiset"
begin

text \<open>
  Publishing and expanding on a node, and the locks that keep the operations on one volume apart.
\<close>

section \<open>Publishing\<close>

text \<open>The target is the only path that is mounted on, it was seen not to be a mount point before, and
  a read-only publication is mounted read-only.\<close>

fun publish_guard :: "NodePublishVolumeRequest \<Rightarrow> host_op list \<Rightarrow> host_op \<Rightarrow> bool" where
  "publish_guard req pre (Mount src p fs opts _) =
     (p = npv_TargetPath req \<and> (npv_Readonly req \<longrightarrow> mountOptionReadOnly \<in> set opts)
      \<and> (\<exists>e. IsLikelyNotMountPoint p (True, e) \<in> set pre))"
| "publish_guard req pre (MkdirAll p _) = (p = npv_TargetPath req \<or> p = Dir (npv_TargetPath req))"
| "publish_guard req pre (CreateFile p _) = (p = npv_TargetPath req)"
| "publish_guard req pre (CloseFile p _) = (p = npv_TargetPath req)"
| "publish_guard req pre (Remove p _) = (p = npv_TargetPath req)"
| "publish_guard req pre x = inspects x"

lemma reads_publish_guard: "inspects x \<Longrightarrow> publish_guard req pre x"
  by (cases x) simp_all

lemma publish_effect_guard:
  "publish_effect pr x \<Longrightarrow> pr_TargetPath pr = npv_TargetPath req \<Longrightarrow> pr_ReadOnly pr = npv_Readonly req \<Longrightarrow>
     IsLikelyNotMountPoint (npv_TargetPath req) (True, e) \<in> set pre \<Longrightarrow> publish_guard req pre x"
  by (cases x) auto

lemma guarded_existing_publication: "guarded (publish_guard req) pre (existing_publication h req b hd')"
  unfolding existing_publication_def Let_def host_ops
  by (intro guarded_intros guarded_discovery discovery) (auto simp: reads_publish_guard)

lemma guarded_publish_body: "guarded (publish_guard req) [] (publish_body h req vcap)"
  unfolding publish_body_def host_ops
  by (intro guarded_intros guarded_existing_publication guarded_if_fail_part
      guarded_does [OF protocol_handler.publish [OF getHandler_handler]])
    (auto intro: publish_effect_guard)

lemma guarded_NodePublishVolume: "guarded (publish_guard req) [] (NodePublishVolume h req)"
  unfolding NodePublishVolume_def
  by (intro guarded_intros guarded_with_lock guarded_publish_body)

definition publish_request :: NodePublishVolumeRequest where
  "publish_request = \<lparr>npv_VolumeId = ''tank/v1'',
     npv_PublishContext = [(PublishContextProtocol, ProtocolNFS), (PublishContextNFSServer, ''10.0.0.1''),
                           (PublishContextNFSPath, ''/mnt/tank/v1'')],
     npv_StagingTargetPath = ''/stage'', npv_TargetPath = ''/target'',
     npv_VolumeCapability = Some mount_capability, npv_Readonly = True, npv_VolumeContext = []\<rparr>"

text \<open>C27. Publishing touches nothing but its target: every operation of \<^verbatim>\<open>NodePublishVolume\<close> is a read, the
  preparation of the target path, or a mount on the target path. A mount happens only after the
  target was seen not to be a mount point, so an existing publication is never covered, and the
  mount of a read-only publication carries the option \<^verbatim>\<open>ro\<close>.\<close>

theorem NodePublishVolume_guarded:
  assumes "ops (NodePublishVolume h req) s = pre @ x # post"
  shows "publish_guard req pre x"
  by (rule guardedD [OF guarded_NodePublishVolume assms])

theorem NodePublishVolume_guarded_witness:
  "publish_guard publish_request (take 2 (ops (NodePublishVolume empty_host publish_request) (fresh_node False)))
     (Mount ''10.0.0.1:/mnt/tank/v1'' ''/target'' ''nfs'' [''hard'', ''ro''] None)"
proof (rule NodePublishVolume_guarded)
  show "ops (NodePublishVolume empty_host publish_request) (fresh_node False)
      = take 2 (ops (NodePublishVolume empty_host publish_request) (fresh_node False))
        @ Mount ''10.0.0.1:/mnt/tank/v1'' ''/target'' ''nfs'' [''hard'', ''ro''] None
        # drop 3 (ops (NodePublishVolume empty_host publish_request) (fresh_node False))"
    by code_simp
qed

section \<open>Expanding\<close>

text \<open>A file system is grown only at the volume path, never for a block capability, and only after
  the path was looked at and not found to be something other than a directory.\<close>

definition not_raw :: "string \<Rightarrow> host_op list \<Rightarrow> bool" where
  "not_raw p pre \<longleftrightarrow> (\<exists>r. Stat p r \<in> set pre \<and> (case r of Inl _ \<Rightarrow> True | Inr info \<Rightarrow> fi_IsDir info))"

fun expand_guard :: "NodeExpandVolumeRequest \<Rightarrow> host_op list \<Rightarrow> host_op \<Rightarrow> bool" where
  "expand_guard req pre (Resize dev p _) =
     (p = nev_VolumePath req \<and> not_raw p pre
      \<and> (case nev_VolumeCapability req of None \<Rightarrow> True | Some c \<Rightarrow> \<not> cap_is_block c))"
| "expand_guard req pre (WriteFile p d _) = (d = ''- - -'' \<or> d = ''1'' @ [CHR 0x0A])"
| "expand_guard req pre (ResizeMultipathDevice d _) = True"
| "expand_guard req pre (Command name args _) = nvme_command [''ns-rescan''] name args"
| "expand_guard req pre x = inspects x"

lemma reads_expand_guard: "inspects x \<Longrightarrow> expand_guard req pre x"
  by (cases x) simp_all

lemma expand_effect_guard:
  "expand_effect er x \<Longrightarrow> er_VolumePath er = nev_VolumePath req \<Longrightarrow>
     (\<not> er_IsBlockVolume er \<Longrightarrow> not_raw (nev_VolumePath req) pre
        \<and> (case nev_VolumeCapability req of None \<Rightarrow> True | Some c \<Rightarrow> \<not> cap_is_block c)) \<Longrightarrow>
     expand_guard req pre x"
  by (cases x) auto

lemma logs_isBlockVolumeExpansion:
  "logs (\<lambda>b xs. list_all inspects xs \<and> (\<not> b \<longrightarrow> not_raw p xs
      \<and> (case capability of None \<Rightarrow> True | Some c \<Rightarrow> \<not> cap_is_block c)))
    (isBlockVolumeExpansion h capability p)"
  unfolding isBlockVolumeExpansion_def host_ops
  by (intro logs_if logs_after [OF logs_perform [of "\<lambda>a xs. xs = [Stat p a]"]] logs_return)
    (auto simp: not_raw_def split: option.splits sum.splits)

lemma not_raw_append: "not_raw p xs \<Longrightarrow> not_raw p (us @ xs @ vs)"
  by (auto simp: not_raw_def)

lemma guarded_expand_body: "guarded (expand_guard req) pre (expand_body h req)"
proof -
  let ?G = "expand_guard req"
  have handler: "guarded ?G us (if_err (ph_Expand p er) (\<lambda>err. return (Inl (f err))) (\<lambda>n. return (Inr n)))"
    if "protocol_handler p" "er_VolumePath er = nev_VolumePath req"
      "\<not> er_IsBlockVolume er \<longrightarrow> not_raw (nev_VolumePath req) us
        \<and> (case nev_VolumeCapability req of None \<Rightarrow> True | Some c \<Rightarrow> \<not> cap_is_block c)"
    for us p er and f :: "herr \<Rightarrow> status"
    using that not_raw_append [of _ us "[]"]
    by (intro guarded_if_err [OF protocol_handler.expand [OF that(1)]] guarded_return)
      (auto intro!: expand_effect_guard)
  show ?thesis
    unfolding expand_body_def Let_def
    by (intro guarded_intros guarded_discovery discovery guarded_bind)
      (auto intro!: logs_weaken [OF logs_isBlockVolumeExpansion] handler guarded_return
            all_guarded_all [of inspects] reads_expand_guard discovered_handler_handler
            not_raw_append [of _ _ _ "[]", simplified])
qed

lemma guarded_NodeExpandVolume: "guarded (expand_guard req) [] (NodeExpandVolume h req)"
  unfolding NodeExpandVolume_def host_ops
  by (intro guarded_intros guarded_with_lock guarded_expand_body) auto

text \<open>A raw block volume: the volume path is a device node.\<close>

definition expand_request :: NodeExpandVolumeRequest where
  "expand_request = \<lparr>nev_VolumeId = ''tank/v1'', nev_VolumePath = ''/stage'', nev_CapacityRange = None,
     nev_StagingTargetPath = ''/stage'', nev_VolumeCapability = None\<rparr>"

text \<open>C28. Expansion leaves raw block volumes alone: every operation of \<^verbatim>\<open>NodeExpandVolume\<close> is a read, a rescan
  of the transport, or the growing of a file system, and a file system is grown only at the volume
  path of the request, never when the request carries a block capability, and only after the
  volume path was looked at without being found to be a device or a file.\<close>

theorem NodeExpandVolume_guarded:
  assumes "ops (NodeExpandVolume h req) s = pre @ x # post"
  shows "expand_guard req pre x"
  by (rule guardedD [OF guarded_NodeExpandVolume assms])

theorem NodeExpandVolume_guarded_witness:
  "expand_guard expand_request (take 10 (ops (NodeExpandVolume staged_host expand_request) (fresh_node True)))
     (Resize ''/dev/sda'' ''/stage'' (Inr True))"
proof (rule NodeExpandVolume_guarded)
  show "ops (NodeExpandVolume staged_host expand_request) (fresh_node True)
      = take 10 (ops (NodeExpandVolume staged_host expand_request) (fresh_node True))
        @ Resize ''/dev/sda'' ''/stage'' (Inr True)
        # drop 11 (ops (NodeExpandVolume staged_host expand_request) (fresh_node True))"
    by code_simp
qed

section \<open>One operation per volume\<close>

lemma does_of_guarded: "guarded G [] m \<Longrightarrow> does (\<lambda>_. True) m"
  unfolding guarded_def does_def by (erule logs_weaken) (simp add: list_all_iff)

lemmas node_does =
  guarded_NodeStageVolume [THEN does_of_guarded] guarded_NodeUnstageVolume [THEN does_of_guarded]
  guarded_NodePublishVolume [THEN does_of_guarded] guarded_NodeExpandVolume [THEN does_of_guarded]

lemma does_NodeUnpublishVolume:
  "does (\<lambda>x. \<exists>r. x = CleanupMountPoint (nup_TargetPath req) r) (NodeUnpublishVolume h req)"
  unfolding NodeUnpublishVolume_def host_ops by (intro host_intros does_with_lock) auto

text \<open>A busy volume: the operation is refused and has only looked.\<close>

definition refused_idle :: "('w, status + 'a) nprog \<Rightarrow> 'w node \<Rightarrow> bool" where
  "refused_idle m s \<longleftrightarrow> isl (fst (run_state m s)) \<and> list_all inspects (ops m s)"

definition busy_refused :: "string \<Rightarrow> ('w, status + 'a) nprog \<Rightarrow> bool" where
  "busy_refused v m \<longleftrightarrow> (\<forall>s. v \<in> set (volumeLocks s) \<longrightarrow>
     (\<exists>xs. host_log (snd (run_state m s)) = host_log s @ xs \<and> list_all inspects xs \<and> isl (fst (run_state m s))))"

lemma busy_refusedD: "busy_refused v m \<Longrightarrow> v \<in> set (volumeLocks s) \<Longrightarrow> refused_idle m s"
  unfolding busy_refused_def refused_idle_def ops_def by (metis append_eq_conv_conj)

lemma busy_refused_return: "busy_refused v (return (Inl e))"
  by (simp add: busy_refused_def)

lemma busy_refused_lock: "does P body \<Longrightarrow> busy_refused v (with_lock v body)"
  unfolding does_def busy_refused_def using run_with_lock(2) by fastforce

lemma busy_refused_op:
  assumes "\<And>a. inspects (ev a)" and "\<And>a. busy_refused v (f a)"
  shows "busy_refused v (State_Monad.bind (perform g ev) f)"
  unfolding busy_refused_def
proof (intro allI impI)
  fix s :: "'b node" assume v: "v \<in> set (volumeLocks s)"
  obtain a t where t: "run_state (perform g ev) s = (a, t)" by fastforce
  then have "host_log t = host_log s @ [ev a]" "v \<in> set (volumeLocks t)"
    using v by (auto simp: Let_def split: prod.splits)
  moreover obtain xs where "host_log (snd (run_state (f a) t)) = host_log t @ xs" "list_all inspects xs"
      "isl (fst (run_state (f a) t))"
    using assms(2) [of a] calculation(2) unfolding busy_refused_def by blast
  ultimately show "\<exists>xs. host_log (snd (run_state (State_Monad.bind (perform g ev) f) s)) = host_log s @ xs
      \<and> list_all inspects xs \<and> isl (fst (run_state (State_Monad.bind (perform g ev) f) s))"
    using t assms(1) by (intro exI [of _ "ev a # xs"]) simp
qed

lemma does_bodies:
  "does (\<lambda>_. True) (stage_body h sr c)" "does (\<lambda>_. True) (unstage_body h ur)"
  "does (\<lambda>_. True) (publish_body h pr c)" "does (\<lambda>_. True) (expand_body h er)"
  by (rule does_of_guarded, rule guarded_stage_body guarded_unstage_body guarded_publish_body guarded_expand_body)+

text \<open>C29. One operation per volume: all five operations of the node service leave the set of locked volumes
  as they found it, on every path; and while the lock of its volume is held by another operation,
  each of them is refused with an error after performing nothing but reads.\<close>

theorem node_operations_locked:
  "volumeLocks (snd (run_state (NodeStageVolume h sr) s)) = volumeLocks s
   \<and> volumeLocks (snd (run_state (NodeUnstageVolume h ur) s)) = volumeLocks s
   \<and> volumeLocks (snd (run_state (NodePublishVolume h pr) s)) = volumeLocks s
   \<and> volumeLocks (snd (run_state (NodeUnpublishVolume h up) s)) = volumeLocks s
   \<and> volumeLocks (snd (run_state (NodeExpandVolume h er) s)) = volumeLocks s
   \<and> (nsv_VolumeId sr \<in> set (volumeLocks s) \<longrightarrow> refused_idle (NodeStageVolume h sr) s)
   \<and> (nuv_VolumeId ur \<in> set (volumeLocks s) \<longrightarrow> refused_idle (NodeUnstageVolume h ur) s)
   \<and> (npv_VolumeId pr \<in> set (volumeLocks s) \<longrightarrow> refused_idle (NodePublishVolume h pr) s)
   \<and> (nup_VolumeId up \<in> set (volumeLocks s) \<longrightarrow> refused_idle (NodeUnpublishVolume h up) s)
   \<and> (nev_VolumeId er \<in> set (volumeLocks s) \<longrightarrow> refused_idle (NodeExpandVolume h er) s)"
proof -
  have "does (\<lambda>_. True) (NodeUnpublishVolume h up)"
    using does_NodeUnpublishVolume by (rule does_weaken) simp
  note kept = node_does this
  note refused = busy_refused_return does_bodies [THEN busy_refused_lock]
  have "busy_refused (nev_VolumeId er) (NodeExpandVolume h er)"
    unfolding NodeExpandVolume_def host_ops by (auto intro!: refused busy_refused_op split: sum.splits)
  moreover have "busy_refused (nsv_VolumeId sr) (NodeStageVolume h sr)"
    by (auto simp: NodeStageVolume_def intro!: refused split: option.splits)
  moreover have "busy_refused (nuv_VolumeId ur) (NodeUnstageVolume h ur)"
    by (auto simp: NodeUnstageVolume_def intro!: refused)
  moreover have "busy_refused (npv_VolumeId pr) (NodePublishVolume h pr)"
    by (auto simp: NodePublishVolume_def intro!: refused split: option.splits)
  moreover have "busy_refused (nup_VolumeId up) (NodeUnpublishVolume h up)"
    unfolding NodeUnpublishVolume_def host_ops
    by (auto intro!: refused busy_refused_lock [of "\<lambda>_. True"] host_intros)
  ultimately show ?thesis
    using kept [unfolded does_def, THEN logs_ops(3)] by (blast dest: busy_refusedD)
qed

definition unpublish_request :: NodeUnpublishVolumeRequest where
  "unpublish_request = \<lparr>nup_VolumeId = ''tank/v1'', nup_TargetPath = ''/target''\<rparr>"

definition busy_node :: "bool node" where
  "busy_node = \<lparr>host_world = True, host_log = [], volumeLocks = [''tank/v1'']\<rparr>"

theorem node_operations_locked_witness:
  "refused_idle (NodeUnstageVolume staged_host unstage_request) busy_node
   \<and> refused_idle (NodePublishVolume staged_host publish_request) busy_node"
  using node_operations_locked [of staged_host stage_request busy_node unstage_request publish_request unpublish_request expand_request]
  by (simp add: unstage_request_def publish_request_def busy_node_def)

subsection \<open>Interleaved operations\<close>

text \<open>The service runs every call in a goroutine of its own. A state is the node with the calls that
  hold the lock of their volume; a step is one lock operation, or one operation of the host by a
  call that is running.\<close>

inductive node_step :: "'w node \<times> (nat \<times> string) list \<Rightarrow> 'w node \<times> (nat \<times> string) list \<Rightarrow> bool" where
  enter: "run_state (TryAcquireLock v) s = (True, s') \<Longrightarrow> i \<notin> fst ` set calls \<Longrightarrow>
            node_step (s, calls) (s', (i, v) # calls)"
| refuse: "run_state (TryAcquireLock v) s = (False, s') \<Longrightarrow> node_step (s, calls) (s', calls)"
| work: "(i, v) \<in> set calls \<Longrightarrow>
            node_step (s, calls) (s\<lparr>host_world := w, host_log := host_log s @ [x]\<rparr>, calls)"
| leave: "(i, v) \<in> set calls \<Longrightarrow> run_state (ReleaseLock v) s = ((), s') \<Longrightarrow>
            node_step (s, calls) (s', remove1 (i, v) calls)"

inductive node_reachable :: "'w node \<times> (nat \<times> string) list \<Rightarrow> bool" where
  start: "volumeLocks s = [] \<Longrightarrow> node_reachable (s, [])"
| step: "node_reachable c \<Longrightarrow> node_step c c' \<Longrightarrow> node_reachable c'"

definition calls_locked :: "'w node \<times> (nat \<times> string) list \<Rightarrow> bool" where
  "calls_locked c \<longleftrightarrow> (case c of (s, calls) \<Rightarrow>
     mset (volumeLocks s) = image_mset snd (mset calls) \<and> distinct (volumeLocks s))"

lemma calls_locked_step: "node_step c c' \<Longrightarrow> calls_locked c \<Longrightarrow> calls_locked c'"
proof (induction rule: node_step.induct)
  case (leave i v calls s s')
  then have "mset (volumeLocks s') = image_mset snd (mset (remove1 (i, v) calls))"
    by (auto simp: calls_locked_def ReleaseLock_def image_mset_Diff)
  then show ?case
    using leave by (auto simp: calls_locked_def ReleaseLock_def)
qed (auto simp: calls_locked_def TryAcquireLock_def Let_def split: if_splits prod.splits)

lemma node_reachable_locked: "node_reachable c \<Longrightarrow> calls_locked c"
  by (induction rule: node_reachable.induct) (auto simp: calls_locked_def [of "(_, [])"] intro: calls_locked_step)



end
