(* ===== verification/Discovery_Correct.thy ===== *)
theory Discovery_Correct
  imports Node_Correct
begin

text \<open>
  The discovery algorithms of \<^verbatim>\<open>node_discovery.go\<close> against what they are meant to compute: following bind
  mounts to their source, walking the slaves of a block device, parsing the session list of
  \<^verbatim>\<open>iscsiadm\<close>, removing duplicates, and decoding a device number.
\<close>

unbundle bit_operations_syntax

section \<open>Mount sources\<close>

text \<open>One step of the specification: an absolute source that is itself mounted stands for the device
  of that mount, and takes over its type.\<close>

inductive source_step :: "MountPoint list \<Rightarrow> string \<times> string \<Rightarrow> string \<times> string \<Rightarrow> bool" for mounts where
  "IsAbs source \<Longrightarrow> effectiveMount mounts source = Some m \<Longrightarrow>
     source_step mounts (source, fs) (mp_Device m, if mp_Type m \<noteq> [] then mp_Type m else fs)"

inductive_cases source_stepE: "source_step mounts (source, fs) x"

lemma effectiveMount_Clean: "IsAbs source \<Longrightarrow> effectiveMount mounts (Clean source) = effectiveMount mounts source"
  by (auto simp: effectiveMount_def IsAbs_def HasPrefix_def)

lemma resolve_source_steps:
  "resolve_source mounts source fs seen = Inr r \<Longrightarrow>
     (source_step mounts)\<^sup>*\<^sup>* (source, fs) r \<and> (\<nexists>x. source_step mounts r x)"
proof (induction mounts source fs seen rule: resolve_source.induct)
  case (1 mounts source fs seen)
  show ?case
  proof (cases "IsAbs source \<and> effectiveMount mounts source \<noteq> None")
    case False
    then have "r = (source, fs)"
      using "1.prems" by (subst (asm) resolve_source.simps)
        (auto simp: Let_def effectiveMount_Clean split: if_splits)
    then show ?thesis
      using False by (auto elim: source_stepE)
  next
    case True
    then obtain m where m: "effectiveMount mounts source = Some m" by blast
    let ?fs = "if mp_Type m \<noteq> [] then mp_Type m else fs"
    have c: "Clean source \<notin> set seen"
      and rec: "resolve_source mounts (mp_Device m) ?fs (Clean source # seen) = Inr r"
      using "1.prems" True m by (subst (asm) resolve_source.simps;
        simp add: Let_def effectiveMount_Clean split: if_splits)+
    have "source_step mounts (source, fs) (mp_Device m, ?fs)"
      using True m by (intro source_step.intros) simp_all
    then show ?thesis
      using "1.IH" [of "Clean source" m] True m c rec
      by (auto simp: effectiveMount_Clean intro: converse_rtranclp_into_rtranclp)
  qed
qed

definition bind_mounts :: "MountPoint list" where
  "bind_mounts = [\<lparr>mp_Device = ''/dev/sda'', mp_Path = ''/stage'', mp_Type = ''xfs''\<rparr>,
                  \<lparr>mp_Device = ''/stage/'', mp_Path = ''/target'', mp_Type = []\<rparr>]"

text \<open>C18. \<^verbatim>\<open>resolveMountSource\<close> refines the specification of a mount source: when it returns, the source and type it
  returns are reached from the mount entry by following mounts, and cannot be followed further.
  It returns for every mount table, cyclic ones included, because each round visits a mount point
  it has not seen.\<close>

theorem resolveMountSource_refines:
  assumes "resolveMountSource mounts (Some e) = Inr (source, fsType)"
  shows "(source_step mounts)\<^sup>*\<^sup>* (mp_Device e, mp_Type e) (source, fsType)
    \<and> (\<nexists>x. source_step mounts (source, fsType) x)"
  using resolve_source_steps assms by (simp add: resolveMountSource_def)

theorem resolveMountSource_refines_witness:
  "(source_step bind_mounts)\<^sup>*\<^sup>* (mp_Device (bind_mounts ! 1), mp_Type (bind_mounts ! 1)) (''/dev/sda'', ''xfs'')
    \<and> (\<nexists>x. source_step bind_mounts (''/dev/sda'', ''xfs'') x)"
proof (rule resolveMountSource_refines)
  show "resolveMountSource bind_mounts (Some (bind_mounts ! 1)) = Inr (''/dev/sda'', ''xfs'')"
    by code_simp
qed

section \<open>Walking block devices\<close>

lemma answers_if_err_cases:
  "answers P m \<Longrightarrow> (\<And>e. P (Inl e) \<Longrightarrow> answers Q (h e)) \<Longrightarrow> (\<And>x. P (Inr x) \<Longrightarrow> answers Q (k x)) \<Longrightarrow>
     answers Q (if_err m h k)"
  unfolding if_err_def by (erule answers_after) (auto split: sum.splits)

lemma answers_loop_err:
  "(\<And>x b. x \<in> set xs \<Longrightarrow> answers (\<lambda>r. r \<noteq> Inl e) (f x b)) \<Longrightarrow> answers (\<lambda>r. r \<noteq> Inl e) (loop_err f xs b)"
proof (induction xs arbitrary: b)
  case (Cons x xs)
  show ?case
    unfolding loop_err.simps
    by (rule answers_if_err_cases [where P = "\<lambda>r. r \<noteq> Inl e"]) (use Cons in \<open>auto intro: answers_return\<close>)
qed (simp add: answers_return)

text \<open>The directory listings of a host name only things from \<open>N\<close>.\<close>

definition names_within :: "string set \<Rightarrow> 'w host \<Rightarrow> bool" where
  "names_within N h \<longleftrightarrow> (\<forall>p w es. fst (h_ReadDir h p w) = Inr es \<longrightarrow> de_Name ` set es \<subseteq> N)"

lemma answers_ReadDir:
  "names_within N h \<Longrightarrow> answers (on_success (\<lambda>es. de_Name ` set es \<subseteq> N)) (os_ReadDir h p)"
  unfolding answers_def host_ops names_within_def
  by (auto simp: Let_def split: prod.splits sum.splits) (metis fst_conv image_eqI subsetD)

lemma walk_returns:
  assumes "names_within N h" and "finite N" and "N \<subseteq> M" and "finite M"
  shows "name \<in> M \<Longrightarrow> card (M - set visiting) < n \<Longrightarrow>
    answers (\<lambda>r. r \<noteq> Inl Diverges) (walk n h visiting name leaves)"
proof (induction n arbitrary: visiting name leaves)
  case (Suc n)
  show ?case
  proof (cases "name \<in> set visiting")
    case False
    have less: "card (M - set (name # visiting)) < n"
    proof -
      have "card (M - set (name # visiting)) < card (M - set visiting)"
        using False Suc.prems(1) assms(4) by (intro psubset_card_mono) auto
      then show ?thesis using Suc.prems(2) by simp
    qed
    have rec: "answers (\<lambda>r. r \<noteq> Inl Diverges)
        (loop_err (\<lambda>slave. walk n h (name # visiting) (de_Name slave)) es leaves)"
      if "de_Name ` set es \<subseteq> N" for es
      using that assms(3) less by (intro answers_loop_err Suc.IH) auto
    show ?thesis
      using False rec by (auto intro!: answers_if_err_after [OF answers_ReadDir [OF assms(1)]] answers_return)
  qed (simp add: answers_return)
qed simp

definition dm_host :: "bool host" where
  "dm_host = empty_host
     \<lparr>h_ReadDir := (\<lambda>p w. (Inr (if p = ''/sys/class/block/dm-0/slaves'' then
         [\<lparr>de_Name = ''sda'', de_IsDir = True\<rparr>, \<lparr>de_Name = ''sdb'', de_IsDir = True\<rparr>] else []), w))\<rparr>"



section \<open>Sets of strings\<close>

lemma compact_from_sorted:
  "sorted (prev # vs) \<Longrightarrow> sorted (compact_from prev vs) \<and> distinct (compact_from prev vs)
     \<and> set (compact_from prev vs) = set vs - {prev}"
proof (induction prev vs rule: compact_from.induct)
  case (2 prev v vs)
  then show ?case
    by (cases "v = prev") (auto simp: less_le)
qed simp

lemma compactStrings_sort: "compactStrings (sort_Strings xs) = sorted_list_of_set (set xs)"
proof (cases "sort xs")
  case (Cons v vs)
  have "sorted (sort xs)" "set (sort xs) = set xs"
    by simp_all
  then have "sorted (v # vs)" "set (v # vs) = set xs"
    unfolding Cons by simp_all
  then have "sorted (v # compact_from v vs)" "distinct (v # compact_from v vs)"
      "set (v # compact_from v vs) = set xs"
    using compact_from_sorted [of v vs] by auto
  then show ?thesis
    using Cons sorted_distinct_set_unique [OF _ _ sorted_sorted_list_of_set distinct_sorted_list_of_set,
        of "v # compact_from v vs" "set xs"]
    by (simp add: compactStrings_def sort_Strings_def)
next
  case Nil
  then have "set (sort xs) = {}" by simp
  then have "set xs = {}" by (simp only: set_sort)
  then show ?thesis using Nil by (simp add: compactStrings_def sort_Strings_def)
qed

lemma external_refs_set:
  "set (external_refs mp seen rs) = canonicalHostMountPath ` set rs - {mp} - set seen
   \<and> distinct (external_refs mp seen rs)"
  by (induction mp seen rs rule: external_refs.induct) (auto simp: Let_def)

text \<open>The publish references that keep a volume from being unstaged are a set: \<^verbatim>\<open>externalMountReferences\<close>, a
  loop with a table of the paths seen and a final sort, equals the sorted list of the canonical
  paths of all references, without the mount itself.\<close>

theorem externalMountReferences_set:
  "externalMountReferences mountPath refs =
     sorted_list_of_set (canonicalHostMountPath ` set refs - {canonicalHostMountPath mountPath})"
  unfolding externalMountReferences_def sort_Strings_def
  using external_refs_set [of "canonicalHostMountPath mountPath" "[]" refs]
  by (metis Diff_empty distinct_remdups_id list.set(1) sorted_list_of_set_sort_remdups)

section \<open>The session list\<close>

text \<open>What \<^verbatim>\<open>iscsiadm -m session\<close> prints for a session.\<close>

definition word_ok :: "string \<Rightarrow> bool" where
  "word_ok w \<longleftrightarrow> w \<noteq> [] \<and> list_all (\<lambda>c. \<not> is_space c) w"

definition session_line :: "iscsiSession \<Rightarrow> string" where
  "session_line s = join_char CHR '' '' [''tcp:'', ''['' @ Itoa (ses_ID s) @ '']'', ses_Portal s @ '',1'', ses_IQN s, ''(non-flash)'']"

definition session_ok :: "iscsiSession \<Rightarrow> bool" where
  "session_ok s \<longleftrightarrow> in_int64 (ses_ID s) \<and> word_ok (ses_Portal s) \<and> word_ok (ses_IQN s)"

lemma fields_acc_word:
  "list_all (\<lambda>c. \<not> is_space c) w \<Longrightarrow> fields_acc acc (w @ rest) = fields_acc (rev w @ acc) rest"
  by (induction w arbitrary: acc) auto

lemma Fields_join:
  "list_all word_ok ws \<Longrightarrow> Fields (join_char CHR '' '' ws) = ws"
proof (induction "CHR '' ''" ws rule: join_char.induct)
  case (2 w)
  then show ?case
    using fields_acc_word [of w "[]" "[]"] by (simp add: Fields_def word_ok_def)
next
  case (3 w v ws)
  then show ?case
    by (simp add: Fields_def word_ok_def fields_acc_word is_space_def)
qed (simp add: Fields_def)

lemma trim_by_id: "w \<noteq> [] \<Longrightarrow> \<not> p (hd w) \<Longrightarrow> \<not> p (last w) \<Longrightarrow> trim_by p w = w"
proof -
  assume w: "w \<noteq> []" "\<not> p (hd w)" "\<not> p (last w)"
  then have "dropWhile p w = w" "dropWhile p (rev w) = rev w"
    by (simp_all only: dropWhile_eq_self_iff hd_rev rev_is_Nil_conv) simp_all
  then show ?thesis by (simp add: trim_by_def)
qed

lemma Trim_brackets:
  assumes "w \<noteq> []" and "list_all (\<lambda>c. c \<noteq> CHR ''['' \<and> c \<noteq> CHR '']'') w"
  shows "Trim (''['' @ w @ '']'') ''[]'' = w"
proof -
  let ?p = "\<lambda>c. c = CHR ''['' \<or> c = CHR '']''"
  have "\<not> ?p (hd w)" "\<not> ?p (hd (rev w))"
    using assms by (auto simp: list_all_iff hd_rev)
  then have "dropWhile ?p (w @ '']'') = w @ '']''" "dropWhile ?p (rev w) = rev w"
    using assms(1) by (simp_all add: dropWhile_eq_self_iff)
  then show ?thesis
    by (simp add: Trim_def trim_by_def)
qed

lemma Itoa_chars: "list_all (\<lambda>c. is_digit c \<or> c = CHR ''-'') (Itoa n)" and Itoa_not_Nil: "Itoa n \<noteq> []"
  using nat_digits_all nat_digits_ne by (auto simp: Itoa_def list_all_iff)

lemma digit_chars:
  "is_digit c \<or> c = CHR ''-'' \<Longrightarrow> \<not> is_space c \<and> c \<noteq> CHR ''['' \<and> c \<noteq> CHR '']''"
  by (auto simp: is_digit_def is_space_def)

lemma fixed_chars:
  "word_ok ''tcp:''" "word_ok ''(non-flash)''" "\<not> is_space CHR ''[''" "\<not> is_space CHR '']''" "\<not> is_space CHR '',''"
  "\<not> is_space CHR ''1''"
  by code_simp+

lemma parse_session_line_ok:
  assumes "session_ok s"
  shows "parse_session_line (session_line s) = Inr s"
proof -
  let ?ws = "[''tcp:'', ''['' @ Itoa (ses_ID s) @ '']'', ses_Portal s @ '',1'', ses_IQN s, ''(non-flash)'']"
  have "word_ok (''['' @ Itoa (ses_ID s) @ '']'')"
    using Itoa_chars [of "ses_ID s"] by (auto simp: word_ok_def fixed_chars list_all_iff dest!: digit_chars)
  moreover have "word_ok (ses_Portal s @ '',1'')" "word_ok (ses_IQN s)"
    using assms by (auto simp: session_ok_def word_ok_def fixed_chars)
  ultimately have "list_all word_ok ?ws"
    by (simp add: fixed_chars)
  then have "Fields (session_line s) = ?ws"
    unfolding session_line_def by (rule Fields_join)
  moreover have "Trim (''['' @ Itoa (ses_ID s) @ '']'') ''[]'' = Itoa (ses_ID s)"
    using Itoa_chars [of "ses_ID s"] Itoa_not_Nil by (intro Trim_brackets) (auto simp: list_all_iff dest!: digit_chars)
  moreover have "LastIndexByte (ses_Portal s @ '',1'') CHR '','' = int (length (ses_Portal s))"
    using LastIndexByte_append [of "CHR '',''" "''1''" "ses_Portal s"] by simp
  ultimately show ?thesis
    using assms by (simp add: parse_session_line_def Let_def Atoi_Itoa session_ok_def word_ok_def del: append.simps)
qed

lemma session_line_shape:
  "session_line s = ''tcp: ['' @ Itoa (ses_ID s) @ ''] '' @ ses_Portal s @ '',1 '' @ ses_IQN s @ '' (non-flash)''"
  by (simp add: session_line_def)

lemma session_line_chars:
  assumes "session_ok s"
  shows "session_line s \<noteq> []" "hd (session_line s) = CHR ''t''" "last (session_line s) = CHR '')''"
    "CHR 0x0A \<notin> set (session_line s)"
proof -
  have "is_space (CHR 0x0A)" "\<not> is_digit (CHR 0x0A)" by code_simp+
  then show "CHR 0x0A \<notin> set (session_line s)"
    using assms Itoa_chars [of "ses_ID s"]
    by (auto simp: session_line_shape session_ok_def word_ok_def list_all_iff)
qed (simp_all add: session_line_shape)

lemma hd_join_char: "w \<noteq> [] \<Longrightarrow> hd (join_char c (w # ws)) = hd w"
  by (cases ws) simp_all

lemma last_join_char: "list_all (\<lambda>w. w \<noteq> []) ws \<Longrightarrow> ws \<noteq> [] \<Longrightarrow> last (join_char c ws) = last (last ws)"
proof (induction c ws rule: join_char.induct)
  case (3 c w v ws)
  then have "join_char c (v # ws) \<noteq> []" by (cases ws) simp_all
  then show ?case using 3 by simp
qed simp_all

lemma parse_session_lines_ok: "list_all session_ok ss \<Longrightarrow> parse_session_lines (map session_line ss) = Inr ss"
  by (induction ss) (simp_all add: parse_session_line_ok)

text \<open>C38. The parser of the iSCSI session list reads back what \<^verbatim>\<open>iscsiadm\<close> prints: for every list of sessions
  whose portal and IQN are words, \<^verbatim>\<open>parseISCSISessions\<close> of the printed lines gives the sessions in order,
  with the portal group tag removed from the portal and the brackets from the session number.\<close>

theorem parseISCSISessions_roundtrip:
  assumes "list_all session_ok ss"
  shows "parseISCSISessions (join_char (CHR 0x0A) (map session_line ss)) = Inr ss"
proof (cases ss)
  case (Cons s rest)
  let ?out = "join_char (CHR 0x0A) (map session_line ss)"
  have lines: "list_all (\<lambda>w. w \<noteq> []) (map session_line ss)" "\<forall>w \<in> set (map session_line ss). CHR 0x0A \<notin> set w"
    using assms session_line_chars by (auto simp: list_all_iff)
  have "\<not> is_space (hd ?out)"
    using assms Cons session_line_chars(1,2) [of s] hd_join_char [of "session_line s"] by (simp add: is_space_def)
  moreover have "session_ok (last ss)"
    using assms Cons by (simp add: list_all_iff)
  then have "\<not> is_space (last ?out)"
    using lines(1) Cons session_line_chars(3) by (simp add: last_join_char last_map is_space_def del: join_char.simps list.map)
  moreover have "?out \<noteq> []"
    using assms Cons session_line_chars(1) [of s] by (cases rest) simp_all
  ultimately have "TrimSpace ?out = ?out" "?out \<noteq> []"
    by (simp_all add: TrimSpace_def trim_by_id)
  then show ?thesis
    using lines(2) Cons assms
    by (simp add: parseISCSISessions_def split_join_char parse_session_lines_ok Let_def del: join_char.simps list.map)
qed (simp add: parseISCSISessions_def TrimSpace_def trim_by_def)

definition two_sessions :: "iscsiSession list" where
  "two_sessions = [\<lparr>ses_ID = 1, ses_Portal = ''10.0.0.1:3260'', ses_IQN = ''iqn.2005-10.org.x:csi-tank-v1''\<rparr>,
                   \<lparr>ses_ID = 12, ses_Portal = ''[fd00::1]:3260'', ses_IQN = ''iqn.2005-10.org.x:csi-tank-v2''\<rparr>]"

theorem parseISCSISessions_roundtrip_witness:
  "parseISCSISessions (join_char (CHR 0x0A) (map session_line two_sessions)) = Inr two_sessions"
proof (rule parseISCSISessions_roundtrip)
  show "list_all session_ok two_sessions" by code_simp
qed

section \<open>Device numbers\<close>

text \<open>The encoding of a device number in \<^verbatim>\<open>st_rdev\<close>.\<close>

definition makedev :: "32 word \<Rightarrow> 32 word \<Rightarrow> 64 word" where
  "makedev major minor =
     (push_bit 32 (ucast major AND 0xfffff000) OR push_bit 8 (ucast major AND 0xfff)
      OR push_bit 12 (ucast minor AND 0xffffff00) OR (ucast minor AND 0xff))"

lemma word_masks:
  "(0xfff :: 64 word) = mask 12" "(0xff :: 64 word) = mask 8"
  "(0xfffff000 :: 64 word) = push_bit 12 (mask 20)" "(0xffffff00 :: 64 word) = push_bit 8 (mask 24)"
  by (simp_all add: mask_eq_exp_minus_1 push_bit_eq_mult)

lemma bit32_high: "32 \<le> n \<Longrightarrow> \<not> bit (w :: 32 word) n"
  using bit_imp_le_length [of w n] by auto

lemma dev_major_makedev: "dev_major (makedev major minor) = ucast major"
proof (rule bit_word_eqI)
  fix n assume "n < LENGTH(64)"
  then show "bit (dev_major (makedev major minor)) n = bit (ucast major :: 64 word) n"
    unfolding dev_major_def makedev_def word_masks
    by (cases "n < 12"; cases "n < 32") (auto simp: bit_simps bit32_high)
qed

lemma dev_minor_makedev: "dev_minor (makedev major minor) = ucast minor"
proof (rule bit_word_eqI)
  fix n assume "n < LENGTH(64)"
  then show "bit (dev_minor (makedev major minor)) n = bit (ucast minor :: 64 word) n"
    unfolding dev_minor_def makedev_def word_masks
    by (cases "n < 8"; cases "n < 32") (auto simp: bit_simps bit32_high)
qed

text \<open>The device number is decoded as the kernel encodes it: for every 32-bit major and minor number, the
  shifts and masks of \<^verbatim>\<open>mountedBlockDevicePath\<close> recover both from the 64-bit \<^verbatim>\<open>st_rdev\<close>, bit for bit.\<close>

theorem device_number_roundtrip:
  "dev_major (makedev major minor) = ucast major \<and> dev_minor (makedev major minor) = ucast minor"
  by (simp add: dev_major_makedev dev_minor_makedev)

end
