(* ===== verification/Query_Correct.thy ===== *)
theory Query_Correct
  imports Driver_Traffic
begin

text \<open>
  Properties of the operations that list and expand: following the tokens of \<^verbatim>\<open>ListSnapshots\<close> gives the whole listing, and
  \<^verbatim>\<open>ControllerExpandVolume\<close> never shrinks a volume.
\<close>

section \<open>Pages of snapshots\<close>

text \<open>What a client of the service does: ask for a page, and for the next one as long as there is a token.\<close>

fun all_pages :: "nat \<Rightarrow> 'w driver \<Rightarrow> ListSnapshotsRequest \<Rightarrow> ('w, csi_Snapshot list list option) prog" where
  "all_pages 0 d req = return None"
| "all_pages (Suc k) d req = do {
     r \<leftarrow> ListSnapshots d req;
     case r of
       Inl st \<Rightarrow> return None
     | Inr p \<Rightarrow>
         if lss_NextToken p = [] then return (Some [lss_Entries p])
         else do {
           rest \<leftarrow> all_pages k d (req\<lparr>lsr_StartingToken := lss_NextToken p\<rparr>);
           return (map_option (Cons (lss_Entries p)) rest) } }"

text \<open>An appliance whose answers do not change, and a clock that stands still: then the result of a program does not depend
  on the state.\<close>

definition steady :: "'w driver \<Rightarrow> (request \<Rightarrow> goerr + jval) \<Rightarrow> int \<Rightarrow> bool" where
  "steady d f now \<longleftrightarrow> (\<forall>w q. fst (d_client d w q) = f q) \<and> (\<forall>w. d_now d w = now)"

definition predictable :: "('s, 'a) state \<Rightarrow> bool" where
  "predictable m \<longleftrightarrow> (\<forall>s t. fst (run_state m s) = fst (run_state m t))"

lemma predictable_return: "predictable (return a)"
  by (simp add: predictable_def)

lemma predictable_bind: "predictable m \<Longrightarrow> (\<And>a. predictable (f a)) \<Longrightarrow> predictable (State_Monad.bind m f)"
  unfolding predictable_def by (simp add: split_beta) metis

lemma Call_steady:
  assumes "steady d f now"
  shows "fst (run_state (Call (d_client d) meth ps dec) s) = (case f (Request meth ps) of
      Inl e \<Rightarrow> Inl e | Inr v \<Rightarrow> (case dec v of None \<Rightarrow> Inl (Wrapf ''unmarshal result: '' JSONError) | Some x \<Rightarrow> Inr x))"
proof -
  obtain a w where a: "d_client d (world s) (Request meth ps) = (a, w)" by fastforce
  then have "f (Request meth ps) = a" using assms unfolding steady_def by (metis fst_conv)
  then show ?thesis using a by simp
qed

lemma predictable_Call: "steady d f now \<Longrightarrow> predictable (Call (d_client d) meth ps dec)"
  unfolding predictable_def by (simp only: Call_steady) blast

lemmas predictable_intros = predictable_return predictable_bind predictable_Call

text \<open>The listing that a page is cut from; \<open>None\<close> where the appliance does not list, which gives an empty answer.\<close>

definition full_listing :: "'w driver \<Rightarrow> ('w, (status + Snapshot list) option) prog" where
  "full_listing d = do {
     r \<leftarrow> ListAllSnapshots (d_client d);
     case r of
       Inl _ \<Rightarrow> return None
     | Inr snapshots \<Rightarrow>
         if d_detachedSnapshotParentDataset d \<noteq> [] then do {
           x \<leftarrow> listDetachedSnapshots d [];
           return (Some (case x of
               Inl e \<Rightarrow> Inl (statusf Internal ''failed to list detached snapshots: '' e)
             | Inr infos \<Rightarrow> Inr (snapshots @ map detached_as_snapshot infos))) }
         else return (Some (Inr snapshots)) }"

lemma predictable_full_listing: "steady d f now \<Longrightarrow> predictable (full_listing d)"
  unfolding full_listing_def ListAllSnapshots_def query_def listDetachedSnapshots_def ListDatasets_def
  by (intro predictable_intros) (auto intro!: predictable_intros split: sum.splits)

definition snapshot_entry :: "int \<Rightarrow> Snapshot \<Rightarrow> csi_Snapshot" where
  "snapshot_entry now snap = \<lparr>cs_SizeBytes = 0, cs_SnapshotId = snap_ID snap, cs_SourceVolumeId = snap_Dataset snap,
     cs_CreationTime = now, cs_ReadyToUse = True\<rparr>"

lemma list_entries_steady:
  "steady d f now \<Longrightarrow> run_state (list_entries d snap_Dataset snaps) s = (map (snapshot_entry now) snaps, s)"
  by (induction snaps) (simp_all add: ready_snapshot_def snapshot_entry_def steady_def)

lemma list_everything_steady:
  assumes "steady d f now"
  shows "fst (run_state (list_everything d req off) s) = (case fst (run_state (full_listing d) s) of
      None \<Rightarrow> Inr (entries_only [])
    | Some (Inl st) \<Rightarrow> Inl st
    | Some (Inr all) \<Rightarrow> (case paginate off (lsr_MaxEntries req) all of
        Inl st \<Rightarrow> Inl st
      | Inr (page, token) \<Rightarrow> Inr \<lparr>lss_Entries = map (snapshot_entry now) page, lss_NextToken = token\<rparr>))"
  by (auto simp: list_everything_def full_listing_def list_page_def if_err_def list_entries_steady [OF assms] split_beta
      split: sum.splits prod.splits)

lemma starting_offset_Itoa: "0 \<le> n \<Longrightarrow> n < 2 ^ 63 \<Longrightarrow> Itoa n \<noteq> [] \<and> starting_offset (Itoa n) = Some n"
proof -
  assume "0 \<le> n" "n < 2 ^ 63"
  moreover from this have "Atoi (Itoa n) = Some n" by (intro Atoi_Itoa) (simp add: in_int64_def)
  moreover have "Atoi [] = None" by (simp add: Atoi_def)
  ultimately show ?thesis by (auto simp: starting_offset_def)
qed

text \<open>One page: at most \<open>n\<close> entries, and a token exactly when entries are left.\<close>

lemma paginate_page:
  assumes "off \<le> length xs" "0 < n"
  shows "paginate (int off) n xs = Inr (take (nat n) (drop off xs),
    if int (length xs) - int off > n then Itoa (int off + n) else [])"
  using assms by (auto simp: paginate_def Let_def)

lemma all_pages_from:
  assumes "steady d f now" and list: "\<And>s. fst (run_state (full_listing d) s) = Some (Inr all)"
    and req: "lsr_SnapshotId req = []" "lsr_SourceVolumeId req = []" "0 < lsr_MaxEntries req"
    and "int (length all) < 2 ^ 63"
  shows "starting_offset (lsr_StartingToken req) = Some (int off) \<Longrightarrow> off \<le> length all \<Longrightarrow> length all - off < k \<Longrightarrow>
    \<exists>pages. fst (run_state (all_pages k d req) s) = Some pages \<and> concat pages = map (snapshot_entry now) (drop off all)
      \<and> (\<forall>page \<in> set pages. int (length page) \<le> lsr_MaxEntries req)"
  using req
proof (induction k arbitrary: off req s)
  case (Suc k)
  let ?max = "lsr_MaxEntries req"
  let ?page = "map (snapshot_entry now) (take (nat ?max) (drop off all))"
  let ?more = "int (length all) - int off > ?max"
  let ?token = "if ?more then Itoa (int off + ?max) else []"
  obtain t where run: "run_state (ListSnapshots d req) s = (Inr \<lparr>lss_Entries = ?page, lss_NextToken = ?token\<rparr>, t)"
  proof -
    have "fst (run_state (ListSnapshots d req) s) = Inr \<lparr>lss_Entries = ?page, lss_NextToken = ?token\<rparr>"
      using Suc.prems paginate_page [of off all ?max] list
      by (simp add: ListSnapshots_def list_everything_steady [OF assms(1)])
    then show ?thesis using that by (metis prod.collapse)
  qed
  have page: "int (length ?page) \<le> ?max" using Suc.prems by simp
  show ?case
  proof (cases ?more)
    case True
    let ?off = "off + nat ?max" and ?req = "req\<lparr>lsr_StartingToken := Itoa (int off + ?max)\<rparr>"
    have token: "Itoa (int off + ?max) \<noteq> []" "starting_offset (lsr_StartingToken ?req) = Some (int ?off)"
      using True assms(6) Suc.prems starting_offset_Itoa [of "int off + ?max"] by simp_all
    moreover have "?off \<le> length all" "length all - ?off < k" using True Suc.prems by linarith+
    ultimately obtain pages where "fst (run_state (all_pages k d ?req) t) = Some pages"
        "concat pages = map (snapshot_entry now) (drop ?off all)" "\<forall>page \<in> set pages. int (length page) \<le> ?max"
      using Suc.IH [of ?req ?off t] Suc.prems True by auto
    moreover have "?page @ map (snapshot_entry now) (drop ?off all) = map (snapshot_entry now) (drop off all)"
      by (metis append_take_drop_id drop_drop add.commute map_append)
    ultimately show ?thesis using run True page token(1)
      by (intro exI [of _ "?page # pages"]) (simp add: split_beta)
  next
    case False
    then have "take (nat ?max) (drop off all) = drop off all" by simp
    then show ?thesis using run False page by (intro exI [of _ "[?page]"]) simp
  qed
qed simp


definition three_snapshots :: "request \<Rightarrow> goerr + jval" where
  "three_snapshots q =
     (if Method q = ''pool.snapshot.query''
      then Inr (JArr (map (\<lambda>i. JObj [(''id'', JStr i), (''dataset'', JStr ''tank/v'')]) [''tank/v@a'', ''tank/v@b'', ''tank/v@c'']))
      else Inr (JArr []))"

definition list_request :: ListSnapshotsRequest where
  "list_request = \<lparr>lsr_MaxEntries = 2, lsr_StartingToken = [], lsr_SourceVolumeId = [], lsr_SnapshotId = []\<rparr>"

definition three_entries :: "csi_Snapshot list" where
  "three_entries = map (\<lambda>i. \<lparr>cs_SizeBytes = 0, cs_SnapshotId = i, cs_SourceVolumeId = ''tank/v'',
     cs_CreationTime = 1700000000, cs_ReadyToUse = True\<rparr>) [''tank/v@a'', ''tank/v@b'', ''tank/v@c'']"


section \<open>Expansion\<close>

text \<open>What an expansion to \<open>n\<close> bytes changes: the size of a volume, with its reservation if it has one, or the quota of a file system.\<close>

definition growth :: "VolumeInfo \<Rightarrow> int \<Rightarrow> DatasetUpdateOptions \<Rightarrow> bool" where
  "growth v n upd \<longleftrightarrow>
     (if isZVOLProtocol (vi_Protocol v)
      then \<exists>x \<in> {None, Some n}. upd = zero_DatasetUpdateOptions\<lparr>duo_Volsize := Some n, duo_RefReservation := x\<rparr>
      else upd = zero_DatasetUpdateOptions\<lparr>duo_RefQuota := Some n\<rparr>)"

definition expansion :: "VolumeInfo \<Rightarrow> int \<Rightarrow> exchange list \<Rightarrow> bool" where
  "expansion v n xs \<longleftrightarrow> list_all reads xs
     \<or> vi_CapacityBytes v < n \<and> (\<exists>rs upd a. list_all reads rs \<and> growth v n upd
         \<and> xs = rs @ [(Request ''pool.dataset.update'' [JStr (vi_DatasetPath v), json_DatasetUpdateOptions upd], a)])"

lemma yields_UpdateDataset:
  "yields (\<lambda>_ xs. \<exists>a. xs = [(Request ''pool.dataset.update'' [JStr path, json_DatasetUpdateOptions upd], a)]) (UpdateDataset c path upd)"
  unfolding UpdateDataset_def call_wrapped_def by (intro yields_intros) auto

lemma yields_if_errI:
  assumes "yields Q m" and "\<And>e xs. Q (Inl e) xs \<Longrightarrow> yields (\<lambda>b ys. R b (xs @ ys)) (h e)"
    and "\<And>x xs. Q (Inr x) xs \<Longrightarrow> yields (\<lambda>b ys. R b (xs @ ys)) (k x)"
  shows "yields R (if_err m h k)"
  by (rule yields_if_err, rule yields_weaken [OF assms(1)]) (use assms(2,3) in \<open>auto split: sum.splits\<close>)

lemma yields_expansion_updates:
  "yields (\<lambda>r xs. list_all reads xs \<and> (\<forall>upd. r = Inr upd \<longrightarrow> growth v n upd)) (expansion_updates d v n)"
proof -
  have "yields (\<lambda>_. list_all reads) (GetDataset (d_client d) (vi_DatasetPath v))"
    by (rule emits_single [OF single_GetDataset, unfolded emits_def]) (simp add: is_read_def HasSuffix_def)
  then show ?thesis
    unfolding expansion_updates_def
    by (auto intro!: yields_return yields_if_errI simp: growth_def)
qed

lemma yields_expand_to:
  "yields (\<lambda>r xs. expansion v n xs \<and> (\<forall>resp. r = Inr resp \<longrightarrow> n \<le> ces_CapacityBytes resp)) (expand_to d v n)"
proof (cases "n \<le> vi_CapacityBytes v")
  case True
  then show ?thesis by (auto simp: expand_to_def expansion_def intro: yields_return)
next
  case False
  have ends: "yields (\<lambda>r ys. (expansion v n (xs @ zs @ ys)) \<and> (\<forall>resp. r = Inr resp \<longrightarrow> n \<le> ces_CapacityBytes resp)) m"
    if "list_all reads xs" "growth v n upd"
      "\<exists>a. zs = [(Request ''pool.dataset.update'' [JStr (vi_DatasetPath v), json_DatasetUpdateOptions upd], a)]"
      "yields (\<lambda>r ys. ys = [] \<and> (\<forall>resp. r = Inr resp \<longrightarrow> n \<le> ces_CapacityBytes resp)) m" for xs zs upd m
    by (rule yields_weaken [OF that(4)]) (use that(1-3) False in \<open>auto simp: expansion_def\<close>)
  show ?thesis
    unfolding expand_to_def if_not_P [OF False]
    by (intro yields_if_errI [OF yields_expansion_updates] yields_if_errI [OF yields_UpdateDataset] ends)
      (auto intro!: yields_return yields_intros simp: expansion_def RecordProvisionedVolume_def with_metrics_def)
qed

lemma yields_deferred: "yields R m \<Longrightarrow> yields R (deferred_record protocol operation m)"
  unfolding deferred_record_def with_metrics_def
  by (rule yields_bind, erule yields_weaken) (auto intro!: yields_intros)

lemma expansion_after_reads: "list_all reads rs \<Longrightarrow> expansion v n xs \<Longrightarrow> expansion v n (rs @ xs)"
  unfolding expansion_def by (auto intro: exI [of _ "rs @ _"]) (metis append_assoc list_all_append)

lemma reads_GetVolumeInfo: "emits reads (GetVolumeInfo d volumeID)"
  by (rule uses_emits_method [OF uses_GetVolumeInfo]) (simp add: is_read_def HasSuffix_def)

lemma clamp_size_ge: "n \<le> clamp_size n"
  by (simp add: clamp_size_def)

text \<open>C16. \<^verbatim>\<open>ControllerExpandVolume\<close> only reads, or ends with one update of the dataset of the volume to a size that is larger than the
  capacity the appliance reports; the capacity that it answers is at least the required one.\<close>

theorem ControllerExpandVolume_grows:
  "let required = (case cer_CapacityRange req of None \<Rightarrow> 0 | Some cr \<Rightarrow> cr_RequiredBytes cr);
       xs = exchanges (ControllerExpandVolume d req) s in
   (list_all reads xs \<or> (\<exists>v. fst (run_state (GetVolumeInfo d (cer_VolumeId req)) s) = Inr v
      \<and> expansion v (clamp_size required) xs))
   \<and> (case fst (run_state (ControllerExpandVolume d req) s) of
        Inl _ \<Rightarrow> True | Inr resp \<Rightarrow> required \<noteq> 0 \<and> required \<le> ces_CapacityBytes resp)"
proof -
  define required where "required = (case cer_CapacityRange req of None \<Rightarrow> 0 | Some cr \<Rightarrow> cr_RequiredBytes cr)"
  obtain r u where get: "run_state (GetVolumeInfo d (cer_VolumeId req)) s = (r, u)" by fastforce
  let ?rs = "exchanges (GetVolumeInfo d (cer_VolumeId req)) s"
  have rs: "list_all reads ?rs" by (rule emitsD [OF reads_GetVolumeInfo])
  have log: "wire_log u = wire_log s @ ?rs"
    using yields_log [OF reads_GetVolumeInfo [unfolded emits_def], of d "cer_VolumeId req" s] get by simp
  show ?thesis
  proof (cases "cer_VolumeId req = [] \<or> required = 0 \<or> isl r")
    case True
    then show ?thesis using get log rs
      by (auto simp: ControllerExpandVolume_def required_def [symmetric] Let_def if_err_def exchanges_def isl_def)
  next
    case False
    then obtain v where v: "r = Inr v" by (cases r) auto
    let ?m = "deferred_record (vi_Protocol v) ''expand'' (expand_to d v (clamp_size required))"
    have run: "run_state (ControllerExpandVolume d req) s = run_state ?m u"
      using False get v by (simp add: ControllerExpandVolume_def required_def [symmetric] Let_def if_err_def)
    note m = yields_deferred [OF yields_expand_to [of v "clamp_size required" d], of "vi_Protocol v" "''expand''"]
    have "exchanges (ControllerExpandVolume d req) s = ?rs @ exchanges ?m u"
      using yields_log [OF m, of u] log
      by (simp only: exchanges_def [of "ControllerExpandVolume d req"] run append_assoc) simp
    then have "expansion v (clamp_size required) (exchanges (ControllerExpandVolume d req) s)"
      using expansion_after_reads [OF rs] yieldsD [OF m, of u] by simp
    moreover have "\<forall>resp. fst (run_state ?m u) = Inr resp \<longrightarrow> clamp_size required \<le> ces_CapacityBytes resp"
      using yieldsD [OF m, of u] by simp
    ultimately show ?thesis
      using False get v clamp_size_ge [of required]
      unfolding run required_def [symmetric] Let_def by (auto split: sum.splits)
  qed
qed

end
