(* ===== verification/Create_Export.thy ===== *)
theory Create_Export
  imports Driver_Traffic
begin

text \<open>
  What a successful creation has built. \<open>answered q dec y xs\<close> says that the log \<open>xs\<close> holds the request
  \<open>q\<close> with an answer that decodes to \<open>y\<close>. For each protocol one predicate describes the complete
  export of a volume (\<open>iscsi_exported\<close>, \<open>nvmeof_exported\<close>, \<open>nfs_exported\<close>), and the creation is shown to
  succeed only when it holds of the log; so a volume is never answered half made, and never with
  weaker access control than its parameters ask for.
\<close>

section \<open>Successful calls\<close>

definition answered :: "request \<Rightarrow> (jval \<Rightarrow> 'a option) \<Rightarrow> 'a \<Rightarrow> exchange list \<Rightarrow> bool" where
  "answered q dec y xs \<longleftrightarrow> (\<exists>v. (q, Inr v) \<in> set xs \<and> dec v = Some y)"

lemma answered_append [simp]: "answered q dec y (xs @ ys) \<longleftrightarrow> answered q dec y xs \<or> answered q dec y ys"
  by (auto simp: answered_def)

lemma answered_mono: "answered q dec y xs \<Longrightarrow> set xs \<subseteq> set zs \<Longrightarrow> answered q dec y zs"
  by (auto simp: answered_def)

lemma succeeds_call: "succeeds (answered (Request meth ps) dec) (call_wrapped c meth ps dec pre)"
  by (rule succeeds_weaken [OF succeeds_call_wrapped]) (auto simp: answered_def)

lemma succeeds_CreateDataset:
  "succeeds (\<lambda>ds xs. \<exists>kvs. answered (Request ''pool.dataset.create'' [MarshalJSON options]) dec_map kvs xs
       \<and> ds = parseDatasetResponse kvs)
     (CreateDataset c options)"
  unfolding CreateDataset_def succeeds_def answered_def
  by (intro yields_intros) auto

text \<open>A branch that ends in an error.\<close>

definition failing :: "(('w, 'z) wire_scheme, 'e + 'a) state \<Rightarrow> bool" where
  "failing m \<longleftrightarrow> yields (\<lambda>r _. isl r) m"

lemma failing_return: "failing (return (Inl e))"
  unfolding failing_def by (rule yields_return) simp

lemma failing_bind: "emits (\<lambda>_. True) m \<Longrightarrow> (\<And>a. failing (f a)) \<Longrightarrow> failing (State_Monad.bind m f)"
  unfolding failing_def emits_def by (rule yields_bind, erule yields_weaken) simp

lemma succeeds_failing: "failing m \<Longrightarrow> succeeds S m"
  unfolding failing_def succeeds_def by (erule yields_weaken) auto

lemma failing_if: "(b \<Longrightarrow> failing m) \<Longrightarrow> (\<not> b \<Longrightarrow> failing n) \<Longrightarrow> failing (if b then m else n)"
  by simp

text \<open>The straight line of a creation: each step adds what it was answered to the facts \<open>K\<close> known of
  the log so far; the facts survive later exchanges.\<close>

lemma succeeds_step:
  assumes "succeeds T m" and "emits (\<lambda>_. True) m" and "\<And>e. failing (h e)"
    and "\<And>x xs. T x xs \<Longrightarrow> succeeds (\<lambda>y ys. S y (xs @ ys)) (k x)"
  shows "succeeds S (if_err m h k)"
  using assms(1,2) by (rule succeeds_if_err) (auto intro: succeeds_failing assms(3,4))


text \<open>The sub-programs send and keep what they did before; what is needed here is that they are programs
  over the wire.\<close>

abbreviation sends :: "(('w, 'z) wire_scheme, 'a) state \<Rightarrow> bool" where
  "sends m \<equiv> emits (\<lambda>_. True) m"

lemma sends_programs:
  "sends (ISCSIPortalID d)" "sends (NVMeOFPortID d)" "sends (ResolveISCSIIQNBase d parameters)"
  "sends (setup_chap d path parameters secrets)" "sends (setup_initiators d volumeID path n parameters)"
  "sends (createSnapshotTaskFromParameters d path parameters)" "sends (ensureNVMeHost d parameters secrets)"
  "sends (cleanup_dataset d path)" "sends (undo_auth d n)" "sends (undo_initiator d n)" "sends (undo_target d n)"
  "sends (undo_extent d n)" "sends (undo_subsys d n)" "sends (undo_namespace d n)" "sends (undo_port_link d n)"
  by (intro traffic [THEN uses_emits_method]; simp)+

lemma sends_calls:
  "sends (CreateDataset c o1)" "sends (CreateISCSIAuth c o2)" "sends (CreateISCSIInitiator c o3)"
  "sends (CreateISCSITargetWithAuth c name alias portal tag ini mutual)" "sends (CreateISCSIExtent c name disk bs)"
  "sends (CreateISCSITargetExtent c t x l)" "sends (GetNextISCSIAuthTag c)" "sends (CreateNVMeSubsystem c name allow)"
  "sends (CreateNVMeNamespace c sid ty dev)" "sends (CreateNVMePortSubsys c pid sid)"
  "sends (CreateNVMeHostSubsys c hid sid)" "sends (CreateNFSShare c share)"
  by (intro emits_intros; simp)+

lemmas failing_steps = failing_return failing_bind sends_programs

lemma succeeds_any: "succeeds (\<lambda>_ _. True) (m :: (('w, 'z) wire_scheme, 'e + 'a) state)" if "sends m"
  using that unfolding succeeds_def emits_def by (rule yields_weaken) simp

section \<open>iSCSI\<close>

definition auth_request :: "int \<Rightarrow> smap \<Rightarrow> smap \<Rightarrow> request" where
  "auth_request tag parameters secrets = Request ''iscsi.auth.create'' [json_ISCSIAuthCreateOptions
     \<lparr>aco_Tag = tag, aco_User = get_str parameters ''iscsi.chapUser'',
      aco_Secret = secretOrParam secrets parameters ''iscsi.chapSecret'',
      aco_PeerUser = get_str parameters ''iscsi.chapPeerUser'',
      aco_PeerSecret = (if get_str parameters ''iscsi.chapPeerUser'' \<noteq> []
                        then secretOrParam secrets parameters ''iscsi.chapPeerSecret'' else []),
      aco_DiscoveryAuth = []\<rparr>]"

text \<open>The credentials a target is created with: none when no CHAP user is given, and otherwise the tag
  of credentials that the appliance has just accepted.\<close>

definition chap_of :: "smap \<Rightarrow> smap \<Rightarrow> chap_setup \<Rightarrow> exchange list \<Rightarrow> bool" where
  "chap_of parameters secrets chap xs \<longleftrightarrow>
     (if get_str parameters ''iscsi.chapUser'' = [] then
        ch_authID chap = 0 \<and> ch_authTag chap = 0 \<and> \<not> ch_mutual chap \<and> ch_parameters chap = parameters
      else secretOrParam secrets parameters ''iscsi.chapSecret'' \<noteq> []
        \<and> (\<exists>tag a. answered (auth_request tag parameters secrets) dec_ISCSIAuth a xs
              \<and> ch_authID chap = auth_ID a \<and> ch_authTag chap = auth_Tag a)
        \<and> (ch_mutual chap \<longleftrightarrow> get_str parameters ''iscsi.chapPeerUser'' \<noteq> [])
        \<and> ch_parameters chap = bridgeISCSICHAPParams parameters)"

lemma chap_of_mono: "chap_of parameters secrets chap xs \<Longrightarrow> set xs \<subseteq> set zs \<Longrightarrow> chap_of parameters secrets chap zs"
  unfolding chap_of_def by (auto intro: answered_mono split: if_splits)

lemma succeeds_if: "(b \<Longrightarrow> succeeds S m) \<Longrightarrow> (\<not> b \<Longrightarrow> succeeds S n) \<Longrightarrow> succeeds S (if b then m else n)"
  by simp

lemma succeeds_auth:
  "succeeds (answered (auth_request tag parameters secrets) dec_ISCSIAuth) (CreateISCSIAuth c
     \<lparr>aco_Tag = tag, aco_User = get_str parameters ''iscsi.chapUser'',
      aco_Secret = secretOrParam secrets parameters ''iscsi.chapSecret'',
      aco_PeerUser = get_str parameters ''iscsi.chapPeerUser'',
      aco_PeerSecret = (if get_str parameters ''iscsi.chapPeerUser'' \<noteq> []
                        then secretOrParam secrets parameters ''iscsi.chapPeerSecret'' else []),
      aco_DiscoveryAuth = []\<rparr>)"
  unfolding auth_request_def CreateISCSIAuth_def by (rule succeeds_call)

lemma succeeds_cleanup: "succeeds S (do { cleanup_dataset d path; return (Inl e) })"
  by (intro succeeds_failing failing_steps)

lemma succeeds_setup_chap: "succeeds (chap_of parameters secrets) (setup_chap d path parameters secrets)"
  unfolding setup_chap_def Let_def
  by (intro succeeds_if succeeds_cleanup succeeds_Inr failing_steps
      succeeds_step [OF succeeds_any [OF sends_calls(7)] sends_calls(7)] succeeds_step [OF succeeds_auth sends_calls(2)])
    (auto simp: chap_of_def)

definition initiator_request :: "string \<Rightarrow> smap \<Rightarrow> request" where
  "initiator_request volumeID parameters = Request ''iscsi.initiator.create'' [json_ISCSIInitiatorCreateOptions
     \<lparr>ico_Initiators = split_char CHR '','' (get_str parameters ''iscsi.initiators''),
      ico_Comment = ''CSI volume '' @ volumeID\<rparr>]"

definition initiators_of :: "string \<Rightarrow> smap \<Rightarrow> int \<Rightarrow> exchange list \<Rightarrow> bool" where
  "initiators_of volumeID parameters n xs \<longleftrightarrow>
     (if get_str parameters ''iscsi.initiators'' = [] then n = 0
      else \<exists>i. answered (initiator_request volumeID parameters) dec_ISCSIInitiator i xs \<and> n = ini_ID i)"

lemma initiators_of_mono:
  "initiators_of volumeID parameters n xs \<Longrightarrow> set xs \<subseteq> set zs \<Longrightarrow> initiators_of volumeID parameters n zs"
  unfolding initiators_of_def by (auto intro: answered_mono split: if_splits)

lemma succeeds_initiator:
  "succeeds (answered (initiator_request volumeID parameters) dec_ISCSIInitiator) (CreateISCSIInitiator c
     \<lparr>ico_Initiators = split_char CHR '','' (get_str parameters ''iscsi.initiators''),
      ico_Comment = ''CSI volume '' @ volumeID\<rparr>)"
  unfolding initiator_request_def CreateISCSIInitiator_def by (rule succeeds_call)

lemma succeeds_setup_initiators:
  "succeeds (initiators_of volumeID parameters) (setup_initiators d volumeID path n parameters)"
  unfolding setup_initiators_def Let_def
  by (intro succeeds_if succeeds_Inr failing_steps succeeds_step [OF succeeds_initiator sends_calls(3)])
    (auto simp: initiators_of_def)

text \<open>A volume is exported over iSCSI when the ZVOL, the target, the extent on that ZVOL and their
  association at LUN 0 were all created, in one chain of identifiers.\<close>

definition target_request :: "string \<Rightarrow> int \<Rightarrow> int \<Rightarrow> int \<Rightarrow> bool \<Rightarrow> request" where
  "target_request volumeID portalID tag ini mutual = Request ''iscsi.target.create'' [json_ISCSITargetCreateOptions
     \<lparr>tco_Name = makeISCSITargetSuffix volumeID, tco_Alias = ''CSI volume '' @ volumeID, tco_Mode = ''ISCSI'',
      tco_Groups = [target_group portalID tag ini mutual]\<rparr>]"

definition extent_request :: "string \<Rightarrow> string \<Rightarrow> int \<Rightarrow> request" where
  "extent_request volumeID path blocksize = Request ''iscsi.extent.create'' [json_ISCSIExtentCreateOptions
     \<lparr>eco_Name = makeISCSIExtentName volumeID, eco_Type = ''DISK'', eco_Disk = ''zvol/'' @ path,
      eco_BlockSize = blocksize, eco_Enabled = True\<rparr>]"

definition association_request :: "int \<Rightarrow> int \<Rightarrow> request" where
  "association_request targetID extentID = Request ''iscsi.targetextent.create''
     [json_ISCSITargetExtentCreateOptions \<lparr>teo_Target = targetID, teo_Extent = extentID, teo_LunID = 0\<rparr>]"

definition iscsi_exported :: "string \<Rightarrow> string \<Rightarrow> chap_setup \<Rightarrow> int \<Rightarrow> VolumeInfo \<Rightarrow> exchange list \<Rightarrow> bool" where
  "iscsi_exported volumeID path chap ini v xs \<longleftrightarrow>
     (\<exists>portalID t x te.
        answered (target_request volumeID portalID (ch_authTag chap) ini (ch_mutual chap)) dec_ISCSITarget t xs
      \<and> answered (extent_request volumeID path (iscsi_blocksize (ch_parameters chap))) dec_ISCSIExtent x xs
      \<and> answered (association_request (tgt_ID t) (ext_ID x)) dec_ISCSITargetExtent te xs
      \<and> vi_ISCSITargetID v = tgt_ID t \<and> vi_ISCSIExtentID v = ext_ID x
      \<and> (\<exists>base. vi_TargetIQN v = base @ '':'' @ tgt_Name t))
   \<and> vi_ID v = volumeID \<and> vi_DatasetPath v = path \<and> vi_Protocol v = ProtocolISCSI \<and> vi_LUN v = 0
   \<and> vi_ISCSIAuthID v = ch_authID chap \<and> vi_ISCSIInitiatorID v = ini
   \<and> get_str (vi_VolumeContext v) PublishContextTargetIQN = vi_TargetIQN v
   \<and> get_str (vi_VolumeContext v) PublishContextLUN = Itoa (vi_LUN v)"

definition zvol_created :: "'w driver \<Rightarrow> string \<Rightarrow> int \<Rightarrow> smap \<Rightarrow> smap \<Rightarrow> exchange list \<Rightarrow> bool" where
  "zvol_created d path capacityBytes parameters secrets xs \<longleftrightarrow>
     (\<exists>opts kvs. buildZVOLCreateOptions d path capacityBytes parameters secrets = Inr opts
        \<and> answered (Request ''pool.dataset.create'' [MarshalJSON opts]) dec_map kvs xs)"

lemma succeeds_iscsi_calls:
  "succeeds (answered (target_request volumeID portalID tag ini mutual) dec_ISCSITarget)
     (CreateISCSITargetWithAuth c (makeISCSITargetSuffix volumeID) (''CSI volume '' @ volumeID) portalID tag ini mutual)"
  "succeeds (answered (extent_request volumeID path bs) dec_ISCSIExtent)
     (CreateISCSIExtent c (makeISCSIExtentName volumeID) (''zvol/'' @ path) bs)"
  "succeeds (answered (association_request t x) dec_ISCSITargetExtent) (CreateISCSITargetExtent c t x 0)"
  unfolding target_request_def extent_request_def association_request_def
    CreateISCSITargetWithAuth_def CreateISCSIExtent_def CreateISCSITargetExtent_def
  by (rule succeeds_call)+

lemma succeeds_case_sum:
  "(\<And>e. r = Inl e \<Longrightarrow> succeeds S (h e)) \<Longrightarrow> (\<And>y. r = Inr y \<Longrightarrow> succeeds S (k y)) \<Longrightarrow> succeeds S (case r of Inl e \<Rightarrow> h e | Inr y \<Rightarrow> k y)"
  by (cases r) simp_all

lemma succeeds_Let: "succeeds S (f x) \<Longrightarrow> succeeds S (Let x f)"
  by simp

lemma Itoa_0: "Itoa 0 = ''0''"
  by code_simp

lemma iscsi_chain:
  assumes "buildZVOLCreateOptions d path n parameters secrets = Inr opts"
    and "\<exists>kvs. answered (Request ''pool.dataset.create'' [MarshalJSON opts]) dec_map kvs xs1 \<and> ds = parseDatasetResponse kvs"
    and "chap_of parameters secrets chap xs2" and "initiators_of volumeID (ch_parameters chap) ini xs3"
    and "answered (target_request volumeID portalID (ch_authTag chap) ini (ch_mutual chap)) dec_ISCSITarget t xs4"
    and "answered (extent_request volumeID path (iscsi_blocksize (ch_parameters chap))) dec_ISCSIExtent x xs5"
    and "answered (association_request (tgt_ID t) (ext_ID x)) dec_ISCSITargetExtent te xs6"
    and "set xs1 \<union> set xs2 \<union> set xs3 \<union> set xs4 \<union> set xs5 \<union> set xs6 \<subseteq> set zs"
  shows "\<exists>ch i. zvol_created d path n parameters secrets zs \<and> chap_of parameters secrets ch zs
       \<and> initiators_of volumeID (ch_parameters ch) i zs \<and> iscsi_exported volumeID path ch i (zero_VolumeInfo
                \<lparr>vi_ID := volumeID, vi_Name := volumeID, vi_CapacityBytes := n, vi_DatasetPath := path,
                   vi_PoolName := pool, vi_Protocol := ProtocolISCSI,
                   vi_TargetIQN := base @ '':'' @ tgt_Name t, vi_TargetPortal := portal, vi_LUN := 0,
                   vi_ISCSITargetID := tgt_ID t, vi_ISCSIExtentID := ext_ID x,
                   vi_ISCSIAuthID := ch_authID chap, vi_ISCSIInitiatorID := ini,
                   vi_VolumeContext := iscsi_context d (base @ '':'' @ tgt_Name t) ''0'' (ch_parameters chap)\<rparr>) zs"
proof (intro exI conjI)
  show "zvol_created d path n parameters secrets zs"
    using assms(1,2,8) by (auto simp: zvol_created_def intro: answered_mono)
  show "chap_of parameters secrets chap zs"
    using assms(3) by (rule chap_of_mono) (use assms(8) in auto)
  show "initiators_of volumeID (ch_parameters chap) ini zs"
    using assms(4) by (rule initiators_of_mono) (use assms(8) in auto)
  have "answered (target_request volumeID portalID (ch_authTag chap) ini (ch_mutual chap)) dec_ISCSITarget t zs"
    "answered (extent_request volumeID path (iscsi_blocksize (ch_parameters chap))) dec_ISCSIExtent x zs"
    "answered (association_request (tgt_ID t) (ext_ID x)) dec_ISCSITargetExtent te zs"
    using assms(5-8) by (auto intro: answered_mono)
  then show "iscsi_exported volumeID path chap ini (zero_VolumeInfo
      \<lparr>vi_ID := volumeID, vi_Name := volumeID, vi_CapacityBytes := n, vi_DatasetPath := path,
       vi_PoolName := pool, vi_Protocol := ProtocolISCSI,
       vi_TargetIQN := base @ '':'' @ tgt_Name t, vi_TargetPortal := portal, vi_LUN := 0,
       vi_ISCSITargetID := tgt_ID t, vi_ISCSIExtentID := ext_ID x,
       vi_ISCSIAuthID := ch_authID chap, vi_ISCSIInitiatorID := ini,
       vi_VolumeContext := iscsi_context d (base @ '':'' @ tgt_Name t) ''0'' (ch_parameters chap)\<rparr>) zs"
    unfolding iscsi_exported_def iscsi_context_def
    by (auto simp: get_str_def Itoa_0)
qed

lemma succeeds_createISCSIVolume:
  "succeeds (\<lambda>v xs. \<exists>chap ini. zvol_created d path n parameters secrets xs \<and> chap_of parameters secrets chap xs
       \<and> initiators_of volumeID (ch_parameters chap) ini xs \<and> iscsi_exported volumeID path chap ini v xs)
     (createISCSIVolume d volumeID path n parameters secrets)"
  unfolding createISCSIVolume_def
  apply (intro succeeds_case_sum succeeds_Let succeeds_Inl succeeds_Inr failing_steps
      succeeds_step [OF succeeds_any [OF sends_programs(1)] sends_programs(1)]
      succeeds_step [OF succeeds_CreateDataset sends_calls(1)]
      succeeds_step [OF succeeds_setup_chap sends_programs(4)]
      succeeds_step [OF succeeds_setup_initiators sends_programs(5)]
      succeeds_skip [OF sends_programs(3)] succeeds_skip [OF sends_programs(6)]
      succeeds_step [OF succeeds_iscsi_calls(1) sends_calls(4)]
      succeeds_step [OF succeeds_iscsi_calls(2) sends_calls(5)]
      succeeds_step [OF succeeds_iscsi_calls(3) sends_calls(6)])
  by (rule iscsi_chain, assumption+) auto
section \<open>NVMe-oF\<close>

definition host_link_request :: "int \<Rightarrow> int \<Rightarrow> request" where
  "host_link_request hostID subsysID = Request ''nvmet.host_subsys.create''
     [json_NVMeHostSubsysCreateOptions \<lparr>hsco_HostID = hostID, hsco_SubsysID = subsysID\<rparr>]"

text \<open>Without a host NQN no host is linked; with one, the link was created.\<close>

definition host_of :: "smap \<Rightarrow> int \<Rightarrow> int \<times> int \<Rightarrow> exchange list \<Rightarrow> bool" where
  "host_of parameters subsysID host xs \<longleftrightarrow>
     (if get_str parameters ''nvmeof.hostNQN'' = [] then host = (0, 0)
      else \<exists>hs. answered (host_link_request (fst host) subsysID) dec_NVMeHostSubsys hs xs \<and> snd host = hs_ID hs)"

lemma host_of_mono: "host_of parameters n host xs \<Longrightarrow> set xs \<subseteq> set zs \<Longrightarrow> host_of parameters n host zs"
  unfolding host_of_def by (auto intro: answered_mono split: if_splits)

lemma succeeds_host_link:
  "succeeds (answered (host_link_request h n) dec_NVMeHostSubsys) (CreateNVMeHostSubsys c h n)"
  unfolding host_link_request_def CreateNVMeHostSubsys_def by (rule succeeds_call)

lemma sends_authorize_host: "sends undo \<Longrightarrow> sends (authorize_host d parameters secrets n undo wrap)"
  by (rule emits_authorize_host) simp_all

lemma succeeds_authorize_host:
  assumes "sends undo"
  shows "succeeds (host_of parameters n) (authorize_host d parameters secrets n undo wrap)"
  unfolding authorize_host_def
  by (intro succeeds_if succeeds_Inr failing_steps assms
      succeeds_step [OF succeeds_any [OF sends_programs(7)] sends_programs(7)]
      succeeds_step [OF succeeds_host_link sends_calls(11)]) (auto simp: host_of_def)

definition subsys_request :: "string \<Rightarrow> bool \<Rightarrow> request" where
  "subsys_request volumeID open_to_all = Request ''nvmet.subsys.create'' [json_NVMeSubsysCreateOptions
     \<lparr>subco_Name = makeNVMeSubsysName volumeID, subco_AllowAnyHost = open_to_all\<rparr>]"

definition namespace_request :: "int \<Rightarrow> string \<Rightarrow> request" where
  "namespace_request subsysID path = Request ''nvmet.namespace.create'' [json_NVMeNamespaceCreateOptions
     \<lparr>nsco_SubsysID = subsysID, nsco_DeviceType = NVMeDeviceTypeZVOL, nsco_DevicePath = ''zvol/'' @ path,
      nsco_Enabled = True\<rparr>]"

definition port_link_request :: "int \<Rightarrow> int \<Rightarrow> request" where
  "port_link_request portID subsysID = Request ''nvmet.port_subsys.create''
     [json_NVMePortSubsysCreateOptions \<lparr>psco_PortID = portID, psco_SubsysID = subsysID\<rparr>]"

lemma succeeds_nvme_calls:
  "succeeds (answered (subsys_request volumeID b) dec_NVMeSubsystem) (CreateNVMeSubsystem c (makeNVMeSubsysName volumeID) b)"
  "succeeds (answered (namespace_request n path) dec_NVMeNamespace)
     (CreateNVMeNamespace c n NVMeDeviceTypeZVOL (''zvol/'' @ path))"
  "succeeds (answered (port_link_request p n) dec_NVMePortSubsys) (CreateNVMePortSubsys c p n)"
  unfolding subsys_request_def namespace_request_def port_link_request_def
    CreateNVMeSubsystem_def CreateNVMeNamespace_def CreateNVMePortSubsys_def
  by (rule succeeds_call)+

text \<open>The chain of an NVMe-oF volume; the subsystem is open to every host exactly when no host NQN is
  configured.\<close>

definition nvmeof_exported :: "string \<Rightarrow> string \<Rightarrow> int \<Rightarrow> smap \<Rightarrow> VolumeInfo \<Rightarrow> exchange list \<Rightarrow> bool" where
  "nvmeof_exported volumeID path n parameters v xs \<longleftrightarrow>
     (\<exists>portID sub ns link host.
        answered (subsys_request volumeID (get_str parameters ''nvmeof.hostNQN'' = [])) dec_NVMeSubsystem sub xs
      \<and> answered (namespace_request (sub_ID sub) path) dec_NVMeNamespace ns xs
      \<and> answered (port_link_request portID (sub_ID sub)) dec_NVMePortSubsys link xs
      \<and> host_of parameters (sub_ID sub) host xs
      \<and> v = nvmeof_volume volumeID path n parameters portID sub ns host)"

lemma nvmeof_chain:
  assumes "buildZVOLCreateOptions d path n parameters secrets = Inr opts"
    and "\<exists>kvs. answered (Request ''pool.dataset.create'' [MarshalJSON opts]) dec_map kvs xs1 \<and> ds = parseDatasetResponse kvs"
    and "answered (subsys_request volumeID (get_str parameters ''nvmeof.hostNQN'' = [])) dec_NVMeSubsystem sub xs2"
    and "answered (namespace_request (sub_ID sub) path) dec_NVMeNamespace ns xs3"
    and "answered (port_link_request portID (sub_ID sub)) dec_NVMePortSubsys link xs4"
    and "host_of parameters (sub_ID sub) host xs5"
    and zs: "set xs1 \<union> set xs2 \<union> set xs3 \<union> set xs4 \<union> set xs5 \<subseteq> set zs"
  shows "zvol_created d path n parameters secrets zs \<and>
    nvmeof_exported volumeID path n parameters (nvmeof_volume volumeID path n parameters portID sub ns host) zs"
proof
  show "zvol_created d path n parameters secrets zs"
    using assms(1,2) zs by (auto simp: zvol_created_def intro: answered_mono)
  have "answered (subsys_request volumeID (get_str parameters ''nvmeof.hostNQN'' = [])) dec_NVMeSubsystem sub zs"
    "answered (namespace_request (sub_ID sub) path) dec_NVMeNamespace ns zs"
    "answered (port_link_request portID (sub_ID sub)) dec_NVMePortSubsys link zs"
    "host_of parameters (sub_ID sub) host zs"
    using assms(3-6) zs by (auto intro: answered_mono host_of_mono)
  then show "nvmeof_exported volumeID path n parameters (nvmeof_volume volumeID path n parameters portID sub ns host) zs"
    unfolding nvmeof_exported_def by blast
qed

lemma succeeds_createNVMeOFVolume:
  "succeeds (\<lambda>v xs. zvol_created d path n parameters secrets xs \<and> nvmeof_exported volumeID path n parameters v xs)
     (createNVMeOFVolume d volumeID path n parameters secrets)"
  unfolding createNVMeOFVolume_def
  apply (intro succeeds_case_sum succeeds_Inl succeeds_Inr failing_steps
      succeeds_step [OF succeeds_any [OF sends_programs(2)] sends_programs(2)]
      succeeds_step [OF succeeds_CreateDataset sends_calls(1)]
      succeeds_step [OF succeeds_nvme_calls(1) sends_calls(8)]
      succeeds_step [OF succeeds_nvme_calls(2) sends_calls(9)]
      succeeds_step [OF succeeds_nvme_calls(3) sends_calls(10)]
      succeeds_step [OF succeeds_authorize_host sends_authorize_host]
      emits_bind succeeds_skip [OF sends_programs(6)])
  by (rule nvmeof_chain, assumption+) auto

section \<open>NFS\<close>

definition share_request :: "string \<Rightarrow> string \<Rightarrow> smap \<Rightarrow> request" where
  "share_request volumeID mountpoint parameters = Request ''sharing.nfs.create'' [json_NFSShareCreateOptions
     (applyNFSShareParameters (new_share mountpoint (''CSI volume '' @ volumeID)) parameters)]"

definition nfs_exported :: "'w driver \<Rightarrow> string \<Rightarrow> string \<Rightarrow> int \<Rightarrow> smap \<Rightarrow> smap \<Rightarrow> VolumeInfo \<Rightarrow> exchange list \<Rightarrow> bool" where
  "nfs_exported d volumeID path n parameters secrets v xs \<longleftrightarrow>
     (\<exists>opts kvs share. nfs_dataset_options d path n parameters secrets = Inr opts
        \<and> answered (Request ''pool.dataset.create'' [MarshalJSON opts]) dec_map kvs xs
        \<and> answered (share_request volumeID (vi_NFSPath v) parameters) dec_NFSShare share xs
        \<and> vi_NFSPath v = (if ds_Mountpoint (parseDatasetResponse kvs) = [] then Join2 ''/mnt'' path
                          else ds_Mountpoint (parseDatasetResponse kvs))
        \<and> vi_NFSShareID v = nfs_ID share)
   \<and> vi_ID v = volumeID \<and> vi_DatasetPath v = path \<and> vi_Protocol v = ProtocolNFS \<and> vi_CapacityBytes v = n
   \<and> get_str (vi_VolumeContext v) PublishContextNFSPath = vi_NFSPath v"

lemma nfs_chain:
  assumes "nfs_dataset_options d path n parameters secrets = Inr opts"
    and "\<exists>kvs. answered (Request ''pool.dataset.create'' [MarshalJSON opts]) dec_map kvs xs1 \<and> ds = parseDatasetResponse kvs"
    and "answered (share_request volumeID (if ds_Mountpoint ds = [] then Join2 ''/mnt'' path else ds_Mountpoint ds)
           parameters) dec_NFSShare share xs2"
    and zs: "set xs1 \<union> set xs2 \<subseteq> set zs"
    and v: "vi_NFSPath v = (if ds_Mountpoint ds = [] then Join2 ''/mnt'' path else ds_Mountpoint ds)"
      "vi_NFSShareID v = nfs_ID share" "vi_ID v = volumeID" "vi_DatasetPath v = path" "vi_Protocol v = ProtocolNFS"
      "vi_CapacityBytes v = n" "get_str (vi_VolumeContext v) PublishContextNFSPath = vi_NFSPath v"
  shows "nfs_exported d volumeID path n parameters secrets v zs"
proof -
  obtain kvs where "answered (Request ''pool.dataset.create'' [MarshalJSON opts]) dec_map kvs zs"
    and "ds = parseDatasetResponse kvs"
    using assms(2) zs by (auto intro: answered_mono)
  moreover have "answered (share_request volumeID (vi_NFSPath v) parameters) dec_NFSShare share zs"
    unfolding v(1) using assms(3) by (rule answered_mono) (use zs in simp)
  ultimately show ?thesis using assms(1) v unfolding nfs_exported_def by blast
qed

lemma succeeds_share:
  "succeeds (answered (share_request volumeID mountpoint parameters) dec_NFSShare)
     (CreateNFSShare c (applyNFSShareParameters (new_share mountpoint (''CSI volume '' @ volumeID)) parameters))"
  unfolding share_request_def CreateNFSShare_def by (rule succeeds_call)

lemma succeeds_createNFSVolume:
  "succeeds (nfs_exported d volumeID path n parameters secrets) (createNFSVolume d volumeID path n parameters secrets)"
  unfolding createNFSVolume_def Let_def
  apply (intro succeeds_case_sum succeeds_Inl succeeds_Inr failing_steps
      succeeds_step [OF succeeds_CreateDataset sends_calls(1)] succeeds_step [OF succeeds_share sends_calls(12)]
      succeeds_skip [OF sends_programs(6)])
  by (rule nfs_chain, assumption+) (auto simp: nfs_context_def get_str_def)

section \<open>Properties\<close>

text \<open>An appliance on which nothing exists and every creation succeeds.\<close>

definition empty_appliance :: "request \<Rightarrow> goerr + jval" where
  "empty_appliance q =
     (if HasSuffix (Method q) ''.query'' then Inr (JArr [])
      else if HasSuffix (Method q) ''.get_instance'' then Inl ErrNotFound
      else Inr (JObj [(''id'', JNum 7), (''tag'', JNum 1)]))"

lemma not_isl_Inr: "\<not> isl r \<Longrightarrow> \<exists>y. r = Inr y"
  by (cases r) auto

text \<open>C9. An iSCSI creation that succeeds has created the ZVOL with the requested options, a target named
  after the volume, an extent on that ZVOL and their association at LUN 0, with the identifiers the
  volume carries; with a CHAP user the target was created with the tag of credentials that hold the
  user and the secret, and with an initiator list it was created with that initiator group.\<close>

theorem createISCSIVolume_exported:
  assumes "fst (run_state (createISCSIVolume d volumeID path n parameters secrets) s) = Inr v"
  shows "\<exists>chap ini. let xs = exchanges (createISCSIVolume d volumeID path n parameters secrets) s in
    zvol_created d path n parameters secrets xs \<and> chap_of parameters secrets chap xs
    \<and> initiators_of volumeID (ch_parameters chap) ini xs \<and> iscsi_exported volumeID path chap ini v xs"
  using succeedsD [OF succeeds_createISCSIVolume assms] by (simp add: Let_def)

definition chap_parameters :: smap where
  "chap_parameters = [(''protocol'', ''iscsi''), (''iscsi.chapUser'', ''u''), (''iscsi.chapSecret'', ''s'')]"

theorem createISCSIVolume_exported_witness:
  "\<exists>v chap ini. let d = fixed_driver empty_appliance;
      xs = exchanges (createISCSIVolume d ''tank/a'' ''tank/a'' 1024 chap_parameters []) fresh_sys in
    zvol_created d ''tank/a'' 1024 chap_parameters [] xs \<and> chap_of chap_parameters [] chap xs
    \<and> initiators_of ''tank/a'' (ch_parameters chap) ini xs \<and> iscsi_exported ''tank/a'' ''tank/a'' chap ini v xs"
proof -
  have "\<not> isl (fst (run_state (createISCSIVolume (fixed_driver empty_appliance) ''tank/a'' ''tank/a'' 1024
      chap_parameters []) fresh_sys))"
    by code_simp
  from createISCSIVolume_exported [OF not_isl_Inr [OF this, THEN someI_ex]]
  show ?thesis by (simp only: Let_def) blast
qed

text \<open>C20. An NVMe-oF creation that succeeds has created the ZVOL, a subsystem named after the volume, a
  namespace on that ZVOL, and the link of the subsystem to the port. The subsystem is open to every
  host exactly when no host NQN is configured; with one, the host was authorized on it.\<close>

theorem createNVMeOFVolume_exported:
  assumes "fst (run_state (createNVMeOFVolume d volumeID path n parameters secrets) s) = Inr v"
  shows "let xs = exchanges (createNVMeOFVolume d volumeID path n parameters secrets) s in
    zvol_created d path n parameters secrets xs \<and> nvmeof_exported volumeID path n parameters v xs"
  using succeedsD [OF succeeds_createNVMeOFVolume assms] by (simp add: Let_def)

definition host_parameters :: smap where
  "host_parameters = [(''protocol'', ''nvmeof''), (''nvmeof.hostNQN'', ''nqn.host'')]"

theorem createNVMeOFVolume_exported_witness:
  "\<exists>v. let d = fixed_driver empty_appliance;
      xs = exchanges (createNVMeOFVolume d ''tank/a'' ''tank/a'' 1024 host_parameters []) fresh_sys in
    zvol_created d ''tank/a'' 1024 host_parameters [] xs \<and> nvmeof_exported ''tank/a'' ''tank/a'' 1024 host_parameters v xs"
proof -
  have "\<not> isl (fst (run_state (createNVMeOFVolume (fixed_driver empty_appliance) ''tank/a'' ''tank/a'' 1024
      host_parameters []) fresh_sys))"
    by code_simp
  from createNVMeOFVolume_exported [OF not_isl_Inr [OF this, THEN someI_ex]]
  show ?thesis by (simp only: Let_def) blast
qed

text \<open>C32. An NFS creation that succeeds has created the dataset with the requested quota and options and a
  share with the parameters' access rules; the share exports the mount point of that dataset, which
  is the path the node is told to mount.\<close>

theorem createNFSVolume_exported:
  assumes "fst (run_state (createNFSVolume d volumeID path n parameters secrets) s) = Inr v"
  shows "nfs_exported d volumeID path n parameters secrets v
    (exchanges (createNFSVolume d volumeID path n parameters secrets) s)"
  using succeedsD [OF succeeds_createNFSVolume assms] .

theorem createNFSVolume_exported_witness:
  "\<exists>v. nfs_exported (fixed_driver empty_appliance) ''tank/a'' ''tank/a'' 1024 [] [] v
     (exchanges (createNFSVolume (fixed_driver empty_appliance) ''tank/a'' ''tank/a'' 1024 [] []) fresh_sys)"
proof -
  have "\<not> isl (fst (run_state (createNFSVolume (fixed_driver empty_appliance) ''tank/a'' ''tank/a'' 1024 [] [])
      fresh_sys))"
    by code_simp
  from createNFSVolume_exported [OF not_isl_Inr [OF this, THEN someI_ex]]
  show ?thesis by blast
qed

end
