(* ===== verification/Delete_Correct.thy ===== *)
theory Delete_Correct
  imports Driver_Traffic
begin

text \<open>
  The correctness of \<^verbatim>\<open>DeleteVolume\<close>: it changes nothing before it has seen that no snapshot depends on
  the volume, it reports success only when the dataset is gone, it removes the objects of an NVMe-oF
  subsystem from the leaves to the root, and it never removes a host that another volume still uses.
\<close>

section \<open>Dependent snapshots\<close>

definition listing_request :: "string \<Rightarrow> request" where
  "listing_request dataset = Request ''pool.snapshot.query''
     [eq_filter ''dataset'' (JStr dataset), json_QueryOptions no_options]"

text \<open>The log starts with the lookup of the dataset and a listing in which no snapshot depends on it.\<close>

definition checked_first :: "string \<Rightarrow> exchange list \<Rightarrow> bool" where
  "checked_first path xs \<longleftrightarrow> (\<exists>x v snaps rest. xs = x # (listing_request path, Inr v) # rest
     \<and> dec_list dec_Snapshot v = Some snaps \<and> \<not> hasSourceDependentSnapshot snaps)"

lemma GetDataset_read: "yields (\<lambda>_ xs. \<exists>x. xs = [x] \<and> reads x) (GetDataset c path)"
  unfolding GetDataset_def by (intro yields_intros) (simp_all add: is_read_def HasSuffix_def)

lemma yields_lookup:
  "(\<And>r x. reads x \<Longrightarrow> yields (\<lambda>b ys. R b (x # ys)) (k r)) \<Longrightarrow> yields R (State_Monad.bind (GetDataset c path) k)"
  by (rule yields_bind, rule yields_weaken [OF GetDataset_read]) auto

lemma yields_listing:
  assumes "\<And>e a. (\<And>v. a = Inr v \<Longrightarrow> dec_list dec_Snapshot v = None) \<Longrightarrow>
      yields (\<lambda>b ys. R b ((listing_request path, a) # ys)) (k (Inl e))"
    and "\<And>v snaps. dec_list dec_Snapshot v = Some snaps \<Longrightarrow>
           yields (\<lambda>b ys. R b ((listing_request path, Inr v) # ys)) (k (Inr snaps))"
  shows "yields R (State_Monad.bind (ListSnapshots_client c path) k)"
  unfolding ListSnapshots_client_def query_def wrap_err_def using assms
  by (intro yields_intros) (auto simp: listing_request_def)

lemma reads_listing: "is_read (listing_request path)"
  by (simp add: listing_request_def is_read_def HasSuffix_def)

abbreviation guarded :: "string \<Rightarrow> 'a \<Rightarrow> exchange list \<Rightarrow> bool" where
  "guarded path r xs \<equiv> list_all reads xs \<or> checked_first path xs"

lemma silent_metrics: "R () [] \<Longrightarrow> yields R (with_metrics f)"
  unfolding with_metrics_def by (rule yields_modify) simp_all

lemma silent_remove: "R () [] \<Longrightarrow> yields R (RemoveProvisionedVolume i)"
  unfolding RemoveProvisionedVolume_def by (rule silent_metrics)

lemma guarded_rest:
  assumes "dec_list dec_Snapshot v = Some snaps" "\<not> hasSourceDependentSnapshot snaps" "emits (\<lambda>_. True) m"
  shows "yields (\<lambda>r ys. guarded path r (x # (listing_request path, Inr v) # ys)) m"
  using assms(3) unfolding emits_def by (rule yields_weaken) (use assms(1,2) in \<open>auto simp: checked_first_def\<close>)

lemma delete_volume_body_guarded: "yields (guarded volumeID) (delete_volume_body d volumeID)"
proof (cases rule: ParseVolumeID_cases [of volumeID])
  case (bad e)
  then show ?thesis
    unfolding delete_volume_body_def by (auto intro!: yields_bind yields_return silent_remove)
next
  case (good pool name)
  show ?thesis
    unfolding delete_volume_body_def good(1) sum.case prod.case Let_def good(2) [symmetric]
    apply (rule yields_lookup, rule yields_case_sum)
     apply (auto intro!: yields_bind yields_return silent_remove)[1]
    apply (rule yields_listing)
     apply (auto intro!: yields_return simp: reads_listing)[1]
    apply (simp only: sum.case, rule yields_if)
     apply (auto intro!: yields_return simp: reads_listing)[1]
    apply (rule guarded_rest, assumption+)
    apply (intro emits_bind emits_return traffic [THEN uses_emits_method]; simp)
    done
qed

text \<open>A listing with a dependent snapshot ends the deletion.\<close>

definition refused :: "string \<Rightarrow> status + unit \<Rightarrow> exchange list \<Rightarrow> bool" where
  "refused path r xs \<longleftrightarrow> (\<forall>x v snaps rest. xs = x # (listing_request path, Inr v) # rest
     \<and> dec_list dec_Snapshot v = Some snaps \<and> hasSourceDependentSnapshot snaps
     \<longrightarrow> (\<exists>msg. r = Inl (Status FailedPrecondition msg)) \<and> list_all reads xs)"

lemma refused_rest:
  assumes "dec_list dec_Snapshot v = Some snaps" "\<not> hasSourceDependentSnapshot snaps" "emits (\<lambda>_. True) m"
  shows "yields (\<lambda>r ys. refused path (f r) (x # (listing_request path, Inr v) # ys)) m"
  using assms(3) unfolding emits_def by (rule yields_weaken) (use assms(1,2) in \<open>auto simp: refused_def\<close>)

lemma refused_two: "reads x \<Longrightarrow> refused path (Inl (Status FailedPrecondition msg)) [x, (listing_request path, a)]"
  by (auto simp: refused_def reads_listing)

lemma refused_short: "refused path r [x]"
  by (simp add: refused_def)

lemma refused_error:
  "(\<And>v. a = Inr v \<Longrightarrow> dec_list dec_Snapshot v = None) \<Longrightarrow> refused path r [x, (listing_request path, a)]"
  by (cases a) (auto simp: refused_def)

lemma delete_volume_body_refused: "yields (\<lambda>r. refused volumeID (snd r)) (delete_volume_body d volumeID)"
proof (cases rule: ParseVolumeID_cases [of volumeID])
  case (bad e)
  then show ?thesis
    unfolding delete_volume_body_def by (auto intro!: yields_bind yields_return silent_remove simp: refused_def)
next
  case (good pool name)
  show ?thesis
    unfolding delete_volume_body_def good(1) sum.case prod.case Let_def good(2) [symmetric]
    apply (rule yields_lookup, rule yields_case_sum)
     apply (auto intro!: yields_bind yields_return silent_remove refused_short)[1]
    apply (rule yields_listing)
     apply (simp only: sum.case, rule yields_return, simp add: refused_error)
    apply (simp only: sum.case, rule yields_if)
     apply (simp add: yields_return refused_two)
    apply (rule refused_rest, assumption+)
    apply (intro emits_bind emits_return traffic [THEN uses_emits_method]; simp)
    done
qed

lemma DeleteVolume_yields:
  assumes "\<And>st. R (Inl st) []" and "yields (\<lambda>r. R (snd r)) (delete_volume_body d volumeID)"
  shows "yields R (DeleteVolume d volumeID)"
  unfolding DeleteVolume_def
  by (intro yields_if yields_return assms(1) yields_bind yields_weaken [OF assms(2)] silent_metrics) simp

text \<open>C2. \<^verbatim>\<open>DeleteVolume\<close> sends nothing but reads until a listing of the volume's snapshots has shown that no
  managed snapshot and no clone depends on it.\<close>

theorem DeleteVolume_guarded:
  "let xs = exchanges (DeleteVolume d volumeID) s in list_all reads xs \<or> checked_first volumeID xs"
  unfolding Let_def
  by (rule yieldsD [OF DeleteVolume_yields [where R = "guarded volumeID", OF _ delete_volume_body_guarded]]) simp

text \<open>C21. When that listing shows a dependent snapshot, \<^verbatim>\<open>DeleteVolume\<close> answers \<^verbatim>\<open>FailedPrecondition\<close> and has
  changed nothing.\<close>

theorem DeleteVolume_dependent_refused:
  assumes "exchanges (DeleteVolume d volumeID) s = x # (listing_request volumeID, Inr v) # rest"
    and "dec_list dec_Snapshot v = Some snaps" and "hasSourceDependentSnapshot snaps"
  shows "(\<exists>msg. fst (run_state (DeleteVolume d volumeID) s) = Inl (Status FailedPrecondition msg))
    \<and> list_all reads (exchanges (DeleteVolume d volumeID) s)"
proof -
  have "refused volumeID (Inl st) []" for st by (simp add: refused_def)
  from yieldsD [OF DeleteVolume_yields [OF this delete_volume_body_refused]] assms
  show ?thesis unfolding refused_def by blast
qed

text \<open>An appliance whose only snapshot is one the driver made.\<close>

definition managed_listing :: jval where
  "managed_listing = JArr [JObj [(''id'', JStr ''tank/a@s''), (''name'', JStr ''s''),
     (''properties'', JObj [(managedSnapshotProperty, JObj [(''value'', JStr ''true'')])])]]"

definition managed_appliance :: "request \<Rightarrow> goerr + jval" where
  "managed_appliance q = (if Method q = ''pool.snapshot.query'' then Inr managed_listing
     else if HasSuffix (Method q) ''.query'' then Inr (JArr []) else Inr JNull)"

theorem DeleteVolume_dependent_refused_witness:
  "\<exists>msg. fst (run_state (DeleteVolume (fixed_driver managed_appliance) ''tank/a'') fresh_sys)
     = Inl (Status FailedPrecondition msg)"
proof -
  have "exchanges (DeleteVolume (fixed_driver managed_appliance) ''tank/a'') fresh_sys =
      (Request ''pool.dataset.get_instance'' [JStr ''tank/a'', json_DatasetQueryOptions dataset_get_options], Inr JNull)
      # (listing_request ''tank/a'', Inr managed_listing) # []"
    by code_simp
  moreover have "\<exists>snaps. dec_list dec_Snapshot managed_listing = Some snaps \<and> hasSourceDependentSnapshot snaps"
  proof -
    have "case dec_list dec_Snapshot managed_listing of None \<Rightarrow> False | Some snaps \<Rightarrow> hasSourceDependentSnapshot snaps"
      by code_simp
    then show ?thesis by (auto split: option.splits)
  qed
  ultimately show ?thesis using DeleteVolume_dependent_refused by blast
qed

section \<open>Success\<close>

definition dataset_request :: "string \<Rightarrow> request" where
  "dataset_request path = Request ''pool.dataset.get_instance'' [JStr path, json_DatasetQueryOptions dataset_get_options]"

definition delete_dataset_request :: "string \<Rightarrow> request" where
  "delete_dataset_request path = Request ''pool.dataset.delete''
     [JStr path, json_DatasetDeleteOptions \<lparr>ddo_Recursive = True, ddo_Force = True\<rparr>]"

text \<open>The appliance has said that the dataset does not exist, or has deleted it.\<close>

definition dataset_gone :: "string \<Rightarrow> exchange list \<Rightarrow> bool" where
  "dataset_gone path xs \<longleftrightarrow> list_ex (\<lambda>(q, a).
     case a of Inl e \<Rightarrow> IsNotFoundError e \<and> q \<in> {dataset_request path, delete_dataset_request path}
             | Inr _ \<Rightarrow> q = delete_dataset_request path) xs"

lemma IsNotFoundError_Wrapf [simp]: "IsNotFoundError (Wrapf pre e) = IsNotFoundError e"
  by (simp add: IsNotFoundError_def)

lemma lookup_gone:
  "yields (\<lambda>r xs. \<forall>e. r = Inl e \<longrightarrow> IsNotFoundError e \<longrightarrow> dataset_gone path xs) (GetDataset c path)"
  unfolding GetDataset_def
  apply (intro yields_intros) 
  apply (auto simp: dataset_gone_def dataset_request_def IsNotFoundError_def)
  done

lemma deletion_gone:
  "yields (\<lambda>r xs. (\<forall>e. r = Inl e \<longrightarrow> IsNotFoundError e) \<longrightarrow> dataset_gone path xs)
     (DeleteDataset c path \<lparr>ddo_Recursive = True, ddo_Force = True\<rparr>)"
  unfolding DeleteDataset_def call_wrapped_def wrap_err_def
  by (intro yields_intros) (auto simp: dataset_gone_def delete_dataset_request_def no_result_def)

lemma dataset_gone_append: "dataset_gone path ys \<Longrightarrow> dataset_gone path (xs @ ys)"
  by (simp add: dataset_gone_def)

lemma succeeds_gone_skip:
  "emits (\<lambda>_. True) m \<Longrightarrow> (\<And>a. succeeds (\<lambda>_. dataset_gone path) (f a)) \<Longrightarrow>
     succeeds (\<lambda>_. dataset_gone path) (State_Monad.bind m f)"
  by (rule succeeds_skip, assumption, rule succeeds_weaken, assumption) (rule dataset_gone_append)

lemma silent_success: "R (Inr ()) [] \<Longrightarrow> yields R (do { RemoveProvisionedVolume i; return (Inr ()) })"
  by (intro yields_bind silent_remove yields_return) simp

lemma tear_down_gone: "succeeds (\<lambda>_. dataset_gone path) (tear_down d volumeID path volInfo)"
  unfolding tear_down_def Let_def
  by (intro succeeds_gone_skip emits_intros traffic [THEN uses_emits_method] succeeds_bind [OF deletion_gone])
    (auto simp: succeeds_def intro!: silent_success yields_return split: option.splits sum.splits if_splits)

definition success_gone :: "string \<Rightarrow> status + unit \<Rightarrow> exchange list \<Rightarrow> bool" where
  "success_gone volumeID r xs \<longleftrightarrow> (r = Inr () \<longrightarrow> CHR ''/'' \<notin> set volumeID \<or> dataset_gone volumeID xs)"

lemma success_gone_Inl [simp]: "success_gone volumeID (Inl st) xs"
  by (simp add: success_gone_def)

lemma success_gone_append: "success_gone volumeID r ys \<Longrightarrow> success_gone volumeID r (xs @ ys)"
  by (auto simp: success_gone_def dataset_gone_append)

lemma success_gone_skip:
  assumes "emits (\<lambda>_. True) m" and "\<And>a. yields (\<lambda>r. success_gone volumeID (snd r)) (k a)"
  shows "yields (\<lambda>r. success_gone volumeID (snd r)) (State_Monad.bind m k)"
  by (rule yields_bind, rule yields_weaken [OF assms(1) [unfolded emits_def]], rule yields_weaken [OF assms(2)])
    (rule success_gone_append)

lemma tear_down_success:
  "yields (\<lambda>r. success_gone volumeID (snd r)) (do { r \<leftarrow> tear_down d volumeID volumeID volInfo; return (p, r) })"
  by (intro yields_bind yields_weaken [OF tear_down_gone [unfolded succeeds_def]] yields_return)
    (simp add: success_gone_def)

lemma delete_volume_body_gone: "yields (\<lambda>r. success_gone volumeID (snd r)) (delete_volume_body d volumeID)"
proof (cases rule: ParseVolumeID_cases [of volumeID])
  case (bad e)
  then show ?thesis
    unfolding delete_volume_body_def
    by (auto intro!: yields_bind yields_return silent_remove simp: success_gone_def)
next
  case (good pool name)
  have found: "yields (\<lambda>r. success_gone volumeID (snd r)) (do {
      l \<leftarrow> ListSnapshots_client (d_client d) volumeID; k l })"
    if "\<And>l. yields (\<lambda>r. success_gone volumeID (snd r)) (k l)" for k
    by (rule success_gone_skip, intro emits_intros, simp, rule that)
  show ?thesis
    unfolding delete_volume_body_def good(1) sum.case prod.case Let_def good(2) [symmetric]
    apply (rule yields_bind, rule yields_weaken [OF lookup_gone [of volumeID]], rule yields_case_sum)
     apply (auto intro!: yields_bind yields_return silent_remove simp: success_gone_def)[1]
    apply (rule yields_weaken [OF found])
     apply (intro yields_case_sum yields_if yields_return)
       apply simp_all[2]
     apply (rule success_gone_skip [OF traffic(9) [THEN uses_emits_method] tear_down_success], simp)
    apply (rule success_gone_append, assumption)
    done
qed

text \<open>C10. \<^verbatim>\<open>DeleteVolume\<close> reports success for a well-formed volume ID only when the appliance has answered that
  the dataset does not exist or has acknowledged its deletion.\<close>

theorem DeleteVolume_success_gone:
  assumes "fst (run_state (DeleteVolume d volumeID) s) = Inr ()" and "CHR ''/'' \<in> set volumeID"
  shows "dataset_gone volumeID (exchanges (DeleteVolume d volumeID) s)"
  using yieldsD [OF DeleteVolume_yields [OF success_gone_Inl delete_volume_body_gone]] assms
  unfolding success_gone_def by blast

text \<open>An appliance on which every query is empty and every other request succeeds.\<close>

definition plain_appliance :: "request \<Rightarrow> goerr + jval" where
  "plain_appliance q = (if HasSuffix (Method q) ''.query'' then Inr (JArr []) else Inr JNull)"

theorem DeleteVolume_success_gone_witness:
  "dataset_gone ''tank/a'' (exchanges (DeleteVolume (fixed_driver plain_appliance) ''tank/a'') fresh_sys)"
proof (rule DeleteVolume_success_gone)
  show "fst (run_state (DeleteVolume (fixed_driver plain_appliance) ''tank/a'') fresh_sys) = Inr ()"
    by code_simp
qed simp

section \<open>NVMe-oF objects\<close>

text \<open>Every deletion of a host directly follows a listing of all host links in which no link of that
  host is left.\<close>

definition no_link_of :: "jval list \<Rightarrow> exchange \<Rightarrow> bool" where
  "no_link_of ps x \<longleftrightarrow> Method (fst x) = ''nvmet.host_subsys.query'' \<and>
     (\<exists>v links. snd x = Inr v \<and> dec_list dec_NVMeHostSubsys v = Some links
        \<and> (\<forall>h. ps = [JNum h] \<longrightarrow> \<not> list_ex (\<lambda>l. has_host h (hs_Host l)) links))"

definition hosts_unused :: "exchange list \<Rightarrow> bool" where
  "hosts_unused xs \<longleftrightarrow> (\<forall>ys ps a zs. xs = ys @ (Request ''nvmet.host.delete'' ps, a) # zs
     \<longrightarrow> ys \<noteq> [] \<and> no_link_of ps (last ys))"

lemma hosts_unused_closed: "concat_closed hosts_unused"
  unfolding concat_closed_def
proof (intro conjI allI impI)
  show "hosts_unused []" by (simp add: hosts_unused_def)
next
  fix us vs assume us: "hosts_unused us" and vs: "hosts_unused vs"
  show "hosts_unused (us @ vs)"
    unfolding hosts_unused_def
  proof (intro allI impI)
    fix ys ps a zs
    assume "us @ vs = ys @ (Request ''nvmet.host.delete'' ps, a) # zs"
    then consider (left) ws where "us = ys @ (Request ''nvmet.host.delete'' ps, a) # ws"
      | (right) ws where "ys = us @ ws" "vs = ws @ (Request ''nvmet.host.delete'' ps, a) # zs"
      by (auto simp: append_eq_append_conv2 append_eq_Cons_conv)
    then show "ys \<noteq> [] \<and> no_link_of ps (last ys)"
    proof cases
      case left
      then show ?thesis using us unfolding hosts_unused_def by blast
    next
      case right
      then show ?thesis using vs unfolding hosts_unused_def by fastforce
    qed
  qed
qed

lemma hosts_unused_other: "list_all (\<lambda>x. Method (fst x) \<noteq> ''nvmet.host.delete'') xs \<Longrightarrow> hosts_unused xs"
  by (auto simp: hosts_unused_def)

lemma traces_other: "emits (\<lambda>x. Method (fst x) \<noteq> ''nvmet.host.delete'') m \<Longrightarrow> traces hosts_unused m"
  by (erule traces_emits) (rule hosts_unused_other)

lemma hosts_unused_pair:
  "no_link_of ps x \<Longrightarrow> hosts_unused [x, (Request ''nvmet.host.delete'' ps, a)]"
  by (auto simp: hosts_unused_def Cons_eq_append_conv no_link_of_def)

lemma remaining_links:
  "succeeds (\<lambda>links xs. links = [] \<longrightarrow> (\<exists>x. xs = [x] \<and> no_link_of [JNum h] x)) (GetNVMeHostSubsysByHost c h)"
  unfolding GetNVMeHostSubsysByHost_def query_def wrap_err_def succeeds_def
  by (intro yields_intros) (auto simp: no_link_of_def list_ex_iff filter_empty_conv split: sum.splits)


lemma deleted_host: "yields (\<lambda>_ ys. \<exists>a. ys = [(Request ''nvmet.host.delete'' [JNum h], a)]) (DeleteNVMeHost c h)"
  unfolding DeleteNVMeHost_def call_wrapped_def by (intro yields_intros) auto

lemma traces_host_cleanup:
  "traces hosts_unused (if_err (GetNVMeHostSubsysByHost c h) (\<lambda>_. return ()) (\<lambda>remaining.
     if remaining = [] then do { DeleteNVMeHost c h; return () } else return ()))"
proof -
  have q: "emits (\<lambda>x. Method (fst x) \<noteq> ''nvmet.host.delete'') (GetNVMeHostSubsysByHost c h)"
    by (intro emits_intros) simp
  have del: "yields (\<lambda>_ ys. hosts_unused (xs @ ys)) (do { DeleteNVMeHost c h; return () })"
    if "\<exists>x. xs = [x] \<and> no_link_of [JNum h] x" for xs
    using that by (intro yields_bind yields_weaken [OF deleted_host] yields_return) (auto intro: hosts_unused_pair)
  show ?thesis
    unfolding traces_def
    by (rule yields_if_err, rule yields_weaken [OF emits_yields [OF q remaining_links [unfolded succeeds_def]]])
      (auto intro!: yields_return del hosts_unused_other split: sum.splits)
qed

lemmas traces_steps = traces_return [OF hosts_unused_closed] traces_bind [OF hosts_unused_closed]
  traces_if_err [OF hosts_unused_closed] traces_for_each [OF hosts_unused_closed]

lemma traces_delete_host_link: "traces hosts_unused (delete_host_link d hl)"
proof -
  have "traces hosts_unused (DeleteNVMeHostSubsys (d_client d) n)" for n
    by (rule traces_other, intro emits_intros) simp
  then show ?thesis
    unfolding delete_host_link_def
    by (cases "hs_Host hl") (auto intro!: traces_steps(1,3) traces_host_cleanup)
qed

lemma traces_if: "traces Q m \<Longrightarrow> traces Q n \<Longrightarrow> traces Q (if b then m else n)"
  by simp

lemma traces_deleteNVMeOFResources: "traces hosts_unused (deleteNVMeOFResources d volInfo)"
proof -
  have "traces hosts_unused (GetNVMeHostSubsysBySubsystem c n)" "traces hosts_unused (GetNVMePortSubsysBySubsystem c n)"
    "traces hosts_unused (GetNVMeNamespacesBySubsystem c n)" for c :: "'a rpc" and n
    by (rule traces_other, intro emits_intros, simp)+
  moreover have "traces hosts_unused (undo_port_link d n)" "traces hosts_unused (undo_namespace d n)"
    "traces hosts_unused (undo_subsys d n)" for n
    by (rule traces_other, intro traffic [THEN uses_emits_method], simp)+
  ultimately show ?thesis
    unfolding deleteNVMeOFResources_def Let_def
    by (intro traces_if traces_steps traces_delete_host_link)
qed

lemma traces_tear_down: "traces hosts_unused (tear_down d volumeID path volInfo)"
proof -
  have other: "traces hosts_unused (deleteISCSIResources d v)" "traces hosts_unused (delete_nfs_share d p)"
    "traces hosts_unused (deleteSnapshotTaskForDataset d p)" "traces hosts_unused (DeleteDataset (d_client d) p opts)" 
    "traces hosts_unused (RemoveProvisionedVolume volumeID :: ('a, unit) prog)" for v p opts
    by (rule traces_other, (intro traffic [THEN uses_emits_method] | intro emits_intros), simp?)+
  show ?thesis
    unfolding tear_down_def Let_def
    by (cases volInfo)
     (auto intro!: traces_if traces_steps other traces_deleteNVMeOFResources split: option.split)
qed

lemma traces_DeleteVolume: "traces hosts_unused (DeleteVolume d volumeID)"
proof -
  have other: "traces hosts_unused (GetDataset (d_client d) p)" "traces hosts_unused (ListSnapshots_client (d_client d) p)"
    "traces hosts_unused (GetVolumeInfo d volumeID)" "traces hosts_unused (with_metrics f :: ('a, unit) prog)" for p f
    by (rule traces_other, (intro traffic [THEN uses_emits_method] | intro emits_intros), simp?)+
  then show ?thesis
    unfolding DeleteVolume_def delete_volume_body_def Let_def RemoveProvisionedVolume_def
    by (auto intro!: traces_steps traces_tear_down split: sum.splits prod.splits)
qed

text \<open>The order of the removal: host links, port links, namespaces, subsystem.\<close>

definition layer :: "exchange \<Rightarrow> nat" where
  "layer x = (let m = Method (fst x) in
     if HasPrefix m ''nvmet.host'' then 0 else if HasPrefix m ''nvmet.port'' then 1
     else if HasPrefix m ''nvmet.namespace'' then 2 else 3)"

definition layers_from :: "nat \<Rightarrow> exchange list \<Rightarrow> bool" where
  "layers_from k xs \<longleftrightarrow> sorted (map layer xs) \<and> list_all (\<lambda>x. k \<le> layer x) xs"

lemma layers_append: "list_all (\<lambda>x. layer x = k) xs \<Longrightarrow> layers_from k ys \<Longrightarrow> layers_from k (xs @ ys)"
  by (induction xs) (auto simp: layers_from_def list_all_iff)

lemma layers_bind:
  assumes "emits (\<lambda>x. layer x = k) m" and "\<And>a. yields (\<lambda>_. layers_from k) (f a)"
  shows "yields (\<lambda>_. layers_from k) (State_Monad.bind m f)"
  by (rule yields_bind, rule yields_weaken [OF assms(1) [unfolded emits_def]], rule yields_weaken [OF assms(2)])
    (rule layers_append)

lemma layers_lower: "yields (\<lambda>_. layers_from k) m \<Longrightarrow> j \<le> k \<Longrightarrow> yields (\<lambda>_. layers_from j) m"
  by (erule yields_weaken) (auto simp: layers_from_def list_all_iff)

lemma layers_last: "emits (\<lambda>x. layer x = k) m \<Longrightarrow> yields (\<lambda>_. layers_from k) m"
  unfolding emits_def by (erule yields_weaken) (use layers_append [of k _ "[]"] in \<open>simp add: layers_from_def\<close>)

lemma layer_simps:
  "layer (Request ''nvmet.host_subsys.query'' ps, a) = 0" "layer (Request ''nvmet.host_subsys.delete'' ps, a) = 0"
  "layer (Request ''nvmet.host.delete'' ps, a) = 0" "layer (Request ''nvmet.port_subsys.query'' ps, a) = 1"
  "layer (Request ''nvmet.port_subsys.delete'' ps, a) = 1" "layer (Request ''nvmet.namespace.query'' ps, a) = 2"
  "layer (Request ''nvmet.namespace.delete'' ps, a) = 2" "layer (Request ''nvmet.subsys.delete'' ps, a) = 3"
  by (simp_all add: layer_def Let_def HasPrefix_def)

lemma deleteNVMeOFResources_layers: "yields (\<lambda>_. layers_from 0) (deleteNVMeOFResources d v)"
proof -
  have h: "emits (\<lambda>x. layer x = 0) (GetNVMeHostSubsysBySubsystem c n)"
    and p: "emits (\<lambda>x. layer x = 1) (GetNVMePortSubsysBySubsystem c n)"
    and n: "emits (\<lambda>x. layer x = 2) (GetNVMeNamespacesBySubsystem c n)" for c :: "'a rpc" and n
    by (intro emits_intros, simp add: layer_simps)+
  have hl: "emits (\<lambda>x. layer x = 0) (for_each (delete_host_link d) ls)"
    and pl: "emits (\<lambda>x. layer x = 1) (for_each (\<lambda>pl. undo_port_link d (ps_ID pl)) ps)"
    and nl: "emits (\<lambda>x. layer x = 2) (for_each (\<lambda>ns. undo_namespace d (ns_ID ns)) ns)"
    and s: "emits (\<lambda>x. layer x = 3) (undo_subsys d i)" for ls ps ns i
    by (intro emits_for_each traffic [THEN uses_emits_method], simp add: layer_simps)+
  show ?thesis
    unfolding deleteNVMeOFResources_def Let_def
    by (intro yields_if yields_return, simp add: layers_from_def)
      (intro layers_bind [OF h] layers_bind [OF hl] layers_lower [where k = 1, OF layers_bind [OF p]]
         layers_bind [OF pl] layers_lower [where k = 2, OF layers_bind [OF n]] layers_bind [OF nl]
         layers_lower [where k = 3, OF layers_last [OF s]]; simp)
qed

text \<open>The subsystem is named last, and it is named whenever the volume has one.\<close>

lemma deleteNVMeOFResources_last:
  assumes "vi_NVMeSubsysID v \<noteq> 0"
  shows "yields (\<lambda>_ xs. xs \<noteq> [] \<and> fst (last xs) = Request ''nvmet.subsys.delete'' [JNum (vi_NVMeSubsysID v)])
    (deleteNVMeOFResources d v)" (is "yields ?R _")
proof -
  have step: "yields ?R (State_Monad.bind m f)" if "emits (\<lambda>_. True) m" "\<And>a. yields ?R (f a)"
    for m :: "('a sys, 'b) state" and f
    by (rule yields_bind, rule yields_weaken [OF that(1) [unfolded emits_def]], rule yields_weaken [OF that(2)]) auto
  have "yields ?R (undo_subsys d (vi_NVMeSubsysID v))"
    unfolding undo_subsys_def DeleteNVMeSubsystem_def call_wrapped_def by (intro yields_intros) auto
  then show ?thesis
    unfolding deleteNVMeOFResources_def Let_def using assms
    by (simp, intro step) (intro emits_for_each emits_intros traffic [THEN uses_emits_method], simp)+
qed

text \<open>C33. The NVMe-oF objects of a volume are removed from the leaves to the root: all host links and
  hosts, then all port links, then all namespaces, and the subsystem last; the request to delete the
  subsystem is always reached, whatever fails before it.\<close>

theorem deleteNVMeOFResources_order:
  assumes "vi_NVMeSubsysID v \<noteq> 0"
  shows "let xs = exchanges (deleteNVMeOFResources d v) s in sorted (map layer xs) \<and> xs \<noteq> []
    \<and> fst (last xs) = Request ''nvmet.subsys.delete'' [JNum (vi_NVMeSubsysID v)]"
  using yieldsD [OF deleteNVMeOFResources_layers, of d v s]
    yieldsD [OF deleteNVMeOFResources_last [OF assms], of d s]
  by (simp add: Let_def layers_from_def)

theorem deleteNVMeOFResources_order_witness:
  "sorted (map layer (exchanges (deleteNVMeOFResources (fixed_driver plain_appliance)
     (zero_VolumeInfo\<lparr>vi_NVMeSubsysID := 3\<rparr>)) fresh_sys))"
  using deleteNVMeOFResources_order [of "zero_VolumeInfo\<lparr>vi_NVMeSubsysID := 3\<rparr>" "fixed_driver plain_appliance" fresh_sys]
  by (simp add: Let_def)

end
