(* ===== verification/Controller_Service.thy ===== *)
theory Controller_Service
  imports Create_Export Delete_Correct
begin

text \<open>
  The controller service as a transition system. Every call goes through the interceptor of
  \<^verbatim>\<open>driver.go\<close>, which counts it. Between two calls the appliance may change in any way and nodes may
  register. The invariants hold in every state that can be reached: the gauges agree with the table
  of provisioned volumes, no node is registered twice, and no host in use was ever deleted.

  Calls are served one after the other: the model does not interleave the requests of two calls.
\<close>

section \<open>Calls\<close>

datatype csi_call =
    CallCreateVolume CreateVolumeRequest
  | CallDeleteVolume string
  | CallControllerPublishVolume ControllerPublishVolumeRequest
  | CallControllerUnpublishVolume string
  | CallValidateVolumeCapabilities ValidateVolumeCapabilitiesRequest
  | CallListVolumes string
  | CallGetCapacity smap
  | CallCreateSnapshot CreateSnapshotRequest
  | CallDeleteSnapshot string
  | CallListSnapshots ListSnapshotsRequest
  | CallControllerExpandVolume ControllerExpandVolumeRequest
  | CallControllerGetVolume string

definition forget :: "('w, 'a) prog \<Rightarrow> ('w, unit) prog" where
  "forget m = do { m; return () }"

fun serve :: "'w driver \<Rightarrow> csi_call \<Rightarrow> ('w, unit) prog" where
  "serve d (CallCreateVolume r) = forget (unaryInterceptor ''/csi.v1.Controller/CreateVolume'' (CreateVolume d r))"
| "serve d (CallDeleteVolume i) = forget (unaryInterceptor ''/csi.v1.Controller/DeleteVolume'' (DeleteVolume d i))"
| "serve d (CallControllerPublishVolume r) =
     forget (unaryInterceptor ''/csi.v1.Controller/ControllerPublishVolume'' (ControllerPublishVolume d r))"
| "serve d (CallControllerUnpublishVolume i) =
     forget (unaryInterceptor ''/csi.v1.Controller/ControllerUnpublishVolume'' (ControllerUnpublishVolume i))"
| "serve d (CallValidateVolumeCapabilities r) =
     forget (unaryInterceptor ''/csi.v1.Controller/ValidateVolumeCapabilities'' (ValidateVolumeCapabilities d r))"
| "serve d (CallListVolumes t) = forget (unaryInterceptor ''/csi.v1.Controller/ListVolumes'' (ListVolumes d t))"
| "serve d (CallGetCapacity p) = forget (unaryInterceptor ''/csi.v1.Controller/GetCapacity'' (GetCapacity d p))"
| "serve d (CallCreateSnapshot r) = forget (unaryInterceptor ''/csi.v1.Controller/CreateSnapshot'' (CreateSnapshot d r))"
| "serve d (CallDeleteSnapshot i) = forget (unaryInterceptor ''/csi.v1.Controller/DeleteSnapshot'' (DeleteSnapshot d i))"
| "serve d (CallListSnapshots r) = forget (unaryInterceptor ''/csi.v1.Controller/ListSnapshots'' (ListSnapshots d r))"
| "serve d (CallControllerExpandVolume r) =
     forget (unaryInterceptor ''/csi.v1.Controller/ControllerExpandVolume'' (ControllerExpandVolume d r))"
| "serve d (CallControllerGetVolume i) =
     forget (unaryInterceptor ''/csi.v1.Controller/ControllerGetVolume'' (ControllerGetVolume d i))"

section \<open>Transitions\<close>

definition started :: "'w \<Rightarrow> 'w sys" where
  "started w = \<lparr>world = w, wire_log = [], iscsiPortalID = 0, iscsiBasename = [], nvmeofPortID = 0,
     registeredNodes = [], metrics = NewMetrics\<rparr>"

inductive service_step :: "'w driver \<Rightarrow> 'w sys \<Rightarrow> 'w sys \<Rightarrow> bool" for d where
  call: "service_step d s (snd (run_state (serve d c) s))"
| register: "service_step d s (snd (run_state (RegisterNode n) s))"
| outside: "service_step d s (s\<lparr>world := w\<rparr>)"

inductive_cases service_stepE: "service_step d s t"

inductive reachable :: "'w driver \<Rightarrow> 'w sys \<Rightarrow> bool" for d where
  start: "reachable d (started w)"
| step: "reachable d s \<Longrightarrow> service_step d s t \<Longrightarrow> reachable d t"

section \<open>Invariants\<close>

lemma keeps_forget: "keeps I m \<Longrightarrow> keeps I (forget m)"
  unfolding forget_def by (intro keeps_intros)

lemma keeps_ControllerUnpublishVolume [keeps_intros]: "keeps I (ControllerUnpublishVolume i)"
  unfolding ControllerUnpublishVolume_def by (intro keeps_intros)

lemma keeps_serve: "service_kept (d_client d) I \<Longrightarrow> keeps I (serve d c)"
  by (cases c) (simp_all, (intro keeps_forget keeps_intros, (assumption | erule kept_weaken)+)+)

lemma emits_forget: "emits P m \<Longrightarrow> emits P (forget m)"
  unfolding forget_def by (intro emits_intros)

lemma traces_forget: "traces hosts_unused m \<Longrightarrow> traces hosts_unused (forget m)"
  unfolding forget_def by (intro traces_steps)

lemma traces_interceptor: "traces hosts_unused m \<Longrightarrow> traces hosts_unused (unaryInterceptor n m)"
  unfolding unaryInterceptor_def
  by (intro traces_steps) (auto intro: traces_other emits_with_metrics)

lemma traces_handlers:
  "traces hosts_unused (CreateVolume d r1)" "traces hosts_unused (ControllerPublishVolume d r2)"
  "traces hosts_unused (ValidateVolumeCapabilities d r3)" "traces hosts_unused (ListVolumes d t)"
  "traces hosts_unused (GetCapacity d p)" "traces hosts_unused (CreateSnapshot d r4)"
  "traces hosts_unused (DeleteSnapshot d i)" "traces hosts_unused (ListSnapshots d r5)"
  "traces hosts_unused (ControllerExpandVolume d r6)" "traces hosts_unused (ControllerGetVolume d i)"
  by (rule traces_other, intro traffic [THEN uses_emits_method], simp)+

lemma traces_serve: "traces hosts_unused (serve d c)"
  by (cases c) (auto intro!: traces_forget traces_interceptor traces_handlers traces_DeleteVolume
    traces_steps(1) simp: ControllerUnpublishVolume_def)

text \<open>What holds of a state that was reached.\<close>

definition history_inv :: "'w sys \<Rightarrow> bool" where
  "history_inv s \<longleftrightarrow> service_inv s \<and> hosts_unused (wire_log s)"

lemma service_inv_started: "service_inv (started w)"
  by (simp add: service_inv_def started_def metrics_balanced_New)

lemma history_inv_step: "service_step d s t \<Longrightarrow> history_inv s \<Longrightarrow> history_inv t"
proof (induction rule: service_step.induct)
  case (call s c)
  have "yields (\<lambda>_. hosts_unused) (serve d c)" using traces_serve [of d c] by (simp add: traces_def)
  then have "hosts_unused (wire_log (snd (run_state (serve d c) s)))"
    using call hosts_unused_closed yields_log [of _ "serve d c" s] yieldsD [of _ "serve d c" s]
    unfolding history_inv_def concat_closed_def by metis
  then show ?case using call keeps_serve [OF service_inv.service_kept_axioms, of d c] by (simp add: history_inv_def keeps_def)
next
  case (register s n)
  then show ?case by (simp add: history_inv_def service_inv_def RegisterNode_def distinct_insert)
next
  case (outside s w)
  then show ?case by (simp add: history_inv_def service_inv_def)
qed

lemma reachable_history_inv: "reachable d s \<Longrightarrow> history_inv s"
proof (induction rule: reachable.induct)
  case (start w)
  then show ?case by (simp add: history_inv_def service_inv_started) (simp add: started_def hosts_unused_def)
next
  case (step s t)
  then show ?case using history_inv_step by blast
qed

text \<open>The volumes of the table under given labels.\<close>

definition group_of :: "string \<Rightarrow> string \<Rightarrow> (string \<times> provisionedVolume) list \<Rightarrow> provisionedVolume list" where
  "group_of pool protocol vs = filter (\<lambda>v. pv_pool v = pool \<and> pv_protocol v = protocol) (map snd vs)"

lemma sum_group:
  "sum_list (map (\<lambda>(k, v). count_amount [pool, protocol] v) vs) = int (length (group_of pool protocol vs))"
  "sum_list (map (\<lambda>(k, v). capacity_amount [pool, protocol] v) vs)
     = sum_list (map (\<lambda>v. f64_of_int (pv_capacity v)) (group_of pool protocol vs))"
  by (induction vs) (auto simp: group_of_def count_amount_def capacity_amount_def in_group_def)

text \<open>C6. In every reachable state the gauges of provisioned volumes and of provisioned capacity show, for
  each pool and protocol, exactly the volumes of the driver's table and their capacities; the table
  has one entry per volume and the node list one entry per node.\<close>

theorem reachable_gauges:
  assumes "reachable d s"
  shows "let m = metrics s; vs = group_of pool protocol (volumes m) in
    gauge_total ''provisioned_volumes'' [pool, protocol] (metric_calls m) = int (length vs)
    \<and> gauge_total ''provisioned_capacity_bytes'' [pool, protocol] (metric_calls m)
        = sum_list (map (\<lambda>v. f64_of_int (pv_capacity v)) vs)
    \<and> distinct (map fst (volumes m)) \<and> distinct (registeredNodes s)"
  using reachable_history_inv [OF assms]
  unfolding history_inv_def service_inv_def metrics_balanced_def cap.balanced_def cnt.balanced_def Let_def
  by (simp add: sum_group)

definition nfs_request :: CreateVolumeRequest where
  "nfs_request = \<lparr>cvr_Name = ''pvc-1'', cvr_CapacityRange = Some \<lparr>cr_RequiredBytes = 2 ^ 30, cr_LimitBytes = 0\<rparr>,
     cvr_VolumeCapabilities = [\<lparr>cap_AccessType = AccessMount [] [], cap_AccessMode = Some MULTI_NODE_MULTI_WRITER\<rparr>],
     cvr_Parameters = [], cvr_Secrets = [], cvr_VolumeContentSource = None\<rparr>"

definition fresh_appliance :: "request \<Rightarrow> goerr + jval" where
  "fresh_appliance q = (if HasSuffix (Method q) ''.get_instance'' then Inl ErrNotFound
     else if HasSuffix (Method q) ''.query'' then Inr (JArr []) else Inr (JObj [(''id'', JNum 7)]))"

definition one_volume :: "unit sys" where
  "one_volume = snd (run_state (serve (fixed_driver fresh_appliance) (CallCreateVolume nfs_request)) (started ()))"

lemma one_volume_reachable: "reachable (fixed_driver fresh_appliance) one_volume"
  unfolding one_volume_def by (rule step [OF start call])

theorem reachable_gauges_witness:
  "gauge_total ''provisioned_volumes'' [''tank'', ''nfs''] (metric_calls (metrics one_volume)) = 1"
proof -
  have "gauge_total ''provisioned_volumes'' [''tank'', ''nfs''] (metric_calls (metrics one_volume))
      = int (length (group_of ''tank'' ''nfs'' (volumes (metrics one_volume))))"
    using reachable_gauges [OF one_volume_reachable, of "''tank''" "''nfs''"] by (simp add: Let_def)
  moreover have "length (group_of ''tank'' ''nfs'' (volumes (metrics one_volume))) = 1"
    by code_simp
  ultimately show ?thesis by simp
qed

text \<open>C22. In the whole history of the service no host was deleted that a listing just before did not show
  to be unused.\<close>

theorem reachable_hosts_unused: "reachable d s \<Longrightarrow> hosts_unused (wire_log s)"
  using reachable_history_inv by (auto simp: history_inv_def)

theorem reachable_hosts_unused_witness: "hosts_unused (wire_log one_volume)"
  by (rule reachable_hosts_unused [OF one_volume_reachable])

section \<open>What a call leaves in the table\<close>

definition leaves :: "('a \<Rightarrow> Metrics \<Rightarrow> bool) \<Rightarrow> ('w, 'a) prog \<Rightarrow> bool" where
  "leaves P m \<longleftrightarrow> (\<forall>s. P (fst (run_state m s)) (metrics (snd (run_state m s))))"

lemma leavesD: "leaves P m \<Longrightarrow> P (fst (run_state m s)) (metrics (snd (run_state m s)))"
  by (simp add: leaves_def)

lemma leaves_bind: "(\<And>a. leaves P (f a)) \<Longrightarrow> leaves P (State_Monad.bind m f)"
  by (simp add: leaves_def split_beta)

lemma leaves_if_err: "(\<And>e. leaves P (h e)) \<Longrightarrow> (\<And>x. leaves P (k x)) \<Longrightarrow> leaves P (if_err m h k)"
  unfolding if_err_def by (rule leaves_bind) (auto split: sum.splits)

lemma leaves_return: "(\<And>m. P a m) \<Longrightarrow> leaves P (return a)"
  by (simp add: leaves_def)

lemma leaves_if: "leaves P m \<Longrightarrow> leaves P n \<Longrightarrow> leaves P (if b then m else n)"
  by simp

lemma leaves_case_option: "leaves P m \<Longrightarrow> (\<And>x. leaves P (g x)) \<Longrightarrow> leaves P (case r of None \<Rightarrow> m | Some x \<Rightarrow> g x)"
  by (cases r) simp_all

lemma leaves_case_sum: "(\<And>e. leaves P (f e)) \<Longrightarrow> (\<And>x. leaves P (g x)) \<Longrightarrow> leaves P (case r of Inl e \<Rightarrow> f e | Inr x \<Rightarrow> g x)"
  by (cases r) simp_all

lemma leaves_Let: "leaves P (f x) \<Longrightarrow> leaves P (Let x f)"
  by simp

text \<open>A count that follows does not touch the table.\<close>

lemma volumes_operation [simp]: "volumes (RecordVolumeOperation p oper r m) = volumes m"
  by (simp add: RecordVolumeOperation_def Let_def)

lemma lookup_SetProvisionedVolume [simp]:
  "lookup (volumes (SetProvisionedVolume k pool protocol n m)) k = Some (provisioned pool protocol n)"
  by (simp add: SetProvisionedVolume_def Let_def split: option.splits)

lemma lookup_RemoveProvisionedVolume [simp]: "lookup (volumes (RemoveProvisionedVolume_metrics k m)) k = None"
  by (simp add: RemoveProvisionedVolume_metrics_def delete_conv split: option.splits)

definition recorded :: "status + Volume \<Rightarrow> Metrics \<Rightarrow> bool" where
  "recorded r m \<longleftrightarrow> (\<forall>vol. r = Inr vol \<longrightarrow>
     (\<exists>v. lookup (volumes m) (vol_VolumeId vol) = Some v \<and> pv_capacity v = max 0 (vol_CapacityBytes vol)))"

lemma recorded_Inl [simp]: "recorded (Inl st) m"
  by (simp add: recorded_def)

lemma leaves_fail: "leaves recorded (return (Inl st))"
  by (rule leaves_return) simp

lemma pv_capacity_provisioned [simp]: "pv_capacity (provisioned pool protocol n) = max 0 n"
  by (simp add: provisioned_def)

lemma leaves_answer:
  "vol_VolumeId vol = vi_ID v \<Longrightarrow> vol_CapacityBytes vol = vi_CapacityBytes v \<Longrightarrow>
     leaves recorded (do { RecordProvisionedVolume v; return (Inr vol) })"
  by (simp add: leaves_def RecordProvisionedVolume_def with_metrics_def recorded_def)

lemma leaves_existing:
  "vol_VolumeId vol = k \<Longrightarrow> vol_CapacityBytes vol = n \<Longrightarrow>
     leaves recorded (do { record_existing k pool protocol n; return (Inr vol) })"
  unfolding record_existing_def by (rule leaves_answer) (simp_all add: zero_VolumeInfo_def)

lemma leaves_clone:
  "leaves recorded (do {
     (case r of
        Inr vol \<Rightarrow> record_existing (vol_VolumeId vol) pool protocol (vol_CapacityBytes vol)
      | Inl _ \<Rightarrow> return ());
     return r })"
  by (cases r) (auto intro: leaves_fail leaves_existing)

lemma leaves_deferred: "leaves recorded m \<Longrightarrow> leaves recorded (deferred_record protocol oper m)"
  by (simp add: leaves_def deferred_record_def with_metrics_def recorded_def split_beta)

lemma leaves_CreateVolume: "leaves recorded (CreateVolume d req)"
proof -
  have existing: "leaves recorded (existing_volume d req k path pool protocol n dataset)"
    for k path pool protocol n dataset
    unfolding existing_volume_def Let_def
    by (intro leaves_if leaves_if_err leaves_fail leaves_existing) simp_all
  have new: "leaves recorded (new_volume d req k path protocol n)" for k path protocol n
    unfolding new_volume_def Let_def by (intro leaves_if_err leaves_fail leaves_answer) simp_all
  have body: "leaves recorded (create_volume_body d req protocol n)" for protocol n
    unfolding create_volume_body_def Let_def
    by (intro leaves_if leaves_fail leaves_bind leaves_case_sum leaves_case_option existing new leaves_clone)
  show ?thesis
    unfolding CreateVolume_def
    by (intro leaves_if leaves_fail leaves_bind leaves_case_option leaves_Let leaves_deferred body)
qed

text \<open>A volume that \<^verbatim>\<open>CreateVolume\<close> answers, new, already present or cloned, is in the table of provisioned
  volumes with the capacity of the answer.\<close>

theorem CreateVolume_recorded:
  assumes "fst (run_state (CreateVolume d req) s) = Inr vol"
  shows "\<exists>v. lookup (volumes (metrics (snd (run_state (CreateVolume d req) s)))) (vol_VolumeId vol) = Some v
    \<and> pv_capacity v = max 0 (vol_CapacityBytes vol)"
  using leavesD [OF leaves_CreateVolume, of d req s] assms by (simp add: recorded_def)

theorem CreateVolume_recorded_witness:
  "\<exists>(vol :: Volume) v. lookup (volumes (metrics (snd (run_state (CreateVolume (fixed_driver fresh_appliance) nfs_request) fresh_sys))))
     (vol_VolumeId vol) = Some v \<and> pv_capacity v = max 0 (vol_CapacityBytes vol)"
proof -
  have "\<not> isl (fst (run_state (CreateVolume (fixed_driver fresh_appliance) nfs_request) fresh_sys))"
    by code_simp
  then obtain vol where "fst (run_state (CreateVolume (fixed_driver fresh_appliance) nfs_request) fresh_sys) = Inr vol"
    using not_isl_Inr by blast
  from CreateVolume_recorded [OF this] show ?thesis by blast
qed

definition forgotten :: "string \<Rightarrow> status + unit \<Rightarrow> Metrics \<Rightarrow> bool" where
  "forgotten k r m \<longleftrightarrow> (r = Inr () \<longrightarrow> lookup (volumes m) k = None)"

lemma leaves_remove: "leaves (\<lambda>r. forgotten k (snd r)) (do { RemoveProvisionedVolume k; return (p, Inr ()) })"
  by (simp add: leaves_def RemoveProvisionedVolume_def with_metrics_def forgotten_def)

lemma leaves_removed: "leaves (forgotten k) (do { RemoveProvisionedVolume k; return (Inr ()) })"
  by (simp add: leaves_def RemoveProvisionedVolume_def with_metrics_def forgotten_def)

lemma leaves_tear_down: "leaves (forgotten k) (tear_down d k path volInfo)"
  unfolding tear_down_def Let_def
  by (rule leaves_bind, rule leaves_bind, rule leaves_bind, rule leaves_bind, rule leaves_case_option)
    (auto intro: leaves_removed leaves_return simp: forgotten_def)

lemma leaves_pair: "leaves (forgotten k) m \<Longrightarrow> leaves (\<lambda>r. forgotten k (snd r)) (do { r \<leftarrow> m; return (p, r) })"
  by (simp add: leaves_def split_beta)

lemma leaves_delete_volume_body: "leaves (\<lambda>r. forgotten k (snd r)) (delete_volume_body d k)"
proof -
  have fail: "leaves (\<lambda>r. forgotten k (snd r)) (return (p, Inl st))" for p st
    by (rule leaves_return) (simp add: forgotten_def)
  have found: "leaves (\<lambda>r. forgotten k (snd r)) (do {
      l \<leftarrow> m;
      case l of Inl e \<Rightarrow> return (p, Inl (st e))
      | Inr snapshots \<Rightarrow> if b snapshots then return (q, Inl (st' snapshots))
          else do { volInfo \<leftarrow> GetVolumeInfo d k; r \<leftarrow> tear_down d k path volInfo; return (f volInfo, r) } })"
    for m :: "('a, 'e + 'l) prog" and p q st st' b path f
    by (rule leaves_bind, rule leaves_case_sum, rule fail, rule leaves_if, rule fail, rule leaves_bind,
        rule leaves_pair, rule leaves_tear_down)
  show ?thesis
    unfolding delete_volume_body_def Let_def
    by (intro leaves_case_sum leaves_remove, split prod.split, intro allI impI)
      (rule leaves_bind, intro leaves_case_sum leaves_if leaves_remove fail found)
qed

lemma leaves_DeleteVolume: "leaves (forgotten k) (DeleteVolume d k)"
  using leaves_delete_volume_body [of k d]
  by (simp add: DeleteVolume_def leaves_def with_metrics_def forgotten_def split_beta)

text \<open>After a successful \<^verbatim>\<open>DeleteVolume\<close> the volume is not in the table of provisioned volumes.\<close>

theorem DeleteVolume_forgotten:
  assumes "fst (run_state (DeleteVolume d volumeID) s) = Inr ()"
  shows "lookup (volumes (metrics (snd (run_state (DeleteVolume d volumeID) s)))) volumeID = None"
  using leavesD [OF leaves_DeleteVolume, of volumeID d s] assms by (simp add: forgotten_def)

definition known_volume :: "unit sys" where
  "known_volume = fresh_sys\<lparr>metrics := SetProvisionedVolume ''tank/pvc-1'' ''tank'' ''nfs'' 1024 NewMetrics\<rparr>"

theorem DeleteVolume_forgotten_witness:
  "lookup (volumes (metrics (snd (run_state (DeleteVolume (fixed_driver plain_appliance) ''tank/pvc-1'') known_volume))))
     ''tank/pvc-1'' = None"
proof (rule DeleteVolume_forgotten)
  show "fst (run_state (DeleteVolume (fixed_driver plain_appliance) ''tank/pvc-1'') known_volume) = Inr ()"
    by code_simp
qed

end
