(* ===== verification/Client_Connection.thy ===== *)
theory Client_Connection
  imports Client_Wire
begin

text \<open>
  The connection of package client: \<^verbatim>\<open>pkg/client/client.go\<close> from \<^verbatim>\<open>New\<close> to \<^verbatim>\<open>Close\<close>, and \<^verbatim>\<open>apiversion.go\<close>. The
  fields of \<^verbatim>\<open>Client\<close> that the goroutines share are the record \<open>client\<close>; every section that runs under
  \<^verbatim>\<open>connMu\<close> and every atomic operation is one function on it. A program is a composition of these with
  the operations of the network, the parameter \<open>net\<close>. Wherever a goroutine can be suspended (it waits
  for the network, a timer or a lock) the function \<open>n_others\<close> of \<open>net\<close> may change the shared fields
  at will: it stands for all other goroutines, and nothing is assumed of it.

  Loops that may run forever take fuel: the number of rounds after which the model stops watching.
  \<^verbatim>\<open>net/url\<close> and the text decoder of \<^verbatim>\<open>encoding/json\<close> are parameters as well. Durations are in
  nanoseconds; logging is not modelled.
\<close>

section \<open>Configuration\<close>

text \<open>The back-off factor is a \<^verbatim>\<open>float64\<close>; its integral values are modelled.\<close>

record Config =
  cfg_URL :: string
  cfg_APIKey :: string
  cfg_TLSConfig :: "bool option"  \<comment> \<open>the \<^verbatim>\<open>InsecureSkipVerify\<close> of a TLS configuration\<close>
  cfg_InsecureSkipVerify :: bool
  cfg_CallTimeout :: int
  cfg_PingInterval :: int
  cfg_ReconnectMin :: int
  cfg_ReconnectMax :: int
  cfg_ReconnectFactor :: int
  cfg_MaxReconnectAttempts :: int
  cfg_MaxConcurrentCalls :: int

abbreviation second :: int where "second \<equiv> 1000000000"

definition with_defaults :: "Config \<Rightarrow> Config" where
  "with_defaults cfg = cfg
     \<lparr>cfg_CallTimeout := (if cfg_CallTimeout cfg = 0 then 30 * second else cfg_CallTimeout cfg),
      cfg_PingInterval := (if cfg_PingInterval cfg = 0 then 30 * second else cfg_PingInterval cfg),
      cfg_ReconnectMin := (if cfg_ReconnectMin cfg = 0 then 1 * second else cfg_ReconnectMin cfg),
      cfg_ReconnectMax := (if cfg_ReconnectMax cfg = 0 then 60 * second else cfg_ReconnectMax cfg),
      cfg_ReconnectFactor := (if cfg_ReconnectFactor cfg = 0 then 2 else cfg_ReconnectFactor cfg),
      cfg_TLSConfig := (if cfg_TLSConfig cfg = None \<and> cfg_InsecureSkipVerify cfg then Some True else cfg_TLSConfig cfg),
      cfg_MaxConcurrentCalls := (if cfg_MaxConcurrentCalls cfg = 0 then 4 else cfg_MaxConcurrentCalls cfg)\<rparr>"

section \<open>Errors\<close>

definition rpcErrCodeConnectionLost :: int where
  "rpcErrCodeConnectionLost = -1"

definition truenasErrnoNotAuthenticated :: int where
  "truenasErrnoNotAuthenticated = 207"

abbreviation errnameNotAuthenticated :: string where "errnameNotAuthenticated \<equiv> ''ENOTAUTHENTICATED''"

text \<open>The struct \<^verbatim>\<open>data\<close> of \<^verbatim>\<open>IsNotAuthenticatedError\<close>: error number and name.\<close>

definition dec_errno :: "jval \<Rightarrow> (int \<times> string) option" where
  "dec_errno = dec_struct (\<lambda>kvs.
     case (dec_field kvs ''error'' dec_int 0, dec_field kvs ''errname'' dec_str []) of
       (Some n, Some s) \<Rightarrow> Some (n, s)
     | _ \<Rightarrow> None)"

definition IsNotAuthenticatedError :: "(string \<Rightarrow> jval option) \<Rightarrow> goerr \<Rightarrow> bool" where
  "IsNotAuthenticatedError json err =
     (case as_rpc_error err of
        None \<Rightarrow> False
      | Some (code, message, data) \<Rightarrow>
          (case Option.bind (json data) dec_errno of
             Some (n, errname) \<Rightarrow> n = truenasErrnoNotAuthenticated \<or> errname = errnameNotAuthenticated
           | None \<Rightarrow> False)
          \<or> Contains (ToUpper message) errnameNotAuthenticated)"

section \<open>State\<close>

text \<open>A WebSocket connection and its \<^verbatim>\<open>connDone\<close> channel are made together and share a number; a channel is
  closed once it is in \<open>cl_closedChans\<close>. A pending request maps its number to the channel of the
  waiting call.\<close>

datatype conn_metric =
    ObserveConnectionAttempt string
  | SetConnectionStatus bool
  | ObserveReconnect string
  | ObserveRequest string string

datatype goroutine = GoReadLoop nat | GoPingLoop nat | GoReconnectLoop

record client =
  cl_URL :: string
  cl_conn :: "nat option"
  cl_connDone :: "nat option"
  cl_closedChans :: "nat list"
  cl_nextID :: nat
  cl_pending :: "(nat \<times> nat) list"
  cl_done :: bool
  cl_closed :: bool
  cl_reconnecting :: bool
  cl_apiVersionPinned :: bool
  cl_started :: "goroutine list"
  cl_metrics :: "conn_metric list"

definition New :: "Config \<Rightarrow> Config \<times> client" where
  "New cfg = (with_defaults cfg,
     \<lparr>cl_URL = cfg_URL cfg, cl_conn = None, cl_connDone = None, cl_closedChans = [], cl_nextID = 0, cl_pending = [],
      cl_done = False, cl_closed = False, cl_reconnecting = False, cl_apiVersionPinned = False, cl_started = [],
      cl_metrics = []\<rparr>)"

definition Connected :: "client \<Rightarrow> bool" where
  "Connected c \<longleftrightarrow> cl_conn c \<noteq> None"

definition Closed :: "client \<Rightarrow> bool" where
  "Closed c = cl_closed c"

subsection \<open>Atomic sections\<close>

definition observe :: "conn_metric list \<Rightarrow> client \<Rightarrow> client" where
  "observe ms c = c\<lparr>cl_metrics := cl_metrics c @ ms\<rparr>"

text \<open>\<^verbatim>\<open>x.CompareAndSwap(false, true)\<close> on the two flags.\<close>

definition cas_reconnecting :: "client \<Rightarrow> bool \<times> client" where
  "cas_reconnecting c = (\<not> cl_reconnecting c, c\<lparr>cl_reconnecting := True\<rparr>)"

definition cas_apiVersionPinned :: "client \<Rightarrow> bool \<times> client" where
  "cas_apiVersionPinned c = (\<not> cl_apiVersionPinned c, c\<lparr>cl_apiVersionPinned := True\<rparr>)"

definition start :: "goroutine \<Rightarrow> client \<Rightarrow> client" where
  "start g c = c\<lparr>cl_started := cl_started c @ [g]\<rparr>"

text \<open>The end of \<^verbatim>\<open>dial\<close>: the new connection is stored under the lock, then its two goroutines start.\<close>

definition store_conn :: "nat \<Rightarrow> client \<Rightarrow> client" where
  "store_conn conn c = c\<lparr>cl_conn := Some conn, cl_connDone := Some conn\<rparr>"

text \<open>The locked section of \<^verbatim>\<open>handleDisconnect\<close>; the first component says whether \<open>conn\<close> was the active connection.\<close>

definition disconnect_locked :: "nat \<Rightarrow> client \<Rightarrow> bool \<times> client" where
  "disconnect_locked conn c =
     (if cl_conn c \<noteq> Some conn then (False, c)
      else (True, c\<lparr>cl_closedChans := cl_closedChans c @ (case cl_connDone c of None \<Rightarrow> [] | Some ch \<Rightarrow> [ch]),
                    cl_connDone := None, cl_conn := None\<rparr>))"

text \<open>The locked section of \<^verbatim>\<open>Close\<close>; \<^verbatim>\<open>connDone\<close> keeps its value.\<close>

definition close_locked :: "client \<Rightarrow> nat option \<times> client" where
  "close_locked c =
     (cl_conn c, c\<lparr>cl_closedChans := cl_closedChans c @ (case cl_connDone c of None \<Rightarrow> [] | Some ch \<Rightarrow> [ch]),
                   cl_conn := None\<rparr>)"

text \<open>\<^verbatim>\<open>pending.Range\<close>: every waiting call is told that the connection is lost, and forgotten. The calls are the result.\<close>

definition fail_pending :: "client \<Rightarrow> nat list \<times> client" where
  "fail_pending c = (map snd (cl_pending c), c\<lparr>cl_pending := []\<rparr>)"

text \<open>\<^verbatim>\<open>pending.LoadAndDelete\<close> of the read loop.\<close>

definition take_pending :: "nat \<Rightarrow> client \<Rightarrow> nat option \<times> client" where
  "take_pending rid c = (map_of (cl_pending c) rid, c\<lparr>cl_pending := AList.delete rid (cl_pending c)\<rparr>)"

text \<open>\<^verbatim>\<open>nextID.Add(1)\<close>, and the registration of a call.\<close>

definition next_id :: "client \<Rightarrow> nat \<times> client" where
  "next_id c = (cl_nextID c + 1, c\<lparr>cl_nextID := cl_nextID c + 1\<rparr>)"

definition register :: "nat \<Rightarrow> nat \<Rightarrow> client \<Rightarrow> client" where
  "register rid ch c = c\<lparr>cl_pending := AList.update rid ch (cl_pending c)\<rparr>"

definition unregister :: "nat \<Rightarrow> client \<Rightarrow> client" where
  "unregister rid c = c\<lparr>cl_pending := AList.delete rid (cl_pending c)\<rparr>"

section \<open>The network\<close>

record URL =
  url_Scheme :: string
  url_Host :: string
  url_Path :: string
  url_RawQuery :: string
  url_Fragment :: string

datatype response = RespError int string string | RespResult "jval option"

text \<open>What wakes \<^verbatim>\<open>waitForConnection\<close>: the context, \<^verbatim>\<open>c.done\<close>, or the ticker.\<close>

datatype wake = CtxDone | ClientDone | Tick

record 'w net =
  n_parseURL :: "string \<Rightarrow> goerr + URL"
  n_formatURL :: "URL \<Rightarrow> string"
  n_json :: "string \<Rightarrow> jval option"
  n_httpGet :: "string \<Rightarrow> 'w \<Rightarrow> (goerr + int \<times> jval option) \<times> 'w"  \<comment> \<open>status and decoded body\<close>
  n_dial :: "string \<Rightarrow> 'w \<Rightarrow> (goerr + nat) \<times> 'w"
  n_write :: "nat \<Rightarrow> nat \<Rightarrow> string \<Rightarrow> jval list \<Rightarrow> 'w \<Rightarrow> goerr option \<times> 'w"
  n_read :: "nat \<Rightarrow> 'w \<Rightarrow> (goerr + nat \<times> response) \<times> 'w"  \<comment> \<open>the number and content of a response\<close>
  n_await :: "nat \<Rightarrow> 'w \<Rightarrow> (goerr + response) \<times> 'w"  \<comment> \<open>\<^verbatim>\<open>ctx.Err()\<close>, or what arrives on the channel of a call\<close>
  n_ping :: "nat \<Rightarrow> 'w \<Rightarrow> goerr option \<times> 'w"
  n_acquire :: "'w \<Rightarrow> bool \<times> 'w"
  n_select :: "'w \<Rightarrow> wake \<times> 'w"
  n_ctxErr :: "'w \<Rightarrow> goerr option \<times> 'w"
  n_others :: "client \<Rightarrow> 'w \<Rightarrow> client \<times> 'w"

text \<open>What a call did, in order: a request sent on a connection with what \<^verbatim>\<open>callOn\<close> returned for it, and a connection given
  up for a new login.\<close>

datatype call_event = is_Exchange: Exchange nat string "jval list" "goerr + jval" | is_Reauth: Reauth nat

record 'w csys =
  cs_client :: client
  cs_world :: 'w
  cs_log :: "call_event list"

type_synonym ('w, 'a) cprog = "('w csys, 'a) state"

text \<open>A step of this goroutine on the shared fields; a point where others run; a blocking operation.\<close>

definition atomically :: "(client \<Rightarrow> 'a \<times> client) \<Rightarrow> ('w, 'a) cprog" where
  "atomically f = State (\<lambda>s. let (a, c) = f (cs_client s) in (a, s\<lparr>cs_client := c\<rparr>))"

definition others :: "'w net \<Rightarrow> ('w, unit) cprog" where
  "others n = State (\<lambda>s. let (c, w) = n_others n (cs_client s) (cs_world s) in ((), s\<lparr>cs_client := c, cs_world := w\<rparr>))"

definition block :: "'w net \<Rightarrow> ('w \<Rightarrow> 'a \<times> 'w) \<Rightarrow> ('w, 'a) cprog" where
  "block n f = do {
     a \<leftarrow> State (\<lambda>s. let (a, w) = f (cs_world s) in (a, s\<lparr>cs_world := w\<rparr>));
     others n;
     return a }"

definition update :: "(client \<Rightarrow> client) \<Rightarrow> ('w, unit) cprog" where
  "update f = atomically (\<lambda>c. ((), f c))"

definition look :: "(client \<Rightarrow> 'a) \<Rightarrow> ('w, 'a) cprog" where
  "look f = atomically (\<lambda>c. (f c, c))"

definition log_event :: "call_event \<Rightarrow> ('w, unit) cprog" where
  "log_event e = State (\<lambda>s. ((), s\<lparr>cs_log := cs_log s @ [e]\<rparr>))"

section \<open>API version\<close>

abbreviation MinAPIVersion :: string where "MinAPIVersion \<equiv> ''v25.10.0''"
abbreviation apiVersionCurrent :: string where "apiVersionCurrent \<equiv> ''current''"

definition resolveAPIURL :: "'w net \<Rightarrow> string \<Rightarrow> string \<Rightarrow> goerr + string" where
  "resolveAPIURL n rawURL version =
     (case n_parseURL n rawURL of
        Inl err \<Rightarrow> Inl (Wrapf (''invalid TrueNAS URL '' @ Quote rawURL @ '': '') err)
      | Inr u \<Rightarrow>
          if url_Host u = [] then
            Inl (Errorf (''invalid TrueNAS URL '' @ Quote rawURL @ '': missing scheme/host (expected e.g. wss://host)''))
          else Inr (n_formatURL n (u\<lparr>url_Path := ''/api/'' @ version, url_RawQuery := [], url_Fragment := []\<rparr>)))"

definition fetchSupportedAPIVersions :: "'w net \<Rightarrow> string \<Rightarrow> ('w, goerr + string list) cprog" where
  "fetchSupportedAPIVersions n rawURL =
     (case n_parseURL n rawURL of
        Inl err \<Rightarrow> return (Inl (Wrapf (''invalid TrueNAS URL '' @ Quote rawURL @ '': '') err))
      | Inr u \<Rightarrow>
          if url_Host u = [] then
            return (Inl (Errorf (''invalid TrueNAS URL '' @ Quote rawURL @ '': missing host'')))
          else
            (let scheme = (if url_Scheme u = ''ws'' \<or> url_Scheme u = ''http'' then ''http'' else ''https'');
                 versionsURL = n_formatURL n \<lparr>url_Scheme = scheme, url_Host = url_Host u, url_Path = ''/api/versions'',
                                 url_RawQuery = [], url_Fragment = []\<rparr> in
             if_err (block n (n_httpGet n versionsURL)) (\<lambda>err. return (Inl err)) (\<lambda>(code, body).
               if code \<noteq> 200 then
                 return (Inl (Errorf (''GET '' @ versionsURL @ '' returned HTTP '' @ Itoa code)))
               else (case Option.bind body (dec_list dec_str) of
                       None \<Rightarrow> return (Inl (Wrapf ''decoding /api/versions response: '' JSONError))
                     | Some versions \<Rightarrow> return (Inr versions)))))"

definition versionSupported :: "string list \<Rightarrow> string \<Rightarrow> bool" where
  "versionSupported supported target = list_ex (\<lambda>v. v = target) supported"

text \<open>The message lists the supported versions; it wraps the sentinel \<^verbatim>\<open>ErrUnsupportedAPIVersion\<close>.\<close>

definition verifyAndPinAPIVersion :: "'w net \<Rightarrow> ('w, goerr option) cprog" where
  "verifyAndPinAPIVersion n = do {
     rawURL \<leftarrow> look cl_URL;
     case resolveAPIURL n rawURL apiVersionCurrent of
       Inl err \<Rightarrow> return (Some err)
     | Inr resolved \<Rightarrow>
         if_err (fetchSupportedAPIVersions n rawURL)
           (\<lambda>_. do { update (\<lambda>c. c\<lparr>cl_URL := resolved\<rparr>); return None })
           (\<lambda>supported.
              if \<not> versionSupported supported MinAPIVersion then
                return (Some (Wrapf [] ErrUnsupportedAPIVersion))
              else do { update (\<lambda>c. c\<lparr>cl_URL := resolved\<rparr>); return None }) }"

section \<open>Dialling\<close>

text \<open>\<^verbatim>\<open>dial\<close> up to the named result; the deferred function reports the outcome to the metrics.\<close>

definition dial_body :: "'w net \<Rightarrow> Config \<Rightarrow> ('w, goerr option) cprog" where
  "dial_body n cfg = do {
     closed \<leftarrow> look cl_closed;
     if closed then return (Some ErrClosed)
     else do {
       url \<leftarrow> look cl_URL;
       if_err (block n (n_dial n url)) (\<lambda>err. return (Some (ConnectionError ''dial'' err))) (\<lambda>conn. do {
         rid \<leftarrow> atomically next_id;
         written \<leftarrow> block n (n_write n conn rid ''auth.login_with_api_key'' [JStr (cfg_APIKey cfg)]);
         case written of
           Some err \<Rightarrow> return (Some (ConnectionError ''write'' err))
         | None \<Rightarrow>
             if_err (block n (n_read n conn)) (\<lambda>err. return (Some (ConnectionError ''read'' err))) (\<lambda>(_, resp).
               case resp of
                 RespError code msg data \<Rightarrow> return (Some (RPCError code msg data))
               | RespResult v \<Rightarrow>
                   if Option.bind v dec_bool \<noteq> Some True then return (Some ErrAuthFailed)
                   else do {
                     update (store_conn conn);
                     update (start (GoReadLoop conn));
                     update (start (GoPingLoop conn));
                     return None }) }) } }"

definition dial :: "'w net \<Rightarrow> Config \<Rightarrow> ('w, goerr option) cprog" where
  "dial n cfg = do {
     err \<leftarrow> dial_body n cfg;
     update (observe (if err = None then [ObserveConnectionAttempt ''success'', SetConnectionStatus True]
                      else [ObserveConnectionAttempt ''failure'', SetConnectionStatus False]));
     return err }"

section \<open>Disconnecting\<close>

definition handleDisconnect :: "'w net \<Rightarrow> nat \<Rightarrow> ('w, unit) cprog" where
  "handleDisconnect n conn = do {
     others n;
     active \<leftarrow> atomically (disconnect_locked conn);
     if \<not> active then return ()
     else do {
       update (observe [SetConnectionStatus False]);
       others n;
       failed \<leftarrow> atomically fail_pending;
       others n;
       closed \<leftarrow> look cl_closed;
       if closed then return ()
       else do {
         others n;
         won \<leftarrow> atomically cas_reconnecting;
         if won then update (start GoReconnectLoop) else return () } } }"

section \<open>Waiting and calling\<close>

datatype wait_result = Ready | WaitFailed goerr | Waiting

fun wait_poll :: "nat \<Rightarrow> 'w net \<Rightarrow> ('w, wait_result) cprog" where
  "wait_poll 0 n = return Waiting"
| "wait_poll (Suc k) n = do {
     w \<leftarrow> block n (n_select n);
     case w of
       CtxDone \<Rightarrow> return (WaitFailed ErrNotConnected)
     | ClientDone \<Rightarrow> return (WaitFailed ErrClosed)
     | Tick \<Rightarrow> do {
         up \<leftarrow> look Connected;
         if up then return Ready else wait_poll k n } }"

definition waitForConnection :: "nat \<Rightarrow> 'w net \<Rightarrow> ('w, wait_result) cprog" where
  "waitForConnection polls n = do {
     others n;
     up \<leftarrow> look Connected;
     if up then return Ready else wait_poll polls n }"

definition isRetryableError :: "goerr \<Rightarrow> client \<Rightarrow> bool" where
  "isRetryableError err c =
     (if \<not> Connected c then
        (if IsConnectionError err then True
         else (case as_rpc_error err of
                 Some (code, _, _) \<Rightarrow> code = rpcErrCodeConnectionLost
               | None \<Rightarrow> False))
      else False)"

text \<open>\<^verbatim>\<open>callOn\<close>; the result is decoded by the caller, an absent result is the value null.\<close>

definition callOn :: "'w net \<Rightarrow> nat \<Rightarrow> string \<Rightarrow> jval list \<Rightarrow> ('w, goerr + jval) cprog" where
  "callOn n conn method params = do {
     rid \<leftarrow> atomically next_id;
     update (register rid rid);
     written \<leftarrow> block n (n_write n conn rid method params);
     r \<leftarrow> (case written of
            Some err \<Rightarrow> return (Inl (ConnectionError ''write'' err))
          | None \<Rightarrow> do {
              resp \<leftarrow> block n (n_await n rid);
              return (case resp of
                  Inl err \<Rightarrow> Inl err
                | Inr (RespError code msg data) \<Rightarrow> Inl (RPCError code msg data)
                | Inr (RespResult None) \<Rightarrow> Inr JNull
                | Inr (RespResult (Some v)) \<Rightarrow> Inr v) });
     update (unregister rid);
     log_event (Exchange conn method params r);
     return r }"

datatype call_result = Returned "goerr + jval" | StillRunning

fun call_loop :: "nat \<Rightarrow> nat \<Rightarrow> 'w net \<Rightarrow> string \<Rightarrow> jval list \<Rightarrow> bool \<Rightarrow> ('w, call_result) cprog" where
  "call_loop 0 polls n method params reauthAttempted = return StillRunning"
| "call_loop (Suc k) polls n method params reauthAttempted = do {
     others n;
     conn \<leftarrow> look cl_conn;
     case conn of
       None \<Rightarrow> do {
         w \<leftarrow> waitForConnection polls n;
         case w of
           WaitFailed err \<Rightarrow> return (Returned (Inl err))
         | Waiting \<Rightarrow> return StillRunning
         | Ready \<Rightarrow> call_loop k polls n method params reauthAttempted }
     | Some conn \<Rightarrow> do {
         r \<leftarrow> callOn n conn method params;
         update (observe [ObserveRequest method (if isl r then ''error'' else ''success'')]);
         case r of
           Inr v \<Rightarrow> return (Returned (Inr v))
         | Inl err \<Rightarrow>
             if IsNotAuthenticatedError (n_json n) err then
               (if reauthAttempted then return (Returned (Inl err))
                else do {
                  log_event (Reauth conn);
                  handleDisconnect n conn;
                  w \<leftarrow> waitForConnection polls n;
                  ctxErr \<leftarrow> (if w = Ready then block n (n_ctxErr n) else return None);
                  closed \<leftarrow> look cl_closed;
                  if w = Waiting then return StillRunning
                  else if w \<noteq> Ready \<or> ctxErr \<noteq> None \<or> closed then return (Returned (Inl err))
                  else call_loop k polls n method params True })
             else do {
               others n;
               retry \<leftarrow> look (isRetryableError err);
               if retry then do {
                 w \<leftarrow> waitForConnection polls n;
                 case w of
                   WaitFailed _ \<Rightarrow> return (Returned (Inl err))
                 | Waiting \<Rightarrow> return StillRunning
                 | Ready \<Rightarrow> call_loop k polls n method params reauthAttempted }
               else return (Returned (Inl err)) } } }"

text \<open>\<^verbatim>\<open>Call\<close>, with fuel for the rounds of its loop and for the polls of one wait.\<close>

definition client_Call :: "nat \<Rightarrow> nat \<Rightarrow> 'w net \<Rightarrow> string \<Rightarrow> jval list \<Rightarrow> ('w, call_result) cprog" where
  "client_Call rounds polls n method params = do {
     ok \<leftarrow> block n (n_acquire n);
     if \<not> ok then return (Returned (Inl ErrNotConnected))
     else call_loop rounds polls n method params False }"

definition client_Ping :: "nat \<Rightarrow> nat \<Rightarrow> 'w net \<Rightarrow> ('w, call_result) cprog" where
  "client_Ping rounds polls n = client_Call rounds polls n ''core.ping'' []"

section \<open>Connecting\<close>

datatype connect_result = ConnectDone "goerr option" | ConnectWaiting

definition client_Connect :: "nat \<Rightarrow> 'w net \<Rightarrow> Config \<Rightarrow> ('w, connect_result) cprog" where
  "client_Connect polls n cfg = do {
     others n;
     up \<leftarrow> look Connected;
     if up then return (ConnectDone None)
     else do {
       first \<leftarrow> atomically cas_apiVersionPinned;
       pinErr \<leftarrow> (if first then do {
                    r \<leftarrow> verifyAndPinAPIVersion n;
                    if r \<noteq> None then do { update (\<lambda>c. c\<lparr>cl_apiVersionPinned := False\<rparr>); return r } else return None }
                  else return None);
       case pinErr of
         Some err \<Rightarrow> return (ConnectDone (Some err))
       | None \<Rightarrow> do {
           err \<leftarrow> dial n cfg;
           case err of
             None \<Rightarrow> return (ConnectDone None)
           | Some e \<Rightarrow>
               if \<not> IsConnectionError e then return (ConnectDone (Some e))
               else do {
                 others n;
                 won \<leftarrow> atomically cas_reconnecting;
                 (if won then update (start GoReconnectLoop) else return ());
                 w \<leftarrow> waitForConnection polls n;
                 return (case w of Ready \<Rightarrow> ConnectDone None | WaitFailed e' \<Rightarrow> ConnectDone (Some e') | Waiting \<Rightarrow> ConnectWaiting) } } } }"

section \<open>Goroutines\<close>

text \<open>The back-off: \<^verbatim>\<open>time.Duration(float64(delay) * factor)\<close>, at most the maximum.\<close>

definition next_delay :: "Config \<Rightarrow> int \<Rightarrow> int" where
  "next_delay cfg delay =
     min (f64_to_int64 (f64_of_int (f64_of_int delay * cfg_ReconnectFactor cfg))) (cfg_ReconnectMax cfg)"

text \<open>\<^verbatim>\<open>reconnectLoop\<close>: \<^verbatim>\<open>Some\<close> of the delays it slept once it has returned. Every exit clears \<^verbatim>\<open>reconnecting\<close>.\<close>

fun reconnect_rounds :: "nat \<Rightarrow> 'w net \<Rightarrow> Config \<Rightarrow> int \<Rightarrow> int \<Rightarrow> int list \<Rightarrow> ('w, int list option) cprog" where
  "reconnect_rounds 0 n cfg delay attempt slept = return None"
| "reconnect_rounds (Suc k) n cfg delay attempt slept = do {
     w \<leftarrow> block n (n_select n);
     if w \<noteq> Tick then do { update (\<lambda>c. c\<lparr>cl_reconnecting := False\<rparr>); return (Some slept) }
     else do {
       stop \<leftarrow> look (\<lambda>c. cl_closed c \<or> Connected c);
       if stop \<or> (cfg_MaxReconnectAttempts cfg > 0 \<and> attempt + 1 > cfg_MaxReconnectAttempts cfg) then do {
         update (\<lambda>c. c\<lparr>cl_reconnecting := False\<rparr>);
         return (Some (slept @ [delay])) }
       else do {
         err \<leftarrow> dial n cfg;
         if err = None then do {
           update (observe [ObserveReconnect ''success'']);
           others n;
           update (\<lambda>c. c\<lparr>cl_reconnecting := False\<rparr>);
           return (Some (slept @ [delay])) }
         else do {
           update (observe [ObserveReconnect ''failure'']);
           reconnect_rounds k n cfg (next_delay cfg delay) (attempt + 1) (slept @ [delay]) } } } }"

definition reconnectLoop :: "nat \<Rightarrow> 'w net \<Rightarrow> Config \<Rightarrow> ('w, int list option) cprog" where
  "reconnectLoop rounds n cfg = reconnect_rounds rounds n cfg (cfg_ReconnectMin cfg) 0 []"

text \<open>One round of the read and of the ping loop: whether the goroutine goes on. A response is handed to the call
  that waits for its number (the second component).\<close>

definition read_round :: "'w net \<Rightarrow> nat \<Rightarrow> ('w, bool \<times> nat option) cprog" where
  "read_round n conn = do {
     stop \<leftarrow> look (\<lambda>c. conn \<in> set (cl_closedChans c));
     if stop then return (False, None)
     else do {
       r \<leftarrow> block n (n_read n conn);
       case r of
         Inl err \<Rightarrow> do {
           stop \<leftarrow> look (\<lambda>c. conn \<in> set (cl_closedChans c));
           if stop then return (False, None)
           else do { handleDisconnect n conn; return (False, None) } }
       | Inr (rid, resp) \<Rightarrow> do {
           ch \<leftarrow> atomically (take_pending rid);
           return (True, ch) } } }"

fun readLoop :: "nat \<Rightarrow> 'w net \<Rightarrow> nat \<Rightarrow> ('w, unit) cprog" where
  "readLoop 0 n conn = return ()"
| "readLoop (Suc k) n conn = do {
     (go, _) \<leftarrow> read_round n conn;
     if go then readLoop k n conn else return () }"

definition ping_round :: "'w net \<Rightarrow> nat \<Rightarrow> ('w, bool) cprog" where
  "ping_round n conn = do {
     w \<leftarrow> block n (n_select n);
     stop \<leftarrow> look (\<lambda>c. conn \<in> set (cl_closedChans c));
     if stop \<and> w \<noteq> Tick then return False
     else do {
       err \<leftarrow> block n (n_ping n conn);
       case err of
         None \<Rightarrow> return True
       | Some _ \<Rightarrow> do {
           stop \<leftarrow> look (\<lambda>c. conn \<in> set (cl_closedChans c));
           if stop then return False
           else do { handleDisconnect n conn; return False } } } }"

fun pingLoop :: "nat \<Rightarrow> 'w net \<Rightarrow> nat \<Rightarrow> ('w, unit) cprog" where
  "pingLoop 0 n conn = return ()"
| "pingLoop (Suc k) n conn = do {
     go \<leftarrow> ping_round n conn;
     if go then pingLoop k n conn else return () }"

section \<open>Closing\<close>

definition client_Close :: "'w net \<Rightarrow> ('w, nat option) cprog" where
  "client_Close n = do {
     was \<leftarrow> atomically (\<lambda>c. (cl_closed c, c\<lparr>cl_closed := True\<rparr>));
     if was then return None
     else do {
       update (\<lambda>c. c\<lparr>cl_done := True\<rparr>);
       others n;
       conn \<leftarrow> atomically close_locked;
       update (observe [SetConnectionStatus False]);
       return conn } }"

end
