(* ===== verification/Client_Calls.thy ===== *)
theory Client_Calls
  imports Client_Connection
begin

text \<open>
  What one call through the connection does, whatever the network answers and whatever the other
  goroutines do meanwhile. The language of its exchanges is the inductive predicate \<open>call_trace\<close>; every
  run of \<^verbatim>\<open>Call\<close> is in it. From it follows that a call logs in again at most once, and that it sends its
  request again only after an error that says that the session or the connection was lost.
\<close>

section \<open>Rules\<close>

definition events :: "('w, 'a) cprog \<Rightarrow> 'w csys \<Rightarrow> call_event list" where
  "events m s = drop (length (cs_log s)) (cs_log (snd (run_state m s)))"

definition traced :: "('a \<Rightarrow> call_event list \<Rightarrow> bool) \<Rightarrow> ('w, 'a) cprog \<Rightarrow> bool" where
  "traced R m \<longleftrightarrow> (\<forall>s. \<exists>xs. cs_log (snd (run_state m s)) = cs_log s @ xs \<and> R (fst (run_state m s)) xs)"

abbreviation quiet :: "('w, 'a) cprog \<Rightarrow> bool" where
  "quiet m \<equiv> traced (\<lambda>_ xs. xs = []) m"

lemma tracedD: "traced R m \<Longrightarrow> R (fst (run_state m s)) (events m s)"
  unfolding traced_def events_def by (metis append_eq_conv_conj)

lemma traced_weaken: "traced Q m \<Longrightarrow> (\<And>a xs. Q a xs \<Longrightarrow> R a xs) \<Longrightarrow> traced R m"
  unfolding traced_def by blast

lemma traced_return: "R a [] \<Longrightarrow> traced R (return a)"
  by (simp add: traced_def)

lemma traced_bind:
  assumes "traced Q m" and "\<And>a xs. Q a xs \<Longrightarrow> traced (\<lambda>b ys. R b (xs @ ys)) (f a)"
  shows "traced R (State_Monad.bind m f)"
  unfolding traced_def
proof
  fix s
  obtain a t where m: "run_state m s = (a, t)" by fastforce
  from assms(1) obtain xs where xs: "cs_log t = cs_log s @ xs" "Q a xs"
    unfolding traced_def by (metis m fst_conv snd_conv)
  obtain b u where b: "run_state (f a) t = (b, u)" by fastforce
  from assms(2) [OF xs(2)] obtain ys where "cs_log u = cs_log t @ ys" "R b (xs @ ys)"
    unfolding traced_def by (metis b fst_conv snd_conv)
  then show "\<exists>zs. cs_log (snd (run_state (State_Monad.bind m f) s)) = cs_log s @ zs
      \<and> R (fst (run_state (State_Monad.bind m f) s)) zs"
    using m b xs by (intro exI [of _ "xs @ ys"]) simp
qed

lemma traced_quiet:
  "quiet m \<Longrightarrow> (\<And>a. traced R (f a)) \<Longrightarrow> traced R (State_Monad.bind m f)"
  by (erule traced_bind) simp

lemma quiet_primitives:
  "quiet (atomically g)" "quiet (others n)" "quiet (update u)" "quiet (look v)"
  by (simp_all add: traced_def atomically_def others_def update_def look_def Let_def split: prod.splits)

lemma quiet_block: "quiet (block n f)"
  unfolding block_def
  by (intro traced_quiet quiet_primitives traced_return) (simp_all add: traced_def Let_def split: prod.splits)

lemma quiet_if: "quiet m \<Longrightarrow> quiet k \<Longrightarrow> quiet (if b then m else k)"
  by simp

lemma traced_log_event: "traced (\<lambda>_ xs. xs = [e]) (log_event e)"
  by (simp add: traced_def log_event_def)

lemma quiet_handleDisconnect: "quiet (handleDisconnect n c)"
  unfolding handleDisconnect_def
  by (intro traced_quiet quiet_primitives quiet_if traced_return) simp_all

text \<open>A wait fails only because the context ended or the client was closed.\<close>

definition wait_outcome :: "wait_result \<Rightarrow> bool" where
  "wait_outcome w \<longleftrightarrow> (case w of WaitFailed e \<Rightarrow> e = ErrNotConnected \<or> e = ErrClosed | _ \<Rightarrow> True)"

lemma wait_outcome_simps [simp]:
  "wait_outcome Ready" "wait_outcome Waiting" "wait_outcome (WaitFailed e) \<longleftrightarrow> e = ErrNotConnected \<or> e = ErrClosed"
  by (simp_all add: wait_outcome_def)

lemma traced_wait_poll: "traced (\<lambda>w xs. xs = [] \<and> wait_outcome w) (wait_poll k n)"
proof (induction k)
  case (Suc k)
  then show ?case
    unfolding wait_poll.simps
    by (intro traced_quiet [OF quiet_block])
      (auto intro!: traced_return traced_quiet [OF quiet_primitives(4)] split: wake.splits)
qed (simp add: traced_return)

lemma traced_waitForConnection: "traced (\<lambda>w xs. xs = [] \<and> wait_outcome w) (waitForConnection polls n)"
  unfolding waitForConnection_def
  by (intro traced_quiet [OF quiet_primitives(2)] traced_quiet [OF quiet_primitives(4)])
    (simp add: traced_wait_poll traced_return)

lemma quiet_waitForConnection: "quiet (waitForConnection polls n)"
  by (rule traced_weaken [OF traced_waitForConnection]) simp

lemma traced_callOn: "traced (\<lambda>r xs. xs = [Exchange c method params r]) (callOn n c method params)"
  unfolding callOn_def
  by (intro traced_quiet [OF quiet_primitives(1)] traced_quiet [OF quiet_primitives(3)] traced_quiet [OF quiet_block]
      traced_quiet traced_bind [OF traced_log_event])
    (auto intro!: traced_return traced_quiet [OF quiet_block] split: option.splits)

section \<open>The language of a call\<close>

definition resend_allowed :: "goerr \<Rightarrow> bool" where
  "resend_allowed e \<longleftrightarrow> IsConnectionError e
     \<or> (case as_rpc_error e of Some (code, _, _) \<Rightarrow> code = rpcErrCodeConnectionLost | None \<Rightarrow> False)"

text \<open>\<open>call_trace json meth params reauthed xs r\<close>: a call that has (not) logged in again yet may do \<open>xs\<close> and end with \<open>r\<close>.\<close>

inductive call_trace :: "(string \<Rightarrow> jval option) \<Rightarrow> string \<Rightarrow> jval list \<Rightarrow> bool \<Rightarrow> call_event list \<Rightarrow> call_result \<Rightarrow> bool"
  for json meth params where
  running: "call_trace json meth params b [] StillRunning"
| no_connection: "e = ErrNotConnected \<or> e = ErrClosed \<Longrightarrow> call_trace json meth params b [] (Returned (Inl e))"
| answered: "call_trace json meth params b [Exchange c meth params (Inr v)] (Returned (Inr v))"
| failed: "call_trace json meth params b [Exchange c meth params (Inl e)] (Returned (Inl e))"
| reauth: "IsNotAuthenticatedError json e \<Longrightarrow> call_trace json meth params True xs r \<Longrightarrow>
    call_trace json meth params False (Exchange c meth params (Inl e) # Reauth c # xs) r"
| reauth_failed: "IsNotAuthenticatedError json e \<Longrightarrow>
    call_trace json meth params False [Exchange c meth params (Inl e), Reauth c] (Returned (Inl e))"
| again: "\<not> IsNotAuthenticatedError json e \<Longrightarrow> resend_allowed e \<Longrightarrow> call_trace json meth params b xs r \<Longrightarrow>
    call_trace json meth params b (Exchange c meth params (Inl e) # xs) r"

lemma retryable_resend: "isRetryableError e c \<Longrightarrow> resend_allowed e"
  by (auto simp: isRetryableError_def resend_allowed_def split: if_splits)

lemma look_traced:
  assumes "\<And>c. traced R (f (v c))"
  shows "traced R (State_Monad.bind (look v) f)"
proof (rule traced_bind)
  show "traced (\<lambda>a xs. xs = [] \<and> (\<exists>c. a = v c)) (look v)"
    by (auto simp: traced_def look_def atomically_def)
qed (use assms in auto)

lemma traced_call_loop:
  "traced (\<lambda>r xs. call_trace (n_json n) method params b xs r) (call_loop k polls n method params b)"
proof (induction k arbitrary: b)
  case 0
  show ?case by (simp add: traced_return call_trace.running)
next
  case (Suc k)
  let ?T = "call_trace (n_json n) method params"
  note IH = Suc.IH
  have wait: "traced (\<lambda>r xs. ?T b xs r) (State_Monad.bind (waitForConnection polls n) f)"
    if "\<And>w. wait_outcome w \<Longrightarrow> traced (\<lambda>r xs. ?T b xs r) (f w)" for f
    using that by (intro traced_bind [OF traced_waitForConnection]) auto
  have retry: "traced (\<lambda>r xs. ?T a (Exchange c method params (Inl e) # xs) r)
      (State_Monad.bind (waitForConnection polls n) (\<lambda>w. case w of
          WaitFailed _ \<Rightarrow> return (Returned (Inl e)) | Waiting \<Rightarrow> return StillRunning
        | Ready \<Rightarrow> call_loop k polls n method params a))"
    if "\<not> IsNotAuthenticatedError (n_json n) e" "resend_allowed e" for a c e
    using that
    by (intro traced_quiet [OF quiet_waitForConnection])
      (auto intro!: traced_return call_trace.intros traced_weaken [OF IH] split: wait_result.splits)
  have relogin: "traced (\<lambda>r xs. ?T False (Exchange c method params (Inl e) # Reauth c # xs) r)
      (do { handleDisconnect n c;
            w \<leftarrow> waitForConnection polls n;
            ctxErr \<leftarrow> (if w = Ready then block n (n_ctxErr n) else return None);
            closed \<leftarrow> look cl_closed;
            if w = Waiting then return StillRunning
            else if w \<noteq> Ready \<or> ctxErr \<noteq> None \<or> closed then return (Returned (Inl e))
            else call_loop k polls n method params True })"
    if "IsNotAuthenticatedError (n_json n) e" for c e
    using that
    by (intro traced_quiet [OF quiet_handleDisconnect] traced_quiet [OF quiet_waitForConnection]
        traced_quiet [OF quiet_if] quiet_block look_traced)
      (auto intro!: traced_return call_trace.intros traced_weaken [OF IH])
  have on_conn: "traced (\<lambda>r xs. ?T b xs r) (do {
      r \<leftarrow> callOn n c method params;
      update (observe [ObserveRequest method (if isl r then ''error'' else ''success'')]);
      case r of
        Inr v \<Rightarrow> return (Returned (Inr v))
      | Inl err \<Rightarrow>
          if IsNotAuthenticatedError (n_json n) err then
            (if b then return (Returned (Inl err))
             else do {
               log_event (Reauth c);
               handleDisconnect n c;
               w \<leftarrow> waitForConnection polls n;
               ctxErr \<leftarrow> (if w = Ready then block n (n_ctxErr n) else return None);
               closed \<leftarrow> look cl_closed;
               if w = Waiting then return StillRunning
               else if w \<noteq> Ready \<or> ctxErr \<noteq> None \<or> closed then return (Returned (Inl err))
               else call_loop k polls n method params True })
          else do {
            others n;
            retry \<leftarrow> look (isRetryableError err);
            if retry then do {
              w \<leftarrow> waitForConnection polls n;
              case w of
                WaitFailed _ \<Rightarrow> return (Returned (Inl err))
              | Waiting \<Rightarrow> return StillRunning
              | Ready \<Rightarrow> call_loop k polls n method params b }
            else return (Returned (Inl err)) } })" for c
    by (intro traced_bind [OF traced_callOn] traced_quiet [OF quiet_primitives(3)])
      (auto intro!: traced_return call_trace.intros look_traced traced_quiet [OF quiet_primitives(2)] relogin retry [OF _ retryable_resend]
            traced_bind [OF traced_log_event] split: sum.splits)
  show ?case
    unfolding call_loop.simps
    by (intro traced_quiet [OF quiet_primitives(2)] look_traced)
      (auto intro!: on_conn wait traced_return call_trace.running call_trace.no_connection IH
        split: option.splits wait_result.splits)
qed

lemma traced_client_Call:
  "traced (\<lambda>r xs. call_trace (n_json n) method params False xs r) (client_Call rounds polls n method params)"
  unfolding client_Call_def
  by (intro traced_quiet [OF quiet_block]) (auto intro!: traced_return call_trace.no_connection traced_call_loop)

section \<open>What a call may do\<close>

lemma call_trace_reauths:
  "call_trace json method params b xs r \<Longrightarrow> length (filter is_Reauth xs) \<le> (if b then 0 else 1)"
  by (induction rule: call_trace.induct) auto

text \<open>An exchange after which the loop may go on.\<close>

definition lost :: "(string \<Rightarrow> jval option) \<Rightarrow> string \<Rightarrow> jval list \<Rightarrow> call_event \<Rightarrow> bool" where
  "lost json method params ev = (case ev of
     Exchange _ m ps (Inl e) \<Rightarrow> m = method \<and> ps = params \<and> (IsNotAuthenticatedError json e \<or> resend_allowed e)
   | Exchange _ _ _ (Inr _) \<Rightarrow> False
   | Reauth _ \<Rightarrow> True)"

lemma call_trace_lost:
  "call_trace json method params b xs r \<Longrightarrow> list_all (lost json method params) (butlast xs)"
  by (induction rule: call_trace.induct) (simp_all add: lost_def)

lemma call_trace_answer:
  "call_trace json method params b xs r \<Longrightarrow> r = Returned (Inr v) \<Longrightarrow>
     \<exists>c ys. xs = ys @ [Exchange c method params (Inr v)]"
proof (induction rule: call_trace.induct)
  case (reauth e xs r c)
  then obtain c' ys where "xs = ys @ [Exchange c' method params (Inr v)]" by blast
  then show ?case by (intro exI [of _ c'] exI [of _ "_ # _ # ys"]) simp
next
  case (again e b xs r c)
  then obtain c' ys where "xs = ys @ [Exchange c' method params (Inr v)]" by blast
  then show ?case by (intro exI [of _ c'] exI [of _ "_ # ys"]) simp
qed simp_all

text \<open>C7. Refinement: whatever the network answers and the other goroutines do, the exchanges of a call and its result
  are those of the specification \<open>call_trace\<close>: an answer or a final error ends the call; an error that says the
  connection is lost lets it send the same request again; one that says the session is not authenticated lets it drop
  the connection and send the request again, once.\<close>

theorem client_Call_refines:
  "call_trace (n_json n) method params False (events (client_Call rounds polls n method params) s)
     (fst (run_state (client_Call rounds polls n method params) s))"
  by (rule tracedD [OF traced_client_Call])

text \<open>C23. Safety of retries: a call logs in again at most once; every request it sends but the last was refused as
  unauthenticated or failed with the connection, so a request that was answered is never sent again; and an answer it
  returns is the answer to its last request.\<close>

theorem client_Call_retries:
  fixes n :: "'w net"
  shows "let call = client_Call rounds polls n method params; evs = events call s in
      length (filter is_Reauth evs) \<le> 1
    \<and> list_all (lost (n_json n) method params) (butlast evs)
    \<and> (case fst (run_state call s) of
          Returned (Inr v) \<Rightarrow> \<exists>c ys. evs = ys @ [Exchange c method params (Inr v)]
        | _ \<Rightarrow> True)"
proof -
  let ?call = "client_Call rounds polls n method params"
  have t: "call_trace (n_json n) method params False (events ?call s) (fst (run_state ?call s))"
    by (rule tracedD [OF traced_client_Call])
  show ?thesis
    using call_trace_reauths [OF t] call_trace_lost [OF t] call_trace_answer [OF t]
    by (auto simp: Let_def split: call_result.splits sum.splits)
qed

end
