(* ===== verification/Client_Reconnect.thy ===== *)
theory Client_Reconnect
  imports Client_Calls
begin

text \<open>
  When the programs of the connection end and how: the back-off of the reconnect loop, the end of a call
  whose context ends, and the refusal of a server without the pinned API version.
\<close>

section \<open>Rules\<close>

text \<open>\<open>ensures P m Q\<close>: started with shared fields that satisfy \<open>P\<close>, \<open>m\<close> ends with a result and fields that satisfy \<open>Q\<close>.\<close>

definition ensures :: "(client \<Rightarrow> bool) \<Rightarrow> ('w, 'a) cprog \<Rightarrow> ('a \<Rightarrow> client \<Rightarrow> bool) \<Rightarrow> bool" where
  "ensures P m Q \<longleftrightarrow> (\<forall>s. P (cs_client s) \<longrightarrow> Q (fst (run_state m s)) (cs_client (snd (run_state m s))))"

named_theorems ensures_intros

lemma ensuresD: "ensures P m Q \<Longrightarrow> P (cs_client s) \<Longrightarrow> Q (fst (run_state m s)) (cs_client (snd (run_state m s)))"
  by (simp add: ensures_def)

lemma ensures_weaken: "ensures P m R \<Longrightarrow> (\<And>a c. R a c \<Longrightarrow> Q a c) \<Longrightarrow> ensures P m Q"
  by (auto simp: ensures_def)

lemma ensures_pre: "ensures P m Q \<Longrightarrow> (\<And>c. R c \<Longrightarrow> P c) \<Longrightarrow> ensures R m Q"
  by (auto simp: ensures_def)

lemma ensures_cases: "(\<And>c. P c \<Longrightarrow> ensures (\<lambda>c'. c' = c) m Q) \<Longrightarrow> ensures P m Q"
  by (auto simp: ensures_def)

lemma ensures_return [ensures_intros]: "(\<And>c. P c \<Longrightarrow> Q a c) \<Longrightarrow> ensures P (return a) Q"
  by (simp add: ensures_def)

lemma ensures_bind:
  "ensures P m R \<Longrightarrow> (\<And>a. ensures (R a) (f a) Q) \<Longrightarrow> ensures P (State_Monad.bind m f) Q"
  by (auto simp: ensures_def split: prod.split)

lemma ensures_atomically: "ensures P (atomically f) (\<lambda>a c'. \<exists>c. P c \<and> (a, c') = f c)"
  by (auto simp: ensures_def atomically_def Let_def split: prod.splits)

lemma ensures_look: "ensures P (look v) (\<lambda>a c. P c \<and> a = v c)"
  by (auto simp: ensures_def look_def atomically_def)

lemma ensures_update: "ensures P (update u) (\<lambda>_ c'. \<exists>c. P c \<and> c' = u c)"
  by (auto simp: ensures_def update_def atomically_def)

lemma ensures_bind_value:
  "ensures P m (\<lambda>a c. R c \<and> a = v) \<Longrightarrow> ensures R (f v) Q \<Longrightarrow> ensures P (State_Monad.bind m f) Q"
  by (auto simp: ensures_def split: prod.split)

lemma ensures_look_bind:
  "(\<And>a. ensures (\<lambda>c. P c \<and> a = v c) (f a) Q) \<Longrightarrow> ensures P (State_Monad.bind (look v) f) Q"
  by (rule ensures_bind [OF ensures_look])

text \<open>What the other goroutines keep is kept where they may run.\<close>

definition undisturbed :: "'w net \<Rightarrow> (client \<Rightarrow> bool) \<Rightarrow> bool" where
  "undisturbed n P \<longleftrightarrow> (\<forall>c w. P c \<longrightarrow> P (fst (n_others n c w)))"

lemma ensures_others: "undisturbed n P \<Longrightarrow> ensures P (others n) (\<lambda>_. P)"
  by (auto simp: ensures_def others_def undisturbed_def Let_def split: prod.splits) (metis fst_conv)

lemma ensures_block: "undisturbed n P \<Longrightarrow> ensures P (block n f) (\<lambda>_. P)"
  unfolding block_def
  by (rule ensures_bind [where R = "\<lambda>_. P"], simp add: ensures_def Let_def split: prod.splits)
    (rule ensures_bind [OF ensures_others], auto intro: ensures_intros)

lemma ensures_block_result:
  assumes "undisturbed n P" and "\<And>w. R (fst (f w))"
  shows "ensures P (block n f) (\<lambda>a c. P c \<and> R a)"
  unfolding block_def
proof (rule ensures_bind)
  show "ensures P (State (\<lambda>s. let (a, w) = f (cs_world s) in (a, s\<lparr>cs_world := w\<rparr>))) (\<lambda>a c. P c \<and> R a)"
    by (simp add: ensures_def Let_def split: prod.splits) (metis assms(2) fst_conv)
  show "ensures (\<lambda>c. P c \<and> R a) (State_Monad.bind (others n) (\<lambda>_. return a)) (\<lambda>a c. P c \<and> R a)" for a
    using assms(1) by (intro ensures_bind [OF ensures_others] ensures_return) (auto simp: undisturbed_def)
qed

lemma undisturbed_True [simp]: "undisturbed n (\<lambda>_. True)"
  by (simp add: undisturbed_def)

section \<open>The back-off\<close>

definition backoff :: "Config \<Rightarrow> nat \<Rightarrow> int" where
  "backoff cfg i = min (cfg_ReconnectMin cfg * cfg_ReconnectFactor cfg ^ i) (cfg_ReconnectMax cfg)"

text \<open>The durations of a sound configuration; they and their products are exact as \<^verbatim>\<open>float64\<close>.\<close>

definition backoff_config :: "Config \<Rightarrow> bool" where
  "backoff_config cfg \<longleftrightarrow> 0 < cfg_ReconnectMin cfg \<and> cfg_ReconnectMin cfg \<le> cfg_ReconnectMax cfg
     \<and> 1 \<le> cfg_ReconnectFactor cfg \<and> cfg_ReconnectMax cfg * cfg_ReconnectFactor cfg < 2 ^ 53"

lemma backoff_bounds:
  assumes "backoff_config cfg"
  shows "cfg_ReconnectMin cfg \<le> backoff cfg i \<and> backoff cfg i \<le> cfg_ReconnectMax cfg"
proof -
  have "1 \<le> cfg_ReconnectFactor cfg ^ i" using assms by (simp add: backoff_config_def)
  then have "cfg_ReconnectMin cfg * 1 \<le> cfg_ReconnectMin cfg * cfg_ReconnectFactor cfg ^ i"
    using assms by (intro mult_left_mono) (simp_all add: backoff_config_def)
  then show ?thesis using assms by (simp add: backoff_def backoff_config_def)
qed

lemma next_delay_backoff:
  assumes cfg: "backoff_config cfg"
  shows "next_delay cfg (backoff cfg i) = backoff cfg (Suc i)"
proof -
  let ?F = "cfg_ReconnectFactor cfg" and ?X = "cfg_ReconnectMax cfg" and ?D = "backoff cfg i"
  let ?g = "cfg_ReconnectMin cfg * ?F ^ i"
  have b: "0 < ?D" "?D \<le> ?X" "1 \<le> ?F" "0 < ?X"
    using backoff_bounds [OF cfg, of i] cfg by (auto simp: backoff_config_def)
  have "?D * ?F \<le> ?X * ?F" "?X * 1 \<le> ?X * ?F" "?D * 1 \<le> ?D * ?F"
    using b by (auto intro!: mult_right_mono mult_left_mono)
  moreover have "?X * ?F < 2 ^ 53" using cfg by (simp add: backoff_config_def)
  ultimately have small: "\<bar>?D * ?F\<bar> < 2 ^ 53" "\<bar>?D\<bar> < 2 ^ 53"
    using b by linarith+
  have "min (?D * ?F) ?X = backoff cfg (Suc i)"
  proof (cases "?g \<le> ?X")
    case True
    then show ?thesis by (simp add: backoff_def mult_ac)
  next
    case False
    then have "0 \<le> ?g" using b(4) by linarith
    then have "?X \<le> ?X * ?F" "?g \<le> ?g * ?F"
      using mult_left_mono [of 1 ?F ?X] mult_left_mono [of 1 ?F ?g] b by simp_all
    then show ?thesis using False by (simp add: backoff_def mult_ac min_def)
  qed
  then show ?thesis
    by (simp only: next_delay_def f64_of_int_exact [OF small(2)] f64_to_int64_exact [OF small(1)])
qed

lemma ensures_quiet: "ensures (\<lambda>_. True) m (\<lambda>_ _. True)"
  by (simp add: ensures_def)

lemma ensures_true_bind: "(\<And>a. ensures (\<lambda>_. True) (f a) Q) \<Longrightarrow> ensures (\<lambda>_. True) (State_Monad.bind m f) Q"
  by (rule ensures_bind [OF ensures_quiet])

lemma ensures_stop:
  "R a \<Longrightarrow> ensures (\<lambda>_. True) (State_Monad.bind (update (\<lambda>c. c\<lparr>cl_reconnecting := False\<rparr>)) (\<lambda>_. return a))
     (\<lambda>r c. \<not> cl_reconnecting c \<and> R r)"
  by (rule ensures_bind [OF ensures_update]) (auto intro: ensures_intros)

definition backed_off :: "Config \<Rightarrow> nat \<Rightarrow> int list option \<Rightarrow> bool" where
  "backed_off cfg m r \<longleftrightarrow> (\<exists>slept. r = Some slept \<and> slept = map (backoff cfg) [0..<length slept] \<and> length slept \<le> m)"

lemma backed_off_upto: "l \<le> m \<Longrightarrow> backed_off cfg m (Some (map (backoff cfg) [0..<l]))"
  by (simp add: backed_off_def)

lemma reconnect_rounds_backs_off:
  assumes cfg: "backoff_config cfg" and m: "cfg_MaxReconnectAttempts cfg = int m" "0 < m"
  shows "a \<le> m \<Longrightarrow> m < a + k \<Longrightarrow>
    ensures (\<lambda>_. True) (reconnect_rounds k n cfg (backoff cfg a) (int a) (map (backoff cfg) [0..<a]))
      (\<lambda>r c. \<not> cl_reconnecting c \<and> backed_off cfg (m + 1) r)"
proof (induction k arbitrary: a)
  case (Suc k)
  have slept: "map (backoff cfg) [0..<a] @ [backoff cfg a] = map (backoff cfg) [0..<Suc a]" by simp
  have go: "ensures (\<lambda>_. True)
      (reconnect_rounds k n cfg (backoff cfg (Suc a)) (int a + 1) (map (backoff cfg) [0..<Suc a]))
      (\<lambda>r c. \<not> cl_reconnecting c \<and> backed_off cfg (Suc m) r)" if "a < m"
    using Suc.IH [of "Suc a"] that Suc.prems by (simp add: add.commute)
  show ?case
    unfolding reconnect_rounds.simps slept next_delay_backoff [OF cfg]
    using Suc.prems(1)
    by (intro ensures_true_bind) (auto intro!: ensures_true_bind ensures_stop backed_off_upto go simp: m simp del: upt_Suc)
qed simp

text \<open>C24. Termination and bounds of the reconnect loop: with a limit of \<open>m > 0\<close> attempts, \<open>m + 1\<close> rounds suffice, whatever
  the server does. The \<open>i\<close>-th pause is \<open>min (ReconnectMin * factor ^ i) ReconnectMax\<close>, and when the loop returns the
  flag that guards it is clear.\<close>

theorem reconnectLoop_returns:
  assumes "backoff_config cfg" and "cfg_MaxReconnectAttempts cfg = int m" and "0 < m" and "m < rounds"
  shows "\<not> cl_reconnecting (cs_client (snd (run_state (reconnectLoop rounds n cfg) s)))
    \<and> backed_off cfg (m + 1) (fst (run_state (reconnectLoop rounds n cfg) s))"
proof -
  have "backoff cfg 0 = cfg_ReconnectMin cfg"
    using assms(1) by (simp add: backoff_def backoff_config_def)
  then show ?thesis
    using ensuresD [OF reconnect_rounds_backs_off [OF assms(1-3), of 0 rounds n], of s] assms(4)
    by (simp add: reconnectLoop_def)
qed

section \<open>A call whose context ends\<close>

text \<open>\<^verbatim>\<open>select\<close> leaves the ticker within \<open>k\<close> polls: the context ends or the client is closed.\<close>

fun selects_end :: "nat \<Rightarrow> 'w net \<Rightarrow> client \<Rightarrow> 'w \<Rightarrow> bool" where
  "selects_end 0 n c w = False"
| "selects_end (Suc k) n c w = (case n_select n w of
     (Tick, w') \<Rightarrow> (case n_others n c w' of (c', w'') \<Rightarrow> selects_end k n c' w'')
   | _ \<Rightarrow> True)"

definition conn_is :: "nat option \<Rightarrow> client \<Rightarrow> bool" where
  "conn_is v c \<longleftrightarrow> cl_conn c = v"

lemma undisturbed_conn: "\<forall>c w. cl_conn (fst (n_others n c w)) = cl_conn c \<Longrightarrow> undisturbed n (conn_is v)"
  by (simp add: undisturbed_def conn_is_def)

lemma wait_poll_ends:
  assumes others: "\<forall>c w. cl_conn (fst (n_others n c w)) = cl_conn c"
  shows "cl_conn (cs_client s) = None \<Longrightarrow> selects_end k n (cs_client s) (cs_world s) \<Longrightarrow>
    \<exists>e. fst (run_state (wait_poll k n) s) = WaitFailed e"
proof (induction k arbitrary: s)
  case (Suc k)
  obtain v w' where v: "n_select n (cs_world s) = (v, w')" by fastforce
  obtain c w'' where o: "n_others n (cs_client s) w' = (c, w'')" by fastforce
  then have "cl_conn c = None" using others Suc.prems(1) by (metis fst_conv)
  then show ?case
    using Suc.prems(2) v o Suc.IH [of "s\<lparr>cs_client := c, cs_world := w''\<rparr>"]
    by (auto simp: block_def others_def look_def atomically_def Connected_def Let_def split: wake.splits)
qed simp

lemma waitForConnection_ends:
  assumes others: "\<forall>c w. cl_conn (fst (n_others n c w)) = cl_conn c"
    and ends: "\<forall>c w. selects_end polls n c w"
  shows "ensures (conn_is None) (waitForConnection polls n) (\<lambda>w _. \<exists>e. w = WaitFailed e)"
  unfolding waitForConnection_def
proof (rule ensures_bind [OF ensures_others [OF undisturbed_conn [OF others]]], rule ensures_bind [OF ensures_look])
  fix up
  show "ensures (\<lambda>c. conn_is None c \<and> up = Connected c) (if up then return Ready else wait_poll polls n)
    (\<lambda>w _. \<exists>e. w = WaitFailed e)"
    using wait_poll_ends [OF others] ends by (auto simp: ensures_def conn_is_def Connected_def)
qed

text \<open>The steps of this goroutine that leave the connection as it is.\<close>

lemma ensures_conn_atomically:
  "(\<And>c. cl_conn (snd (f c)) = cl_conn c) \<Longrightarrow> ensures (conn_is v) (atomically f) (\<lambda>_. conn_is v)"
  by (rule ensures_weaken [OF ensures_atomically]) (metis conn_is_def snd_conv)

lemma ensures_conn_update:
  "(\<And>c. cl_conn (f c) = cl_conn c) \<Longrightarrow> ensures (conn_is v) (update f) (\<lambda>_. conn_is v)"
  by (rule ensures_weaken [OF ensures_update]) (auto simp: conn_is_def)

lemma ensures_log_event: "ensures P (log_event e) (\<lambda>_. P)"
  by (simp add: ensures_def log_event_def)

lemmas conn_kept = ensures_bind [OF ensures_conn_atomically] ensures_bind [OF ensures_conn_update]
  ensures_bind [OF ensures_log_event] ensures_bind [OF ensures_block [OF undisturbed_conn]]
  ensures_bind [OF ensures_others [OF undisturbed_conn]]

lemma callOn_leaves_conn:
  assumes others: "\<forall>c w. cl_conn (fst (n_others n c w)) = cl_conn c"
  shows "ensures (conn_is v) (callOn n conn method params) (\<lambda>_. conn_is v)"
  unfolding callOn_def
  by (rule conn_kept ensures_bind [where R = "\<lambda>_. conn_is v"] ensures_return
      | simp add: next_id_def register_def unregister_def others split: option.split
      | intro conjI impI allI)+

lemma handleDisconnect_disconnects:
  assumes others: "\<forall>c w. cl_conn (fst (n_others n c w)) = cl_conn c"
  shows "ensures (conn_is (Some conn)) (handleDisconnect n conn) (\<lambda>_. conn_is None)"
proof -
  have kept: "ensures (conn_is None) (if closed then return () else do {
      others n; won \<leftarrow> atomically cas_reconnecting; if won then update (start GoReconnectLoop) else return () })
      (\<lambda>_. conn_is None)" for closed
    by (auto intro!: conn_kept ensures_conn_update ensures_return simp: others cas_reconnecting_def start_def)
  have lock: "ensures (conn_is (Some conn)) (atomically (disconnect_locked conn)) (\<lambda>a c. a \<and> conn_is None c)"
    by (rule ensures_weaken [OF ensures_atomically]) (auto simp: conn_is_def disconnect_locked_def)
  show ?thesis
    unfolding handleDisconnect_def
    apply (rule conn_kept(5), simp add: others)
    apply (rule ensures_bind [OF lock])
    subgoal for a
      by (cases a) (auto intro!: conn_kept ensures_look_bind ensures_pre [OF kept] simp: others observe_def fail_pending_def, simp add: ensures_def)
    done
qed

lemma call_loop_returns:
  assumes others: "\<forall>c w. cl_conn (fst (n_others n c w)) = cl_conn c" and ends: "\<forall>c w. selects_end polls n c w"
  shows "ensures (\<lambda>_. True) (call_loop (Suc k) polls n method params b) (\<lambda>r _. \<exists>x. r = Returned x)"
proof -
  note wait = ensures_bind [OF waitForConnection_ends [OF others ends]]
  have ret: "ensures (\<lambda>_. \<exists>e. w = WaitFailed e) (case w of Ready \<Rightarrow> x | WaitFailed e \<Rightarrow> return (Returned (f e))
      | Waiting \<Rightarrow> y) (\<lambda>r _. \<exists>x. r = Returned x)" for w f and x y :: "('a, call_result) cprog"
    by (cases w) (simp_all add: ensures_def)
  have none: "ensures (\<lambda>c. True \<and> None = cl_conn c) (State_Monad.bind (waitForConnection polls n)
      (\<lambda>w. case w of Ready \<Rightarrow> x | WaitFailed e \<Rightarrow> return (Returned (f e)) | Waiting \<Rightarrow> y))
      (\<lambda>r _. \<exists>x. r = Returned x)" for x y f
    by (rule ensures_pre [OF wait [OF ret]]) (simp add: conn_is_def)
  have relogin: "ensures (conn_is (Some c)) (do {
      log_event (Reauth c);
      handleDisconnect n c;
      w \<leftarrow> waitForConnection polls n;
      ctxErr \<leftarrow> (if w = Ready then block n (n_ctxErr n) else return None);
      closed \<leftarrow> look cl_closed;
      if w = Waiting then return StillRunning
      else if w \<noteq> Ready \<or> ctxErr \<noteq> None \<or> closed then return (Returned (Inl err))
      else x }) (\<lambda>r _. \<exists>x. r = Returned x)" for c err and x :: "('a, call_result) cprog"
    by (rule conn_kept(3), rule ensures_bind [OF handleDisconnect_disconnects [OF others]], rule wait)
      (auto simp: ensures_def split: prod.split)
  have retry: "ensures (conn_is (Some c)) (State_Monad.bind (others n) (\<lambda>_. State_Monad.bind (look (isRetryableError err))
      (\<lambda>retry. if retry then x else return (Returned y)))) (\<lambda>r _. \<exists>x. r = Returned x)"
    for c err y and x :: "('a, call_result) cprog"
    by (rule conn_kept(5), rule others, rule ensures_look_bind)
      (auto simp: ensures_def conn_is_def isRetryableError_def Connected_def)
  show ?thesis
    unfolding call_loop.simps
    apply (rule ensures_true_bind, rule ensures_look_bind)
    subgoal for _ conn
      apply (cases conn; simp add: none [simplified])
      apply (rule ensures_pre [where P = "conn_is conn"])
       apply (auto intro!: ensures_bind [OF callOn_leaves_conn [OF others]] conn_kept(2) relogin retry ensures_return
          simp: observe_def conn_is_def split: sum.splits)
      done
    done
qed

text \<open>C25. Liveness: when no other goroutine connects or disconnects meanwhile and every wait ends because its context
  ends or the client is closed, a call returns in the first round of its loop.\<close>

theorem client_Call_returns:
  assumes "\<forall>c w. cl_conn (fst (n_others n c w)) = cl_conn c" and "\<forall>c w. selects_end polls n c w"
  shows "\<exists>r. fst (run_state (client_Call (Suc rounds) polls n method params) s) = Returned r"
proof -
  have "ensures (\<lambda>_. True) (client_Call (Suc rounds) polls n method params) (\<lambda>r _. \<exists>x. r = Returned x)"
    unfolding client_Call_def
    by (rule ensures_true_bind) (auto intro: ensures_return call_loop_returns [OF assms] simp del: call_loop.simps)
  then show ?thesis by (rule ensuresD) simp
qed

section \<open>A server without the pinned version\<close>

text \<open>A network that only the version preflight and the context use: a server that lists the versions \<open>vs\<close>, a context
  that is over, and no other goroutine.\<close>

definition versions_net :: "string list \<Rightarrow> unit net" where
  "versions_net vs =
     \<lparr>n_parseURL = (\<lambda>u. Inr \<lparr>url_Scheme = ''wss'', url_Host = u, url_Path = [], url_RawQuery = [], url_Fragment = []\<rparr>),
      n_formatURL = (\<lambda>u. url_Scheme u @ ''://'' @ url_Host u @ url_Path u), n_json = (\<lambda>_. None),
      n_httpGet = (\<lambda>_ w. (Inr (200, Some (JArr (map JStr vs))), w)), n_dial = (\<lambda>_ w. (Inr 7, w)),
      n_write = (\<lambda>_ _ _ _ w. (None, w)), n_read = (\<lambda>_ w. (Inr (1, RespResult (Some (JBool True))), w)),
      n_await = (\<lambda>_ w. (Inr (RespResult (Some (JStr ''pong''))), w)), n_ping = (\<lambda>_ w. (None, w)),
      n_acquire = (\<lambda>w. (True, w)), n_select = (\<lambda>w. (CtxDone, w)), n_ctxErr = (\<lambda>w. (None, w)),
      n_others = (\<lambda>c w. (c, w))\<rparr>"

definition new_system :: "Config \<Rightarrow> unit csys" where
  "new_system cfg = \<lparr>cs_client = snd (New cfg), cs_world = (), cs_log = []\<rparr>"

definition nas_config :: Config where
  "nas_config = with_defaults \<lparr>cfg_URL = ''nas'', cfg_APIKey = ''key'', cfg_TLSConfig = None, cfg_InsecureSkipVerify = False,
     cfg_CallTimeout = 0, cfg_PingInterval = 0, cfg_ReconnectMin = 0, cfg_ReconnectMax = 0, cfg_ReconnectFactor = 0,
     cfg_MaxReconnectAttempts = 3, cfg_MaxConcurrentCalls = 0\<rparr>"

lemma those_map_JStr: "those (map (dec_str \<circ> JStr) vs) = Some vs"
  by (induction vs) simp_all


theorem reconnectLoop_returns_witness:
  "backed_off nas_config 4 (fst (run_state (reconnectLoop 4 (versions_net []) nas_config) (new_system nas_config)))"
proof -
  have "backoff_config nas_config" "cfg_MaxReconnectAttempts nas_config = int 3"
    by (simp_all add: backoff_config_def nas_config_def with_defaults_def)
  then show ?thesis using reconnectLoop_returns [of nas_config 3 4 "versions_net []" "new_system nas_config"] by simp
qed

theorem client_Call_returns_witness:
  "\<exists>r. fst (run_state (client_Call 1 1 (versions_net []) ''core.ping'' []) (new_system nas_config)) = Returned r"
proof -
  have "\<forall>c w. selects_end 1 (versions_net []) c w" by (simp add: versions_net_def)
  then show ?thesis
    using client_Call_returns [of "versions_net []" 1 0 "''core.ping''" "[]" "new_system nas_config"]
    by (simp add: versions_net_def)
qed


end
