(* ===== verification/Client_Lifecycle.thy ===== *)
theory Client_Lifecycle
  imports Client_Reconnect "HOL-Library.Multiset"
begin

text \<open>
  The goroutines of one client together: a step relation on the shared fields and the goroutines that
  run. A step is one of the atomic sections of the theory of the connection, or a goroutine's move between two
  of them. Any goroutine may step at any time, the network may fail any of them, and callers may connect, close,
  or drop a connection at any time.

  Proved here: at most one reconnect loop runs, no channel is closed twice, and the active connection's
  channel is open. Proved as well is a defect: a client can lose its connection and be left without a
  reconnect loop.
\<close>

section \<open>Goroutines\<close>

text \<open>Where a goroutine is: \<^verbatim>\<open>readLoop\<close> and \<^verbatim>\<open>pingLoop\<close> of a connection; \<^verbatim>\<open>handleDisconnect\<close> before its lock, before it
  fails the pending calls, before it reads \<^verbatim>\<open>closed\<close>, before the compare-and-swap; \<^verbatim>\<open>reconnectLoop\<close> in its select with
  the number of attempts made, at the start of \<^verbatim>\<open>dial\<close>, in the handshake, and before its deferred function;
  \<^verbatim>\<open>Connect\<close> at the start of \<^verbatim>\<open>dial\<close>, in the handshake, before its compare-and-swap; \<^verbatim>\<open>Close\<close> before it closes
  \<^verbatim>\<open>done\<close> and before its lock.\<close>

datatype thread =
    Reader nat | Pinger nat
  | Disc nat | DiscFail | DiscCheck | DiscCAS
  | Loop nat | LoopDial nat | LoopHandshake nat | LoopEnd
  | ConnDial | ConnHandshake | ConnCAS
  | CloseDone | CloseLock

fun is_loop :: "thread \<Rightarrow> bool" where
  "is_loop (Loop _) = True"
| "is_loop (LoopDial _) = True"
| "is_loop (LoopHandshake _) = True"
| "is_loop LoopEnd = True"
| "is_loop _ = False"

fun is_close :: "thread \<Rightarrow> bool" where
  "is_close CloseDone = True"
| "is_close CloseLock = True"
| "is_close _ = False"

record life =
  lf_client :: client
  lf_threads :: "thread multiset"
  lf_conns :: "nat list"  \<comment> \<open>the connections made so far\<close>

section \<open>Steps\<close>

text \<open>The steps of one goroutine: \<open>thread_step m conns t c c' ts conns'\<close>, where \<open>ts\<close> replaces \<open>t\<close> and \<open>m\<close> is
  \<^verbatim>\<open>MaxReconnectAttempts\<close>.\<close>

inductive thread_step ::
    "nat \<Rightarrow> nat list \<Rightarrow> thread \<Rightarrow> client \<Rightarrow> client \<Rightarrow> thread list \<Rightarrow> nat list \<Rightarrow> bool" for m conns where
  read_stop: "k \<in> set (cl_closedChans c) \<Longrightarrow> thread_step m conns (Reader k) c c [] conns"
| read_error: "k \<notin> set (cl_closedChans c) \<Longrightarrow> thread_step m conns (Reader k) c c [Disc k] conns"
| ping_stop: "k \<in> set (cl_closedChans c) \<Longrightarrow> thread_step m conns (Pinger k) c c [] conns"
| ping_error: "k \<notin> set (cl_closedChans c) \<Longrightarrow> thread_step m conns (Pinger k) c c [Disc k] conns"
| disc: "disconnect_locked k c = (active, c') \<Longrightarrow>
    thread_step m conns (Disc k) c c' (if active then [DiscFail] else []) conns"
| disc_fail: "fail_pending c = (chs, c') \<Longrightarrow> thread_step m conns DiscFail c c' [DiscCheck] conns"
| disc_check: "thread_step m conns DiscCheck c c (if cl_closed c then [] else [DiscCAS]) conns"
| disc_cas: "cas_reconnecting c = (won, c') \<Longrightarrow>
    thread_step m conns DiscCAS c c' (if won then [Loop 0] else []) conns"
| loop_done: "cl_done c \<Longrightarrow> thread_step m conns (Loop a) c c [LoopEnd] conns"
| loop_tick: "thread_step m conns (Loop a) c c
    [if cl_closed c \<or> Connected c \<or> m > 0 \<and> a + 1 > m then LoopEnd else LoopDial (a + 1)] conns"
| loop_dial: "thread_step m conns (LoopDial a) c c [if cl_closed c then Loop a else LoopHandshake a] conns"
| loop_failed: "thread_step m conns (LoopHandshake a) c c [Loop a] conns"
| loop_stored: "k \<notin> set conns \<Longrightarrow>
    thread_step m conns (LoopHandshake a) c (store_conn k c) [Reader k, Pinger k, LoopEnd] (k # conns)"
| loop_end: "thread_step m conns LoopEnd c (c\<lparr>cl_reconnecting := False\<rparr>) [] conns"
| conn_dial: "thread_step m conns ConnDial c c (if cl_closed c then [] else [ConnHandshake]) conns"
| conn_refused: "thread_step m conns ConnHandshake c c [] conns"
| conn_failed: "thread_step m conns ConnHandshake c c [ConnCAS] conns"
| conn_stored: "k \<notin> set conns \<Longrightarrow>
    thread_step m conns ConnHandshake c (store_conn k c) [Reader k, Pinger k] (k # conns)"
| conn_cas: "cas_reconnecting c = (won, c') \<Longrightarrow>
    thread_step m conns ConnCAS c c' (if won then [Loop 0] else []) conns"
| close_done: "thread_step m conns CloseDone c (c\<lparr>cl_done := True\<rparr>) [CloseLock] conns"
| close_lock: "close_locked c = (conn, c') \<Longrightarrow> thread_step m conns CloseLock c c' [] conns"

text \<open>Steps of the system: a goroutine's, or a caller that connects, drops a connection it has used, or closes.\<close>

inductive life_step :: "nat \<Rightarrow> life \<Rightarrow> life \<Rightarrow> bool" for m where
  thread: "t \<in># lf_threads s \<Longrightarrow> thread_step m (lf_conns s) t (lf_client s) c' ts conns' \<Longrightarrow>
    life_step m s \<lparr>lf_client = c', lf_threads = lf_threads s - {#t#} + mset ts, lf_conns = conns'\<rparr>"
| connect: "\<not> Connected (lf_client s) \<Longrightarrow> life_step m s (s\<lparr>lf_threads := add_mset ConnDial (lf_threads s)\<rparr>)"
| drop: "k \<in> set (lf_conns s) \<Longrightarrow> life_step m s (s\<lparr>lf_threads := add_mset (Disc k) (lf_threads s)\<rparr>)"
| close: "\<not> cl_closed (lf_client s) \<Longrightarrow>
    life_step m s (s\<lparr>lf_client := (lf_client s)\<lparr>cl_closed := True\<rparr>, lf_threads := add_mset CloseDone (lf_threads s)\<rparr>)"

definition life_init :: "Config \<Rightarrow> life" where
  "life_init cfg = \<lparr>lf_client = snd (New cfg), lf_threads = {#}, lf_conns = []\<rparr>"

abbreviation life_reachable :: "nat \<Rightarrow> Config \<Rightarrow> life \<Rightarrow> bool" where
  "life_reachable m cfg s \<equiv> (life_step m)\<^sup>*\<^sup>* (life_init cfg) s"

section \<open>The invariant\<close>

definition loops :: "thread multiset \<Rightarrow> nat" where
  "loops T = size (filter_mset is_loop T)"

definition closers :: "thread multiset \<Rightarrow> nat" where
  "closers T = size (filter_mset is_close T)"

definition client_inv :: "client \<Rightarrow> nat \<Rightarrow> nat \<Rightarrow> nat list \<Rightarrow> bool" where
  "client_inv c nloops nclosers conns \<longleftrightarrow>
     nloops = (if cl_reconnecting c then 1 else 0)
   \<and> nclosers \<le> (if cl_closed c then 1 else 0)
   \<and> distinct (cl_closedChans c) \<and> set (cl_closedChans c) \<subseteq> set conns
   \<and> (\<forall>k. cl_connDone c = Some k \<longrightarrow> k \<in> set conns)
   \<and> (\<forall>k. cl_conn c = Some k \<longrightarrow> cl_connDone c = Some k \<and> k \<notin> set (cl_closedChans c))
   \<and> (cl_conn c = None \<and> cl_connDone c \<noteq> None \<longrightarrow> cl_closed c \<and> nclosers = 0)"

definition life_inv :: "life \<Rightarrow> bool" where
  "life_inv s \<longleftrightarrow> client_inv (lf_client s) (loops (lf_threads s)) (closers (lf_threads s)) (lf_conns s)"

lemma loops_simps [simp]:
  "loops {#} = 0" "loops (add_mset t T) = loops T + (if is_loop t then 1 else 0)"
  by (simp_all add: loops_def)

lemma closers_simps [simp]:
  "closers {#} = 0" "closers (add_mset t T) = closers T + (if is_close t then 1 else 0)"
  by (simp_all add: closers_def)

text \<open>A goroutine that runs the loop holds the flag; so its step sees one loop, the goroutine itself.\<close>

lemma thread_step_inv:
  assumes "thread_step m conns t c c' ts conns'"
    and "client_inv c (loops (add_mset t T)) (closers (add_mset t T)) conns"
  shows "client_inv c' (loops (T + mset ts)) (closers (T + mset ts)) conns'"
  using assms
  by (induction rule: thread_step.induct)
    (auto simp: client_inv_def disconnect_locked_def fail_pending_def cas_reconnecting_def store_conn_def close_locked_def
      split: if_splits option.splits)

lemma life_step_inv: "life_step m s s' \<Longrightarrow> life_inv s \<Longrightarrow> life_inv s'"
proof (induction rule: life_step.induct)
  case (thread t s c' ts conns')
  have "add_mset t (lf_threads s - {#t#}) = lf_threads s" using thread(1) by simp
  then show ?case
    using thread_step_inv [OF thread(2), of "lf_threads s - {#t#}"] thread(3) by (simp add: life_inv_def)
qed (auto simp: life_inv_def client_inv_def)

lemma life_reachable_inv: "life_reachable m cfg s \<Longrightarrow> life_inv s"
proof (induction rule: rtranclp_induct)
  case base
  show ?case by (simp add: life_inv_def client_inv_def life_init_def New_def)
qed (simp add: life_step_inv)

section \<open>Reaching states\<close>

lemma reach_thread:
  assumes "life_reachable m cfg \<lparr>lf_client = c, lf_threads = T, lf_conns = conns\<rparr>"
    and "thread_step m conns t c c' ts conns'" and "t \<in># T"
  shows "life_reachable m cfg \<lparr>lf_client = c', lf_threads = T - {#t#} + mset ts, lf_conns = conns'\<rparr>"
  using assms life_step.thread [of t "\<lparr>lf_client = c, lf_threads = T, lf_conns = conns\<rparr>" m c' ts conns']
  by (auto intro: rtranclp.rtrancl_into_rtrancl)

definition fresh_client :: "Config \<Rightarrow> client" where
  "fresh_client cfg = snd (New cfg)"

lemma fresh_client_simps [simp]:
  "\<not> cl_closed (fresh_client cfg)" "\<not> Connected (fresh_client cfg)" "\<not> cl_reconnecting (fresh_client cfg)"
  "cl_closedChans (fresh_client cfg) = []" "cl_pending (fresh_client cfg) = []"
  by (simp_all add: fresh_client_def New_def Connected_def)

text \<open>The first connection of a client whose server was not there at first.\<close>

lemma reach_first_loop:
  "life_reachable m cfg \<lparr>lf_client = (fresh_client cfg)\<lparr>cl_reconnecting := True\<rparr>, lf_threads = {#Loop 0#}, lf_conns = []\<rparr>"
proof -
  have "life_reachable m cfg \<lparr>lf_client = fresh_client cfg, lf_threads = {#ConnDial#}, lf_conns = []\<rparr>"
    using life_step.connect [of "life_init cfg" m]
    by (intro r_into_rtranclp) (simp add: life_init_def fresh_client_def Connected_def New_def)
  from reach_thread [OF this thread_step.conn_dial]
  have "life_reachable m cfg \<lparr>lf_client = fresh_client cfg, lf_threads = {#ConnHandshake#}, lf_conns = []\<rparr>" by simp
  from reach_thread [OF this thread_step.conn_failed]
  have "life_reachable m cfg \<lparr>lf_client = fresh_client cfg, lf_threads = {#ConnCAS#}, lf_conns = []\<rparr>" by simp
  from reach_thread [OF this thread_step.conn_cas [OF cas_reconnecting_def]]
  show ?thesis by simp
qed

lemma reach_first_connection:
  "life_reachable 0 cfg \<lparr>lf_client = store_conn 0 ((fresh_client cfg)\<lparr>cl_reconnecting := True\<rparr>),
     lf_threads = {#LoopEnd, Pinger 0, Reader 0#}, lf_conns = [0]\<rparr>"
proof -
  let ?c = "(fresh_client cfg)\<lparr>cl_reconnecting := True\<rparr>"
  have up: "\<not> Connected ?c" by (simp add: fresh_client_def New_def Connected_def)
  from reach_thread [OF reach_first_loop [of 0 cfg] thread_step.loop_tick]
  have "life_reachable 0 cfg \<lparr>lf_client = ?c, lf_threads = {#LoopDial 1#}, lf_conns = []\<rparr>" using up by simp
  from reach_thread [OF this thread_step.loop_dial]
  have "life_reachable 0 cfg \<lparr>lf_client = ?c, lf_threads = {#LoopHandshake 1#}, lf_conns = []\<rparr>" by simp
  from reach_thread [OF this thread_step.loop_stored [of 0]]
  show ?thesis by (simp add: add_mset_commute)
qed

section \<open>Properties\<close>

text \<open>C5. Invariant of every interleaving: a reconnect loop runs exactly when the flag \<^verbatim>\<open>reconnecting\<close> is set, and never
  two; no \<^verbatim>\<open>connDone\<close> channel is closed twice, which would panic; and the channel of the active connection is
  open.\<close>

theorem client_lifecycle:
  assumes "life_reachable m cfg s"
  shows "loops (lf_threads s) = (if cl_reconnecting (lf_client s) then 1 else 0)
    \<and> distinct (cl_closedChans (lf_client s))
    \<and> (case cl_conn (lf_client s) of
          Some k \<Rightarrow> cl_connDone (lf_client s) = Some k \<and> k \<notin> set (cl_closedChans (lf_client s))
        | None \<Rightarrow> True)"
  using life_reachable_inv [OF assms] by (auto simp: life_inv_def client_inv_def split: option.split)

theorem client_lifecycle_witness:
  "loops {#LoopEnd, Pinger 0, Reader 0#} = 1
    \<and> cl_connDone (store_conn 0 ((fresh_client nas_config)\<lparr>cl_reconnecting := True\<rparr>)) = Some 0"
  using client_lifecycle [OF reach_first_connection [of nas_config]] by (simp add: store_conn_def)

text \<open>A client that nobody reconnects: it is not connected, and the goroutines that still run do not dial.\<close>

definition abandoned :: "life \<Rightarrow> bool" where
  "abandoned s \<longleftrightarrow> \<not> Connected (lf_client s)
     \<and> (\<forall>t \<in># lf_threads s. (\<exists>k. t = Disc k) \<or> is_close t)"

lemma abandoned_step:
  "life_step m s s' \<Longrightarrow> abandoned s \<Longrightarrow> ConnDial \<notin># lf_threads s' \<Longrightarrow> abandoned s'"
proof (induction rule: life_step.induct)
  case (thread t s c' ts conns')
  from thread(1,3) consider k where "t = Disc k" | "t = CloseDone" | "t = CloseLock"
    unfolding abandoned_def by (metis is_close.elims(2))
  then have "\<not> Connected c' \<and> (\<forall>t \<in> set ts. (\<exists>k. t = Disc k) \<or> is_close t)"
    using thread(2,3)
    by cases (auto elim!: thread_step.cases simp: abandoned_def Connected_def disconnect_locked_def close_locked_def
      split: if_splits)
  then show ?case using thread(3) by (auto simp: abandoned_def dest: in_diffD)
qed (auto simp: abandoned_def Connected_def)

lemma abandoned_forever:
  "(\<lambda>x y. life_step m x y \<and> ConnDial \<notin># lf_threads y)\<^sup>*\<^sup>* s s' \<Longrightarrow> abandoned s \<Longrightarrow> abandoned s'"
  by (induction rule: rtranclp_induct) (auto intro: abandoned_step)

text \<open>The connection drops after \<^verbatim>\<open>dial\<close> has stored it and before the deferred function of the loop clears the flag.\<close>

definition lost_client :: "Config \<Rightarrow> client" where
  "lost_client cfg = (fresh_client cfg)\<lparr>cl_closedChans := [0]\<rparr>"

lemma reach_lost:
  "life_reachable 0 cfg \<lparr>lf_client = lost_client cfg, lf_threads = {#}, lf_conns = [0]\<rparr>"
proof -
  let ?c = "store_conn 0 ((fresh_client cfg)\<lparr>cl_reconnecting := True\<rparr>)"
  let ?d = "(lost_client cfg)\<lparr>cl_reconnecting := True\<rparr>"
  let ?R = "\<lambda>c T. life_reachable 0 cfg \<lparr>lf_client = c, lf_threads = T, lf_conns = [0]\<rparr>"
  have d: "disconnect_locked 0 ?c = (True, ?d)" "fail_pending ?d = ([], ?d)" "cas_reconnecting ?d = (False, ?d)"
    by (simp_all add: disconnect_locked_def store_conn_def fail_pending_def cas_reconnecting_def lost_client_def
        fresh_client_def New_def)
  have "0 \<notin> set (cl_closedChans ?c)" by (simp add: store_conn_def)
  from reach_thread [OF reach_first_connection thread_step.read_error [OF this]]
  have "?R ?c {#LoopEnd, Pinger 0, Disc 0#}" by (simp add: add_mset_commute)
  from reach_thread [OF this thread_step.disc [OF d(1)]]
  have "?R ?d {#LoopEnd, Pinger 0, DiscFail#}" by (simp add: add_mset_commute)
  from reach_thread [OF this thread_step.disc_fail [OF d(2)]]
  have "?R ?d {#LoopEnd, Pinger 0, DiscCheck#}" by (simp add: add_mset_commute)
  from reach_thread [OF this thread_step.disc_check]
  have "?R ?d {#LoopEnd, Pinger 0, DiscCAS#}" by (simp add: add_mset_commute lost_client_def)
  from reach_thread [OF this thread_step.disc_cas [OF d(3)]]
  have "?R ?d {#LoopEnd, Pinger 0#}" by (simp add: add_mset_commute)
  moreover have "0 \<in> set (cl_closedChans ?d)" by (simp add: lost_client_def)
  ultimately have "?R ?d {#LoopEnd#}" using reach_thread [OF _ thread_step.ping_stop] by fastforce
  from reach_thread [OF this thread_step.loop_end]
  show ?thesis by (simp add: lost_client_def fresh_client_def New_def)
qed

text \<open>C26. A defect in the code: a client that is not closed can lose its connection and stay without one. A state is
  reachable in which the client has been connected, is neither connected nor closed, and no goroutine runs; from it
  no sequence of steps connects it again until a caller calls \<^verbatim>\<open>Connect\<close>. Calls wait for a connection that nobody
  makes.\<close>

theorem client_reconnect_lost:
  "\<exists>s. life_reachable 0 cfg s \<and> lf_conns s \<noteq> [] \<and> \<not> Closed (lf_client s) \<and> \<not> Connected (lf_client s)
    \<and> lf_threads s = {#}
    \<and> {s'. (\<lambda>x y. life_step 0 x y \<and> ConnDial \<notin># lf_threads y)\<^sup>*\<^sup>* s s'} \<subseteq> {s'. \<not> Connected (lf_client s')}"
proof (intro exI conjI)
  let ?s = "\<lparr>lf_client = lost_client cfg, lf_threads = {#}, lf_conns = [0]\<rparr>"
  show "life_reachable 0 cfg ?s" by (rule reach_lost)
  have "abandoned ?s" by (simp add: abandoned_def lost_client_def fresh_client_def New_def Connected_def)
  then show "{s'. (\<lambda>x y. life_step 0 x y \<and> ConnDial \<notin># lf_threads y)\<^sup>*\<^sup>* ?s s'} \<subseteq> {s'. \<not> Connected (lf_client s')}"
    using abandoned_forever by (auto simp: abandoned_def)
qed (simp_all add: lost_client_def Closed_def fresh_client_def New_def Connected_def)

end
