(* ===== verification/Service_Over_Client.thy ===== *)
theory Service_Over_Client
  imports Controller_Service Client_Lifecycle
begin

text \<open>
  The controller service over the client: the appliance of the controller is no longer any function but
  \<^verbatim>\<open>Call\<close> of the client. What the controller logs as one request and its answer is carried by one call, and
  thus by a sequence of exchanges on connections. The theorem relates the two logs, so that the theorems
  on the requests of the controller speak about the network.
\<close>

section \<open>The client as the appliance\<close>

text \<open>A call that does not return within its fuel counts as failed.\<close>

definition client_rpc :: "nat \<Rightarrow> nat \<Rightarrow> 'w net \<Rightarrow> 'w csys rpc" where
  "client_rpc rounds polls n s q =
     (case run_state (client_Call rounds polls n (Method q) (Params q)) s of
        (Returned r, t) \<Rightarrow> (r, t)
      | (StillRunning, t) \<Rightarrow> (Inl ErrNotConnected, t))"

text \<open>\<open>carried json evs log\<close>: the exchanges \<open>evs\<close> are those of one call after the other, one for every entry of \<open>log\<close>,
  and the call returned the answer of the entry, if it returned.\<close>

inductive carried :: "(string \<Rightarrow> jval option) \<Rightarrow> call_event list \<Rightarrow> exchange list \<Rightarrow> bool" for json where
  nothing: "carried json [] []"
| one_more: "carried json evs log \<Longrightarrow> call_trace json (Method q) (Params q) False xs r
    \<Longrightarrow> r = Returned a \<or> r = StillRunning \<Longrightarrow> carried json (evs @ xs) (log @ [(q, a)])"

text \<open>The property that every program of the driver preserves: what was added to both logs since is carried.\<close>

definition carried_since :: "(string \<Rightarrow> jval option) \<Rightarrow> call_event list \<Rightarrow> exchange list \<Rightarrow> 'w csys sys \<Rightarrow> bool" where
  "carried_since json evs0 log0 s \<longleftrightarrow>
     (\<exists>evs log. cs_log (world s) = evs0 @ evs \<and> wire_log s = log0 @ log \<and> carried json evs log)"

lemma client_rpc_call:
  assumes "client_rpc rounds polls n s q = (a, t)"
  obtains xs r where "cs_log t = cs_log s @ xs" "call_trace (n_json n) (Method q) (Params q) False xs r"
    "r = Returned a \<or> r = StillRunning"
proof -
  obtain r t' where run: "run_state (client_Call rounds polls n (Method q) (Params q)) s = (r, t')" by fastforce
  then have t: "t' = t" "r = Returned a \<or> r = StillRunning"
    using assms by (auto simp: client_rpc_def split: call_result.splits)
  obtain xs where "cs_log t' = cs_log s @ xs" "call_trace (n_json n) (Method q) (Params q) False xs r"
    using traced_client_Call [of n "Method q" "Params q" rounds polls, unfolded traced_def, rule_format, of s] run
    by auto
  then show ?thesis using that t by blast
qed

interpretation over_client: service_kept "client_rpc rounds polls n" "carried_since (n_json n) evs0 log0"
  for rounds polls and n :: "'w net" and evs0 log0
proof unfold_locales
  fix s :: "'w csys sys" and q
  assume "carried_since (n_json n) evs0 log0 s"
  then obtain evs log where s: "cs_log (world s) = evs0 @ evs" "wire_log s = log0 @ log" "carried (n_json n) evs log"
    by (auto simp: carried_since_def)
  obtain a t where rpc: "client_rpc rounds polls n (world s) q = (a, t)" by fastforce
  then obtain xs r where "cs_log t = cs_log (world s) @ xs" "call_trace (n_json n) (Method q) (Params q) False xs r"
    "r = Returned a \<or> r = StillRunning"
    by (rule client_rpc_call)
  then show "carried_since (n_json n) evs0 log0 (after_call (client_rpc rounds polls n) q s)"
    unfolding carried_since_def using s rpc
    by (intro exI [of _ "evs @ xs"] exI [of _ "log @ [(q, a)]"]) (auto simp: after_call_def intro: carried.one_more)
qed (simp_all add: carried_since_def)

section \<open>Consequences of being carried\<close>

lemma carried_reauths: "carried json evs log \<Longrightarrow> length (filter is_Reauth evs) \<le> length log"
proof (induction rule: carried.induct)
  case (one_more evs log q xs r a)
  then show ?case using call_trace_reauths [OF one_more.hyps(2)] by simp
qed simp

lemma call_trace_requests:
  "call_trace json meth params b xs r \<Longrightarrow> Exchange c m ps v \<in> set xs \<Longrightarrow> m = meth \<and> ps = params"
  by (induction rule: call_trace.induct) auto

lemma carried_requests:
  "carried json evs log \<Longrightarrow> Exchange c m ps v \<in> set evs \<Longrightarrow> Request m ps \<in> fst ` set log"
proof (induction rule: carried.induct)
  case (one_more evs log q xs r a)
  show ?case
  proof (cases "Exchange c m ps v \<in> set xs")
    case True
    then have "Request m ps = q" using call_trace_requests [OF one_more.hyps(2)] by (cases q) auto
    then show ?thesis by simp
  next
    case False
    then show ?thesis using one_more.IH one_more.prems by auto
  qed
qed simp

lemma carried_service:
  assumes "d_client d = client_rpc rounds polls n"
  shows "keeps (carried_since (n_json n) evs0 log0) (for_each (serve d) calls)"
  by (rule keeps_for_each, rule keeps_serve, unfold assms) (rule over_client.service_kept_axioms)

text \<open>The exchanges that a program adds to the log of the client.\<close>

definition network_events :: "('w csys sys, 'a) state \<Rightarrow> 'w csys sys \<Rightarrow> call_event list" where
  "network_events m s = drop (length (cs_log (world s))) (cs_log (world (snd (run_state m s))))"

definition client_driver :: "unit net \<Rightarrow> unit csys driver" where
  "client_driver n = \<lparr>d_client = client_rpc 1 1 n, d_now = (\<lambda>_. 1700000000), d_ctxPolls = (\<lambda>_. 3),
     d_templateParse = (\<lambda>_. None), d_templateExecute = (\<lambda>src _ _ _. Inr src),
     d_name = ''csi.ix-csi.io'', d_version = ''dev'', d_nodeID = ''node-1'', d_defaultPool = ''tank'',
     d_detachedSnapshotParentDataset = ''tank/snaps'', d_nfsServer = ''10.0.0.1'', d_iscsiPortal = ''10.0.0.1:3260'',
     d_iscsiIQNBase = ''iqn.2000-01.io.truenas'', d_nvmeofPortal = ''10.0.0.1:4420''\<rparr>"

text \<open>C8. Composition of controller and client: whatever calls the service answers over the client, on any network and amid
  any other goroutines, the exchanges on the network are those of one call per logged request, in the order of the log,
  with the logged answers. So nothing is sent that is not in the log of the controller, and there are no more new
  logins than requests.\<close>

theorem service_over_client:
  assumes "d_client d = client_rpc rounds polls n"
  shows "let evs = network_events (for_each (serve d) calls) s; log = exchanges (for_each (serve d) calls) s in
      carried (n_json n) evs log
    \<and> length (filter is_Reauth evs) \<le> length log
    \<and> {Request m ps | c m ps v. Exchange c m ps v \<in> set evs} \<subseteq> fst ` set log"
proof -
  let ?m = "for_each (serve d) calls"
  have "carried_since (n_json n) (cs_log (world s)) (wire_log s) s"
    by (auto simp: carried_since_def intro: carried.nothing)
  then have "carried_since (n_json n) (cs_log (world s)) (wire_log s) (snd (run_state ?m s))"
    using carried_service [OF assms] by (simp add: keeps_def)
  then have c: "carried (n_json n) (network_events ?m s) (exchanges ?m s)"
    by (auto simp: carried_since_def network_events_def exchanges_def)
  then show ?thesis using carried_reauths [OF c] carried_requests [OF c] by (auto simp: Let_def)
qed

theorem service_over_client_witness:
  "carried (\<lambda>_. None)
     (network_events (for_each (serve (client_driver (versions_net []))) [CallGetCapacity []]) (started (new_system nas_config)))
     (exchanges (for_each (serve (client_driver (versions_net []))) [CallGetCapacity []]) (started (new_system nas_config)))"
proof -
  have "d_client (client_driver (versions_net [])) = client_rpc 1 1 (versions_net [])" by (simp add: client_driver_def)
  moreover have "n_json (versions_net []) = (\<lambda>_. None)" by (simp add: versions_net_def)
  ultimately show ?thesis
    using service_over_client [of "client_driver (versions_net [])" 1 1 "versions_net []" "[CallGetCapacity []]"
        "started (new_system nas_config)"]
    by (simp add: Let_def del: for_each.simps serve.simps)
qed

end
