(* ===== verification/Driver_Startup.thy ===== *)
theory Driver_Startup
  imports Node_Host Service_Over_Client
begin

text \<open>
  The start of the driver: the flags and the environment that \<^verbatim>\<open>cmd/main.go\<close> reads, the configuration that
  \<^verbatim>\<open>NewDriver\<close> completes and validates, and the first calls of the client, up to the driver object that serves. The operating system
  and the network are parameters: the host name, the environment, and the network of the client.
\<close>

section \<open>Configuration\<close>

type_synonym DriverMode = string

abbreviation DriverModeController :: DriverMode where "DriverModeController \<equiv> ''controller''"
abbreviation DriverModeNode :: DriverMode where "DriverModeNode \<equiv> ''node''"
abbreviation DriverModeAll :: DriverMode where "DriverModeAll \<equiv> ''all''"

abbreviation DRIVER_NAME :: string where "DRIVER_NAME \<equiv> ''csi.ix-csi.io''"
abbreviation DRIVER_VERSION :: string where "DRIVER_VERSION \<equiv> ''dev''"
abbreviation DEFAULT_IQN_BASE :: string where "DEFAULT_IQN_BASE \<equiv> ''iqn.2000-01.io.truenas''"

text \<open>\<^verbatim>\<open>DriverConfig\<close>, without its logger.\<close>

record DriverConfig =
  dc_DriverName :: string
  dc_DriverVersion :: string
  dc_NodeID :: string
  dc_Endpoint :: string
  dc_Mode :: DriverMode
  dc_TrueNASURL :: string
  dc_TrueNASAPIKey :: string
  dc_TrueNASInsecure :: bool
  dc_DefaultPool :: string
  dc_DetachedSnapshotParentDataset :: string
  dc_NFSServer :: string
  dc_ISCSIPortal :: string
  dc_ISCSIIQNBase :: string
  dc_NVMeOFPortal :: string
  dc_MetricsAddr :: string

text \<open>\<^verbatim>\<open>URL.Hostname\<close> of the standard library: the host without a valid port and without brackets.\<close>

definition validOptionalPort :: "string \<Rightarrow> bool" where
  "validOptionalPort port = (case port of [] \<Rightarrow> True | c # ds \<Rightarrow> c = CHR '':'' \<and> list_all is_digit ds)"

definition Hostname :: "URL \<Rightarrow> string" where
  "Hostname u =
     (let hp = url_Host u; colon = LastIndexByte hp CHR '':'';
          host = (if colon \<noteq> -1 \<and> validOptionalPort (drop (nat colon) hp) then take (nat colon) hp else hp)
      in if HasPrefix host ''['' \<and> HasSuffix host '']'' then butlast (tl host) else host)"

text \<open>The host of the appliance, empty when its URL does not parse.\<close>

definition url_hostname :: "'w net \<Rightarrow> string \<Rightarrow> string" where
  "url_hostname n url = (case n_parseURL n url of Inl _ \<Rightarrow> [] | Inr u \<Rightarrow> Hostname u)"

text \<open>A field that is empty takes a value derived from the URL, if there is a host.\<close>

definition derived :: "string \<Rightarrow> string \<Rightarrow> string \<Rightarrow> string" where
  "derived field host port = (if field = [] \<and> host \<noteq> [] then host @ port else field)"

definition derive_servers :: "'w net \<Rightarrow> DriverConfig \<Rightarrow> DriverConfig" where
  "derive_servers n config =
     (let host = url_hostname n (dc_TrueNASURL config) in
      config\<lparr>dc_NFSServer := derived (dc_NFSServer config) host [],
             dc_ISCSIPortal := derived (dc_ISCSIPortal config) host '':3260'',
             dc_NVMeOFPortal := derived (dc_NVMeOFPortal config) host ('':'' @ Itoa NVMeDefaultPort)\<rparr>)"

text \<open>The first part of \<^verbatim>\<open>NewDriver\<close>: defaults, required fields, the format of the IQN base, derived servers.\<close>

definition prepare_config :: "'w net \<Rightarrow> DriverConfig \<Rightarrow> goerr + DriverConfig" where
  "prepare_config n config =
     (let config = config\<lparr>dc_DriverName := (if dc_DriverName config = [] then DRIVER_NAME else dc_DriverName config),
                          dc_DriverVersion := DRIVER_VERSION\<rparr> in
      if dc_NodeID config = [] then Inl (Errorf ''node ID is required'')
      else if dc_Endpoint config = [] then Inl (Errorf ''endpoint is required'')
      else if dc_TrueNASURL config = [] then Inl (Errorf ''TrueNAS URL is required'')
      else if dc_TrueNASAPIKey config = [] then Inl (Errorf ''TrueNAS API key is required'')
      else if dc_DefaultPool config = [] then Inl (Errorf ''default pool is required'')
      else (let config = config\<lparr>dc_ISCSIIQNBase :=
                  (if dc_ISCSIIQNBase config = [] then DEFAULT_IQN_BASE else dc_ISCSIIQNBase config)\<rparr> in
        case validateIQNFormat (dc_ISCSIIQNBase config) of
          Some err \<Rightarrow> Inl (Wrapf ''invalid iSCSI IQN base format: '' err)
        | None \<Rightarrow> Inr (derive_servers n config)))"

definition client_config :: "DriverConfig \<Rightarrow> Config" where
  "client_config config = \<lparr>cfg_URL = dc_TrueNASURL config, cfg_APIKey = dc_TrueNASAPIKey config, cfg_TLSConfig = None,
     cfg_InsecureSkipVerify = dc_TrueNASInsecure config, cfg_CallTimeout = 0, cfg_PingInterval = 0, cfg_ReconnectMin = 0,
     cfg_ReconnectMax = 0, cfg_ReconnectFactor = 0, cfg_MaxReconnectAttempts = 0, cfg_MaxConcurrentCalls = 0\<rparr>"

section \<open>The driver object\<close>

text \<open>What the driver does not read from its configuration: the network with the fuel of a call, the clock, the time that
  contexts leave, and the template engine.\<close>

record 'w platform =
  pf_net :: "'w net"
  pf_rounds :: nat
  pf_polls :: nat
  pf_now :: "'w csys \<Rightarrow> int"
  pf_ctxPolls :: "'w csys \<Rightarrow> nat"
  pf_templateParse :: "string \<Rightarrow> goerr option"
  pf_templateExecute :: "string \<Rightarrow> smap \<Rightarrow> smap \<Rightarrow> smap \<Rightarrow> goerr + string"

abbreviation pf_rpc :: "'w platform \<Rightarrow> 'w csys rpc" where
  "pf_rpc pf \<equiv> client_rpc (pf_rounds pf) (pf_polls pf) (pf_net pf)"

text \<open>The driver with the fields that only its start and its end use. A service that the mode does not ask for is
  \<^verbatim>\<open>nil\<close>.\<close>

record 'w Driver =
  drv_core :: "'w csys driver"
  drv_endpoint :: string
  drv_metricsAddr :: string
  drv_nvmeBaseNQN :: string
  drv_controllerServer :: bool
  drv_nodeServer :: bool

datatype 'w start_result = StartFailed goerr | StartWaiting | Started "'w Driver"

text \<open>An operation of the client as a step of a program that calls through it.\<close>

definition on_client :: "('w, 'a) cprog \<Rightarrow> (('w csys, 'z) wire_scheme, 'a) state" where
  "on_client m = State (\<lambda>s. let (a, w) = run_state m (world s) in (a, s\<lparr>world := w\<rparr>))"

definition probe_iscsi_portal :: "'w rpc \<Rightarrow> string \<Rightarrow> ('w, int) prog" where
  "probe_iscsi_portal c portal =
     (if portal = [] then return 0
      else do {
        r \<leftarrow> GetISCSIPortalByAddress c (portal_host portal);
        return (case r of Inl _ \<Rightarrow> 0 | Inr None \<Rightarrow> 0 | Inr (Some p) \<Rightarrow> portal_ID p) })"

definition probe_nvmeof_port :: "'w rpc \<Rightarrow> string \<Rightarrow> ('w, int) prog" where
  "probe_nvmeof_port c portal =
     (if portal = [] then return 0
      else do {
        r \<leftarrow> resolveOrCreateNVMePort c (fst (splitNVMeOFPortal portal)) (snd (splitNVMeOFPortal portal));
        return (case r of Inl _ \<Rightarrow> 0 | Inr p \<Rightarrow> port_ID p) })"

definition read_base_nqn :: "'w rpc \<Rightarrow> ('w, string) prog" where
  "read_base_nqn c = do {
     r \<leftarrow> GetNVMeGlobalConfig c;
     return (case r of Inl _ \<Rightarrow> [] | Inr gc \<Rightarrow> nglob_BaseNQN gc) }"

definition read_iscsi_basename :: "'w rpc \<Rightarrow> ('w, string) prog" where
  "read_iscsi_basename c = do {
     r \<leftarrow> GetISCSIGlobalConfig c;
     return (case r of Inl _ \<Rightarrow> [] | Inr gc \<Rightarrow> iglob_Basename gc) }"

text \<open>The driver with the services of its mode.\<close>

definition effective_mode :: "DriverConfig \<Rightarrow> DriverMode" where
  "effective_mode config = (if dc_Mode config = [] then DriverModeAll else dc_Mode config)"

definition new_driver :: "'w platform \<Rightarrow> DriverConfig \<Rightarrow> string \<Rightarrow> 'w Driver" where
  "new_driver pf config baseNQN =
     \<lparr>drv_core = \<lparr>d_client = pf_rpc pf, d_now = pf_now pf, d_ctxPolls = pf_ctxPolls pf,
        d_templateParse = pf_templateParse pf, d_templateExecute = pf_templateExecute pf,
        d_name = dc_DriverName config, d_version = dc_DriverVersion config, d_nodeID = dc_NodeID config,
        d_defaultPool = dc_DefaultPool config, d_detachedSnapshotParentDataset = dc_DetachedSnapshotParentDataset config,
        d_nfsServer = dc_NFSServer config, d_iscsiPortal = dc_ISCSIPortal config,
        d_iscsiIQNBase = dc_ISCSIIQNBase config, d_nvmeofPortal = dc_NVMeOFPortal config\<rparr>,
      drv_endpoint = dc_Endpoint config, drv_metricsAddr = dc_MetricsAddr config, drv_nvmeBaseNQN = baseNQN,
      drv_controllerServer = (effective_mode config = DriverModeController \<or> effective_mode config = DriverModeAll),
      drv_nodeServer = (effective_mode config = DriverModeNode \<or> effective_mode config = DriverModeAll)\<rparr>"

text \<open>\<^verbatim>\<open>NewNodeServer\<close>: no lock is held yet. The constructors of the protocol handlers return no error.\<close>

definition NewNodeServer :: "'w Driver option \<Rightarrow> 'h \<Rightarrow> goerr + 'h node" where
  "NewNodeServer driver h =
     (case driver of
        None \<Rightarrow> Inl (Errorf ''driver is required'')
      | Some _ \<Rightarrow> Inr \<lparr>host_world = h, host_log = [], volumeLocks = []\<rparr>)"

definition new_services :: "'w platform \<Rightarrow> DriverConfig \<Rightarrow> string \<Rightarrow> ('w csys, 'w start_result) prog" where
  "new_services pf config baseNQN =
     (let d = new_driver pf config baseNQN in
      if drv_nodeServer d then
        (case NewNodeServer (Some d) () of
           Inl e \<Rightarrow> do {
             on_client (client_Close (pf_net pf));
             return (StartFailed (Wrapf ''failed to create node server: '' e)) }
         | Inr _ \<Rightarrow> do {
             RegisterNode (dc_NodeID config);
             return (Started d) })
      else return (Started d))"

text \<open>The identifiers that are resolved once the pool is known to exist. A failure leaves the zero value.\<close>

definition resolve_identifiers :: "'w rpc \<Rightarrow> DriverConfig \<Rightarrow> ('w, string) prog" where
  "resolve_identifiers c config = do {
     portalID \<leftarrow> probe_iscsi_portal c (dc_ISCSIPortal config);
     portID \<leftarrow> probe_nvmeof_port c (dc_NVMeOFPortal config);
     baseNQN \<leftarrow> read_base_nqn c;
     basename \<leftarrow> read_iscsi_basename c;
     modify (\<lambda>s. s\<lparr>iscsiPortalID := portalID\<rparr>);
     modify (\<lambda>s. s\<lparr>nvmeofPortID := portID\<rparr>);
     modify (\<lambda>s. s\<lparr>iscsiBasename := basename\<rparr>);
     return baseNQN }"

text \<open>The error of the pool check carries a hint after the wrapped error; it is only printed.\<close>

definition pool_missing :: "string \<Rightarrow> goerr \<Rightarrow> goerr" where
  "pool_missing pool e = Errorf (''failed to validate pool '' @ [CHR 0x27] @ pool @ [CHR 0x27] @ '': '' @ Error e
     @ [CHR 0x0A, CHR 0x0A] @ ''Please create the pool in TrueNAS UI (Storage '' @ right_arrow
     @ '' Create Pool) before using the CSI driver'')"

definition connect_driver :: "'w platform \<Rightarrow> DriverConfig \<Rightarrow> Config \<Rightarrow> ('w csys, 'w start_result) prog" where
  "connect_driver pf config cfg = do {
     r \<leftarrow> on_client (client_Connect (pf_polls pf) (pf_net pf) cfg);
     case r of
       ConnectWaiting \<Rightarrow> return StartWaiting
     | ConnectDone (Some e) \<Rightarrow> return (StartFailed (Wrapf ''failed to connect to TrueNAS: '' e))
     | ConnectDone None \<Rightarrow> do {
         p \<leftarrow> on_client (client_Ping (pf_rounds pf) (pf_polls pf) (pf_net pf));
         case p of
           StillRunning \<Rightarrow> return StartWaiting
         | Returned (Inl e) \<Rightarrow> do {
             on_client (client_Close (pf_net pf));
             return (StartFailed (Wrapf ''failed to ping TrueNAS: '' e)) }
         | Returned (Inr _) \<Rightarrow> do {
             pool \<leftarrow> GetPool (pf_rpc pf) (dc_DefaultPool config);
             case pool of
               Inl e \<Rightarrow> return (StartFailed (pool_missing (dc_DefaultPool config) e))
             | Inr _ \<Rightarrow> do {
                 baseNQN \<leftarrow> resolve_identifiers (pf_rpc pf) config;
                 new_services pf config baseNQN } } } }"

text \<open>\<^verbatim>\<open>NewDriver\<close>. There is no state before the client is made, hence none when the configuration is refused.\<close>

definition NewDriver :: "'w platform \<Rightarrow> DriverConfig \<Rightarrow> 'w \<Rightarrow> 'w start_result \<times> 'w csys sys option" where
  "NewDriver pf config w =
     (case prepare_config (pf_net pf) config of
        Inl e \<Rightarrow> (StartFailed e, None)
      | Inr config \<Rightarrow>
          (let (cfg, c) = New (client_config config);
               (r, s) = run_state (connect_driver pf config cfg) (started \<lparr>cs_client = c, cs_world = w, cs_log = []\<rparr>)
           in (r, Some s)))"

section \<open>Flags and environment\<close>

record flags =
  fl_endpoint :: string
  fl_nodeID :: string
  fl_mode :: string
  fl_metricsAddr :: string

text \<open>\<open>hostname\<close> is the answer of \<^verbatim>\<open>os.Hostname\<close>; the flags come back with the node ID filled in.\<close>

definition validateFlags :: "string option \<Rightarrow> flags \<Rightarrow> goerr + flags" where
  "validateFlags hostname f =
     (case (if fl_nodeID f = [] then hostname else Some (fl_nodeID f)) of
        None \<Rightarrow> Inl (Errorf ''node ID is required but could not be determined'')
      | Some nodeID \<Rightarrow>
          (let f = f\<lparr>fl_nodeID := nodeID\<rparr> in
           if fl_endpoint f = [] then Inl (Errorf ''--endpoint is required'')
           else if fl_mode f \<in> {DriverModeController, DriverModeNode, DriverModeAll} then Inr f
           else Inl (Errorf ''--mode must be one of: controller, node, all'')))"

text \<open>\<^verbatim>\<open>strconv.ParseBool\<close>.\<close>

definition ParseBool :: "string \<Rightarrow> bool option" where
  "ParseBool s =
     (if s \<in> {''1'', ''t'', ''T'', ''true'', ''TRUE'', ''True''} then Some True
      else if s \<in> {''0'', ''f'', ''F'', ''false'', ''FALSE'', ''False''} then Some False
      else None)"

abbreviation unless_empty :: "string \<Rightarrow> string \<Rightarrow> string" where
  "unless_empty v old \<equiv> (if v \<noteq> [] then v else old)"

definition loadEnvConfig :: "(string \<Rightarrow> string) \<Rightarrow> DriverConfig \<Rightarrow> goerr + DriverConfig" where
  "loadEnvConfig getenv config =
     (let config = config\<lparr>dc_DriverName := getenv ''CSI_DRIVER_NAME''\<rparr> in
      if getenv ''TRUENAS_URL'' = [] then Inl (Errorf ''TRUENAS_URL is missing'')
      else (let config = config\<lparr>dc_TrueNASURL := getenv ''TRUENAS_URL''\<rparr> in
        if getenv ''TRUENAS_API_KEY'' = [] then Inl (Errorf ''TRUENAS_API_KEY is missing'')
        else (let config = config\<lparr>dc_TrueNASAPIKey := getenv ''TRUENAS_API_KEY''\<rparr> in
          if getenv ''TRUENAS_DEFAULT_POOL'' = [] then Inl (Errorf ''TRUENAS_DEFAULT_POOL is missing'')
          else Inr (config
            \<lparr>dc_DefaultPool := getenv ''TRUENAS_DEFAULT_POOL'',
             dc_NFSServer := unless_empty (getenv ''TRUENAS_NFS_SERVER'') (dc_NFSServer config),
             dc_ISCSIPortal := unless_empty (getenv ''TRUENAS_ISCSI_PORTAL'') (dc_ISCSIPortal config),
             dc_NVMeOFPortal := unless_empty (getenv ''TRUENAS_NVMEOF_PORTAL'') (dc_NVMeOFPortal config),
             dc_ISCSIIQNBase := unless_empty (getenv ''TRUENAS_ISCSI_IQN_BASE'') (dc_ISCSIIQNBase config),
             dc_DetachedSnapshotParentDataset :=
               unless_empty (getenv ''TRUENAS_DETACHED_SNAPSHOT_PARENT_DATASET'') (dc_DetachedSnapshotParentDataset config),
             dc_TrueNASInsecure :=
               (if getenv ''TRUENAS_INSECURE_SKIP_VERIFY'' \<noteq> []
                then (case ParseBool (getenv ''TRUENAS_INSECURE_SKIP_VERIFY'') of
                        Some insecure \<Rightarrow> insecure | None \<Rightarrow> dc_TrueNASInsecure config)
                else dc_TrueNASInsecure config)\<rparr>))))"

text \<open>The configuration that \<^verbatim>\<open>main\<close> hands to \<^verbatim>\<open>NewDriver\<close>.\<close>

definition main_config :: "string option \<Rightarrow> (string \<Rightarrow> string) \<Rightarrow> flags \<Rightarrow> goerr + DriverConfig" where
  "main_config hostname getenv f =
     (case validateFlags hostname f of
        Inl e \<Rightarrow> Inl e
      | Inr f \<Rightarrow> loadEnvConfig getenv
          \<lparr>dc_DriverName = [], dc_DriverVersion = [], dc_NodeID = fl_nodeID f, dc_Endpoint = fl_endpoint f,
           dc_Mode = fl_mode f, dc_TrueNASURL = [], dc_TrueNASAPIKey = [], dc_TrueNASInsecure = False,
           dc_DefaultPool = [], dc_DetachedSnapshotParentDataset = [], dc_NFSServer = [], dc_ISCSIPortal = [],
           dc_ISCSIIQNBase = [], dc_NVMeOFPortal = [], dc_MetricsAddr = fl_metricsAddr f\<rparr>)"

section \<open>Lemmas on the configuration\<close>

lemma prepare_config_Inr:
  assumes "prepare_config n config = Inr config'"
  shows "dc_DriverName config' \<noteq> []" "dc_NodeID config' = dc_NodeID config" "dc_NodeID config \<noteq> []"
    "dc_Endpoint config' = dc_Endpoint config" "dc_Endpoint config \<noteq> []" "dc_TrueNASURL config' \<noteq> []"
    "dc_TrueNASAPIKey config' \<noteq> []" "dc_DefaultPool config' = dc_DefaultPool config" "dc_DefaultPool config \<noteq> []"
    "validateIQNFormat (dc_ISCSIIQNBase config') = None" "dc_Mode config' = dc_Mode config"
  using assms unfolding prepare_config_def Let_def
  by (auto simp: derive_servers_def Let_def split: if_splits option.splits)

text \<open>\<^verbatim>\<open>host:port\<close> splits again unless the host has a colon itself, as an IPv6 address without brackets has.\<close>

lemma SplitHostPort_append:
  assumes "CHR ''['' \<notin> set host" "CHR '']'' \<notin> set host"
    and "CHR '':'' \<notin> set port" "CHR ''['' \<notin> set port" "CHR '']'' \<notin> set port"
  shows "SplitHostPort (host @ '':'' @ port) = (if CHR '':'' \<in> set host then None else Some (host, port))"
proof -
  have "LastIndexByte (host @ '':'' @ port) CHR '':'' = int (length host)"
    using LastIndexByte_append [OF assms(3), of host] by simp
  moreover have "\<not> HasPrefix (host @ '':'' @ port) ''[''"
    using assms(1) by (cases host) (auto simp: HasPrefix_def)
  ultimately show ?thesis using assms by (simp add: SplitHostPort_def Let_def)
qed

lemma validateFlags_Inr:
  "validateFlags hostname f = Inr f' \<Longrightarrow> fl_mode f' \<in> {DriverModeController, DriverModeNode, DriverModeAll}
     \<and> fl_endpoint f' \<noteq> [] \<and> (fl_nodeID f' \<noteq> [] \<or> fl_nodeID f = [] \<and> hostname = Some [])"
  by (auto simp: validateFlags_def Let_def split: if_splits option.splits)

lemma loadEnvConfig_Inr:
  assumes "loadEnvConfig getenv config = Inr config'"
  shows "dc_TrueNASURL config' \<noteq> [] \<and> dc_TrueNASAPIKey config' \<noteq> [] \<and> dc_DefaultPool config' \<noteq> []
    \<and> dc_Mode config' = dc_Mode config \<and> dc_Endpoint config' = dc_Endpoint config \<and> dc_NodeID config' = dc_NodeID config
    \<and> dc_ISCSIIQNBase config' = unless_empty (getenv ''TRUENAS_ISCSI_IQN_BASE'') (dc_ISCSIIQNBase config)"
  using assms
  by (cases "getenv ''TRUENAS_URL'' = []"; cases "getenv ''TRUENAS_API_KEY'' = []"; cases "getenv ''TRUENAS_DEFAULT_POOL'' = []";
      clarsimp simp: loadEnvConfig_def Let_def)

section \<open>Lemmas on the first calls\<close>

definition startup_methods :: "string list" where
  "startup_methods = [''pool.query'', ''iscsi.portal.query'', ''nvmet.port.query'', ''nvmet.port.create'',
     ''nvmet.global.config'', ''iscsi.global.config'']"

lemma yields_on_client: "R2 [] \<Longrightarrow> yields (\<lambda>_. R2) (on_client m)"
  by (auto simp: yields_def on_client_def split: prod.splits)

lemma keeps_on_client:
  "(\<And>s w. I s \<Longrightarrow> I (s\<lparr>world := w\<rparr>)) \<Longrightarrow> keeps I (on_client m)"
  by (auto simp: keeps_def on_client_def split: prod.splits)

lemma yields_GetPool:
  "yields (\<lambda>r xs. \<exists>a. xs = [(Request ''pool.query'' [eq_filter ''name'' (JStr name), json_QueryOptions no_options], a)]
     \<and> (\<forall>p. r = Inr p \<longrightarrow> (\<exists>v ps. a = Inr v \<and> dec_list dec_Pool v = Some (p # ps)))) (GetPool c name)"
  unfolding GetPool_def query_first_def query_def
  by (intro yields_intros) (auto simp: wrap_err_def split: sum.splits list.splits)

lemma uses_probe_iscsi_portal [traffic]: "uses [''iscsi.portal.query''] (probe_iscsi_portal c portal)"
  by (rule usesI, unfold probe_iscsi_portal_def, intro emits_intros traffic [THEN uses_emits_method]) simp_all

lemma uses_probe_nvmeof_port [traffic]: "uses [''nvmet.port.query'', ''nvmet.port.create''] (probe_nvmeof_port c portal)"
  by (rule usesI, unfold probe_nvmeof_port_def, intro emits_intros traffic [THEN uses_emits_method]) simp_all

lemma uses_read_base_nqn [traffic]: "uses [''nvmet.global.config''] (read_base_nqn c)"
  by (rule usesI, unfold read_base_nqn_def, intro emits_intros traffic [THEN uses_emits_method]) simp_all

lemma uses_read_iscsi_basename [traffic]: "uses [''iscsi.global.config''] (read_iscsi_basename c)"
  by (rule usesI, unfold read_iscsi_basename_def, intro emits_intros traffic [THEN uses_emits_method]) simp_all

lemma emits_RegisterNode [emits_intros]: "emits P (RegisterNode n)"
  unfolding RegisterNode_def by (intro emits_intros) simp

lemma uses_resolve_identifiers [traffic]: "uses startup_methods (resolve_identifiers c config)"
  by (rule usesI, unfold resolve_identifiers_def startup_methods_def,
      intro emits_intros traffic [THEN uses_emits_method]) simp_all

lemma emits_new_services [emits_intros]: "emits P (new_services pf config baseNQN)"
  unfolding new_services_def NewNodeServer_def Let_def by (auto intro!: emits_intros)

text \<open>Nothing but the registration of the node changes more than the cached identifiers.\<close>

definition unregistered :: "'w sys \<Rightarrow> bool" where
  "unregistered s \<longleftrightarrow> metrics s = NewMetrics \<and> registeredNodes s = []"

interpretation unregistered: backend_kept c unregistered for c
  by unfold_locales (auto simp: unregistered_def after_call_def split: prod.splits)

lemma keeps_probes:
  assumes "wire_kept c I"
  shows "keeps I (probe_iscsi_portal c portal)" "keeps I (probe_nvmeof_port c portal')"
    "keeps I (read_base_nqn c)" "keeps I (read_iscsi_basename c)"
  unfolding probe_iscsi_portal_def probe_nvmeof_port_def read_base_nqn_def read_iscsi_basename_def
  by (intro keeps_intros assms)+

lemma keeps_run: "keeps I m \<Longrightarrow> I s \<Longrightarrow> run_state m s = (a, t) \<Longrightarrow> I t"
  unfolding keeps_def by (metis snd_conv)

lemma keeps_resolve_identifiers: "backend_kept c I \<Longrightarrow> keeps I (resolve_identifiers c config)"
  unfolding resolve_identifiers_def by (intro keeps_intros keeps_probes) (assumption | erule kept_weaken)+

lemma new_services_result:
  assumes "unregistered s"
  shows "run_state (new_services pf config baseNQN) s = (Started (new_driver pf config baseNQN),
    s\<lparr>registeredNodes := (if drv_nodeServer (new_driver pf config baseNQN) then [dc_NodeID config] else [])\<rparr>)"
  using assms by (simp add: new_services_def NewNodeServer_def Let_def RegisterNode_def unregistered_def)

lemma on_client_run:
  "run_state (on_client m) s = (a, t) \<longleftrightarrow> (\<exists>w. run_state m (world s) = (a, w) \<and> t = s\<lparr>world := w\<rparr>)"
  by (auto simp: on_client_def split: prod.splits)

text \<open>A driver that started has connected, been answered a ping, and found its pool.\<close>

lemma connect_driver_started:
  assumes run: "run_state (connect_driver pf config cfg) s = (Started d, t)"
  obtains w1 w2 v p u baseNQN u' where
    "run_state (client_Connect (pf_polls pf) (pf_net pf) cfg) (world s) = (ConnectDone None, w1)"
    "run_state (client_Ping (pf_rounds pf) (pf_polls pf) (pf_net pf)) w1 = (Returned (Inr v), w2)"
    "run_state (GetPool (pf_rpc pf) (dc_DefaultPool config)) (s\<lparr>world := w2\<rparr>) = (Inr p, u)"
    "run_state (resolve_identifiers (pf_rpc pf) config) u = (baseNQN, u')"
    "run_state (new_services pf config baseNQN) u' = (Started d, t)"
  using run unfolding connect_driver_def
  by (auto simp: on_client_run split: prod.splits connect_result.splits option.splits call_result.splits sum.splits)

section \<open>Theorems\<close>

definition config_valid :: "DriverConfig \<Rightarrow> bool" where
  "config_valid config \<longleftrightarrow> dc_NodeID config \<noteq> [] \<and> dc_Endpoint config \<noteq> [] \<and> dc_TrueNASURL config \<noteq> []
     \<and> dc_TrueNASAPIKey config \<noteq> [] \<and> dc_DefaultPool config \<noteq> []
     \<and> validateIQNFormat (unless_empty (dc_ISCSIIQNBase config) DEFAULT_IQN_BASE) = None"

lemma default_iqn_valid: "validateIQNFormat DEFAULT_IQN_BASE = None"
  by (simp add: validateIQNFormat_def HasPrefix_def Let_def)

lemma prepare_config_valid: "config_valid config \<longleftrightarrow> \<not> isl (prepare_config n config)"
  unfolding prepare_config_def config_valid_def Let_def by (auto split: option.splits)

lemma emits_on_client: "emits P (on_client m)"
  unfolding emits_def by (rule yields_on_client) simp

lemma uses_connect_driver: "uses startup_methods (connect_driver pf config cfg)"
  by (rule usesI)
    (use uses_resolve_identifiers [where config = config] in \<open>auto simp: connect_driver_def uses_def startup_methods_def
      intro!: emits_bind emits_on_client emits_intros split: connect_result.splits option.splits call_result.splits sum.splits\<close>)

lemma NewDriver_None: "snd (NewDriver pf config w) = None \<longleftrightarrow> \<not> config_valid config"
  using prepare_config_valid [of config "pf_net pf"] by (auto simp: NewDriver_def split_beta split: sum.splits)

lemma NewDriver_Started:
  assumes "NewDriver pf config w = (Started d, Some s)"
  obtains config' baseNQN where "prepare_config (pf_net pf) config = Inr config'" "d = new_driver pf config' baseNQN"
proof -
  from assms obtain config' where c: "prepare_config (pf_net pf) config = Inr config'"
    by (auto simp: NewDriver_def split: sum.splits)
  then have "run_state (connect_driver pf config' (fst (New (client_config config'))))
      (started \<lparr>cs_client = snd (New (client_config config')), cs_world = w, cs_log = []\<rparr>) = (Started d, s)"
    using assms by (simp add: NewDriver_def split_beta prod_eq_iff)
  then obtain b u where "run_state (new_services pf config' b) u = (Started d, s)"
    by (rule connect_driver_started)
  then have "d = new_driver pf config' b"
    by (auto simp: new_services_def NewNodeServer_def Let_def split: prod.splits if_splits)
  then show ?thesis using that c by blast
qed

text \<open>C30. A configuration without node ID, endpoint, URL, key or pool, or with a malformed IQN base, is refused before there is
  a client, so without any traffic; every other one makes the client. Up to the driver, whether it starts or not, only pools,
  portals, ports and the global settings are read, and at most the NVMe-oF port is created.\<close>

theorem NewDriver_refused:
  "case NewDriver pf config w of
     (r, None) \<Rightarrow> \<not> config_valid config \<and> (\<exists>e. r = StartFailed e)
   | (r, Some s) \<Rightarrow> config_valid config \<and> list_all (\<lambda>x. Method (fst x) \<in> set startup_methods) (wire_log s)"
proof (cases "prepare_config (pf_net pf) config")
  case (Inl e)
  then show ?thesis using prepare_config_valid [of config "pf_net pf"] by (simp add: NewDriver_def)
next
  case (Inr config')
  let ?m = "connect_driver pf config' (fst (New (client_config config')))"
  let ?s = "started \<lparr>cs_client = snd (New (client_config config')), cs_world = w, cs_log = []\<rparr>"
  have "list_all (\<lambda>x. Method (fst x) \<in> set startup_methods) (exchanges ?m ?s)"
    using uses_connect_driver [of pf config'] unfolding uses_def by (rule emitsD)
  moreover have "exchanges ?m ?s = wire_log (snd (run_state ?m ?s))" by (simp add: exchanges_def started_def)
  ultimately show ?thesis using Inr prepare_config_valid [of config "pf_net pf"]
    by (simp add: NewDriver_def split_beta)
qed


text \<open>The portals that are not configured come from the URL of the appliance. They name its host as long as that is a host name or an
  IPv4 address; the brackets of an IPv6 address are lost, so that the port stays in what is taken for the host.\<close>

lemma derived_portals:
  assumes "prepare_config n config = Inr config'" and host: "url_hostname n (dc_TrueNASURL config) = host" "host \<noteq> []"
    and "CHR ''['' \<notin> set host" "CHR '']'' \<notin> set host"
    and "dc_NFSServer config = []" "dc_ISCSIPortal config = []" "dc_NVMeOFPortal config = []"
  shows "dc_NFSServer config' = host
    \<and> portal_host (dc_ISCSIPortal config') = (if CHR '':'' \<in> set host then host @ '':3260'' else host)
    \<and> splitNVMeOFPortal (dc_NVMeOFPortal config') =
        (if CHR '':'' \<in> set host then (host @ '':4420'', NVMeDefaultPort) else (host, NVMeDefaultPort))"
proof -
  have port: "Itoa NVMeDefaultPort = ''4420''" "Atoi ''4420'' = Some 4420"
    by (simp_all add: NVMeDefaultPort_def Itoa_def nat_digits.simps digit_char_def char_of_def bit_0
        Atoi_def is_digit_def in_int64_def digit_val_def)
  have "dc_NFSServer config' = host" "dc_ISCSIPortal config' = host @ '':'' @ ''3260''"
    "dc_NVMeOFPortal config' = host @ '':'' @ ''4420''"
    using assms port unfolding prepare_config_def Let_def
    by (auto simp: derive_servers_def derived_def Let_def split: if_splits option.splits)
  then show ?thesis
    using SplitHostPort_append [of host "''3260''"] SplitHostPort_append [of host "''4420''"] assms(4,5) port
    by (simp add: portal_host_def splitNVMeOFPortal_def NVMeDefaultPort_def)
qed

text \<open>What \<^verbatim>\<open>main\<close> hands over: if the flags and the environment are accepted, then the driver refuses the configuration
  only for an empty host name or a malformed IQN base in the environment; otherwise a driver that starts has at least one of
  the two services.\<close>

theorem main_config_accepted:
  assumes "main_config hostname getenv f = Inr config"
  shows "case NewDriver pf config w of
      (_, None) \<Rightarrow> fl_nodeID f = [] \<and> hostname = Some []
        \<or> (getenv ''TRUENAS_ISCSI_IQN_BASE'' \<noteq> [] \<and> validateIQNFormat (getenv ''TRUENAS_ISCSI_IQN_BASE'') \<noteq> None)
    | (r, Some _) \<Rightarrow> (case r of Started d \<Rightarrow> drv_controllerServer d \<or> drv_nodeServer d | _ \<Rightarrow> True)"
proof -
  have config: "dc_Mode config \<in> {DriverModeController, DriverModeNode, DriverModeAll}"
    "dc_Endpoint config \<noteq> []" "dc_TrueNASURL config \<noteq> []" "dc_TrueNASAPIKey config \<noteq> []" "dc_DefaultPool config \<noteq> []"
    "dc_ISCSIIQNBase config = getenv ''TRUENAS_ISCSI_IQN_BASE''"
    "dc_NodeID config \<noteq> [] \<or> fl_nodeID f = [] \<and> hostname = Some []"
    using assms by (auto simp: main_config_def split: sum.splits dest!: validateFlags_Inr loadEnvConfig_Inr)
  show ?thesis
  proof (cases "snd (NewDriver pf config w)")
    case None
    then have "\<not> config_valid config" by (simp add: NewDriver_None)
    then show ?thesis using None config default_iqn_valid by (auto simp: config_valid_def split: prod.splits if_splits)
  next
    case (Some s)
    have "drv_controllerServer d \<or> drv_nodeServer d" if started: "fst (NewDriver pf config w) = Started d" for d
    proof -
      have "NewDriver pf config w = (Started d, Some s)" using started Some by (simp add: prod_eq_iff)
      then obtain config' b where "prepare_config (pf_net pf) config = Inr config'" "d = new_driver pf config' b"
        by (rule NewDriver_Started)
      then show ?thesis using config(1) prepare_config_Inr(11) [of "pf_net pf" config config']
        by (auto simp: new_driver_def effective_mode_def)
    qed
    then show ?thesis using Some by (auto split: prod.splits start_result.splits)
  qed
qed

section \<open>A concrete start\<close>

text \<open>An appliance that answers a request by its method: the network remembers the method last sent.\<close>

definition answering_net :: "(string \<Rightarrow> jval) \<Rightarrow> string net" where
  "answering_net f =
     \<lparr>n_parseURL = (\<lambda>u. Inr \<lparr>url_Scheme = ''wss'', url_Host = u, url_Path = [], url_RawQuery = [], url_Fragment = []\<rparr>),
      n_formatURL = (\<lambda>u. url_Scheme u @ ''://'' @ url_Host u @ url_Path u), n_json = (\<lambda>_. None),
      n_httpGet = (\<lambda>_ w. (Inr (200, Some (JArr [JStr MinAPIVersion])), w)), n_dial = (\<lambda>_ w. (Inr 7, w)),
      n_write = (\<lambda>_ _ m _ _. (None, m)), n_read = (\<lambda>_ w. (Inr (1, RespResult (Some (JBool True))), w)),
      n_await = (\<lambda>_ w. (Inr (RespResult (Some (f w))), w)), n_ping = (\<lambda>_ w. (None, w)),
      n_acquire = (\<lambda>w. (True, w)), n_select = (\<lambda>w. (CtxDone, w)), n_ctxErr = (\<lambda>w. (None, w)),
      n_others = (\<lambda>c w. (c, w))\<rparr>"

definition nas_answers :: "string \<Rightarrow> jval" where
  "nas_answers m =
     (if m = ''pool.query'' then JArr [JObj [(''name'', JStr ''tank'')]]
      else if m = ''iscsi.portal.query'' \<or> m = ''nvmet.port.query'' then JArr []
      else JObj [(''id'', JNum 3)])"

definition nas_platform :: "string platform" where
  "nas_platform = \<lparr>pf_net = answering_net nas_answers, pf_rounds = 2, pf_polls = 1, pf_now = (\<lambda>_. 1700000000),
     pf_ctxPolls = (\<lambda>_. 3), pf_templateParse = (\<lambda>_. None), pf_templateExecute = (\<lambda>src _ _ _. Inr src)\<rparr>"

definition nas_flags :: flags where
  "nas_flags = \<lparr>fl_endpoint = ''unix:///csi/csi.sock'', fl_nodeID = [], fl_mode = ''all'', fl_metricsAddr = []\<rparr>"

definition nas_env :: "string \<Rightarrow> string" where
  "nas_env name = (if name = ''TRUENAS_URL'' then ''nas'' else if name = ''TRUENAS_API_KEY'' then ''key''
     else if name = ''TRUENAS_DEFAULT_POOL'' then ''tank'' else [])"

definition nas_driver_config :: DriverConfig where
  "nas_driver_config = (case main_config (Some ''node-1'') nas_env nas_flags of Inr config \<Rightarrow> config | Inl _ \<Rightarrow> undefined)"

lemmas nas_defs = main_config_def validateFlags_def nas_flags_def loadEnvConfig_def nas_env_def ParseBool_def

lemma nas_config_accepted: "main_config (Some ''node-1'') nas_env nas_flags = Inr nas_driver_config"
proof -
  have "\<not> isl (main_config (Some ''node-1'') nas_env nas_flags)" by (simp add: nas_defs)
  then show ?thesis by (auto simp: nas_driver_config_def split: sum.splits)
qed

lemma answering_Call:
  assumes "cl_conn (cs_client s) = Some c"
  shows "\<exists>t. run_state (client_Call (Suc k) polls (answering_net f) m ps) s = (Returned (Inr (f m)), t)
    \<and> cl_conn (cs_client t) = Some c"
  using assms
  by (simp add: client_Call_def callOn_def block_def others_def look_def update_def atomically_def log_event_def
      answering_net_def register_def unregister_def next_id_def observe_def)

lemma answering_connects:
  "\<exists>w. run_state (client_Connect polls (answering_net f) cfg) \<lparr>cs_client = snd (New cfg'), cs_world = w0, cs_log = []\<rparr>
     = (ConnectDone None, w) \<and> cl_conn (cs_client w) = Some 7" if "cfg_URL cfg' \<noteq> []"
  using that
  by (simp add: client_Connect_def New_def Connected_def block_def others_def look_def update_def atomically_def
      answering_net_def cas_apiVersionPinned_def verifyAndPinAPIVersion_def resolveAPIURL_def
      fetchSupportedAPIVersions_def dial_def dial_body_def if_err_def store_conn_def start_def observe_def next_id_def
      versionSupported_def)

text \<open>So a driver starts wherever the configuration is valid and the appliance lists the pool.\<close>

lemma answering_starts:
  assumes "config_valid config" "pf_net pf = answering_net f" "pf_rounds pf = Suc k"
    and pool: "dec_list dec_Pool (f ''pool.query'') = Some (p # ps)"
  shows "\<exists>d s. NewDriver pf config w = (Started d, Some s)"
proof -
  obtain config' where c: "prepare_config (pf_net pf) config = Inr config'"
    using assms(1) prepare_config_valid [of config "pf_net pf"] by (cases "prepare_config (pf_net pf) config") auto
  let ?s = "started \<lparr>cs_client = snd (New (client_config config')), cs_world = w, cs_log = []\<rparr>"
  obtain w1 where w1: "run_state (client_Connect (pf_polls pf) (pf_net pf) (with_defaults (client_config config'))) (world ?s)
      = (ConnectDone None, w1)" "cl_conn (cs_client w1) = Some 7"
    using answering_connects [of "client_config config'" "pf_polls pf" f "with_defaults (client_config config')" w]
      prepare_config_Inr(6) [OF c]
    by (auto simp: assms(2) started_def client_config_def)
  obtain w2 where w2: "run_state (client_Ping (pf_rounds pf) (pf_polls pf) (pf_net pf)) w1 = (Returned (Inr (f ''core.ping'')), w2)"
      "cl_conn (cs_client w2) = Some 7"
    using answering_Call [OF w1(2)] by (metis assms(2,3) client_Ping_def)
  obtain w3 where "pf_rpc pf w2 (Request ''pool.query''
      [eq_filter ''name'' (JStr (dc_DefaultPool config')), json_QueryOptions no_options]) = (Inr (f ''pool.query''), w3)"
    using answering_Call [OF w2(2), of k "pf_polls pf" f "''pool.query''"
        "[eq_filter ''name'' (JStr (dc_DefaultPool config')), json_QueryOptions no_options]"]
    by (auto simp: client_rpc_def assms(2,3))
  then obtain u where "run_state (GetPool (pf_rpc pf) (dc_DefaultPool config')) (?s\<lparr>world := w2\<rparr>) = (Inr p, u)"
    using pool by (simp add: GetPool_def query_first_def query_def wrap_err_def)
  then show ?thesis using c w1 w2
    by (auto simp: NewDriver_def New_def connect_driver_def on_client_def new_services_def NewNodeServer_def Let_def split_beta)
qed

lemma nas_starts: "\<exists>d s. NewDriver nas_platform nas_driver_config [] = (Started d, Some s)"
proof (rule answering_starts)
  show "config_valid nas_driver_config" by (simp add: config_valid_def default_iqn_valid nas_driver_config_def nas_defs)
  show "pf_net nas_platform = answering_net nas_answers" "pf_rounds nas_platform = Suc 1" by (simp_all add: nas_platform_def)
  have "(case dec_list dec_Pool (nas_answers ''pool.query'') of Some (p # ps) \<Rightarrow> True | _ \<Rightarrow> False)"
    by (simp add: nas_answers_def dec_Pool_def dec_field_def)
  then show "dec_list dec_Pool (nas_answers ''pool.query'') = Some (hd (the (dec_list dec_Pool (nas_answers ''pool.query'')))
      # tl (the (dec_list dec_Pool (nas_answers ''pool.query''))))"
    by (auto split: option.splits list.splits)
qed


theorem main_config_accepted_witness:
  "case NewDriver nas_platform nas_driver_config [] of
     (Started d, Some _) \<Rightarrow> drv_controllerServer d \<or> drv_nodeServer d | _ \<Rightarrow> False"
  using main_config_accepted [OF nas_config_accepted, of nas_platform "[]"] nas_starts
  by (auto split: prod.splits start_result.splits option.splits)

end
