(* ===== verification/Driver_Run.thy ===== *)
theory Driver_Run
  imports Driver_Startup Go_Path
begin

text \<open>
  The driver while it runs: \<^verbatim>\<open>Run\<close> opens the endpoint, serves, and waits for the first of a signal, an error of the server and
  an error of the metrics endpoint; \<^verbatim>\<open>Stop\<close> takes everything down; \<^verbatim>\<open>main\<close> joins this with the start. The answers of the operating system are parameters, and
  the events that wake the waiting goroutine are a list.
\<close>

section \<open>State\<close>

datatype run_event =
    MakesDirectory string
  | Listens string string
  | Registers string bool  \<comment> \<open>a service, and whether there is a server for it\<close>
  | MetricsListens string
  | MetricsServes
  | MetricsLost
  | Serves
  | MetricsShutdown
  | GracefulStop
  | ForcedStop
  | ClientClosed

record 'w process =
  ps_sys :: "'w csys sys"
  ps_metricsServer :: bool
  ps_events :: "run_event list"

type_synonym ('w, 'a) pprog = "('w process, 'a) state"

text \<open>The operating system and the server library: the errors of \<^verbatim>\<open>os.Remove\<close> (with \<^verbatim>\<open>os.IsNotExist\<close>), \<^verbatim>\<open>os.MkdirAll\<close>,
  \<^verbatim>\<open>net.Listen\<close> and the shutdown of the metrics server, and whether the calls in progress end within the grace period.\<close>

record platform_os =
  po_Remove :: "string \<Rightarrow> (goerr \<times> bool) option"
  po_MkdirAll :: "string \<Rightarrow> goerr option"
  po_Listen :: "string \<Rightarrow> string \<Rightarrow> goerr option"
  po_Shutdown :: "goerr option"
  po_graceful :: bool

text \<open>What wakes the \<^verbatim>\<open>select\<close> of \<^verbatim>\<open>Run\<close>.\<close>

datatype run_wake = is_ContextDone: ContextDone | ServerError goerr | is_MetricsError: MetricsError goerr

datatype run_result = RunReturned "goerr option" | RunServing

definition emit :: "run_event \<Rightarrow> ('w, unit) pprog" where
  "emit e = modify (\<lambda>s. s\<lparr>ps_events := ps_events s @ [e]\<rparr>)"

definition on_sys :: "('w csys, 'a) prog \<Rightarrow> ('w, 'a) pprog" where
  "on_sys m = State (\<lambda>s. let (a, t) = run_state m (ps_sys s) in (a, s\<lparr>ps_sys := t\<rparr>))"

section \<open>Metrics server\<close>

text \<open>Whether there is a server; it is \<^verbatim>\<open>nil\<close> for an empty address and after an error.\<close>

definition NewMetricsServer :: "platform_os \<Rightarrow> string \<Rightarrow> Metrics option \<Rightarrow> ('w, goerr + bool) pprog" where
  "NewMetricsServer os addr m =
     (if addr = [] then return (Inr False)
      else if m = None then return (Inl (Errorf ''metrics registry is required''))
      else (case po_Listen os ''tcp'' addr of
              Some err \<Rightarrow> return (Inl (Wrapf (''failed to listen for metrics on '' @ addr @ '': '') err))
            | None \<Rightarrow> do { emit (MetricsListens addr); return (Inr True) }))"

definition MetricsServer_Start :: "bool \<Rightarrow> ('w, unit) pprog" where
  "MetricsServer_Start s = (if \<not> s then return () else emit MetricsServes)"

definition MetricsServer_Stop :: "platform_os \<Rightarrow> bool \<Rightarrow> ('w, goerr option) pprog" where
  "MetricsServer_Stop os s = (if \<not> s then return None else do { emit MetricsShutdown; return (po_Shutdown os) })"

text \<open>Whether there is a channel to receive from.\<close>

definition MetricsServer_Errors :: "bool \<Rightarrow> bool" where
  "MetricsServer_Errors s = s"

section \<open>Run and Stop\<close>

definition Stop :: "'w net \<Rightarrow> platform_os \<Rightarrow> ('w, unit) pprog" where
  "Stop n os = do {
     m \<leftarrow> gets ps_metricsServer;
     (if m then do { _ \<leftarrow> MetricsServer_Stop os m; return () } else return ());
     emit GracefulStop;
     (if po_graceful os then return () else emit ForcedStop);
     on_sys (on_client (client_Close n));
     emit ClientClosed }"

text \<open>The network and the address of the listener.\<close>

definition open_endpoint :: "'w net \<Rightarrow> platform_os \<Rightarrow> string \<Rightarrow> ('w, goerr option) pprog" where
  "open_endpoint n os endpoint =
     (case n_parseURL n endpoint of
        Inl err \<Rightarrow> return (Some (Wrapf ''failed to parse endpoint: '' err))
      | Inr u \<Rightarrow>
          (let listen = (\<lambda>addr. case po_Listen os (url_Scheme u) addr of
                Some err \<Rightarrow> return (Some (Wrapf (''failed to listen on '' @ addr @ '': '') err))
              | None \<Rightarrow> do { emit (Listens (url_Scheme u) addr); return None }) in
           if url_Scheme u = ''unix'' then
             (case po_Remove os (url_Path u) of
                Some (err, False) \<Rightarrow> return (Some (Wrapf ''failed to remove existing socket: '' err))
              | _ \<Rightarrow>
                  (case po_MkdirAll os (Dir (url_Path u)) of
                     Some err \<Rightarrow> return (Some (Wrapf ''failed to create socket directory: '' err))
                   | None \<Rightarrow> do { emit (MakesDirectory (Dir (url_Path u))); listen (url_Path u) }))
           else if url_Scheme u = ''tcp'' then listen (url_Host u)
           else return (Some (Errorf (''unsupported endpoint scheme: '' @ url_Scheme u)))))"

text \<open>The loop: \<open>errors\<close> says whether \<^verbatim>\<open>metricsErrors\<close> is a channel; nothing arrives from a nil channel. The list ends while the driver serves.\<close>

fun run_loop :: "'w net \<Rightarrow> platform_os \<Rightarrow> bool \<Rightarrow> run_wake list \<Rightarrow> ('w, run_result) pprog" where
  "run_loop n os errors [] = return RunServing"
| "run_loop n os errors (ContextDone # wakes) = do { Stop n os; return (RunReturned None) }"
| "run_loop n os errors (ServerError err # wakes) = do {
     Stop n os;
     return (RunReturned (Some (Errorf (''server error: '' @ Error err)))) }"
| "run_loop n os errors (MetricsError err # wakes) = do {
     (if errors then emit MetricsLost else return ());
     run_loop n os False wakes }"

text \<open>Between the listener and the loop: the services are registered, the metrics endpoint starts if it can, and the server
  serves. A service outside the mode is registered as \<^verbatim>\<open>nil\<close>.\<close>

definition begin_serving :: "platform_os \<Rightarrow> 'w Driver \<Rightarrow> ('w, bool) pprog" where
  "begin_serving os d = do {
     emit (Registers ''Identity'' True);
     emit (Registers ''Controller'' (drv_controllerServer d));
     emit (Registers ''Node'' (drv_nodeServer d));
     m \<leftarrow> gets (metrics \<circ> ps_sys);
     ms \<leftarrow> NewMetricsServer os (drv_metricsAddr d) (Some m);
     let server = (case ms of Inl _ \<Rightarrow> False | Inr s \<Rightarrow> s);
     modify (\<lambda>s. s\<lparr>ps_metricsServer := server\<rparr>);
     (if server then MetricsServer_Start server else return ());
     emit Serves;
     return server }"

definition Run :: "'w net \<Rightarrow> platform_os \<Rightarrow> 'w Driver \<Rightarrow> run_wake list \<Rightarrow> ('w, run_result) pprog" where
  "Run n os d wakes = do {
     r \<leftarrow> open_endpoint n os (drv_endpoint d);
     case r of
       Some err \<Rightarrow> return (RunReturned (Some err))
     | None \<Rightarrow> do {
         server \<leftarrow> begin_serving os d;
         run_loop n os (MetricsServer_Errors server) wakes } }"

section \<open>main\<close>

datatype exit = Exit nat | StillUp

text \<open>The whole process. \<open>wakes\<close> are the events of \<^verbatim>\<open>Run\<close>; \<open>signal\<close> says whether \<^verbatim>\<open>main\<close> itself receives a signal while \<^verbatim>\<open>Run\<close>
  still serves.\<close>

definition main_driver :: "'w platform \<Rightarrow> platform_os \<Rightarrow> string option \<Rightarrow> (string \<Rightarrow> string) \<Rightarrow> flags
    \<Rightarrow> run_wake list \<Rightarrow> bool \<Rightarrow> 'w \<Rightarrow> exit \<times> 'w process option" where
  "main_driver pf os hostname getenv f wakes signal w =
     (case main_config hostname getenv f of
        Inl _ \<Rightarrow> (Exit 1, None)
      | Inr config \<Rightarrow>
          (case NewDriver pf config w of
             (Started d, Some s) \<Rightarrow>
               (let (r, t) = run_state (Run (pf_net pf) os d wakes)
                      \<lparr>ps_sys = s, ps_metricsServer = False, ps_events = []\<rparr> in
                case r of
                  RunReturned (Some _) \<Rightarrow> (Exit 1, Some t)
                | RunReturned None \<Rightarrow> (Exit 0, Some t)
                | RunServing \<Rightarrow>
                    if signal then (Exit 0, Some (snd (run_state (Stop (pf_net pf) os) t))) else (StillUp, Some t))
           | (StartWaiting, _) \<Rightarrow> (StillUp, None)
           | _ \<Rightarrow> (Exit 1, None)))"

section \<open>Lemmas\<close>

text \<open>What \<^verbatim>\<open>Stop\<close> does to the client and in which order it takes the servers down.\<close>

definition closed_sys :: "'w net \<Rightarrow> 'w csys sys \<Rightarrow> 'w csys sys" where
  "closed_sys n s = snd (run_state (on_client (client_Close n)) s)"

definition stop_events :: "bool \<Rightarrow> platform_os \<Rightarrow> run_event list" where
  "stop_events m os = (if m then [MetricsShutdown] else []) @ [GracefulStop]
     @ (if po_graceful os then [] else [ForcedStop]) @ [ClientClosed]"

definition is_teardown :: "run_event \<Rightarrow> bool" where
  "is_teardown e \<longleftrightarrow> e \<in> {MetricsShutdown, GracefulStop, ForcedStop, ClientClosed}"

definition wake_error :: "run_wake \<Rightarrow> goerr option" where
  "wake_error w = (case w of ServerError err \<Rightarrow> Some (Errorf (''server error: '' @ Error err)) | _ \<Rightarrow> None)"

abbreviation client_of :: "'w csys sys \<Rightarrow> client" where
  "client_of s \<equiv> cs_client (world s)"

lemma emit_run [simp]: "run_state (emit e) p = ((), p\<lparr>ps_events := ps_events p @ [e]\<rparr>)"
  by (simp add: emit_def)

lemma Stop_run:
  "run_state (Stop n os) p =
     ((), p\<lparr>ps_sys := closed_sys n (ps_sys p), ps_events := ps_events p @ stop_events (ps_metricsServer p) os\<rparr>)"
  by (cases "run_state (on_client (client_Close n)) (ps_sys p)")
    (simp add: Stop_def MetricsServer_Stop_def on_sys_def closed_sys_def stop_events_def)

text \<open>However many errors of the metrics endpoint come first, only the first of them is even seen.\<close>

lemma run_loop_run:
  "\<exists>lost. set lost \<subseteq> {MetricsLost} \<and> length lost \<le> 1 \<and> run_state (run_loop n os errors wakes) p =
     (let p' = p\<lparr>ps_events := ps_events p @ lost\<rparr> in
      case dropWhile is_MetricsError wakes of
        [] \<Rightarrow> (RunServing, p')
      | wk # _ \<Rightarrow> (RunReturned (wake_error wk), snd (run_state (Stop n os) p')))"
proof -
  have quiet: "run_state (run_loop n os False wakes) p =
     (case dropWhile is_MetricsError wakes of
        [] \<Rightarrow> (RunServing, p)
      | wk # _ \<Rightarrow> (RunReturned (wake_error wk), snd (run_state (Stop n os) p)))" for wakes p
    by (induction n os False wakes rule: run_loop.induct) (simp_all add: wake_error_def Stop_run)
  show ?thesis
  proof (cases "errors \<and> wakes \<noteq> [] \<and> is_MetricsError (hd wakes)")
    case True
    then obtain err ws where "wakes = MetricsError err # ws" by (cases wakes) (auto simp: is_MetricsError_def)
    then show ?thesis using True by (intro exI [of _ "[MetricsLost]"]) (simp add: quiet Let_def)
  next
    case False
    then have "run_loop n os errors wakes = run_loop n os False wakes"
      by (cases "(n, os, errors, wakes)" rule: run_loop.cases) auto
    then show ?thesis by (intro exI [of _ "[]"]) (simp add: quiet)
  qed
qed

text \<open>A program that only reports events, from before the server serves.\<close>

definition is_setup :: "run_event \<Rightarrow> bool" where
  "is_setup e \<longleftrightarrow> \<not> is_teardown e \<and> e \<noteq> Serves"

definition sets_up :: "('w, 'a) pprog \<Rightarrow> bool" where
  "sets_up m \<longleftrightarrow> (\<forall>p. \<exists>evs. list_all is_setup evs \<and> snd (run_state m p) = p\<lparr>ps_events := ps_events p @ evs\<rparr>)"

lemma sets_up_return: "sets_up (return a)"
  by (auto simp: sets_up_def intro: exI [of _ "[]"])

lemma sets_up_emit: "is_setup e \<Longrightarrow> sets_up (emit e)"
  by (auto simp: sets_up_def intro: exI [of _ "[e]"])

lemma sets_up_bind:
  assumes "sets_up m" "\<And>a. sets_up (f a)"
  shows "sets_up (State_Monad.bind m f)"
  unfolding sets_up_def
proof
  fix p
  obtain a q where m: "run_state m p = (a, q)" by fastforce
  then obtain xs where xs: "list_all is_setup xs" "q = p\<lparr>ps_events := ps_events p @ xs\<rparr>"
    using assms(1) unfolding sets_up_def by (metis snd_conv)
  obtain ys where "list_all is_setup ys" "snd (run_state (f a) q) = q\<lparr>ps_events := ps_events q @ ys\<rparr>"
    using assms(2) unfolding sets_up_def by blast
  then show "\<exists>evs. list_all is_setup evs \<and> snd (run_state (State_Monad.bind m f) p) = p\<lparr>ps_events := ps_events p @ evs\<rparr>"
    using m xs by (intro exI [of _ "xs @ ys"]) simp
qed

lemma setup_simps [simp]:
  "is_setup (MakesDirectory dir)" "is_setup (Listens network addr)" "is_setup (Registers service b)"
  "is_setup (MetricsListens addr)" "is_setup MetricsServes" "is_setup MetricsLost" "\<not> is_setup Serves"
  "\<not> is_teardown Serves"
  by (simp_all add: is_setup_def is_teardown_def)

lemma setup_no_teardown: "list_all is_setup evs \<Longrightarrow> filter is_teardown evs = []"
  by (induction evs) (auto simp: is_setup_def)

lemmas sets_up_intros = sets_up_return sets_up_emit sets_up_bind

lemma sets_up_open_endpoint: "sets_up (open_endpoint n os endpoint)"
proof (cases "n_parseURL n endpoint")
  case (Inr u)
  have listen: "sets_up (case po_Listen os network addr of
        Some err \<Rightarrow> return (Some (Wrapf (''failed to listen on '' @ addr @ '': '') err))
      | None \<Rightarrow> do { emit (Listens network addr); return None })" for network addr
    by (cases "po_Listen os network addr") (auto intro!: sets_up_intros)
  show ?thesis
    using listen unfolding open_endpoint_def Inr Let_def
    by (auto intro!: sets_up_intros split: option.splits prod.splits bool.splits)
qed (auto simp: open_endpoint_def intro: sets_up_intros)

text \<open>A client that is closed for the first time has no connection left, whatever the other goroutines did meanwhile.\<close>

lemma client_Close_conn:
  assumes "\<not> cl_closed (cs_client s)"
  shows "cl_conn (cs_client (snd (run_state (client_Close n) s))) = None"
  using assms
  by (simp add: client_Close_def atomically_def update_def others_def observe_def close_locked_def split_beta Let_def)

lemma closed_sys_conn: "cl_closed (client_of s) \<or> cl_conn (client_of (closed_sys n s)) = None"
proof (cases "cl_closed (client_of s)")
  case False
  then show ?thesis using client_Close_conn [of "world s" n] by (simp add: closed_sys_def on_client_def split_beta)
qed simp

lemma begin_serving_run:
  "\<exists>evs ms. filter is_teardown evs = [] \<and> Serves \<in> set evs \<and> run_state (begin_serving os d) p =
     (ms, p\<lparr>ps_metricsServer := ms, ps_events := ps_events p @ evs\<rparr>)"
proof -
  let ?regs = "[Registers ''Identity'' True, Registers ''Controller'' (drv_controllerServer d), Registers ''Node'' (drv_nodeServer d)]"
  let ?server = "drv_metricsAddr d \<noteq> [] \<and> po_Listen os ''tcp'' (drv_metricsAddr d) = None"
  let ?evs = "?regs @ (if ?server then [MetricsListens (drv_metricsAddr d), MetricsServes] else []) @ [Serves]"
  have "run_state (begin_serving os d) p = (?server, p\<lparr>ps_metricsServer := ?server, ps_events := ps_events p @ ?evs\<rparr>)"
    by (cases "po_Listen os ''tcp'' (drv_metricsAddr d)")
      (simp_all add: begin_serving_def NewMetricsServer_def MetricsServer_Start_def Let_def)
  moreover have "filter is_teardown ?evs = []" "Serves \<in> set ?evs"
    by (simp_all add: is_teardown_def)
  ultimately show ?thesis by blast
qed

text \<open>What \<^verbatim>\<open>Run\<close> does after it has begun to serve with the events \<open>evs\<close>.\<close>

definition run_outcome :: "'w net \<Rightarrow> platform_os \<Rightarrow> run_wake list \<Rightarrow> 'w process \<Rightarrow> run_event list \<Rightarrow> bool \<Rightarrow> run_result \<times> 'w process" where
  "run_outcome n os wakes p evs ms =
     (case dropWhile is_MetricsError wakes of
        [] \<Rightarrow> (RunServing, p\<lparr>ps_metricsServer := ms, ps_events := ps_events p @ evs\<rparr>)
      | wk # _ \<Rightarrow> (RunReturned (wake_error wk), p\<lparr>ps_sys := closed_sys n (ps_sys p), ps_metricsServer := ms,
           ps_events := ps_events p @ evs @ stop_events ms os\<rparr>))"

text \<open>Where the endpoint is open, \<^verbatim>\<open>Run\<close> serves until the first event that is not an error of the metrics endpoint, then stops
  once.\<close>

lemma Run_open:
  assumes "fst (run_state (open_endpoint n os (drv_endpoint d)) p) = None"
  obtains evs ms where "filter is_teardown evs = []" "Serves \<in> set evs" "run_state (Run n os d wakes) p = run_outcome n os wakes p evs ms"
proof -
  obtain xs where xs: "list_all is_setup xs"
    "run_state (open_endpoint n os (drv_endpoint d)) p = (None, p\<lparr>ps_events := ps_events p @ xs\<rparr>)"
    using assms sets_up_open_endpoint [of n os "drv_endpoint d"] unfolding sets_up_def by (metis prod.collapse)
  obtain ys ms where ys: "filter is_teardown ys = []" "Serves \<in> set ys"
    "run_state (begin_serving os d) (p\<lparr>ps_events := ps_events p @ xs\<rparr>) =
       (ms, p\<lparr>ps_metricsServer := ms, ps_events := ps_events p @ xs @ ys\<rparr>)"
    using begin_serving_run [of os d "p\<lparr>ps_events := ps_events p @ xs\<rparr>"] by auto
  let ?p = "p\<lparr>ps_metricsServer := ms, ps_events := ps_events p @ xs @ ys\<rparr>"
  obtain lost where lost: "set lost \<subseteq> {MetricsLost}" "run_state (run_loop n os (MetricsServer_Errors ms) wakes) ?p =
     (let p' = ?p\<lparr>ps_events := ps_events ?p @ lost\<rparr> in
      case dropWhile is_MetricsError wakes of
        [] \<Rightarrow> (RunServing, p')
      | wk # _ \<Rightarrow> (RunReturned (wake_error wk), snd (run_state (Stop n os) p')))"
    using run_loop_run by blast
  have "list_all is_setup lost" using lost(1) by (auto simp: list_all_iff)
  then show ?thesis
    using that [of "xs @ ys @ lost" ms] xs(2) ys lost(2) setup_no_teardown [OF xs(1)] setup_no_teardown [of lost]
    by (simp add: Run_def run_outcome_def Stop_run Let_def split: list.splits)
qed

text \<open>C14. \<^verbatim>\<open>Run\<close> returns the error of an endpoint that cannot be opened and touches nothing of the driver then. Otherwise it serves through any number of errors of the metrics endpoint,
  and returns at the first signal or server error: the servers are stopped once, in order, the client is closed last, and no
  connection of a client that was open before remains.\<close>

theorem Run_serves_until_stopped:
  "case run_state (open_endpoint n os (drv_endpoint d)) p of
     (Some err, q) \<Rightarrow> run_state (Run n os d wakes) p = (RunReturned (Some err), q) \<and> ps_sys q = ps_sys p
       \<and> filter is_teardown (ps_events q) = filter is_teardown (ps_events p)
   | (None, _) \<Rightarrow> (\<exists>evs ms. filter is_teardown evs = [] \<and> Serves \<in> set evs \<and>
       run_state (Run n os d wakes) p = run_outcome n os wakes p evs ms)
       \<and> (cl_closed (client_of (ps_sys p)) \<or> cl_conn (client_of (closed_sys n (ps_sys p))) = None)"
proof (cases "run_state (open_endpoint n os (drv_endpoint d)) p")
  case (Pair r q)
  obtain xs where q: "list_all is_setup xs" "q = p\<lparr>ps_events := ps_events p @ xs\<rparr>"
    using Pair sets_up_open_endpoint [of n os "drv_endpoint d"] unfolding sets_up_def by (metis snd_conv)
  show ?thesis
  proof (cases r)
    case None
    then have "fst (run_state (open_endpoint n os (drv_endpoint d)) p) = None" using Pair by simp
    then obtain evs ms where "filter is_teardown evs = []" "Serves \<in> set evs"
      "run_state (Run n os d wakes) p = run_outcome n os wakes p evs ms"
      by (rule Run_open)
    then show ?thesis unfolding Pair None prod.case option.case by (intro conjI exI [of _ evs] exI [of _ ms] closed_sys_conn)
  next
    case (Some err)
    then show ?thesis using Pair q setup_no_teardown [of xs] by (simp add: Run_def)
  qed
qed

lemma wake_error_Some:
  assumes "dropWhile is_MetricsError wakes = wk # ws" "wake_error wk = Some err"
  shows "\<exists>e. ServerError e \<in> set wakes"
proof -
  have "wk \<in> set wakes" using assms(1) by (metis list.set_intros(1) set_dropWhileD)
  then show ?thesis using assms(2) by (cases wk rule: run_wake.exhaust) (auto simp: wake_error_def)
qed

lemma run_cases:
  assumes "ps_events p = []"
  shows "case run_state (Run n os d wakes) p of
     (RunReturned (Some err), q) \<Rightarrow> if Serves \<in> set (ps_events q) then \<exists>err. ServerError err \<in> set wakes else True
   | (RunReturned None, q) \<Rightarrow> \<exists>evs ms. ps_events q = evs @ stop_events ms os \<and> filter is_teardown evs = [] \<and> Serves \<in> set evs
   | (RunServing, q) \<Rightarrow> filter is_teardown (ps_events q) = [] \<and> Serves \<in> set (ps_events q)"
proof (cases "run_state (open_endpoint n os (drv_endpoint d)) p")
  case (Pair r q)
  show ?thesis
  proof (cases r)
    case None
    then have "fst (run_state (open_endpoint n os (drv_endpoint d)) p) = None" using Pair by simp
    then obtain evs ms where "filter is_teardown evs = []" "Serves \<in> set evs"
      "run_state (Run n os d wakes) p = run_outcome n os wakes p evs ms"
      by (rule Run_open)
    then show ?thesis using assms
      by (auto simp: run_outcome_def split: list.splits option.splits dest: wake_error_Some)
  next
    case (Some err)
    obtain xs where "list_all is_setup xs" "q = p\<lparr>ps_events := ps_events p @ xs\<rparr>"
      using Pair sets_up_open_endpoint [of n os "drv_endpoint d"] unfolding sets_up_def by (metis snd_conv)
    then show ?thesis using Pair Some assms by (auto simp: Run_def list_all_iff)
  qed
qed


end
