(* ===== verification/Cleanup.thy ===== *)
theory Cleanup
  imports Driver_Run
begin

text \<open>
  The clean-up tool \<^verbatim>\<open>cmd/cleanup\<close>: it lists the iSCSI associations, extents and targets and the datasets of a pool, and deletes
  by one bulk job each what it selects from the lists. What it prints is not modelled.
\<close>

section \<open>Bulk jobs\<close>

record bulkResult =
  br_JobID :: "int option"
  br_Error :: string
  br_Result :: jval

definition dec_bulkResult :: "jval \<Rightarrow> bulkResult option" where
  "dec_bulkResult = dec_struct (\<lambda>kv. do {
     v_JobID \<leftarrow> dec_field kv ''job_id'' (dec_ptr dec_int) None;
     v_Error \<leftarrow> dec_field kv ''error'' dec_str [];
     v_Result \<leftarrow> dec_field kv ''result'' dec_any JNull;
     Some \<lparr>br_JobID = v_JobID, br_Error = v_Error, br_Result = v_Result\<rparr> })"

record jobStatus =
  js_ID :: int
  js_State :: string
  js_Error :: string
  js_Result :: "bulkResult list"
  js_Percent :: int
  js_Description :: string

definition dec_progress :: "jval \<Rightarrow> (int \<times> string) option" where
  "dec_progress = dec_struct (\<lambda>kv. do {
     v_Percent \<leftarrow> dec_field kv ''percent'' dec_int 0;
     v_Description \<leftarrow> dec_field kv ''description'' dec_str [];
     Some (v_Percent, v_Description) })"

definition dec_jobStatus :: "jval \<Rightarrow> jobStatus option" where
  "dec_jobStatus = dec_struct (\<lambda>kv. do {
     v_ID \<leftarrow> dec_field kv ''id'' dec_int 0;
     v_State \<leftarrow> dec_field kv ''state'' dec_str [];
     v_Error \<leftarrow> dec_field kv ''error'' dec_str [];
     v_Result \<leftarrow> dec_field kv ''result'' (dec_list dec_bulkResult) [];
     v_Progress \<leftarrow> dec_field kv ''progress'' dec_progress (0, []);
     Some \<lparr>js_ID = v_ID, js_State = v_State, js_Error = v_Error, js_Result = v_Result,
       js_Percent = fst v_Progress, js_Description = snd v_Progress\<rparr> })"

text \<open>\<^verbatim>\<open>pollJob\<close>, with fuel for its rounds; \<open>None\<close> while it polls.\<close>

fun pollJob :: "nat \<Rightarrow> 'w rpc \<Rightarrow> int \<Rightarrow> (('w, 'z) wire_scheme, (goerr + jobStatus) option) state" where
  "pollJob 0 c jobID = return None"
| "pollJob (Suc k) c jobID = do {
     r \<leftarrow> Call c ''core.get_jobs'' [JArr [JArr [JStr ''id'', JStr ''='', JNum jobID]]] (dec_list dec_jobStatus);
     case r of
       Inl e \<Rightarrow> return (Some (Inl (Wrapf ''core.get_jobs failed: '' e)))
     | Inr [] \<Rightarrow> return (Some (Inl (Errorf (''job '' @ Itoa jobID @ '' not found''))))
     | Inr (job # _) \<Rightarrow>
         if js_State job = ''SUCCESS'' then return (Some (Inr job))
         else if js_State job = ''FAILED'' then return (Some (Inl (Errorf (''job failed: '' @ js_Error job))))
         else pollJob k c jobID }"

text \<open>The numbers of deletions that succeeded and failed; \<open>None\<close> while the job runs.\<close>

definition bulkDelete :: "nat \<Rightarrow> 'w rpc \<Rightarrow> string \<Rightarrow> jval list list
    \<Rightarrow> (('w, 'z) wire_scheme, (nat \<times> nat) option) state" where
  "bulkDelete fuel c meth paramSets =
     (if paramSets = [] then return (Some (0, 0))
      else do {
        r \<leftarrow> Call c ''core.bulk'' [JStr meth, JArr (map JArr paramSets)] dec_int;
        case r of
          Inl e \<Rightarrow> return (Some (0, length paramSets))
        | Inr jobID \<Rightarrow> do {
            p \<leftarrow> pollJob fuel c jobID;
            return (case p of
                None \<Rightarrow> None
              | Some (Inl e) \<Rightarrow> Some (0, length paramSets)
              | Some (Inr job) \<Rightarrow> Some (length (filter (\<lambda>r. br_Error r = []) (js_Result job)),
                  length (filter (\<lambda>r. br_Error r \<noteq> []) (js_Result job)))) } })"

section \<open>The four phases\<close>

text \<open>The anonymous structures of the queries: the identifier and the name. Those of the datasets also decode a type.\<close>

definition dec_id :: "jval \<Rightarrow> int option" where
  "dec_id = dec_struct (\<lambda>kv. dec_field kv ''id'' dec_int 0)"

definition dec_named :: "jval \<Rightarrow> (int \<times> string) option" where
  "dec_named = dec_struct (\<lambda>kv. do {
     v_ID \<leftarrow> dec_field kv ''id'' dec_int 0;
     v_Name \<leftarrow> dec_field kv ''name'' dec_str [];
     Some (v_ID, v_Name) })"

definition dec_dataset :: "jval \<Rightarrow> (string \<times> string \<times> string) option" where
  "dec_dataset = dec_struct (\<lambda>kv. do {
     v_ID \<leftarrow> dec_field kv ''id'' dec_str [];
     v_Name \<leftarrow> dec_field kv ''name'' dec_str [];
     v_Type \<leftarrow> dec_field kv ''type'' dec_str [];
     Some (v_ID, v_Name, v_Type) })"

text \<open>A phase: query, select, delete. A failed query is only reported.\<close>

definition phase :: "nat \<Rightarrow> 'w rpc \<Rightarrow> string \<Rightarrow> jval list \<Rightarrow> (jval \<Rightarrow> 'a option) \<Rightarrow> string \<Rightarrow> ('a list \<Rightarrow> jval list list)
    \<Rightarrow> (('w, 'z) wire_scheme, (nat \<times> nat) option) state" where
  "phase fuel c queried params dec meth select = do {
     r \<leftarrow> Call c queried params (dec_list dec);
     case r of
       Inl e \<Rightarrow> return (Some (0, 0))
     | Inr items \<Rightarrow> bulkDelete fuel c meth (select items) }"

definition targetextent_params :: "int list \<Rightarrow> jval list list" where
  "targetextent_params targetExtents = map (\<lambda>te. [JNum te, JBool True]) targetExtents"

definition extent_params :: "(int \<times> string) list \<Rightarrow> jval list list" where
  "extent_params extents = map (\<lambda>(e, _). [JNum e, JBool True, JBool True]) extents"

definition target_params :: "(int \<times> string) list \<Rightarrow> jval list list" where
  "target_params targets = map (\<lambda>(t, _). [JNum t, JBool True]) (filter (\<lambda>(_, name). HasPrefix name ''csi-'') targets)"

definition orphaned :: "string \<Rightarrow> bool" where
  "orphaned path \<longleftrightarrow> Contains path ''/pvc-'' \<or> Contains path ''/snapshot-''"

definition dataset_params :: "(string \<times> string \<times> string) list \<Rightarrow> jval list list" where
  "dataset_params datasets =
     map (\<lambda>(d, _). [JStr d, JObj [(''force'', JBool True), (''recursive'', JBool True)]])
       (filter (\<lambda>(d, _). orphaned d) datasets)"

definition cleanup_phases :: "nat \<Rightarrow> 'w rpc \<Rightarrow> string \<Rightarrow> (('w, 'z) wire_scheme, (nat \<times> nat) option) state list" where
  "cleanup_phases fuel c pool =
     [phase fuel c ''iscsi.targetextent.query'' [] dec_id ''iscsi.targetextent.delete'' targetextent_params,
      phase fuel c ''iscsi.extent.query'' [] dec_named ''iscsi.extent.delete'' extent_params,
      phase fuel c ''iscsi.target.query'' [] dec_named ''iscsi.target.delete'' target_params,
      phase fuel c ''pool.dataset.query'' [JArr [JArr [JStr ''pool'', JStr ''='', JStr pool]]] dec_dataset
        ''pool.dataset.delete'' dataset_params]"

text \<open>One phase after the other, each once the job of the one before has ended.\<close>

fun run_phases :: "('s, (nat \<times> nat) option) state list \<Rightarrow> ('s, (nat \<times> nat) list option) state" where
  "run_phases [] = return (Some [])"
| "run_phases (m # ms) = do {
     r \<leftarrow> m;
     case r of
       None \<Rightarrow> return None
     | Some n \<Rightarrow> do {
         ns \<leftarrow> run_phases ms;
         return (map_option (Cons n) ns) } }"

section \<open>main\<close>

definition cleanup_config :: "(string \<Rightarrow> string) \<Rightarrow> Config \<times> string" where
  "cleanup_config getenv =
     (let url = (if getenv ''TRUENAS_URL'' = [] then ''wss://'' @ getenv ''TRUENAS_IP'' @ ''/api/current'' else getenv ''TRUENAS_URL'');
          pool = (if getenv ''TRUENAS_POOL'' = [] then ''tank'' else getenv ''TRUENAS_POOL'')
      in (\<lparr>cfg_URL = url, cfg_APIKey = getenv ''TRUENAS_API_KEY'', cfg_TLSConfig = None, cfg_InsecureSkipVerify = True,
           cfg_CallTimeout = 0, cfg_PingInterval = 0, cfg_ReconnectMin = 0, cfg_ReconnectMax = 0, cfg_ReconnectFactor = 0,
           cfg_MaxReconnectAttempts = 0, cfg_MaxConcurrentCalls = 0\<rparr>, pool))"

text \<open>\<^verbatim>\<open>os.Exit\<close> runs no deferred function, so the client is closed only at the end.\<close>

definition cleanup_prog :: "nat \<Rightarrow> nat \<Rightarrow> nat \<Rightarrow> 'w net \<Rightarrow> Config \<Rightarrow> string \<Rightarrow> (('w csys, 'z) wire_scheme, exit) state" where
  "cleanup_prog fuel rounds polls n cfg pool = do {
     r \<leftarrow> on_client (client_Connect polls n cfg);
     case r of
       ConnectWaiting \<Rightarrow> return StillUp
     | ConnectDone (Some e) \<Rightarrow> return (Exit 1)
     | ConnectDone None \<Rightarrow> do {
         done \<leftarrow> run_phases (cleanup_phases fuel (client_rpc rounds polls n) pool);
         case done of
           None \<Rightarrow> return StillUp
         | Some _ \<Rightarrow> do { on_client (client_Close n); return (Exit 0) } } }"

definition cleanup_main :: "nat \<Rightarrow> nat \<Rightarrow> nat \<Rightarrow> 'w net \<Rightarrow> (string \<Rightarrow> string) \<Rightarrow> 'w \<Rightarrow> exit \<times> 'w csys wire" where
  "cleanup_main fuel rounds polls n getenv w =
     (let (config, pool) = cleanup_config getenv; (cfg, c) = New config in
      run_state (cleanup_prog fuel rounds polls n cfg pool)
        \<lparr>world = \<lparr>cs_client = c, cs_world = w, cs_log = []\<rparr>, wire_log = []\<rparr>)"

section \<open>What is deleted\<close>

text \<open>\<open>selected x meth item\<close>: the exchange \<open>x\<close> is a query whose answer lists what \<open>item\<close> asks \<open>meth\<close> to delete. Targets need the prefix of
  the driver and datasets a path of the driver; associations and extents are all selected.\<close>

definition selected :: "exchange \<Rightarrow> string \<Rightarrow> jval \<Rightarrow> bool" where
  "selected x meth item \<longleftrightarrow> (\<exists>v. snd x = Inr v \<and>
     (Method (fst x) = ''iscsi.targetextent.query'' \<and> meth = ''iscsi.targetextent.delete''
        \<and> (\<exists>xs te. dec_list dec_id v = Some xs \<and> te \<in> set xs \<and> item = JArr [JNum te, JBool True])
      \<or> Method (fst x) = ''iscsi.extent.query'' \<and> meth = ''iscsi.extent.delete''
        \<and> (\<exists>xs e name. dec_list dec_named v = Some xs \<and> (e, name) \<in> set xs \<and> item = JArr [JNum e, JBool True, JBool True])
      \<or> Method (fst x) = ''iscsi.target.query'' \<and> meth = ''iscsi.target.delete''
        \<and> (\<exists>xs t name. dec_list dec_named v = Some xs \<and> (t, name) \<in> set xs \<and> HasPrefix name ''csi-''
             \<and> item = JArr [JNum t, JBool True])
      \<or> Method (fst x) = ''pool.dataset.query'' \<and> meth = ''pool.dataset.delete''
        \<and> (\<exists>xs d name typ. dec_list dec_dataset v = Some xs \<and> (d, name, typ) \<in> set xs \<and> orphaned d
             \<and> item = JArr [JStr d, JObj [(''force'', JBool True), (''recursive'', JBool True)]])))"

text \<open>A bulk job after the exchanges \<open>pre\<close> asks only for what one of them listed.\<close>

definition bulk_listed :: "exchange list \<Rightarrow> exchange \<Rightarrow> bool" where
  "bulk_listed pre x \<longleftrightarrow> (Method (fst x) = ''core.bulk'' \<longrightarrow> (\<exists>meth items. Params (fst x) = [JStr meth, JArr items]
     \<and> (\<forall>item \<in> set items. \<exists>y \<in> set pre. selected y meth item)))"

fun scoped :: "exchange list \<Rightarrow> exchange list \<Rightarrow> bool" where
  "scoped pre [] = True"
| "scoped pre (x # xs) \<longleftrightarrow> bulk_listed pre x \<and> scoped (pre @ [x]) xs"

lemma scoped_append: "scoped pre (xs @ ys) \<longleftrightarrow> scoped pre xs \<and> scoped (pre @ xs) ys"
  by (induction xs arbitrary: pre) auto

lemma bulk_listed_mono: "bulk_listed pre x \<Longrightarrow> set pre \<subseteq> set pre' \<Longrightarrow> bulk_listed pre' x"
  unfolding bulk_listed_def by (meson subsetD)

lemma scoped_mono: "scoped pre xs \<Longrightarrow> set pre \<subseteq> set pre' \<Longrightarrow> scoped pre' xs"
proof (induction xs arbitrary: pre pre')
  case (Cons x xs)
  have "bulk_listed pre' x" using Cons.prems(1) bulk_listed_mono [OF _ Cons.prems(2), of x] by simp
  moreover have "scoped (pre' @ [x]) xs" using Cons.IH [of "pre @ [x]" "pre' @ [x]"] Cons.prems by auto
  ultimately show ?case by simp
qed simp

lemma scoped_closed: "concat_closed (scoped [])"
  unfolding concat_closed_def by (auto simp: scoped_append intro: scoped_mono)

lemma scoped_no_bulk: "list_all (\<lambda>x. Method (fst x) = ''core.get_jobs'') xs \<Longrightarrow> scoped pre xs"
  by (induction xs arbitrary: pre) (auto simp: bulk_listed_def)

lemma uses_pollJob: "uses [''core.get_jobs''] (pollJob k c jobID)"
proof (induction k)
  case (Suc k)
  then show ?case
    unfolding uses_def pollJob.simps by (intro emits_intros) simp_all
qed (simp add: uses_def emits_return)

text \<open>A job in any other final state, such as an aborted one, is polled as long as the calls succeed.\<close>

lemma pollJob_unending:
  assumes "\<And>w. \<exists>w'. c w (Request ''core.get_jobs'' [JArr [JArr [JStr ''id'', JStr ''='', JNum jobID]]]) = (Inr v, w')"
    and "dec_list dec_jobStatus v = Some (job # jobs)" "js_State job \<notin> {''SUCCESS'', ''FAILED''}"
  shows "fst (run_state (pollJob k c jobID) s) = None"
proof (induction k arbitrary: s)
  case (Suc k)
  obtain w' where "c (world s) (Request ''core.get_jobs'' [JArr [JArr [JStr ''id'', JStr ''='', JNum jobID]]]) = (Inr v, w')"
    using assms(1) by blast
  then show ?case using assms(2,3) Suc.IH by simp
qed simp

lemma yields_bulkDelete:
  assumes "\<And>item. item \<in> JArr ` set paramSets \<Longrightarrow> \<exists>y \<in> set pre. selected y meth item"
  shows "yields (\<lambda>_. scoped pre) (bulkDelete fuel c meth paramSets)"
proof -
  let ?x = "\<lambda>a. (Request ''core.bulk'' [JStr meth, JArr (map JArr paramSets)], a)"
  have listed: "bulk_listed pre (?x a)" for a using assms by (simp add: bulk_listed_def)
  have poll: "yields (\<lambda>p xs. yields (\<lambda>_ ys. scoped (pre @ [?x a]) (xs @ ys)) (return (f p))) (pollJob fuel c jobID)"
    for a jobID and f :: "(goerr + jobStatus) option \<Rightarrow> (nat \<times> nat) option"
    by (rule yields_weaken [OF uses_pollJob [unfolded uses_def emits_def]]) (simp add: scoped_no_bulk yields_return)
  show ?thesis
    unfolding bulkDelete_def
    by (intro yields_intros) (simp_all add: listed poll yields_return)
qed

lemma traces_phase:
  assumes "\<And>v items item. dec_list dec v = Some items \<Longrightarrow> item \<in> JArr ` set (select items)
      \<Longrightarrow> selected (Request queried params, Inr v) meth item" and "queried \<noteq> ''core.bulk''"
  shows "traces (scoped []) (phase fuel c queried params dec meth select)"
proof -
  have "bulk_listed [] (Request queried params, a)" for a using assms(2) by (simp add: bulk_listed_def)
  moreover have "yields (\<lambda>_. scoped [(Request queried params, Inr v)]) (bulkDelete fuel c meth (select items))"
    if "dec_list dec v = Some items" for v items
    by (rule yields_bulkDelete) (use assms(1) [OF that] in simp)
  ultimately show ?thesis
    unfolding phase_def traces_def by (intro yields_intros) (simp_all add: yields_return)
qed

lemma traces_run_phases:
  "(\<And>m. m \<in> set ms \<Longrightarrow> traces (scoped []) m) \<Longrightarrow> traces (scoped []) (run_phases ms)"
proof (induction ms)
  case (Cons m ms)
  have "traces (scoped []) (case r of None \<Rightarrow> return None
      | Some n \<Rightarrow> do { ns \<leftarrow> run_phases ms; return (map_option (Cons n) ns) })" for r
    using Cons by (cases r) (auto intro!: traces_bind traces_return scoped_closed)
  then show ?case using Cons.prems by (simp add: traces_bind scoped_closed)
qed (simp add: traces_return scoped_closed)

lemma traces_cleanup_phases: "m \<in> set (cleanup_phases fuel c pool) \<Longrightarrow> traces (scoped []) m"
  by (auto simp: cleanup_phases_def selected_def targetextent_params_def extent_params_def target_params_def
      dataset_params_def intro!: traces_phase) blast+

definition cleanup_methods :: "string list" where
  "cleanup_methods = [''iscsi.targetextent.query'', ''iscsi.extent.query'', ''iscsi.target.query'', ''pool.dataset.query'',
     ''core.bulk'', ''core.get_jobs'']"

lemma uses_bulkDelete: "uses cleanup_methods (bulkDelete fuel c meth paramSets)"
  unfolding uses_def bulkDelete_def
  by (intro emits_intros uses_emits [OF uses_pollJob]) (simp_all add: cleanup_methods_def)

lemma uses_phase:
  "queried \<in> set cleanup_methods \<Longrightarrow> uses cleanup_methods (phase fuel c queried params dec meth select)"
  unfolding uses_def phase_def by (intro emits_intros uses_bulkDelete [unfolded uses_def]) simp

lemma uses_run_phases: "(\<And>m. m \<in> set ms \<Longrightarrow> uses M m) \<Longrightarrow> uses M (run_phases ms)"
  unfolding uses_def by (induction ms) (auto intro!: emits_intros)

lemma uses_cleanup_phases: "m \<in> set (cleanup_phases fuel c pool) \<Longrightarrow> uses cleanup_methods m"
  unfolding cleanup_phases_def by (auto intro!: uses_phase) (simp_all add: cleanup_methods_def)

lemma uses_cleanup_prog: "uses cleanup_methods (cleanup_prog fuel rounds polls n cfg pool)"
  unfolding uses_def cleanup_prog_def
  by (auto intro!: emits_bind emits_return emits_on_client
      uses_run_phases [OF uses_cleanup_phases, unfolded uses_def] split: connect_result.splits option.splits)

lemma traces_cleanup_prog: "traces (scoped []) (cleanup_prog fuel rounds polls n cfg pool)"
  unfolding cleanup_prog_def
  by (auto intro!: traces_bind traces_return scoped_closed traces_run_phases traces_cleanup_phases
      yields_on_client [of "scoped []", folded traces_def] split: connect_result.splits option.splits)

text \<open>C17. The clean-up tool: everything that it asks a bulk job to delete was listed by the appliance in the same run, targets only
  if their name starts with \<^verbatim>\<open>csi-\<close> and datasets only if their path holds \<^verbatim>\<open>/pvc-\<close> or \<^verbatim>\<open>/snapshot-\<close>; besides, it only queries.\<close>

theorem cleanup_deletes_listed:
  "scoped [] (wire_log (snd (cleanup_main fuel rounds polls n getenv w)))
   \<and> list_all (\<lambda>x. Method (fst x) \<in> set cleanup_methods) (wire_log (snd (cleanup_main fuel rounds polls n getenv w)))"
proof -
  obtain config pool where config: "cleanup_config getenv = (config, pool)" by fastforce
  let ?m = "cleanup_prog fuel rounds polls n (fst (New config)) pool"
  let ?s = "\<lparr>world = \<lparr>cs_client = snd (New config), cs_world = w, cs_log = []\<rparr>, wire_log = []\<rparr>"
  have main: "wire_log (snd (cleanup_main fuel rounds polls n getenv w)) = exchanges ?m ?s"
    by (simp add: cleanup_main_def config split_beta exchanges_def)
  show ?thesis
    unfolding main using tracesD [OF traces_cleanup_prog] emitsD [OF uses_cleanup_prog [unfolded uses_def]] by blast
qed

end
